(* ===== verification/Prelude.thy ===== *)
theory Prelude
  imports Main "HOL-Library.Word"
begin

text \<open>
  Shared vocabulary of the development: Go's error values, byte strings and the parts of the
  packages \<open>strings\<close>, \<open>fmt\<close> and \<open>time\<close> that the gateway uses, the integer conversions of the
  language, and the world (clock, file system, log) that the components read and write.

  A Go string is a byte string, here a \<^typ>\<open>string\<close> (a \<^typ>\<open>char\<close> is one byte).  A time is the
  number of nanoseconds since the epoch, a duration a number of nanoseconds.  Components work on
  the scheme of the record \<open>world\<close>, so that a component can extend it with its own state.
\<close>

named_theorems go_simps \<open>characteristic equations of the Go library functions\<close>
named_theorems world_simps \<open>what an operation leaves unchanged in the world\<close>

subsection \<open>Errors\<close>

text \<open>An \<open>error\<close> value is a message, or a message in front of a wrapped error (verb \<open>%w\<close>).\<close>

datatype go_error = NewErr string | WrapErr string go_error

primrec Error :: "go_error \<Rightarrow> string" where
  "Error (NewErr s) = s"
| "Error (WrapErr s e) = s @ '': '' @ Error e"

type_synonym 'a result = "go_error + 'a"

type_synonym time = int
type_synonym duration = int

definition Second :: duration where "Second = 1000000000"
definition Minute :: duration where "Minute = 60 * Second"

definition After :: "time \<Rightarrow> time \<Rightarrow> bool" where
  "After t u \<longleftrightarrow> u < t"

definition Before :: "time \<Rightarrow> time \<Rightarrow> bool" where
  "Before t u \<longleftrightarrow> t < u"

text \<open>\<open>Time.Unix\<close> rounds down to whole seconds; Go's integer division truncates towards zero.\<close>

definition Unix :: "time \<Rightarrow> int" where
  "Unix t = t div Second"

definition go_div :: "int \<Rightarrow> int \<Rightarrow> int" where
  "go_div a b = sgn a * sgn b * (\<bar>a\<bar> div \<bar>b\<bar>)"

definition Milliseconds :: "duration \<Rightarrow> int" where
  "Milliseconds d = go_div d 1000000"

lemma After_Before: "After t u \<longleftrightarrow> Before u t"
  by (simp add: After_def Before_def)

lemma go_div_nonneg [simp]: "0 \<le> a \<Longrightarrow> 0 < b \<Longrightarrow> go_div a b = a div b"
  by (cases "a = 0") (simp_all add: go_div_def sgn_if)

subsection \<open>Integer conversions\<close>

text \<open>
  The value of a signed conversion to \<open>w\<close> bits keeps the low \<open>w\<close> bits and reads them as two's
  complement; an unsigned one reads them as they are.
\<close>

definition int32 :: "int \<Rightarrow> int" where
  "int32 n = (n + 2 ^ 31) mod 2 ^ 32 - 2 ^ 31"

definition int64 :: "int \<Rightarrow> int" where
  "int64 n = (n + 2 ^ 63) mod 2 ^ 64 - 2 ^ 63"

definition uint16 :: "int \<Rightarrow> int" where
  "uint16 n = n mod 2 ^ 16"

definition uint32 :: "int \<Rightarrow> int" where
  "uint32 n = n mod 2 ^ 32"

definition uint64 :: "int \<Rightarrow> int" where
  "uint64 n = n mod 2 ^ 64"

lemma int32_id: "- (2 ^ 31) \<le> n \<Longrightarrow> n < 2 ^ 31 \<Longrightarrow> int32 n = n"
  by (simp add: int32_def)

lemma int32_range: "- (2 ^ 31) \<le> int32 n \<and> int32 n < 2 ^ 31"
proof -
  have "0 \<le> (n + 2 ^ 31) mod 2 ^ 32 \<and> (n + 2 ^ 31) mod 2 ^ 32 < (2 ^ 32 :: int)"
    by simp
  then show ?thesis by (simp add: int32_def)
qed

lemma int64_id: "- (2 ^ 63) \<le> n \<Longrightarrow> n < 2 ^ 63 \<Longrightarrow> int64 n = n"
  by (simp add: int64_def)

lemma int64_range: "- (2 ^ 63) \<le> int64 n \<and> int64 n < 2 ^ 63"
proof -
  have "0 \<le> (n + 2 ^ 63) mod 2 ^ 64 \<and> (n + 2 ^ 63) mod 2 ^ 64 < (2 ^ 64 :: int)"
    by simp
  then show ?thesis by (simp add: int64_def)
qed

lemma uint64_id: "0 \<le> n \<Longrightarrow> n < 2 ^ 64 \<Longrightarrow> uint64 n = n"
  by (simp add: uint64_def)

subsection \<open>Strings and formatting\<close>

definition digit :: "nat \<Rightarrow> char" where
  "digit d = ''0123456789'' ! d"

fun fmt_nat :: "nat \<Rightarrow> string" where
  "fmt_nat n = (if n < 10 then [digit n] else fmt_nat (n div 10) @ [digit (n mod 10)])"

text \<open>\<open>Duration.String\<close>: the largest unit first, a fraction without its trailing zeros.\<close>

fun fmt_frac :: "nat \<Rightarrow> nat \<Rightarrow> bool \<Rightarrow> string \<Rightarrow> string \<times> nat" where
  "fmt_frac 0 v printed rest = ((if printed then CHR ''.'' # rest else rest), v)"
| "fmt_frac (Suc prec) v printed rest = (let p = printed \<or> v mod 10 \<noteq> 0
     in fmt_frac prec (v div 10) p (if p then digit (v mod 10) # rest else rest))"

definition fmt_duration :: "int \<Rightarrow> string" where
  "fmt_duration d = (let u = nat \<bar>d\<bar>; sign = (if d < 0 then ''-'' else []) in
     if u = 0 then ''0s''
     else if u < 1000000000 then
       (let (prec, unit) = (if u < 1000 then (0, ''ns'') else if u < 1000000 then (3, [CHR 0xC2, CHR 0xB5] @ ''s'')
              else (6, ''ms'')); (s, v) = fmt_frac prec u False unit
        in sign @ fmt_nat v @ s)
     else
       (let (s, v) = fmt_frac 9 u False ''s''; secs = fmt_nat (v mod 60) @ s; m = v div 60;
            mins = fmt_nat (m mod 60) @ ''m'' @ secs; h = m div 60
        in sign @ (if m = 0 then secs else if h = 0 then mins else fmt_nat h @ ''h'' @ mins)))"

declare fmt_nat.simps [simp del]

text \<open>The verb \<open>%d\<close> of an integer.\<close>

definition fmt_d :: "int \<Rightarrow> string" where
  "fmt_d n = (if n < 0 then ''-'' @ fmt_nat (nat (- n)) else fmt_nat (nat n))"

definition is_digit :: "char \<Rightarrow> bool" where
  "is_digit c \<longleftrightarrow> c \<in> set ''0123456789''"

definition HasPrefix :: "string \<Rightarrow> string \<Rightarrow> bool" where
  "HasPrefix s p \<longleftrightarrow> take (length p) s = p"

definition TrimPrefix :: "string \<Rightarrow> string \<Rightarrow> string" where
  "TrimPrefix s p = (if HasPrefix s p then drop (length p) s else s)"

text \<open>\<open>strings.Cut\<close> at a one byte separator: the parts around the first one, if there is one.\<close>

fun Cut :: "char \<Rightarrow> string \<Rightarrow> (string \<times> string) option" where
  "Cut c [] = None"
| "Cut c (x # xs) = (if x = c then Some ([], xs)
     else case Cut c xs of None \<Rightarrow> None | Some (a, b) \<Rightarrow> Some (x # a, b))"

text \<open>The first field of \<open>strings.Split\<close> at a one byte separator.\<close>

definition first_field :: "char \<Rightarrow> string \<Rightarrow> string" where
  "first_field c s = takeWhile (\<lambda>x. x \<noteq> c) s"

text \<open>
  \<open>strings.TrimSpace\<close>: \<open>unicode.IsSpace\<close> in UTF-8.  The spaces of ASCII are tab, newline, vertical tab, form
  feed, return and blank; those of two bytes U+0085 and U+00A0; those of three bytes U+1680, U+2000 to U+200A,
  U+2028, U+2029, U+202F, U+205F and U+3000.  A byte that starts none of them ends the white space.
\<close>

definition is_space :: "char \<Rightarrow> bool" where
  "is_space c \<longleftrightarrow> of_char c \<in> {9, 10, 11, 12, 13, 32 :: nat}"

definition is_space2 :: "char \<Rightarrow> char \<Rightarrow> bool" where
  "is_space2 a b \<longleftrightarrow> a = CHR 0xC2 \<and> b \<in> {CHR 0x85, CHR 0xA0}"

definition is_space3 :: "char \<Rightarrow> char \<Rightarrow> char \<Rightarrow> bool" where
  "is_space3 a b c \<longleftrightarrow> a = CHR 0xE1 \<and> b = CHR 0x9A \<and> c = CHR 0x80
     \<or> a = CHR 0xE2 \<and> b = CHR 0x80 \<and> of_char c \<in> {0x80..0x8A} \<union> {0xA8, 0xA9, 0xAF :: nat}
     \<or> a = CHR 0xE2 \<and> b = CHR 0x81 \<and> c = CHR 0x9F
     \<or> a = CHR 0xE3 \<and> b = CHR 0x80 \<and> c = CHR 0x80"

fun strip_spaces :: "(char \<Rightarrow> char \<Rightarrow> bool) \<Rightarrow> (char \<Rightarrow> char \<Rightarrow> char \<Rightarrow> bool) \<Rightarrow> string \<Rightarrow> string" where
  "strip_spaces two three [] = []"
| "strip_spaces two three (c # s) = (if is_space c then strip_spaces two three s else (case s of
      d # t \<Rightarrow> if two c d then strip_spaces two three t else (case t of
          e # u \<Rightarrow> if three c d e then strip_spaces two three u else c # s
        | [] \<Rightarrow> c # s)
    | [] \<Rightarrow> c # s))"

text \<open>The end is stripped as the beginning of the reversed text.\<close>

definition TrimSpace :: "string \<Rightarrow> string" where
  "TrimSpace s = rev (strip_spaces (\<lambda>a b. is_space2 b a) (\<lambda>a b c. is_space3 c b a)
     (rev (strip_spaces is_space2 is_space3 s)))"

lemma TrimSpace_example:
  "TrimSpace ([CHR 0xC2, CHR 0xA0] @ '' 10.0.0.7'' @ [CHR 0xE2, CHR 0x80, CHR 0x83, CHR 0x09]) = ''10.0.0.7''"
  by (simp add: TrimSpace_def is_space_def is_space2_def is_space3_def)

lemma digit_upt: "d < 10 \<Longrightarrow> d \<in> {0, 1, 2, 3, 4, 5, 6, 7, 8, 9 :: nat}"
  by auto

lemma is_digit_digit [simp]: "d < 10 \<Longrightarrow> is_digit (digit d)"
  unfolding is_digit_def digit_def by (rule nth_mem) simp

lemma fmt_nat_digits: "c \<in> set (fmt_nat n) \<Longrightarrow> is_digit c"
proof (induction n rule: fmt_nat.induct)
  case (1 n)
  then show ?case by (subst (asm) fmt_nat.simps) (auto split: if_splits)
qed

lemma fmt_nat_nonempty [simp]: "fmt_nat n \<noteq> []"
  by (subst fmt_nat.simps) simp

lemma fmt_nat_small [simp]: "n < 10 \<Longrightarrow> fmt_nat n = [digit n]"
  by (simp add: fmt_nat.simps)

lemma Cut_None: "c \<notin> set s \<Longrightarrow> Cut c s = None"
  by (induction s) auto

lemma Cut_append: "c \<notin> set a \<Longrightarrow> Cut c (a @ c # b) = Some (a, b)"
  by (induction a) auto

lemma Cut_Some: "Cut c s = Some (a, b) \<Longrightarrow> s = a @ c # b \<and> c \<notin> set a"
  by (induction s arbitrary: a) (auto split: if_splits option.splits)

lemma HasPrefix_append [simp]: "HasPrefix (p @ s) p"
  by (simp add: HasPrefix_def)

lemma TrimPrefix_append [simp]: "TrimPrefix (p @ s) p = s"
  by (simp add: TrimPrefix_def)

subsection \<open>The world\<close>

text \<open>
  What the components share with the operating system: the readings of the wall clock (the
  \<open>k\<close>-th call of \<open>time.Now\<close> reads \<open>w_clock w k\<close>), the files, and the faults the disk will show, in
  the order of the accesses (no entry left: no fault).  \<open>os.WriteFile\<close> truncates first, so a
  failed write may leave any text in the file.
\<close>

datatype fs_fault = NoFault | ReadFault string | WriteFault string "string option"

record world =
  w_clock :: "nat \<Rightarrow> time"
  w_tick :: nat
  w_files :: "string \<rightharpoonup> string"
  w_faults :: "fs_fault list"

definition time_Now :: "'z world_scheme \<Rightarrow> time \<times> 'z world_scheme" where
  "time_Now w = (w_clock w (w_tick w), w\<lparr>w_tick := Suc (w_tick w)\<rparr>)"

definition next_fault :: "'z world_scheme \<Rightarrow> fs_fault \<times> 'z world_scheme" where
  "next_fault w = (case w_faults w of [] \<Rightarrow> (NoFault, w) | f # fs \<Rightarrow> (f, w\<lparr>w_faults := fs\<rparr>))"

datatype read_result = ReadOk string | NotExist | ReadErr go_error

definition os_ReadFile :: "string \<Rightarrow> 'z world_scheme \<Rightarrow> read_result \<times> 'z world_scheme" where
  "os_ReadFile path w = (let (f, w1) = next_fault w in
     case f of ReadFault s \<Rightarrow> (ReadErr (NewErr s), w1)
     | _ \<Rightarrow> (case w_files w1 path of None \<Rightarrow> (NotExist, w1) | Some d \<Rightarrow> (ReadOk d, w1)))"

definition os_WriteFile ::
  "string \<Rightarrow> string \<Rightarrow> 'z world_scheme \<Rightarrow> go_error option \<times> 'z world_scheme" where
  "os_WriteFile path d w = (let (f, w1) = next_fault w in
     case f of
       WriteFault s left \<Rightarrow> (Some (NewErr s),
         case left of None \<Rightarrow> w1 | Some x \<Rightarrow> w1\<lparr>w_files := (w_files w1)(path \<mapsto> x)\<rparr>)
     | _ \<Rightarrow> (None, w1\<lparr>w_files := (w_files w1)(path \<mapsto> d)\<rparr>))"

text \<open>The clock never runs backwards.\<close>

definition clock_mono :: "'z world_scheme \<Rightarrow> bool" where
  "clock_mono w \<longleftrightarrow> mono (w_clock w)"

lemma time_Now_sel [world_simps]:
  "fst (time_Now w) = w_clock w (w_tick w)"
  "w_clock (snd (time_Now w)) = w_clock w"
  "w_tick (snd (time_Now w)) = Suc (w_tick w)"
  "w_files (snd (time_Now w)) = w_files w"
  "w_faults (snd (time_Now w)) = w_faults w"
  by (simp_all add: time_Now_def)

lemma next_fault_sel [world_simps]:
  "w_clock (snd (next_fault w)) = w_clock w"
  "w_tick (snd (next_fault w)) = w_tick w"
  "w_files (snd (next_fault w)) = w_files w"
  by (simp_all add: next_fault_def split: list.splits)

lemma os_WriteFile_sel [world_simps]:
  "w_clock (snd (os_WriteFile p d w)) = w_clock w"
  "w_tick (snd (os_WriteFile p d w)) = w_tick w"
  by (simp_all add: os_WriteFile_def Let_def world_simps
        split: prod.splits fs_fault.splits option.splits)
     (metis next_fault_sel snd_conv)+

lemma os_ReadFile_sel [world_simps]:
  "w_clock (snd (os_ReadFile p w)) = w_clock w"
  "w_tick (snd (os_ReadFile p w)) = w_tick w"
  "w_files (snd (os_ReadFile p w)) = w_files w"
  by (simp_all add: os_ReadFile_def Let_def world_simps
        split: prod.splits fs_fault.splits option.splits)
     (metis next_fault_sel snd_conv)+

lemma os_WriteFile_ok: "os_WriteFile p d w = (None, w1) \<Longrightarrow> w_files w1 = (w_files w)(p \<mapsto> d)"
  using next_fault_sel(3) [of w]
  by (auto simp: os_WriteFile_def Let_def split: prod.splits fs_fault.splits option.splits)

lemma os_WriteFile_other: "q \<noteq> p \<Longrightarrow> w_files (snd (os_WriteFile p d w)) q = w_files w q"
  using next_fault_sel(3) [of w]
  by (auto simp: os_WriteFile_def Let_def split: prod.splits fs_fault.splits option.splits)

end
