(* ===== verification/GoHttp.thy ===== *)
theory GoHttp
  imports Prelude
begin

text \<open>
  What the gateway uses of \<open>net/http\<close> and \<open>context\<close>: the parts of a request it reads, a response
  writer whose header is sent with the first write, and handlers as state transformers.  JSON
  text written with \<open>json.Encoder\<close> is kept as the value it encodes.  A header is looked up under
  the spelling the code uses; each header has one spelling in the code.
\<close>

type_synonym zap_logger = nat

datatype ctx_value = CtxString string | CtxAudit zap_logger

type_synonym ctx = "string \<rightharpoonup> ctx_value"

record request =
  r_method :: string
  r_path :: string
  r_header :: "string \<Rightarrow> string"
  r_query :: "string \<Rightarrow> string"
  r_RemoteAddr :: string
  r_ctx :: ctx

definition UserAgent :: "request \<Rightarrow> string" where
  "UserAgent r = r_header r ''User-Agent''"

definition WithValue :: "ctx \<Rightarrow> string \<Rightarrow> ctx_value \<Rightarrow> ctx" where
  "WithValue c k v = c(k \<mapsto> v)"

datatype json =
  JNull | JBool bool | JInt int | JStr string | JObj "(string \<times> json) list"

datatype chunk = Bytes string | JsonLine json

record response =
  rs_header :: "string \<rightharpoonup> string"
  rs_sent :: "(int \<times> (string \<rightharpoonup> string)) option"
  rs_body :: "chunk list"

definition new_response :: response where
  "new_response = \<lparr>rs_header = Map.empty, rs_sent = None, rs_body = []\<rparr>"

definition StatusOK :: int where "StatusOK = 200"
definition StatusUnauthorized :: int where "StatusUnauthorized = 401"
definition StatusForbidden :: int where "StatusForbidden = 403"
definition StatusRequestTimeout :: int where "StatusRequestTimeout = 408"
definition StatusTooManyRequests :: int where "StatusTooManyRequests = 429"
definition StatusServiceUnavailable :: int where "StatusServiceUnavailable = 503"

lemmas status_defs = StatusOK_def StatusUnauthorized_def StatusForbidden_def
  StatusRequestTimeout_def StatusTooManyRequests_def StatusServiceUnavailable_def

definition Header_Set :: "string \<Rightarrow> string \<Rightarrow> response \<Rightarrow> response" where
  "Header_Set k v rs = rs\<lparr>rs_header := (rs_header rs)(k \<mapsto> v)\<rparr>"

text \<open>Only the first call sends; what is set in the header afterwards is not seen by the client.\<close>

definition WriteHeader :: "int \<Rightarrow> response \<Rightarrow> response" where
  "WriteHeader code rs =
     (case rs_sent rs of None \<Rightarrow> rs\<lparr>rs_sent := Some (code, rs_header rs)\<rparr> | Some _ \<Rightarrow> rs)"

definition Write :: "chunk \<Rightarrow> response \<Rightarrow> response" where
  "Write c rs = (let rs1 = WriteHeader StatusOK rs in rs1\<lparr>rs_body := rs_body rs1 @ [c]\<rparr>)"

definition rs_status :: "response \<Rightarrow> int option" where
  "rs_status rs = map_option fst (rs_sent rs)"

definition sent_header :: "response \<Rightarrow> string \<Rightarrow> string option" where
  "sent_header rs k = (case rs_sent rs of None \<Rightarrow> None | Some (_, h) \<Rightarrow> h k)"

type_synonym 's handler = "request \<Rightarrow> response \<Rightarrow> 's \<Rightarrow> response \<times> 's"

lemmas response_defs = Header_Set_def WriteHeader_def Write_def rs_status_def sent_header_def

lemma Header_Set_sent [simp]: "rs_sent (Header_Set k v rs) = rs_sent rs"
  by (simp add: Header_Set_def)

lemma Header_Set_body [simp]: "rs_body (Header_Set k v rs) = rs_body rs"
  by (simp add: Header_Set_def)

lemma WriteHeader_once: "rs_sent rs = Some x \<Longrightarrow> WriteHeader c rs = rs"
  by (simp add: WriteHeader_def)

lemma WriteHeader_first [simp]:
  "rs_sent rs = None \<Longrightarrow> rs_sent (WriteHeader c rs) = Some (c, rs_header rs)"
  by (simp add: WriteHeader_def)

lemma Write_sent [simp]: "rs_sent rs = Some x \<Longrightarrow> rs_sent (Write b rs) = Some x"
  by (simp add: Write_def Let_def WriteHeader_once)

end
