(* ===== verification/AuditLog.thy ===== *)
theory AuditLog
  imports GoHttp
begin

text \<open>
  Package \<open>internal/audit\<close> (logger.go).  The logger hands every event to zap, which is not part of
  the repository: the model records the calls made on zap, in order, in the field \<open>w_zap\<close> of the
  world.  The JSON text of an event is represented by the event it encodes.
\<close>

record AuditLogger =
  al_logger :: zap_logger

record AuditEvent =
  ev_Timestamp :: time
  ev_Action :: string
  ev_Actor :: string
  ev_Resource :: string
  ev_Success :: bool
  ev_Error :: string
  ev_Details :: "(string \<times> string) list"
  ev_IPAddress :: string
  ev_UserAgent :: string
  ev_Duration :: duration
  ev_RequestID :: string

text \<open>The zero value, from which a composite literal sets some fields.\<close>

definition zero_event :: AuditEvent where
  "zero_event = \<lparr>ev_Timestamp = 0, ev_Action = [], ev_Actor = [], ev_Resource = [],
     ev_Success = False, ev_Error = [], ev_Details = [], ev_IPAddress = [], ev_UserAgent = [],
     ev_Duration = 0, ev_RequestID = []\<rparr>"

subsection \<open>Construction\<close>

datatype zap_level = DebugLevel | InfoLevel | WarnLevel | ErrorLevel

datatype zap_base = DevelopmentConfig | ProductionConfig

record zap_config =
  zc_base :: zap_base
  zc_Encoding :: "string option"
  zc_Level :: zap_level

definition zap_config_of :: "string \<Rightarrow> zap_config" where
  "zap_config_of level =
     (let c = (if level = ''development''
               then \<lparr>zc_base = DevelopmentConfig, zc_Encoding = None, zc_Level = DebugLevel\<rparr>
               else \<lparr>zc_base = ProductionConfig, zc_Encoding = Some ''json'', zc_Level = InfoLevel\<rparr>)
      in if level = ''debug'' then c\<lparr>zc_Level := DebugLevel\<rparr>
         else if level = ''info'' then c\<lparr>zc_Level := InfoLevel\<rparr>
         else if level = ''warn'' then c\<lparr>zc_Level := WarnLevel\<rparr>
         else if level = ''error'' then c\<lparr>zc_Level := ErrorLevel\<rparr>
         else c\<lparr>zc_Level := InfoLevel\<rparr>)"

definition NewAuditLogger ::
  "(zap_config \<Rightarrow> zap_logger result) \<Rightarrow> string \<Rightarrow> AuditLogger result" where
  "NewAuditLogger Build level = (case Build (zap_config_of level) of
     Inl e \<Rightarrow> Inl (WrapErr ''failed to build logger'' e)
   | Inr l \<Rightarrow> Inr \<lparr>al_logger = l\<rparr>)"

definition GetLogger :: "AuditLogger \<Rightarrow> zap_logger" where
  "GetLogger a = al_logger a"

subsection \<open>Masking and request data\<close>

definition maskIP :: "string \<Rightarrow> string" where
  "maskIP ip = (if ip = [] then ''unknown''
     else if length ip > 7 then take 7 ip @ ''.xxx.xxx''
     else ''masked'')"

text \<open>\<open>getIPAddress\<close> of this package: the whole \<open>X-Forwarded-For\<close> header first.\<close>

definition audit_getIPAddress :: "request \<Rightarrow> string" where
  "audit_getIPAddress r =
     (let xff = r_header r ''X-Forwarded-For'' in if xff \<noteq> [] then xff
      else let xri = r_header r ''X-Real-IP'' in if xri \<noteq> [] then xri
      else r_RemoteAddr r)"

definition getActorFromRequest :: "request \<Rightarrow> string" where
  "getActorFromRequest r = (case r_ctx r ''actor'' of
     Some (CtxString actor) \<Rightarrow> actor
   | _ \<Rightarrow> maskIP (audit_getIPAddress r))"

definition getRequestID :: "request \<Rightarrow> string" where
  "getRequestID r = (case r_ctx r ''request_id'' of
     Some (CtxString reqID) \<Rightarrow> reqID
   | _ \<Rightarrow> (let reqID = r_header r ''X-Request-ID'' in if reqID \<noteq> [] then reqID else []))"

definition WithContext :: "ctx \<Rightarrow> AuditLogger \<Rightarrow> ctx" where
  "WithContext c logger = WithValue c ''audit_logger'' (CtxAudit (al_logger logger))"

definition FromContext :: "ctx \<Rightarrow> AuditLogger option" where
  "FromContext c = (case c ''audit_logger'' of
     Some (CtxAudit l) \<Rightarrow> Some \<lparr>al_logger = l\<rparr>
   | _ \<Rightarrow> None)"

subsection \<open>Logging\<close>

datatype zap_field = ZString string string | ZEvent string AuditEvent | ZDuration string duration

datatype zap_call = ZInfo zap_logger string "zap_field list" | ZError zap_logger string "zap_field list"
  | ZSync zap_logger

record aworld = world +
  w_zap :: "zap_call list"

definition zap_emit :: "zap_call \<Rightarrow> 'z aworld_scheme \<Rightarrow> 'z aworld_scheme" where
  "zap_emit c w = w\<lparr>w_zap := w_zap w @ [c]\<rparr>"

definition LogEvent :: "AuditLogger \<Rightarrow> AuditEvent \<Rightarrow> 'z aworld_scheme \<Rightarrow> 'z aworld_scheme" where
  "LogEvent a event0 w = (let event = event0\<lparr>ev_IPAddress := maskIP (ev_IPAddress event0)\<rparr> in
     if ev_Success event then
       zap_emit (ZInfo (al_logger a) ''audit''
         [ZEvent ''event'' event, ZString ''action'' (ev_Action event),
          ZString ''actor'' (ev_Actor event), ZString ''resource'' (ev_Resource event),
          ZDuration ''duration'' (ev_Duration event)]) w
     else
       zap_emit (ZError (al_logger a) ''audit''
         [ZEvent ''event'' event, ZString ''action'' (ev_Action event),
          ZString ''actor'' (ev_Actor event), ZString ''resource'' (ev_Resource event),
          ZString ''error'' (ev_Error event), ZDuration ''duration'' (ev_Duration event)]) w)"

definition set_error :: "go_error option \<Rightarrow> AuditEvent \<Rightarrow> AuditEvent" where
  "set_error err e = (case err of None \<Rightarrow> e | Some x \<Rightarrow> e\<lparr>ev_Error := Error x\<rparr>)"

definition LogHTTPRequest :: "AuditLogger \<Rightarrow> request \<Rightarrow> string \<Rightarrow> bool \<Rightarrow> go_error option \<Rightarrow> duration \<Rightarrow>
    'z aworld_scheme \<Rightarrow> 'z aworld_scheme" where
  "LogHTTPRequest a r action success err d w = (let (now, w1) = time_Now w in
     LogEvent a (set_error err (zero_event\<lparr>ev_Timestamp := now, ev_Action := action,
       ev_Actor := getActorFromRequest r, ev_Resource := r_path r, ev_Success := success,
       ev_IPAddress := audit_getIPAddress r, ev_UserAgent := UserAgent r, ev_Duration := d,
       ev_RequestID := getRequestID r\<rparr>)) w1)"

definition LogIntegrationCall :: "AuditLogger \<Rightarrow> string \<Rightarrow> string \<Rightarrow> bool \<Rightarrow> go_error option \<Rightarrow> duration \<Rightarrow>
    'z aworld_scheme \<Rightarrow> 'z aworld_scheme" where
  "LogIntegrationCall a service operation success err d w = (let (now, w1) = time_Now w in
     LogEvent a (set_error err (zero_event\<lparr>ev_Timestamp := now,
       ev_Action := ''integration_'' @ service @ ''_'' @ operation, ev_Actor := ''gateway'',
       ev_Resource := service, ev_Success := success, ev_Duration := d\<rparr>)) w1)"

definition LogTokenRefresh :: "AuditLogger \<Rightarrow> string \<Rightarrow> bool \<Rightarrow> go_error option \<Rightarrow>
    'z aworld_scheme \<Rightarrow> 'z aworld_scheme" where
  "LogTokenRefresh a service success err w = (let (now, w1) = time_Now w in
     LogEvent a (set_error err (zero_event\<lparr>ev_Timestamp := now, ev_Action := ''token_refresh'',
       ev_Actor := ''gateway'', ev_Resource := service, ev_Success := success\<rparr>)) w1)"

definition LogCircuitBreakerStateChange :: "AuditLogger \<Rightarrow> string \<Rightarrow> string \<Rightarrow> string \<Rightarrow>
    'z aworld_scheme \<Rightarrow> 'z aworld_scheme" where
  "LogCircuitBreakerStateChange a name from_state to_state w = (let (now, w1) = time_Now w in
     LogEvent a (zero_event\<lparr>ev_Timestamp := now, ev_Action := ''circuit_breaker_state_change'',
       ev_Actor := ''gateway'', ev_Resource := name, ev_Success := True,
       ev_Details := [(''from'', from_state), (''to'', to_state)]\<rparr>) w1)"

definition LogRateLimitExceeded :: "AuditLogger \<Rightarrow> request \<Rightarrow> string \<Rightarrow>
    'z aworld_scheme \<Rightarrow> 'z aworld_scheme" where
  "LogRateLimitExceeded a r limit w = (let (now, w1) = time_Now w in
     LogEvent a (zero_event\<lparr>ev_Timestamp := now, ev_Action := ''rate_limit_exceeded'',
       ev_Actor := getActorFromRequest r, ev_Resource := r_path r, ev_Success := False,
       ev_IPAddress := audit_getIPAddress r, ev_UserAgent := UserAgent r,
       ev_Details := [(''limit'', limit)]\<rparr>) w1)"

definition LogAuthFailure :: "AuditLogger \<Rightarrow> request \<Rightarrow> string \<Rightarrow>
    'z aworld_scheme \<Rightarrow> 'z aworld_scheme" where
  "LogAuthFailure a r reason w = (let (now, w1) = time_Now w in
     LogEvent a (zero_event\<lparr>ev_Timestamp := now, ev_Action := ''auth_failure'',
       ev_Actor := ''unknown'', ev_Resource := r_path r, ev_Success := False,
       ev_IPAddress := audit_getIPAddress r, ev_UserAgent := UserAgent r,
       ev_Error := reason\<rparr>) w1)"

definition Sync :: "AuditLogger \<Rightarrow> 'z aworld_scheme \<Rightarrow> 'z aworld_scheme" where
  "Sync a w = zap_emit (ZSync (al_logger a)) w"

subsection \<open>What a logging operation does to the world\<close>

text \<open>The call on zap that an event leads to, and the event with its address masked.\<close>

definition mask_event :: "AuditEvent \<Rightarrow> AuditEvent" where
  "mask_event e = e\<lparr>ev_IPAddress := maskIP (ev_IPAddress e)\<rparr>"

definition audit_call :: "AuditLogger \<Rightarrow> AuditEvent \<Rightarrow> zap_call" where
  "audit_call a e =
     (let fs = [ZEvent ''event'' e, ZString ''action'' (ev_Action e), ZString ''actor'' (ev_Actor e),
                ZString ''resource'' (ev_Resource e)];
          d = [ZDuration ''duration'' (ev_Duration e)]
      in if ev_Success e then ZInfo (al_logger a) ''audit'' (fs @ d)
         else ZError (al_logger a) ''audit'' (fs @ [ZString ''error'' (ev_Error e)] @ d))"

lemma mask_set_error: "mask_event (set_error err e) = set_error err (mask_event e)"
  by (simp add: mask_event_def set_error_def split: option.split)

lemma LogEvent_eq: "LogEvent a e w = zap_emit (audit_call a (mask_event e)) w"
  by (simp add: LogEvent_def audit_call_def mask_event_def Let_def)

lemma zap_emit_sel [world_simps]:
  "w_clock (zap_emit c w) = w_clock w" "w_tick (zap_emit c w) = w_tick w"
  "w_files (zap_emit c w) = w_files w" "w_faults (zap_emit c w) = w_faults w"
  "w_zap (zap_emit c w) = w_zap w @ [c]" "aworld.more (zap_emit c w) = aworld.more w"
  by (simp_all add: zap_emit_def)

lemma LogEvent_sel [world_simps]:
  "w_clock (LogEvent a e w) = w_clock w" "w_tick (LogEvent a e w) = w_tick w"
  "w_files (LogEvent a e w) = w_files w" "w_faults (LogEvent a e w) = w_faults w"
  "w_zap (LogEvent a e w) = w_zap w @ [audit_call a (mask_event e)]"
  "aworld.more (LogEvent a e w) = aworld.more w"
  by (simp_all add: LogEvent_eq world_simps)

lemma time_Now_zap [world_simps]:
  "w_zap (snd (time_Now w)) = w_zap w" "aworld.more (snd (time_Now w)) = aworld.more w"
  by (simp_all add: time_Now_def)

lemma os_WriteFile_zap [world_simps]: "w_zap (snd (os_WriteFile p d w)) = w_zap w"
  by (auto simp: os_WriteFile_def next_fault_def Let_def split: list.splits fs_fault.splits option.splits)

lemmas log_defs = LogHTTPRequest_def LogIntegrationCall_def LogTokenRefresh_def
  LogCircuitBreakerStateChange_def LogRateLimitExceeded_def LogAuthFailure_def

lemma log_request_frame [world_simps]:
  "w_clock (LogAuthFailure a r s w) = w_clock w" "w_files (LogAuthFailure a r s w) = w_files w"
  "aworld.more (LogAuthFailure a r s w) = aworld.more w"
  "w_clock (LogRateLimitExceeded a r s w) = w_clock w"
  "w_files (LogRateLimitExceeded a r s w) = w_files w"
  "aworld.more (LogRateLimitExceeded a r s w) = aworld.more w"
  by (simp_all add: log_defs world_simps case_prod_beta)

subsection \<open>Masking\<close>

definition is_masked :: "string \<Rightarrow> bool" where
  "is_masked s \<longleftrightarrow> s = ''unknown'' \<or> s = ''masked'' \<or> length s = 15 \<and> drop 7 s = ''.xxx.xxx''"

lemma maskIP_masked [simp]: "is_masked (maskIP ip)"
  by (simp add: is_masked_def maskIP_def)

text \<open>What the log may tell of an address: that there is none, that it is a short one, or the first seven
  bytes of a longer one.\<close>

definition same_shown :: "string \<Rightarrow> string \<Rightarrow> bool" where
  "same_shown a b \<longleftrightarrow> (a = [] \<longleftrightarrow> b = []) \<and> (7 < length a \<longleftrightarrow> 7 < length b) \<and> (7 < length a \<longrightarrow> take 7 a = take 7 b)"

lemma maskIP_cong: "same_shown a b \<Longrightarrow> maskIP a = maskIP b"
  by (auto simp: maskIP_def same_shown_def)

fun event_of :: "zap_call \<Rightarrow> AuditEvent option" where
  "event_of (ZInfo _ _ (ZEvent _ e # _)) = Some e"
| "event_of (ZError _ _ (ZEvent _ e # _)) = Some e"
| "event_of _ = None"

lemma event_of_audit_call [simp]: "event_of (audit_call a e) = Some e"
  by (simp add: audit_call_def Let_def)

definition log_masked :: "'z aworld_scheme \<Rightarrow> bool" where
  "log_masked w \<longleftrightarrow> list_all (\<lambda>c. case event_of c of None \<Rightarrow> True
     | Some e \<Rightarrow> is_masked (ev_IPAddress e)) (w_zap w)"

text \<open>The operations of the package as one type, to speak of any sequence of them.\<close>

datatype audit_op =
    OpEvent AuditEvent
  | OpHTTPRequest request string bool "go_error option" duration
  | OpIntegrationCall string string bool "go_error option" duration
  | OpTokenRefresh string bool "go_error option"
  | OpBreaker string string string
  | OpRateLimit request string
  | OpAuthFailure request string

fun audit_step :: "AuditLogger \<Rightarrow> audit_op \<Rightarrow> 'z aworld_scheme \<Rightarrow> 'z aworld_scheme" where
  "audit_step a (OpEvent e) w = LogEvent a e w"
| "audit_step a (OpHTTPRequest r act s err d) w = LogHTTPRequest a r act s err d w"
| "audit_step a (OpIntegrationCall sv op s err d) w = LogIntegrationCall a sv op s err d w"
| "audit_step a (OpTokenRefresh sv s err) w = LogTokenRefresh a sv s err w"
| "audit_step a (OpBreaker n f t) w = LogCircuitBreakerStateChange a n f t w"
| "audit_step a (OpRateLimit r l) w = LogRateLimitExceeded a r l w"
| "audit_step a (OpAuthFailure r m) w = LogAuthFailure a r m w"

lemma audit_step_emits:
  "\<exists>e. w_zap (audit_step a p w) = w_zap w @ [audit_call a (mask_event e)]"
  by (cases p) (auto simp: log_defs world_simps case_prod_beta)

text \<open>Whatever sequence of audit operations runs, the log only grows, by exactly one
  entry per operation, and no entry that is written carries an unmasked client address.\<close>

lemma audit_log_append_only_masked:
  fixes w :: "'z aworld_scheme"
  assumes "log_masked w"
  shows "\<exists>cs. w_zap (fold (audit_step a) ps w) = w_zap w @ cs \<and> length cs = length ps
    \<and> log_masked (fold (audit_step a) ps w)"
  using assms
proof (induction ps arbitrary: w)
  case Nil
  then show ?case by simp
next
  case (Cons p ps)
  obtain e where e: "w_zap (audit_step a p w) = w_zap w @ [audit_call a (mask_event e)]"
    using audit_step_emits by blast
  with Cons.prems have "log_masked (audit_step a p w)"
    by (simp add: log_masked_def mask_event_def)
  from Cons.IH [OF this] e show ?case by auto
qed

definition demo_world :: aworld where
  "demo_world = \<lparr>w_clock = int, w_tick = 0, w_files = Map.empty, w_faults = [], w_zap = []\<rparr>"

lemma audit_log_append_only_masked_witness:
  "\<exists>cs. w_zap (fold (audit_step \<lparr>al_logger = 0\<rparr>) [OpTokenRefresh ''visma'' True None] demo_world)
     = w_zap demo_world @ cs \<and> length cs = 1"
proof -
  have "log_masked demo_world" by (simp add: log_masked_def demo_world_def)
  from audit_log_append_only_masked [OF this, of "\<lparr>al_logger = 0\<rparr>" "[OpTokenRefresh ''visma'' True None]"]
  show ?thesis by auto
qed

text \<open>What the log can depend on: the request up to what may be told of its address.\<close>

definition same_for_audit :: "request \<Rightarrow> request \<Rightarrow> bool" where
  "same_for_audit r r' \<longleftrightarrow> r_path r = r_path r' \<and> r_ctx r = r_ctx r'
     \<and> UserAgent r = UserAgent r' \<and> r_header r ''X-Request-ID'' = r_header r' ''X-Request-ID''
     \<and> same_shown (audit_getIPAddress r) (audit_getIPAddress r')"

text \<open>C25 (safety).  Noninterference: two requests that differ only in what follows the first seven bytes
  of a client address of more than seven, or have two different addresses of one to seven bytes (and in
  headers the package never reads), leave the same world behind, log included, in each of the three
  operations that log a request.  So nothing else of an address gets into the log, whatever its length.\<close>

theorem audit_address_noninterference:
  assumes "same_for_audit r r'"
  shows "LogHTTPRequest a r act s err d w = LogHTTPRequest a r' act s err d w
    \<and> LogRateLimitExceeded a r lim w = LogRateLimitExceeded a r' lim w
    \<and> LogAuthFailure a r msg w = LogAuthFailure a r' msg w"
proof -
  have mask: "maskIP (audit_getIPAddress r) = maskIP (audit_getIPAddress r')"
    using assms maskIP_cong unfolding same_for_audit_def by blast
  have eqs: "r_path r = r_path r'" "r_ctx r = r_ctx r'" "UserAgent r = UserAgent r'"
    "r_header r ''X-Request-ID'' = r_header r' ''X-Request-ID''"
    using assms unfolding same_for_audit_def by blast+
  have actor: "getActorFromRequest r = getActorFromRequest r'"
    unfolding getActorFromRequest_def eqs mask ..
  have reqid: "getRequestID r = getRequestID r'"
    unfolding getRequestID_def eqs ..
  show ?thesis
    unfolding log_defs LogEvent_eq case_prod_beta mask_set_error eqs actor reqid
    by (simp add: mask_event_def mask)
qed

definition demo_request :: "string \<Rightarrow> request" where
  "demo_request ip = \<lparr>r_method = ''GET'', r_path = ''/health'', r_header = (\<lambda>_. []), r_query = (\<lambda>_. []),
     r_RemoteAddr = ip, r_ctx = Map.empty\<rparr>"

lemma audit_address_noninterference_witness:
  "LogAuthFailure \<lparr>al_logger = 0\<rparr> (demo_request ''192.168.7.9'') ''m'' demo_world
     = LogAuthFailure \<lparr>al_logger = 0\<rparr> (demo_request ''192.168.40.41'') ''m'' demo_world
   \<and> LogAuthFailure \<lparr>al_logger = 0\<rparr> (demo_request ''8.8.8.8'') ''m'' demo_world
     = LogAuthFailure \<lparr>al_logger = 0\<rparr> (demo_request ''::1'') ''m'' demo_world"
proof -
  have "same_for_audit (demo_request ''192.168.7.9'') (demo_request ''192.168.40.41'')"
    "same_for_audit (demo_request ''8.8.8.8'') (demo_request ''::1'')"
    by (simp_all add: same_for_audit_def same_shown_def demo_request_def audit_getIPAddress_def UserAgent_def)
  from this [THEN audit_address_noninterference] show ?thesis by blast
qed

text \<open>The masked form of an address shows exactly its first seven bytes when it has more than
  seven, and these can be the whole address: a masked IPv4 address and port, or one with short
  octets, determines the client, which the comments of the package rule out.\<close>

lemma maskIP_reveals_first_seven_bytes:
  "length (maskIP ip) \<le> 15
   \<and> (7 < length ip \<longrightarrow> maskIP ip = take 7 ip @ ''.xxx.xxx'')
   \<and> (0 < length ip \<and> length ip \<le> 7 \<longrightarrow> maskIP ip = ''masked'')
   \<and> maskIP ''192.168.1.20'' = ''192.168.xxx.xxx''
   \<and> maskIP ''1.2.3.4:5678'' = ''1.2.3.4'' @ ''.xxx.xxx''"
  by (auto simp: maskIP_def)

lemma maskIP_reveals_first_seven_bytes_witness:
  "maskIP ''10.0.0.77'' = ''10.0.0..xxx.xxx'' \<and> maskIP ''9.9.9.9'' = ''masked''"
  using maskIP_reveals_first_seven_bytes [of "''10.0.0.77''"] maskIP_reveals_first_seven_bytes [of "''9.9.9.9''"]
  by simp

subsection \<open>Context round trip and logger levels\<close>

lemma FromContext_WithContext: "FromContext (WithContext c l) = Some l"
  by (cases l) (simp add: FromContext_def WithContext_def WithValue_def)

lemma WithContext_other: "k \<noteq> ''audit_logger'' \<Longrightarrow> WithContext c l k = c k"
  by (simp add: WithContext_def WithValue_def)

lemma NewAuditLogger_error:
  "NewAuditLogger Build lv = Inl e \<longleftrightarrow> (\<exists>e'. Build (zap_config_of lv) = Inl e' \<and>
     e = WrapErr ''failed to build logger'' e')"
  by (auto simp: NewAuditLogger_def split: sum.splits)

end
