(* ===== verification/NetIP.thy ===== *)
theory NetIP
  imports Prelude
begin

unbundle bit_operations_syntax

text \<open>
  What the whitelist uses of the standard packages \<open>net\<close> and \<open>net/netip\<close>: \<open>ParseIP\<close>,
  \<open>ParseCIDR\<close>, \<open>IP.Equal\<close> and \<open>IPNet.Contains\<close>, on bytes, with the loops of the library.  Error
  texts are dropped, since the gateway only asks whether there was an error; an address with a
  zone is refused by both parsers, as in the library.  The lemmas at the end say what a match
  means: a common prefix of bits.
\<close>

type_synonym byte = "8 word"

subsection \<open>Parsing addresses\<close>

definition digit_val :: "char \<Rightarrow> nat option" where
  "digit_val c = (let k = of_char c in if 48 \<le> k \<and> k \<le> 57 then Some (k - 48) else None)"

text \<open>\<open>parseIPv4Fields\<close>: previous character, value and number of digits of the octet, octets so far.\<close>

fun v4_loop :: "string \<Rightarrow> char option \<Rightarrow> nat \<Rightarrow> nat \<Rightarrow> nat list \<Rightarrow> nat list option" where
  "v4_loop [] prev val digLen octets = (if length octets < 3 then None else Some (octets @ [val]))"
| "v4_loop (c # cs) prev val digLen octets = (case digit_val c of
     Some d \<Rightarrow>
       (if digLen = 1 \<and> val = 0 then None
        else if 255 < val * 10 + d then None
        else v4_loop cs (Some c) (val * 10 + d) (Suc digLen) octets)
   | None \<Rightarrow>
       (if c = CHR ''.'' then
          (if prev = None \<or> cs = [] \<or> prev = Some (CHR ''.'') then None
           else if length octets = 3 then None
           else v4_loop cs (Some c) 0 0 (octets @ [val]))
        else None))"

definition parseIPv4Fields :: "string \<Rightarrow> byte list option" where
  "parseIPv4Fields s = map_option (map of_nat) (v4_loop s None 0 0 [])"

definition hex_val :: "char \<Rightarrow> nat option" where
  "hex_val c = (let k = of_char c in
     if 48 \<le> k \<and> k \<le> 57 then Some (k - 48)
     else if 97 \<le> k \<and> k \<le> 102 then Some (k - 87)
     else if 65 \<le> k \<and> k \<le> 70 then Some (k - 55) else None)"

text \<open>One group of hexadecimal digits: how many were read, their value, what follows them.\<close>

fun hex_field :: "string \<Rightarrow> nat \<Rightarrow> nat \<Rightarrow> (nat \<times> nat \<times> string) option" where
  "hex_field [] off acc = Some (off, acc, [])"
| "hex_field (c # cs) off acc = (case hex_val c of
     None \<Rightarrow> Some (off, acc, c # cs)
   | Some d \<Rightarrow> if 3 < off then None
       else if 65535 < acc * 16 + d then None
       else hex_field cs (Suc off) (acc * 16 + d))"

text \<open>
  The body of the loop of \<open>parseIPv6\<close> on the rest of the text, the bytes so far and the position
  of the ellipsis; the flag says that the body leaves the loop.  The loop stops after sixteen
  bytes.
\<close>

type_synonym v6_state = "string \<times> byte list \<times> nat option"

definition v6_group :: "v6_state \<Rightarrow> (bool \<times> v6_state) option" where
  "v6_group st = (case st of (s, ip, ell) \<Rightarrow>
     (case hex_field s 0 0 of
        None \<Rightarrow> None
      | Some (off, acc, rest) \<Rightarrow>
          if off = 0 then None
          else if rest \<noteq> [] \<and> hd rest = CHR ''.'' then
            (if ell = None \<and> length ip \<noteq> 12 then None
             else if 16 < length ip + 4 then None
             else case parseIPv4Fields s of
               None \<Rightarrow> None
             | Some fs \<Rightarrow> Some (True, [], ip @ fs, ell))
          else
            let ip' = ip @ [of_nat (acc div 256), of_nat acc] in
            case rest of
              [] \<Rightarrow> Some (True, [], ip', ell)
            | [c] \<Rightarrow> None
            | c # c' # cs \<Rightarrow>
                if c \<noteq> CHR '':'' then None
                else if c' = CHR '':'' then
                  (if ell \<noteq> None then None
                   else Some (cs = [], cs, ip', Some (length ip')))
                else Some (False, c' # cs, ip', ell)))"

lemma v6_group_length:
  "v6_group (s, ip, ell) = Some (False, s', ip', ell') \<Longrightarrow> length ip' = length ip + 2"
  by (auto simp: v6_group_def Let_def split: option.splits if_splits list.splits)

function v6_loop :: "v6_state \<Rightarrow> v6_state option" where
  "v6_loop (s, ip, ell) =
     (if 16 \<le> length ip then Some (s, ip, ell)
      else case v6_group (s, ip, ell) of
        None \<Rightarrow> None
      | Some (stop, st) \<Rightarrow> if stop then Some st else v6_loop st)"
  by pat_completeness auto
termination
  by (relation "measure (\<lambda>(s, ip, ell). 16 - length ip)") (auto dest!: v6_group_length)

declare v6_loop.simps [simp del]

definition v6_finish :: "v6_state \<Rightarrow> byte list option" where
  "v6_finish r = (case r of (s, ip, ell) \<Rightarrow>
     if s \<noteq> [] then None
     else if length ip < 16 then
       (case ell of None \<Rightarrow> None
        | Some e \<Rightarrow> Some (take e ip @ replicate (16 - length ip) 0 @ drop e ip))
     else if ell \<noteq> None then None
     else Some ip)"

definition parseIPv6 :: "string \<Rightarrow> byte list option" where
  "parseIPv6 s =
     (if CHR ''%'' \<in> set s then None
      else case s of
        c # c' # cs \<Rightarrow>
          if c = CHR '':'' \<and> c' = CHR '':'' then
            (if cs = [] then Some (replicate 16 0)
             else Option.bind (v6_loop (cs, [], Some 0)) v6_finish)
          else Option.bind (v6_loop (s, [], None)) v6_finish
      | _ \<Rightarrow> Option.bind (v6_loop (s, [], None)) v6_finish)"

text \<open>\<open>netip.ParseAddr\<close>, as the length in bits and the bytes; \<open>As16\<close> maps an IPv4 address.\<close>

definition v4InV6Prefix :: "byte list" where
  "v4InV6Prefix = replicate 10 0 @ [255, 255]"

fun parse_addr_scan :: "string \<Rightarrow> string \<Rightarrow> (nat \<times> byte list) option" where
  "parse_addr_scan s [] = None"
| "parse_addr_scan s (c # cs) =
     (if c = CHR ''.'' then map_option (Pair 32) (parseIPv4Fields s)
      else if c = CHR '':'' then map_option (Pair 128) (parseIPv6 s)
      else if c = CHR ''%'' then None
      else parse_addr_scan s cs)"

definition ParseAddr :: "string \<Rightarrow> (nat \<times> byte list) option" where
  "ParseAddr s = parse_addr_scan s s"

definition As16 :: "nat \<times> byte list \<Rightarrow> byte list" where
  "As16 a = (if fst a = 32 then v4InV6Prefix @ snd a else snd a)"

definition ParseIP :: "string \<Rightarrow> byte list option" where
  "ParseIP s = map_option As16 (ParseAddr s)"

definition To4 :: "byte list \<Rightarrow> byte list option" where
  "To4 ip = (if length ip = 4 then Some ip
     else if length ip = 16 \<and> take 12 ip = v4InV6Prefix then Some (drop 12 ip)
     else None)"

definition IP_Equal :: "byte list \<Rightarrow> byte list \<Rightarrow> bool" where
  "IP_Equal ip x =
     (if length ip = length x then ip = x
      else if length ip = 4 \<and> length x = 16 then take 12 x = v4InV6Prefix \<and> ip = drop 12 x
      else if length ip = 16 \<and> length x = 4 then take 12 ip = v4InV6Prefix \<and> drop 12 ip = x
      else False)"

subsection \<open>Networks\<close>

record IPNet =
  net_IP :: "byte list"
  net_Mask :: "byte list"

definition byte_mask :: "nat \<Rightarrow> byte" where
  "byte_mask n = NOT (drop_bit n 255)"

fun cidr_bytes :: "nat \<Rightarrow> nat \<Rightarrow> byte list" where
  "cidr_bytes n 0 = []"
| "cidr_bytes n (Suc l) =
     (if 8 \<le> n then 255 # cidr_bytes (n - 8) l else byte_mask n # cidr_bytes 0 l)"

definition CIDRMask :: "nat \<Rightarrow> nat \<Rightarrow> byte list" where
  "CIDRMask ones bits = cidr_bytes ones (bits div 8)"

definition mask_bytes :: "byte list \<Rightarrow> byte list \<Rightarrow> byte list" where
  "mask_bytes ip m = map2 (\<lambda>x y. x AND y) ip m"

definition IP_Mask :: "byte list \<Rightarrow> byte list \<Rightarrow> byte list" where
  "IP_Mask ip m =
     (let m1 = (if length m = 16 \<and> length ip = 4 \<and> list_all (\<lambda>b. b = 255) (take 12 m)
                then drop 12 m else m);
          ip1 = (if length m1 = 4 \<and> length ip = 16 \<and> take 12 ip = v4InV6Prefix
                 then drop 12 ip else ip)
      in if length ip1 \<noteq> length m1 then [] else mask_bytes ip1 m1)"

text \<open>\<open>dtoi\<close>: the number, how much of the text it took; it fails from \<open>0xFFFFFF\<close> on.\<close>

fun dtoi_loop :: "string \<Rightarrow> nat \<Rightarrow> nat \<Rightarrow> (nat \<times> nat) option" where
  "dtoi_loop [] n i = (if i = 0 then None else Some (n, i))"
| "dtoi_loop (c # cs) n i = (case digit_val c of
     None \<Rightarrow> if i = 0 then None else Some (n, i)
   | Some d \<Rightarrow> if 16777215 \<le> n * 10 + d then None else dtoi_loop cs (n * 10 + d) (Suc i))"

definition ParseCIDR :: "string \<Rightarrow> (byte list \<times> IPNet) option" where
  "ParseCIDR s = (case Cut (CHR ''/'') s of
     None \<Rightarrow> None
   | Some (addr, m) \<Rightarrow> (case ParseAddr addr of
       None \<Rightarrow> None
     | Some a \<Rightarrow> (case dtoi_loop m 0 0 of
         None \<Rightarrow> None
       | Some (n, i) \<Rightarrow>
           if i \<noteq> length m \<or> fst a < n then None
           else let mk = CIDRMask n (fst a) in
             Some (As16 a, \<lparr>net_IP = IP_Mask (As16 a) mk, net_Mask = mk\<rparr>))))"

definition networkNumberAndMask :: "IPNet \<Rightarrow> (byte list \<times> byte list) option" where
  "networkNumberAndMask n =
     (let ip = (case To4 (net_IP n) of Some x \<Rightarrow> x | None \<Rightarrow> net_IP n);
          m = net_Mask n
      in if length ip \<noteq> 4 \<and> length ip \<noteq> 16 then None
         else if length m = 4 then (if length ip \<noteq> 4 then None else Some (ip, m))
         else if length m = 16 then Some (ip, if length ip = 4 then drop 12 m else m)
         else None)"

definition IPNet_Contains :: "IPNet \<Rightarrow> byte list \<Rightarrow> bool" where
  "IPNet_Contains n ip =
     (let (nn, m) = (case networkNumberAndMask n of None \<Rightarrow> ([], []) | Some p \<Rightarrow> p);
          ip1 = (case To4 ip of Some x \<Rightarrow> x | None \<Rightarrow> ip)
      in length ip1 = length nn \<and> mask_bytes nn m = mask_bytes ip1 m)"

subsection \<open>Lengths\<close>

lemma v4_loop_length: "v4_loop s p v d fs = Some r \<Longrightarrow> length fs \<le> 3 \<Longrightarrow> length r = 4"
  by (induction s p v d fs rule: v4_loop.induct) (auto split: option.splits if_splits)

lemma parseIPv4Fields_length: "parseIPv4Fields s = Some b \<Longrightarrow> length b = 4"
  by (auto simp: parseIPv4Fields_def dest: v4_loop_length)

fun v6_inv :: "v6_state \<Rightarrow> bool" where
  "v6_inv (s, ip, ell) \<longleftrightarrow> length ip \<le> 16 \<and> even (length ip) \<and> (\<forall>e. ell = Some e \<longrightarrow> e \<le> length ip)"

lemma even_below_16: "even n \<Longrightarrow> \<not> 16 \<le> n \<Longrightarrow> n + 2 \<le> (16 :: nat)"
  by presburger

lemma v6_group_inv:
  "v6_group st = Some (b, st') \<Longrightarrow> v6_inv st \<Longrightarrow> length (fst (snd st)) + 2 \<le> 16 \<Longrightarrow> v6_inv st'"
  by (cases st)
     (auto simp: v6_group_def Let_def split: option.splits if_splits list.splits
        dest!: parseIPv4Fields_length)

lemma v6_loop_inv: "v6_loop st = Some st' \<Longrightarrow> v6_inv st \<Longrightarrow> v6_inv st'"
proof (induction st rule: v6_loop.induct)
  case (1 s ip ell)
  show ?case
  proof (cases "16 \<le> length ip")
    case True
    with "1.prems" show ?thesis by (simp add: v6_loop.simps)
  next
    case False
    with "1.prems" obtain b st1 where g: "v6_group (s, ip, ell) = Some (b, st1)"
      by (subst (asm) v6_loop.simps) (auto split: option.splits)
    have inv: "v6_inv st1"
      using v6_group_inv [OF g "1.prems"(2)] False "1.prems"(2) even_below_16 by simp
    show ?thesis
    proof (cases b)
      case True
      with False g inv "1.prems"(1) show ?thesis by (simp add: v6_loop.simps)
    next
      case nb: False
      then have "v6_loop st1 = Some st'"
        using False g "1.prems"(1) by (simp add: v6_loop.simps [of s ip ell])
      then show ?thesis using "1.IH" [OF False g refl] nb inv by simp
    qed
  qed
qed

lemma v6_finish_length: "v6_finish st = Some b \<Longrightarrow> v6_inv st \<Longrightarrow> length b = 16"
  by (cases st) (auto simp: v6_finish_def split: if_splits option.splits)

lemma v6_run_length: "Option.bind (v6_loop (s, [], e)) v6_finish = Some b \<Longrightarrow>
   e = None \<or> e = Some 0 \<Longrightarrow> length b = 16"
  by (auto simp: bind_eq_Some_conv dest!: v6_loop_inv v6_finish_length)

lemma parseIPv6_length: "parseIPv6 s = Some b \<Longrightarrow> length b = 16"
  by (auto simp: parseIPv6_def split: if_splits list.splits intro: v6_run_length)

lemma ParseAddr_length: "ParseAddr s = Some (n, b) \<Longrightarrow> n = 32 \<and> length b = 4 \<or> n = 128 \<and> length b = 16"
proof -
  have "parse_addr_scan s t = Some (n, b) \<Longrightarrow> n = 32 \<and> length b = 4 \<or> n = 128 \<and> length b = 16" for t
    by (induction t) (auto split: if_splits dest: parseIPv4Fields_length parseIPv6_length)
  then show "ParseAddr s = Some (n, b) \<Longrightarrow> ?thesis" unfolding ParseAddr_def .
qed

lemma length_v4InV6Prefix [simp]: "length v4InV6Prefix = 12"
  by (simp add: v4InV6Prefix_def)

lemma ParseIP_length: "ParseIP s = Some ip \<Longrightarrow> length ip = 16"
proof -
  assume "ParseIP s = Some ip"
  then obtain n b where "ParseAddr s = Some (n, b)" "ip = As16 (n, b)"
    by (auto simp: ParseIP_def)
  then show ?thesis using ParseAddr_length [of s n b] by (auto simp: As16_def)
qed

subsection \<open>Prefixes of bits\<close>

definition bits8 :: "byte \<Rightarrow> bool list" where
  "bits8 w = [bit w 7, bit w 6, bit w 5, bit w 4, bit w 3, bit w 2, bit w 1, bit w 0]"

definition bits :: "byte list \<Rightarrow> bool list" where
  "bits bs = concat (map bits8 bs)"

lemma bits_simps [simp]: "bits [] = []" "bits (b # bs) = bits8 b @ bits bs" "length (bits8 b) = 8"
  by (simp_all add: bits_def bits8_def)

lemma bits_append: "bits (a @ b) = bits a @ bits b"
  by (simp add: bits_def)

lemma length_bits [simp]: "length (bits bs) = 8 * length bs"
  by (induction bs) auto

lemma nat_lt_8: "n < 8 \<longleftrightarrow> n = 0 \<or> n = 1 \<or> n = 2 \<or> n = 3 \<or> n = 4 \<or> n = 5 \<or> n = 6 \<or> n = (7 :: nat)"
  by arith

lemma nat_below_8: "(\<forall>i<8. P i) \<longleftrightarrow> P 0 \<and> P 1 \<and> P 2 \<and> P 3 \<and> P 4 \<and> P 5 \<and> P 6 \<and> P (7::nat)"
  unfolding nat_lt_8 by blast

lemma byte_eq_iff: "a = b \<longleftrightarrow> (\<forall>i<8. bit a i = bit b i)" for a b :: byte
  by (auto intro: bit_word_eqI)

lemma bits8_inject: "bits8 a = bits8 b \<longleftrightarrow> a = b"
  unfolding byte_eq_iff nat_below_8 bits8_def by auto

lemma bit_byte_mask: "i < 8 \<Longrightarrow> bit (byte_mask n) i \<longleftrightarrow> 8 \<le> n + i"
proof -
  have m: "(255 :: byte) = mask 8" by (simp add: mask_eq_exp_minus_1)
  show "i < 8 \<Longrightarrow> ?thesis" unfolding byte_mask_def m by (auto simp: bit_simps)
qed

lemma and_byte_mask: "a AND byte_mask n = b AND byte_mask n \<longleftrightarrow> (\<forall>i<8. 8 \<le> n + i \<longrightarrow> bit a i = bit b i)"
  for a b :: byte
  unfolding byte_eq_iff by (auto simp: bit_and_iff bit_byte_mask)

lemma byte_mask_eq:
  assumes "n < 8"
  shows "a AND byte_mask n = b AND byte_mask n \<longleftrightarrow> take n (bits8 a) = take n (bits8 b)"
  using nat_lt_8 [THEN iffD1, OF assms] unfolding and_byte_mask nat_below_8 bits8_def
  by (elim disjE) auto

lemma cidr_bytes_length [simp]: "length (cidr_bytes n l) = l"
  by (induction n l rule: cidr_bytes.induct) auto

lemma byte_and_const [simp]: "(y :: byte) AND 255 = y" "(y :: byte) AND - 256 = 0"
proof -
  have "(255 :: byte) = - 1" "(- 256 :: byte) = 0" by simp_all
  then show "y AND 255 = y" "y AND - 256 = 0" by (metis and.right_neutral, metis and_zero_eq)
qed

lemma cidr_bytes_zero: "length xs = l \<Longrightarrow> mask_bytes xs (cidr_bytes 0 l) = replicate l 0"
proof (induction l arbitrary: xs)
  case 0
  then show ?case by (simp add: mask_bytes_def)
next
  case (Suc l)
  then obtain y ys where "xs = y # ys" "length ys = l" by (cases xs) auto
  with Suc.IH [of ys] show ?case by (simp add: mask_bytes_def byte_mask_def)
qed

lemma mask_bytes_prefix:
  assumes "length xs = l" "length ys = l" "n \<le> 8 * l"
  shows "mask_bytes xs (cidr_bytes n l) = mask_bytes ys (cidr_bytes n l)
    \<longleftrightarrow> take n (bits xs) = take n (bits ys)"
  using assms
proof (induction l arbitrary: n xs ys)
  case 0
  then show ?case by simp
next
  case (Suc l)
  then obtain x xs' y ys' where xy: "xs = x # xs'" "length xs' = l" "ys = y # ys'" "length ys' = l"
    by (metis length_Suc_conv)
  show ?case
  proof (cases "8 \<le> n")
    case True
    with Suc.IH [of xs' ys' "n - 8"] Suc.prems xy show ?thesis
      by (simp add: mask_bytes_def bits8_inject)
  next
    case False
    with cidr_bytes_zero [of xs' l] cidr_bytes_zero [of ys' l] xy byte_mask_eq [of n x y]
    show ?thesis by (simp add: mask_bytes_def)
  qed
qed

subsection \<open>What \<open>Contains\<close> decides\<close>

lemma mask_bytes_length [simp]: "length (mask_bytes x m) = min (length x) (length m)"
  by (simp add: mask_bytes_def)

lemma mask_bytes_idem: "mask_bytes (mask_bytes x m) m = mask_bytes x m"
  by (induction x m rule: list_induct2') (simp_all add: mask_bytes_def and.assoc)

lemma mask_bytes_append: "length x = length m \<Longrightarrow>
   mask_bytes (x @ y) (m @ n) = mask_bytes x m @ mask_bytes y n"
  by (simp add: mask_bytes_def)

lemma mask_bytes_split: "length x = length m \<Longrightarrow>
   mask_bytes x m = mask_bytes (take k x) (take k m) @ mask_bytes (drop k x) (drop k m)"
  by (metis append_take_drop_id length_take mask_bytes_append)

lemma take_mask_bytes:
  "8 * i \<le> n \<Longrightarrow> i \<le> l \<Longrightarrow> length xs = l \<Longrightarrow> take i (mask_bytes xs (cidr_bytes n l)) = take i xs"
proof (induction l arbitrary: i n xs)
  case 0
  then show ?case by (simp add: mask_bytes_def)
next
  case (Suc l)
  show ?case
  proof (cases i)
    case 0
    then show ?thesis by simp
  next
    case (Suc j)
    with Suc.prems obtain y ys where "xs = y # ys" "length ys = l" by (cases xs) auto
    with Suc Suc.prems Suc.IH [of j "n - 8" ys] show ?thesis by (simp add: mask_bytes_def)
  qed
qed

lemma bit0_cidr_bytes: "i < l \<Longrightarrow> bit (cidr_bytes n l ! i) 0 \<longleftrightarrow> 8 * Suc i \<le> n"
proof (induction l arbitrary: i n)
  case 0
  then show ?case by simp
next
  case (Suc l)
  have "bit (255 :: byte) 0" by simp
  with Suc show ?case
    by (cases i) (auto simp: bit_byte_mask)
qed

definition v4mapped :: "byte list \<Rightarrow> bool" where
  "v4mapped ip \<longleftrightarrow> take 12 ip = v4InV6Prefix"

lemma To4_16: "length ip = 16 \<Longrightarrow> To4 ip = (if v4mapped ip then Some (drop 12 ip) else None)"
  by (simp add: To4_def v4mapped_def)

lemma v4mapped_As16 [simp]: "v4mapped (v4InV6Prefix @ a)"
  by (simp add: v4mapped_def)

lemma v4InV6Prefix_nth: "v4InV6Prefix ! 11 = 255"
  by (simp add: v4InV6Prefix_def nth_append)

lemma masked_not_v4mapped:
  assumes "n < 96" "length a = 16"
  shows "\<not> v4mapped (mask_bytes a (cidr_bytes n 16))"
proof
  assume "v4mapped (mask_bytes a (cidr_bytes n 16))"
  then have "mask_bytes a (cidr_bytes n 16) ! 11 = 255"
    unfolding v4mapped_def by (metis nth_take v4InV6Prefix_nth eval_nat_numeral(3) less_Suc_eq numeral_eq_Suc pred_numeral_simps(2) semiring_norm(26) semiring_norm(27) semiring_norm(28))
  then have "bit (a ! 11 AND cidr_bytes n 16 ! 11) 0"
    using assms by (simp add: mask_bytes_def)
  then have "bit (cidr_bytes n 16 ! 11) 0" by (simp add: bit_and_iff)
  with bit0_cidr_bytes [of 11 16 n] assms show False by simp
qed

lemma v4mapped_bits: "length ip = 16 \<Longrightarrow> v4mapped ip \<longleftrightarrow> take 96 (bits ip) = bits v4InV6Prefix"
proof -
  assume l: "length ip = 16"
  have inj: "length u = length v \<Longrightarrow> bits u = bits v \<longleftrightarrow> u = v" for u v
    by (induction u v rule: list_induct2) (simp_all add: bits8_inject)
  have "take 96 (bits ip) = take 96 (bits (take 12 ip) @ bits (drop 12 ip))"
    by (simp flip: bits_append)
  also have "\<dots> = bits (take 12 ip)" using l by simp
  finally show ?thesis using l inj [of "take 12 ip" v4InV6Prefix] by (simp add: v4mapped_def)
qed

text \<open>Two addresses share the first \<open>n\<close> bits.\<close>

definition same_prefix :: "nat \<Rightarrow> byte list \<Rightarrow> byte list \<Rightarrow> bool" where
  "same_prefix n a x \<longleftrightarrow> take n (bits a) = take n (bits x)"

lemma same_prefix_v4mapped:
  assumes "same_prefix n a x" "96 \<le> n" "length a = 16" "length x = 16"
  shows "v4mapped a \<longleftrightarrow> v4mapped x"
proof -
  have "take 96 (take n (bits a)) = take 96 (take n (bits x))"
    using assms(1) by (simp add: same_prefix_def)
  then show ?thesis using assms by (simp add: v4mapped_bits min_def)
qed

text \<open>The network that \<open>ParseCIDR\<close> builds from an address and a prefix length.\<close>

definition cidr_net :: "nat \<times> byte list \<Rightarrow> nat \<Rightarrow> IPNet" where
  "cidr_net a n = \<lparr>net_IP = IP_Mask (As16 a) (CIDRMask n (fst a)), net_Mask = CIDRMask n (fst a)\<rparr>"

lemma mask_eq_tail:
  assumes "length u = 16" "length v = 16" "length m = 16" "take 12 u = take 12 v"
  shows "mask_bytes (drop 12 u) (drop 12 m) = mask_bytes (drop 12 v) (drop 12 m)
    \<longleftrightarrow> mask_bytes u m = mask_bytes v m"
  using mask_bytes_split [of u m 12] mask_bytes_split [of v m 12] assms by simp

lemma Contains_v6:
  assumes "length a = 16" "n \<le> 128" "length x = 16"
  shows "IPNet_Contains (cidr_net (128, a) n) x
    \<longleftrightarrow> same_prefix n a x \<and> (n < 96 \<longrightarrow> \<not> v4mapped x)"
proof -
  let ?mk = "cidr_bytes n 16" and ?u = "mask_bytes a (cidr_bytes n 16)"
  have net: "cidr_net (128, a) n = \<lparr>net_IP = ?u, net_Mask = ?mk\<rparr>"
    using assms by (simp add: cidr_net_def As16_def CIDRMask_def IP_Mask_def)
  have prefix: "mask_bytes ?u ?mk = mask_bytes x ?mk \<longleftrightarrow> same_prefix n a x"
    using mask_bytes_prefix [of a 16 x n] assms by (simp add: mask_bytes_idem same_prefix_def)
  have mapped: "v4mapped ?u \<longleftrightarrow> 96 \<le> n \<and> v4mapped a"
  proof (cases "96 \<le> n")
    case True
    with take_mask_bytes [of 12 n 16 a] assms show ?thesis by (simp add: v4mapped_def)
  next
    case False
    with masked_not_v4mapped assms show ?thesis by simp
  qed
  have lens: "length ?u = 16" using assms by simp
  show ?thesis
  proof (cases "v4mapped ?u"; cases "v4mapped x")
    assume m: "v4mapped ?u" "v4mapped x"
    then have "mask_bytes (drop 12 ?u) (drop 12 ?mk) = mask_bytes (drop 12 x) (drop 12 ?mk)
        \<longleftrightarrow> same_prefix n a x"
      using mask_eq_tail [of ?u x ?mk] assms prefix by (simp add: v4mapped_def)
    with m mapped assms lens show ?thesis
      by (simp add: net IPNet_Contains_def networkNumberAndMask_def To4_16 Let_def)
  next
    assume m: "v4mapped ?u" "\<not> v4mapped x"
    with mapped same_prefix_v4mapped [of n a x] assms lens show ?thesis
      by (auto simp add: net IPNet_Contains_def networkNumberAndMask_def To4_16 Let_def)
  next
    assume m: "\<not> v4mapped ?u" "v4mapped x"
    then have "\<not> (same_prefix n a x \<and> 96 \<le> n)"
      using mapped same_prefix_v4mapped [of n a x] assms by blast
    with m assms lens show ?thesis
      by (auto simp add: not_less net IPNet_Contains_def networkNumberAndMask_def To4_16 Let_def)
  next
    assume m: "\<not> v4mapped ?u" "\<not> v4mapped x"
    with prefix assms lens show ?thesis
      by (simp add: net IPNet_Contains_def networkNumberAndMask_def To4_16 Let_def)
  qed
qed

lemma Contains_v4:
  assumes "length a = 4" "n \<le> 32" "length x = 16"
  shows "IPNet_Contains (cidr_net (32, a) n) x \<longleftrightarrow> same_prefix (96 + n) (v4InV6Prefix @ a) x"
proof -
  let ?mk = "cidr_bytes n 4" and ?u = "mask_bytes a (cidr_bytes n 4)"
  have net: "cidr_net (32, a) n = \<lparr>net_IP = ?u, net_Mask = ?mk\<rparr>"
    using assms by (simp add: cidr_net_def As16_def CIDRMask_def IP_Mask_def)
  have prefix: "length y = 4 \<Longrightarrow> mask_bytes ?u ?mk = mask_bytes y ?mk \<longleftrightarrow> same_prefix n a y" for y
    using mask_bytes_prefix [of a 4 y n] assms by (simp add: mask_bytes_idem same_prefix_def)
  have mapped: "same_prefix (96 + n) (v4InV6Prefix @ a) x \<longleftrightarrow> v4mapped x \<and> same_prefix n a (drop 12 x)"
  proof (cases "v4mapped x")
    case True
    then have "bits x = bits v4InV6Prefix @ bits (drop 12 x)"
      by (metis append_take_drop_id bits_append v4mapped_def)
    with True show ?thesis by (simp add: same_prefix_def bits_append)
  next
    case False
    with same_prefix_v4mapped [of "96 + n" "v4InV6Prefix @ a" x] assms show ?thesis by auto
  qed
  have "To4 ?u = Some ?u" using assms by (simp add: To4_def)
  with mapped prefix [of "drop 12 x"] assms show ?thesis
    by (simp add: net IPNet_Contains_def networkNumberAndMask_def To4_16 Let_def)
qed


subsection \<open>IPv4 texts\<close>

definition show_v4 :: "nat list \<Rightarrow> string" where
  "show_v4 os = fmt_nat (os ! 0) @ ''.'' @ fmt_nat (os ! 1) @ ''.'' @ fmt_nat (os ! 2) @ ''.'' @ fmt_nat (os ! 3)"

lemma digit_val_digit [simp]: "d < 10 \<Longrightarrow> digit_val (digit d) = Some d"
proof -
  have all: "\<forall>d \<in> {0, 1, 2, 3, 4, 5, 6, 7, 8, 9 :: nat}. digit_val (digit d) = Some d"
    by (simp add: digit_val_def digit_def Let_def)
  show "d < 10 \<Longrightarrow> ?thesis" using all digit_upt by blast
qed

lemma digit_neq_sep [simp]: "d < 10 \<Longrightarrow> digit d \<noteq> CHR ''.''" "d < 10 \<Longrightarrow> digit d \<noteq> CHR ''/''"
proof -
  have all: "\<forall>d \<in> {0, 1, 2, 3, 4, 5, 6, 7, 8, 9 :: nat}. digit d \<noteq> CHR ''.'' \<and> digit d \<noteq> CHR ''/''"
    by (simp add: digit_def)
  then show "d < 10 \<Longrightarrow> digit d \<noteq> CHR ''.''" "d < 10 \<Longrightarrow> digit d \<noteq> CHR ''/''"
    using digit_upt by blast+
qed

lemma dot_val [simp]: "digit_val (CHR ''.'') = None" "digit_val (CHR ''/'') = None"
  by (simp_all add: digit_val_def)

text \<open>An octet below 256 has at most three digits and no leading zero, so the loop reads it back.\<close>

lemma fmt_nat_octet:
  assumes "n < 256"
  obtains "n < 10" "fmt_nat n = [digit n]"
  | "10 \<le> n" "n < 100" "fmt_nat n = [digit (n div 10), digit (n mod 10)]"
  | "100 \<le> n" "fmt_nat n = [digit (n div 100), digit (n div 10 mod 10), digit (n mod 10)]"
proof -
  consider "n < 10" | "10 \<le> n" "n < 100" | "100 \<le> n" by linarith
  then show thesis
  proof cases
    case 1
    with that(1) show ?thesis by simp
  next
    case 2
    then have "fmt_nat n = [digit (n div 10), digit (n mod 10)]"
      by (subst fmt_nat.simps) simp
    with 2 that(2) show ?thesis by blast
  next
    case 3
    have "n div 10 div 10 = n div 100" by (simp add: div_mult2_eq [symmetric])
    with 3 assms have "fmt_nat n = [digit (n div 100), digit (n div 10 mod 10), digit (n mod 10)]"
      by (subst fmt_nat.simps, subst fmt_nat.simps) simp
    with 3 that(3) show ?thesis by blast
  qed
qed

lemma v4_loop_octet:
  assumes "n < 256"
  obtains c d where "v4_loop (fmt_nat n @ s) p 0 0 fs = v4_loop s (Some c) n (Suc d) fs"
    "c \<noteq> CHR ''.''"
  using assms
proof (cases rule: fmt_nat_octet)
  case 1
  with that show ?thesis by (fastforce simp: that)
next
  case 2
  then have "0 < n div 10" "n div 10 < 10" by auto
  with 2 have "v4_loop (fmt_nat n @ s) p 0 0 fs = v4_loop s (Some (digit (n mod 10))) n (Suc 1) fs"
    by simp
  then show ?thesis by (rule that) simp
next
  case 3
  have a: "n div 100 * 10 + n div 10 mod 10 = n div 10"
    using div_mult_mod_eq [of "n div 10" 10] by (simp add: div_mult2_eq [symmetric])
  have b: "n div 10 * 10 + n mod 10 = n" by simp
  from 3 assms have "0 < n div 100" "n div 100 < 10" "n div 10 \<le> 255" by auto
  with 3 a b assms have "v4_loop (fmt_nat n @ s) p 0 0 fs = v4_loop s (Some (digit (n mod 10))) n (Suc (Suc (Suc 0))) fs"
    by simp
  then show ?thesis by (rule that) simp
qed

lemma parseIPv4Fields_show:
  assumes "length os = 4" "\<forall>k \<in> set os. k < 256"
  shows "parseIPv4Fields (show_v4 os) = Some (map of_nat os)"
proof -
  obtain a b c d where os: "os = [a, b, c, d]"
    using assms(1) by (auto simp: length_Suc_conv eval_nat_numeral)
  let ?rd = "fmt_nat d" and ?rc = "fmt_nat c @ CHR ''.'' # fmt_nat d"
  have ne: "fmt_nat k \<noteq> []" for k by simp
  from assms os have lt: "a < 256" "b < 256" "c < 256" "d < 256" by auto
  have d: "v4_loop (fmt_nat d) p 0 0 [a, b, c] = Some [a, b, c, d]" for p
    by (rule v4_loop_octet [OF lt(4), of "[]" p "[a, b, c]"]) simp
  have c: "v4_loop ?rc p 0 0 [a, b] = Some [a, b, c, d]" for p
    by (rule v4_loop_octet [OF lt(3), of "CHR ''.'' # ?rd" p "[a, b]"]) (simp add: d)
  have b: "v4_loop (fmt_nat b @ CHR ''.'' # ?rc) p 0 0 [a] = Some [a, b, c, d]" for p
    by (rule v4_loop_octet [OF lt(2), of "CHR ''.'' # ?rc" p "[a]"]) (simp add: c)
  have "v4_loop (fmt_nat a @ CHR ''.'' # fmt_nat b @ CHR ''.'' # ?rc) None 0 0 [] = Some [a, b, c, d]"
    by (rule v4_loop_octet [OF lt(1), of "CHR ''.'' # fmt_nat b @ CHR ''.'' # ?rc" None "[]"]) (simp add: b)
  then show ?thesis by (simp add: parseIPv4Fields_def show_v4_def os)
qed

lemma fmt_nat_no_sep: "CHR ''.'' \<notin> set (fmt_nat n)" "CHR '':'' \<notin> set (fmt_nat n)"
  "CHR ''%'' \<notin> set (fmt_nat n)" "CHR ''/'' \<notin> set (fmt_nat n)"
  using fmt_nat_digits [of _ n] by (auto simp: is_digit_def)

lemma scan_skip:
  "CHR ''.'' \<notin> set u \<Longrightarrow> CHR '':'' \<notin> set u \<Longrightarrow> CHR ''%'' \<notin> set u \<Longrightarrow>
   parse_addr_scan s (u @ t) = parse_addr_scan s t"
  by (induction u) auto

lemma ParseAddr_show_v4:
  assumes "length os = 4" "\<forall>k \<in> set os. k < 256"
  shows "ParseAddr (show_v4 os) = Some (32, map of_nat os)"
proof -
  have "ParseAddr (show_v4 os) = map_option (Pair 32) (parseIPv4Fields (show_v4 os))"
    unfolding ParseAddr_def show_v4_def by (simp add: scan_skip fmt_nat_no_sep)
  then show ?thesis by (simp add: parseIPv4Fields_show [OF assms])
qed

lemma dtoi_loop_digit: "d < 10 \<Longrightarrow> n * 10 + d < 16777215 \<Longrightarrow>
  dtoi_loop (digit d # s) n i = dtoi_loop s (n * 10 + d) (Suc i)"
  by simp

lemma dtoi_fmt_octet:
  assumes "n < 256" shows "dtoi_loop (fmt_nat n) 0 0 = Some (n, length (fmt_nat n))"
  using assms
proof (cases rule: fmt_nat_octet)
  case 1
  then show ?thesis by simp
next
  case 2
  then show ?thesis by simp
next
  case 3
  have a: "n div 100 * 10 + n div 10 mod 10 = n div 10"
    using div_mult_mod_eq [of "n div 10" 10] by (simp add: div_mult2_eq [symmetric])
  have b: "n div 10 * 10 + n mod 10 = n" by simp
  from 3 assms have "n div 100 < 10" "n div 10 \<le> 255" by auto
  with 3 a b assms show ?thesis by simp
qed

lemma show_v4_no_slash: "CHR ''/'' \<notin> set (show_v4 os)"
  by (simp add: show_v4_def fmt_nat_no_sep)

lemma ParseCIDR_show_v4:
  assumes "length os = 4" "\<forall>k \<in> set os. k < 256" "n \<le> 32"
  shows "ParseCIDR (show_v4 os @ ''/'' @ fmt_nat n)
    = Some (v4InV6Prefix @ map of_nat os, cidr_net (32, map of_nat os) n)"
  using assms ParseAddr_show_v4 [OF assms(1,2)] dtoi_fmt_octet [of n]
  by (simp add: ParseCIDR_def Cut_append show_v4_no_slash cidr_net_def As16_def Let_def)

lemma ParseCIDR_no_slash: "CHR ''/'' \<notin> set s \<Longrightarrow> ParseCIDR s = None"
  by (simp add: ParseCIDR_def Cut_None)

lemma ParseCIDR_net:
  assumes "ParseCIDR s = Some (ip, net)"
  obtains addr a n m where "s = addr @ CHR ''/'' # m" "ParseAddr addr = Some a"
    "n \<le> fst a" "net = cidr_net a n" "ip = As16 a"
proof -
  from assms obtain addr m where c: "Cut (CHR ''/'') s = Some (addr, m)"
    by (auto simp: ParseCIDR_def split: option.splits)
  with assms obtain a where a: "ParseAddr addr = Some a"
    by (auto simp: ParseCIDR_def split: option.splits)
  from c a assms obtain n i where d: "dtoi_loop m 0 0 = Some (n, i)"
    by (auto simp: ParseCIDR_def split: option.splits)
  from assms have "n \<le> fst a \<and> net = cidr_net a n \<and> ip = As16 a"
    by (auto simp add: ParseCIDR_def c a d cidr_net_def Let_def not_less split: if_splits)
  with Cut_Some [OF c] a that show thesis by blast
qed

end
