(* ===== verification/Whitelist.thy ===== *)
theory Whitelist
  imports AuditLog NetIP
begin

text \<open>
  Package \<open>internal/whitelist\<close> (manager.go): the manager of the IP whitelist and blacklist, with its
  copy in Traefik's dynamic configuration.  An operation takes the manager and the world and
  returns its result, the new manager and the new world; the mutex makes each call one step, which
  WhitelistThreads shows.  The
  YAML library and the rendering of a time in the machine's zone are parameters (\<open>yaml_ops\<close>).
\<close>

record IPEntry =
  ip_IP :: string
  ip_Description :: string
  ip_AddedAt :: time
  ip_AddedBy :: string
  ip_ExpiresAt :: "time option"

record wl_Manager =
  wm_whitelist :: "IPEntry list"
  wm_blacklist :: "IPEntry list"
  wm_traefikConfigPath :: string
  wm_audit :: "AuditLogger option"

record wl_Config =
  wc_TraefikConfigPath :: string
  wc_AuditLogger :: "AuditLogger option"

text \<open>The source ranges of each middleware, by name.\<close>

record TraefikDynamicConfig =
  td_Middlewares :: "string \<rightharpoonup> string list"

record yaml_ops =
  yaml_Marshal :: "TraefikDynamicConfig \<Rightarrow> string result"
  yaml_Unmarshal :: "string \<Rightarrow> TraefikDynamicConfig result"
  time_Format :: "time \<Rightarrow> string"

definition middleware_name :: string where
  "middleware_name = ''dynamic-ipwhitelist''"

subsection \<open>Validation and matching\<close>

definition validateIPOrCIDR :: "string \<Rightarrow> go_error option" where
  "validateIPOrCIDR s =
     (if ParseCIDR s \<noteq> None then None
      else if ParseIP s = None then Some (NewErr ''invalid IP address or CIDR range'')
      else None)"

definition ipMatches :: "byte list \<Rightarrow> string \<Rightarrow> bool" where
  "ipMatches ip pattern = (case ParseCIDR pattern of
     Some (_, ipNet) \<Rightarrow> IPNet_Contains ipNet ip
   | None \<Rightarrow> (case ParseIP pattern of Some patternIP \<Rightarrow> IP_Equal ip patternIP | None \<Rightarrow> False))"

text \<open>\<open>entry.ExpiresAt != nil && time.Now().After(*entry.ExpiresAt)\<close>: the clock is read only when
  there is an expiry.\<close>

definition expired_now :: "IPEntry \<Rightarrow> 'z world_scheme \<Rightarrow> bool \<times> 'z world_scheme" where
  "expired_now e w = (case ip_ExpiresAt e of
     None \<Rightarrow> (False, w)
   | Some t \<Rightarrow> (let (now, w1) = time_Now w in (After now t, w1)))"

fun allowed_loop :: "byte list \<Rightarrow> IPEntry list \<Rightarrow> 'z world_scheme \<Rightarrow> bool \<times> 'z world_scheme" where
  "allowed_loop ip [] w = (False, w)"
| "allowed_loop ip (e # es) w = (let (ex, w1) = expired_now e w in
     if ex then allowed_loop ip es w1
     else if ipMatches ip (ip_IP e) then (True, w1)
     else allowed_loop ip es w1)"

definition IsAllowed :: "wl_Manager \<Rightarrow> string \<Rightarrow> 'z world_scheme \<Rightarrow> bool \<times> 'z world_scheme" where
  "IsAllowed m ip w = (case ParseIP ip of
     None \<Rightarrow> (False, w)
   | Some parsedIP \<Rightarrow>
       if list_ex (\<lambda>e. ipMatches parsedIP (ip_IP e)) (wm_blacklist m) then (False, w)
       else allowed_loop parsedIP (wm_whitelist m) w)"

subsection \<open>Traefik's configuration file\<close>

fun source_range :: "IPEntry list \<Rightarrow> 'z world_scheme \<Rightarrow> string list \<times> 'z world_scheme" where
  "source_range [] w = ([], w)"
| "source_range (e # es) w = (let (ex, w1) = expired_now e w; (r, w2) = source_range es w1 in
     (if ex then r else ip_IP e # r, w2))"

definition config_header :: "yaml_ops \<Rightarrow> time \<Rightarrow> string" where
  "config_header y now =
     ''# Traefik Dynamic Configuration - IP Whitelist'' @ [CHR 0x0A] @
     ''# Managed by Integration Gateway'' @ [CHR 0x0A] @
     ''# Last updated: '' @ time_Format y now @ [CHR 0x0A, CHR 0x0A]"

definition whitelist_config :: "string list \<Rightarrow> TraefikDynamicConfig" where
  "whitelist_config r = \<lparr>td_Middlewares = [middleware_name \<mapsto> r]\<rparr>"

definition updateTraefikConfig ::
  "yaml_ops \<Rightarrow> wl_Manager \<Rightarrow> 'z world_scheme \<Rightarrow> go_error option \<times> 'z world_scheme" where
  "updateTraefikConfig y m w =
     (let (r, w1) = source_range (wm_whitelist m) w in
      case yaml_Marshal y (whitelist_config r) of
        Inl e \<Rightarrow> (Some (WrapErr ''failed to marshal config'' e), w1)
      | Inr yamlData \<Rightarrow>
          let (now, w2) = time_Now w1;
              (err, w3) = os_WriteFile (wm_traefikConfigPath m) (config_header y now @ yamlData) w2
          in case err of
               Some e \<Rightarrow> (Some (WrapErr ''failed to write config file'' e), w3)
             | None \<Rightarrow> (None, w3))"

fun load_entries :: "string list \<Rightarrow> 'z world_scheme \<Rightarrow> IPEntry list \<times> 'z world_scheme" where
  "load_entries [] w = ([], w)"
| "load_entries (ip # ips) w = (let (now, w1) = time_Now w; (es, w2) = load_entries ips w1 in
     (\<lparr>ip_IP = ip, ip_Description = ''Existing from Traefik config'', ip_AddedAt = now,
       ip_AddedBy = ''system'', ip_ExpiresAt = None\<rparr> # es, w2))"

definition loadFromTraefikConfig ::
  "yaml_ops \<Rightarrow> wl_Manager \<Rightarrow> 'z world_scheme \<Rightarrow> go_error option \<times> wl_Manager \<times> 'z world_scheme" where
  "loadFromTraefikConfig y m w = (let (rd, w1) = os_ReadFile (wm_traefikConfigPath m) w in
     case rd of
       NotExist \<Rightarrow> (None, m, w1)
     | ReadErr e \<Rightarrow> (Some (WrapErr ''failed to read Traefik config'' e), m, w1)
     | ReadOk data \<Rightarrow> (case yaml_Unmarshal y data of
         Inl e \<Rightarrow> (Some (WrapErr ''failed to parse Traefik config'' e), m, w1)
       | Inr config \<Rightarrow> (case td_Middlewares config middleware_name of
           None \<Rightarrow> (None, m, w1)
         | Some sourceRange \<Rightarrow> (let (es, w2) = load_entries sourceRange w1 in
             (None, m\<lparr>wm_whitelist := wm_whitelist m @ es\<rparr>, w2)))))"

definition wl_NewManager ::
  "yaml_ops \<Rightarrow> wl_Config \<Rightarrow> 'z world_scheme \<Rightarrow> wl_Manager result \<times> 'z world_scheme" where
  "wl_NewManager y cfg w =
     (let m = \<lparr>wm_whitelist = [], wm_blacklist = [],
               wm_traefikConfigPath = wc_TraefikConfigPath cfg, wm_audit = wc_AuditLogger cfg\<rparr>;
          (err, m1, w1) = loadFromTraefikConfig y m w
      in case err of
           Some e \<Rightarrow> (Inl (WrapErr ''failed to load whitelist'' e), w1)
         | None \<Rightarrow> (Inr m1, w1))"

subsection \<open>Operations\<close>

text \<open>The audit record that the operations write; the clock is read when there is a logger.\<close>

definition audit_action ::
  "wl_Manager \<Rightarrow> string \<Rightarrow> string \<Rightarrow> string \<Rightarrow> (string \<times> string) list \<Rightarrow>
    'z aworld_scheme \<Rightarrow> 'z aworld_scheme" where
  "audit_action m action actor resource details w = (case wm_audit m of
     None \<Rightarrow> w
   | Some a \<Rightarrow> (let (now, w1) = time_Now w in
       LogEvent a (zero_event\<lparr>ev_Timestamp := now, ev_Action := action, ev_Actor := actor,
         ev_Resource := resource, ev_Success := True, ev_Details := details\<rparr>) w1))"

type_synonym 'z wl_state = "wl_Manager \<times> 'z aworld_scheme"

definition AddToWhitelist :: "yaml_ops \<Rightarrow> string \<Rightarrow> string \<Rightarrow> string \<Rightarrow> time option \<Rightarrow>
    'z wl_state \<Rightarrow> go_error option \<times> 'z wl_state" where
  "AddToWhitelist y ip description addedBy expiresAt s = (case s of (m, w) \<Rightarrow>
     (case validateIPOrCIDR ip of
        Some e \<Rightarrow> (Some (WrapErr ''invalid IP or CIDR'' e), m, w)
      | None \<Rightarrow>
          if list_ex (\<lambda>e. ip_IP e = ip) (wm_whitelist m)
          then (Some (NewErr (''IP '' @ ip @ '' already in whitelist'')), m, w)
          else
            let (now, w1) = time_Now w;
                entry = \<lparr>ip_IP = ip, ip_Description = description, ip_AddedAt = now,
                         ip_AddedBy = addedBy, ip_ExpiresAt = expiresAt\<rparr>;
                m1 = m\<lparr>wm_whitelist := wm_whitelist m @ [entry]\<rparr>;
                (err, w2) = updateTraefikConfig y m1 w1
            in case err of
                 Some e \<Rightarrow>
                   (Some (WrapErr ''failed to update Traefik config'' e),
                    m1\<lparr>wm_whitelist := take (length (wm_whitelist m1) - 1) (wm_whitelist m1)\<rparr>, w2)
               | None \<Rightarrow>
                   (None, m1, audit_action m1 ''whitelist_add'' addedBy ip
                      [(''description'', description)] w2)))"

definition RemoveFromWhitelist :: "yaml_ops \<Rightarrow> string \<Rightarrow> string \<Rightarrow>
    'z wl_state \<Rightarrow> go_error option \<times> 'z wl_state" where
  "RemoveFromWhitelist y ip removedBy s = (case s of (m, w) \<Rightarrow>
     (let newWhitelist = filter (\<lambda>e. ip_IP e \<noteq> ip) (wm_whitelist m);
          found = list_ex (\<lambda>e. ip_IP e = ip) (wm_whitelist m)
      in if \<not> found then (Some (NewErr (''IP '' @ ip @ '' not found in whitelist'')), m, w)
         else
           let m1 = m\<lparr>wm_whitelist := newWhitelist\<rparr>;
               (err, w1) = updateTraefikConfig y m1 w
           in case err of
                Some e \<Rightarrow> (Some (WrapErr ''failed to update Traefik config'' e), m1, w1)
              | None \<Rightarrow> (None, m1, audit_action m1 ''whitelist_remove'' removedBy ip [] w1)))"

definition GetWhitelist :: "wl_Manager \<Rightarrow> IPEntry list" where
  "GetWhitelist m = wm_whitelist m"

definition AddToBlacklist :: "string \<Rightarrow> string \<Rightarrow> string \<Rightarrow>
    'z wl_state \<Rightarrow> go_error option \<times> 'z wl_state" where
  "AddToBlacklist ip description addedBy s = (case s of (m, w) \<Rightarrow>
     (case validateIPOrCIDR ip of
        Some e \<Rightarrow> (Some (WrapErr ''invalid IP or CIDR'' e), m, w)
      | None \<Rightarrow>
          if list_ex (\<lambda>e. ip_IP e = ip) (wm_blacklist m)
          then (Some (NewErr (''IP '' @ ip @ '' already in blacklist'')), m, w)
          else
            let (now, w1) = time_Now w;
                entry = \<lparr>ip_IP = ip, ip_Description = description, ip_AddedAt = now,
                         ip_AddedBy = addedBy, ip_ExpiresAt = None\<rparr>;
                m1 = m\<lparr>wm_blacklist := wm_blacklist m @ [entry]\<rparr>
            in (None, m1, audit_action m1 ''blacklist_add'' addedBy ip
                  [(''description'', description)] w1)))"

definition RemoveFromBlacklist :: "string \<Rightarrow> string \<Rightarrow>
    'z wl_state \<Rightarrow> go_error option \<times> 'z wl_state" where
  "RemoveFromBlacklist ip removedBy s = (case s of (m, w) \<Rightarrow>
     (let newBlacklist = filter (\<lambda>e. ip_IP e \<noteq> ip) (wm_blacklist m);
          found = list_ex (\<lambda>e. ip_IP e = ip) (wm_blacklist m)
      in if \<not> found then (Some (NewErr (''IP '' @ ip @ '' not found in blacklist'')), m, w)
         else
           let m1 = m\<lparr>wm_blacklist := newBlacklist\<rparr>
           in (None, m1, audit_action m1 ''blacklist_remove'' removedBy ip [] w)))"

definition GetBlacklist :: "wl_Manager \<Rightarrow> IPEntry list" where
  "GetBlacklist m = wm_blacklist m"

text \<open>The loop of \<open>CleanupExpired\<close>, with the time read before it: what is kept, how many are not.\<close>

definition expired_at :: "time \<Rightarrow> IPEntry \<Rightarrow> bool" where
  "expired_at now e = (case ip_ExpiresAt e of None \<Rightarrow> False | Some t \<Rightarrow> After now t)"

fun cleanup_loop :: "wl_Manager \<Rightarrow> time \<Rightarrow> IPEntry list \<Rightarrow> 'z aworld_scheme \<Rightarrow>
    IPEntry list \<times> int \<times> 'z aworld_scheme" where
  "cleanup_loop m now [] w = ([], 0, w)"
| "cleanup_loop m now (e # es) w =
     (if expired_at now e then
        let w1 = (case wm_audit m of
              None \<Rightarrow> w
            | Some a \<Rightarrow> LogEvent a (zero_event\<lparr>ev_Timestamp := now, ev_Action := ''whitelist_expired'',
                ev_Actor := ''system'', ev_Resource := ip_IP e, ev_Success := True\<rparr>) w);
            (kept, removed, w2) = cleanup_loop m now es w1
        in (kept, removed + 1, w2)
      else let (kept, removed, w1) = cleanup_loop m now es w in (e # kept, removed, w1))"

definition CleanupExpired :: "yaml_ops \<Rightarrow> 'z wl_state \<Rightarrow> int \<times> 'z wl_state" where
  "CleanupExpired y s = (case s of (m, w) \<Rightarrow>
     (let (now, w1) = time_Now w;
          (newWhitelist, removed, w2) = cleanup_loop m now (wm_whitelist m) w1
      in if 0 < removed then
           let m1 = m\<lparr>wm_whitelist := newWhitelist\<rparr>;
               (_, w3) = updateTraefikConfig y m1 w2
           in (removed, m1, w3)
         else (removed, m, w2)))"

subsection \<open>The clock in the loops\<close>

lemma expired_now_eq: "expired_now e w = (expired_at (w_clock w (w_tick w)) e,
    if ip_ExpiresAt e = None then w else snd (time_Now w))"
  by (simp add: expired_now_def expired_at_def time_Now_def Let_def split: option.split)

lemma expired_at_mono: "expired_at t e \<Longrightarrow> t \<le> u \<Longrightarrow> expired_at u e"
  by (auto simp: expired_at_def After_def split: option.splits)

text \<open>Later in the same run of the clock.\<close>

definition later :: "'z world_scheme \<Rightarrow> 'z world_scheme \<Rightarrow> bool" where
  "later w w' \<longleftrightarrow> w_clock w' = w_clock w \<and> w_tick w \<le> w_tick w'"

definition read_clock :: "'z world_scheme \<Rightarrow> time" where
  "read_clock w = w_clock w (w_tick w)"

lemma later_refl [simp]: "later w w"
  by (simp add: later_def)

lemma later_trans [trans]: "later u v \<Longrightarrow> later v w \<Longrightarrow> later u w"
  by (simp add: later_def)

lemma later_time_Now [simp]: "later w (snd (time_Now w))"
  by (simp add: later_def world_simps)

lemma later_read: "clock_mono w \<Longrightarrow> later w w' \<Longrightarrow> read_clock w \<le> read_clock w'"
  by (simp add: later_def read_clock_def clock_mono_def monoD)

lemma later_clock_mono: "clock_mono w \<Longrightarrow> later w w' \<Longrightarrow> clock_mono w'"
  by (simp add: later_def clock_mono_def)

lemma later_expired_now: "later w (snd (expired_now e w))"
  by (simp add: expired_now_eq)

lemma expired_now_start: "fst (expired_now e w) \<longleftrightarrow> expired_at (read_clock w) e"
  by (simp add: expired_now_eq read_clock_def)

lemma expired_now_end: "clock_mono w \<Longrightarrow> fst (expired_now e w) \<Longrightarrow>
    expired_at (read_clock (snd (expired_now e w))) e"
  using later_read [OF _ later_expired_now] expired_at_mono by (metis expired_now_start)

lemma later_allowed_loop: "later w (snd (allowed_loop ip es w))"
proof (induction es arbitrary: w)
  case (Cons e es)
  then show ?case
    using later_expired_now [of w e] later_trans
    by (fastforce simp: Let_def split: prod.split)
qed simp

lemma allowed_loop_start:
  "clock_mono w \<Longrightarrow> fst (allowed_loop ip es w) \<Longrightarrow>
   list_ex (\<lambda>e. \<not> expired_at (read_clock w) e \<and> ipMatches ip (ip_IP e)) es"
proof (induction es arbitrary: w)
  case (Cons e es)
  let ?w1 = "snd (expired_now e w)"
  have mono: "clock_mono ?w1" and le: "read_clock w \<le> read_clock ?w1"
    using Cons.prems(1) later_expired_now later_clock_mono later_read by blast+
  have "fst (allowed_loop ip es ?w1) \<Longrightarrow> ?case"
    using Cons.IH [OF mono] expired_at_mono [OF _ le] by (auto simp: list_ex_iff)
  with Cons.prems(2) show ?case
    using expired_now_start [of e w] by (auto simp: Let_def split: prod.splits if_splits)
qed simp

lemma allowed_loop_end:
  "clock_mono w \<Longrightarrow> \<not> fst (allowed_loop ip es w) \<Longrightarrow>
   \<not> list_ex (\<lambda>e. \<not> expired_at (read_clock (snd (allowed_loop ip es w))) e \<and> ipMatches ip (ip_IP e)) es"
proof (induction es arbitrary: w)
  case (Cons e es)
  let ?w1 = "snd (expired_now e w)" and ?w2 = "snd (allowed_loop ip es (snd (expired_now e w)))"
  have mono: "clock_mono ?w1" using Cons.prems(1) later_expired_now later_clock_mono by blast
  have r: "allowed_loop ip (e # es) w = allowed_loop ip es ?w1"
    and h: "\<not> fst (expired_now e w) \<longrightarrow> \<not> ipMatches ip (ip_IP e)"
    using Cons.prems(2) by (auto simp: Let_def split: prod.splits if_splits)
  have "\<not> fst (allowed_loop ip es ?w1)" using Cons.prems(2) r by simp
  note IH = Cons.IH [OF mono this]
  have "read_clock ?w1 \<le> read_clock ?w2" by (rule later_read [OF mono later_allowed_loop])
  then have "fst (expired_now e w) \<Longrightarrow> expired_at (read_clock ?w2) e"
    using expired_now_end [OF Cons.prems(1)] expired_at_mono by blast
  with IH h r show ?case by auto
qed simp

lemma later_source_range: "later w (snd (source_range es w))"
proof (induction es arbitrary: w)
  case (Cons e es)
  then show ?case
    using later_expired_now [of w e] later_trans by (fastforce simp: Let_def split: prod.split)
qed simp

text \<open>The addresses of the entries that have not expired at an instant.\<close>

definition live_ips :: "time \<Rightarrow> IPEntry list \<Rightarrow> string set" where
  "live_ips t es = ip_IP ` {e \<in> set es. \<not> expired_at t e}"

lemma live_ips_simps [simp]:
  "live_ips t [] = {}"
  "live_ips t (e # es) = (if expired_at t e then live_ips t es else insert (ip_IP e) (live_ips t es))"
  by (auto simp: live_ips_def)

lemma live_ips_antimono: "t \<le> u \<Longrightarrow> live_ips u es \<subseteq> live_ips t es"
  unfolding live_ips_def using expired_at_mono by blast

lemma source_range_sandwich:
  "clock_mono w \<Longrightarrow>
   live_ips (read_clock (snd (source_range es w))) es \<subseteq> set (fst (source_range es w))
   \<and> set (fst (source_range es w)) \<subseteq> live_ips (read_clock w) es"
proof (induction es arbitrary: w)
  case (Cons e es)
  let ?w1 = "snd (expired_now e w)" and ?w2 = "snd (source_range es (snd (expired_now e w)))"
  have mono: "clock_mono ?w1" and le: "read_clock w \<le> read_clock ?w1"
    using Cons.prems later_expired_now later_clock_mono later_read by blast+
  have le2: "read_clock ?w1 \<le> read_clock ?w2" by (rule later_read [OF mono later_source_range])
  have ex: "fst (expired_now e w) \<Longrightarrow> expired_at (read_clock ?w2) e"
    using expired_now_end [OF Cons.prems] expired_at_mono [OF _ le2] by blast
  have r: "source_range (e # es) w = ((if fst (expired_now e w) then fst (source_range es ?w1)
      else ip_IP e # fst (source_range es ?w1)), ?w2)"
    by (simp add: Let_def split: prod.split)
  have IH: "live_ips (read_clock ?w2) es \<subseteq> set (fst (source_range es ?w1))"
    "set (fst (source_range es ?w1)) \<subseteq> live_ips (read_clock w) es"
    using Cons.IH [OF mono] live_ips_antimono [OF le, of es] by blast+
  show ?case
  proof (cases "fst (expired_now e w)")
    case True
    with IH ex expired_now_start [of e w] show ?thesis unfolding r by simp
  next
    case False
    with IH expired_now_start [of e w] show ?thesis unfolding r by auto
  qed
qed simp

subsection \<open>Access decisions\<close>

text \<open>The decision at one instant: parse, blacklist first, then a live whitelist entry.\<close>

definition allowed_at :: "time \<Rightarrow> wl_Manager \<Rightarrow> string \<Rightarrow> bool" where
  "allowed_at t m ip = (case ParseIP ip of None \<Rightarrow> False | Some p \<Rightarrow>
     \<not> list_ex (\<lambda>e. ipMatches p (ip_IP e)) (wm_blacklist m) \<and>
     list_ex (\<lambda>e. \<not> expired_at t e \<and> ipMatches p (ip_IP e)) (wm_whitelist m))"

lemma IsAllowed_later: "later w (snd (IsAllowed m ip w))"
  by (simp add: IsAllowed_def later_allowed_loop split: option.split)

lemma IsAllowed_between_readings:
  assumes "clock_mono w"
  shows "(allowed_at (read_clock (snd (IsAllowed m ip w))) m ip \<longrightarrow> fst (IsAllowed m ip w))
    \<and> (fst (IsAllowed m ip w) \<longrightarrow> allowed_at (read_clock w) m ip)"
  using allowed_loop_start [OF assms] allowed_loop_end [OF assms]
  by (auto simp: IsAllowed_def allowed_at_def split: option.splits)

subsection \<open>Frame of the loops and of the file update\<close>

definition ticked :: "'z world_scheme \<Rightarrow> 'z world_scheme \<Rightarrow> bool" where
  "ticked w w' \<longleftrightarrow> (\<exists>n. w' = w\<lparr>w_tick := n\<rparr>)"

lemma ticked_trans: "ticked u v \<Longrightarrow> ticked v w \<Longrightarrow> ticked u w"
  by (auto simp: ticked_def)

lemma ticked_self [simp]: "ticked w w"
  unfolding ticked_def by (rule exI [of _ "w_tick w"]) simp

lemma ticked_expired_now [simp]: "ticked w (snd (expired_now e w))"
  by (auto simp: expired_now_eq time_Now_def) (auto simp: ticked_def)

lemma ticked_source_range [simp]: "ticked w (snd (source_range es w))"
proof (induction es arbitrary: w)
  case (Cons e es)
  then show ?case
    using ticked_expired_now [of w e] ticked_trans by (fastforce simp: Let_def split: prod.split)
qed simp

lemma allowed_loop_Cons: "allowed_loop ip (e # es) w =
    (if fst (expired_now e w) \<or> \<not> ipMatches ip (ip_IP e) then allowed_loop ip es (snd (expired_now e w))
     else (True, snd (expired_now e w)))"
  by (simp add: Let_def case_prod_beta)

lemma ticked_allowed_loop [simp]: "ticked w (snd (allowed_loop ip es w))"
proof (induction es arbitrary: w)
  case (Cons e es)
  show ?case
    unfolding allowed_loop_Cons
    using ticked_trans [OF ticked_expired_now Cons.IH] by simp
qed simp

lemma ticked_sel: "ticked w w' \<Longrightarrow> w_files w' = w_files w \<and> w_faults w' = w_faults w \<and> w_clock w' = w_clock w"
  by (auto simp: ticked_def)

lemma ticked_zap: "ticked w w' \<Longrightarrow> w_zap w' = w_zap w \<and> aworld.more w' = aworld.more w"
  by (auto simp: ticked_def)

lemma update_later: "later w (snd (updateTraefikConfig y m w))"
proof -
  let ?w1 = "snd (source_range (wm_whitelist m) w)"
  have 1: "later w ?w1" by (rule later_source_range)
  have "later ?w1 (snd (os_WriteFile p d (snd (time_Now ?w1))))" for p d
    by (simp add: later_def world_simps)
  with 1 later_trans have "later w (snd (os_WriteFile p d (snd (time_Now ?w1))))" for p d
    by blast
  with 1 show ?thesis
    unfolding updateTraefikConfig_def Let_def case_prod_beta
    by (simp split: sum.split option.split)
qed

lemma update_zap [world_simps]: "w_zap (snd (updateTraefikConfig y m w)) = w_zap w"
  unfolding updateTraefikConfig_def Let_def case_prod_beta
  by (simp add: world_simps ticked_zap [OF ticked_source_range] split: sum.split option.split)

text \<open>What the file holds: the header and the rendering of a list of addresses.\<close>

definition file_shows :: "yaml_ops \<Rightarrow> string \<Rightarrow> string list \<Rightarrow> 'z world_scheme \<Rightarrow> bool" where
  "file_shows y path r w \<longleftrightarrow> (\<exists>now d. yaml_Marshal y (whitelist_config r) = Inr d
     \<and> w_files w path = Some (config_header y now @ d))"

lemma update_ok:
  assumes "updateTraefikConfig y m w = (None, w')" "clock_mono w"
  shows "\<exists>r. file_shows y (wm_traefikConfigPath m) r w'
    \<and> live_ips (read_clock w') (wm_whitelist m) \<subseteq> set r \<and> set r \<subseteq> live_ips (read_clock w) (wm_whitelist m)"
proof -
  let ?r = "fst (source_range (wm_whitelist m) w)" and ?w1 = "snd (source_range (wm_whitelist m) w)"
  from assms(1) obtain d where d: "yaml_Marshal y (whitelist_config ?r) = Inr d"
    unfolding updateTraefikConfig_def by (auto simp: Let_def case_prod_beta split: sum.splits)
  have w: "os_WriteFile (wm_traefikConfigPath m) (config_header y (fst (time_Now ?w1)) @ d)
      (snd (time_Now ?w1)) = (None, w')"
    using assms(1) d unfolding updateTraefikConfig_def
    by (simp add: Let_def case_prod_beta split: option.splits) (metis prod.collapse)
  have sh: "file_shows y (wm_traefikConfigPath m) ?r w'"
    using os_WriteFile_ok [OF w] d by (auto simp: file_shows_def)
  have "later ?w1 w'"
    using os_WriteFile_sel [of "wm_traefikConfigPath m" "config_header y (fst (time_Now ?w1)) @ d" "snd (time_Now ?w1)"]
    unfolding w by (simp add: later_def world_simps)
  then have "read_clock ?w1 \<le> read_clock w'"
    using later_read later_clock_mono [OF assms(2) later_source_range] by blast
  with source_range_sandwich [OF assms(2), of "wm_whitelist m"] live_ips_antimono sh
  show ?thesis by blast
qed

lemma update_other_file:
  "q \<noteq> wm_traefikConfigPath m \<Longrightarrow> w_files (snd (updateTraefikConfig y m w)) q = w_files w q"
  unfolding updateTraefikConfig_def Let_def case_prod_beta
  by (simp add: world_simps os_WriteFile_other ticked_sel [OF ticked_source_range] split: sum.split option.split)

subsection \<open>The audit record of an operation\<close>

definition audits :: "wl_Manager \<Rightarrow> nat" where
  "audits m = (case wm_audit m of None \<Rightarrow> 0 | Some _ \<Rightarrow> 1)"

lemma audit_action_sel [world_simps]:
  "w_files (audit_action m a b c d w) = w_files w"
  "w_clock (audit_action m a b c d w) = w_clock w"
  "w_faults (audit_action m a b c d w) = w_faults w"
  by (simp_all add: audit_action_def Let_def case_prod_beta world_simps split: option.split)

lemma audit_action_zap: "\<exists>cs. w_zap (audit_action m a b c d w) = w_zap w @ cs \<and> length cs = audits m"
  by (simp add: audit_action_def audits_def Let_def case_prod_beta world_simps split: option.split)

lemma later_audit_action: "later w (audit_action m a b c d w)"
  by (simp add: audit_action_def later_def Let_def case_prod_beta world_simps split: option.split)

subsection \<open>Adding to the whitelist\<close>

text \<open>The entry that a successful call appends.\<close>

definition new_entry :: "string \<Rightarrow> string \<Rightarrow> string \<Rightarrow> time option \<Rightarrow> time \<Rightarrow> IPEntry" where
  "new_entry ip d who ex now = \<lparr>ip_IP = ip, ip_Description = d, ip_AddedAt = now, ip_AddedBy = who,
     ip_ExpiresAt = ex\<rparr>"

definition listed :: "string \<Rightarrow> IPEntry list \<Rightarrow> bool" where
  "listed ip es \<longleftrightarrow> ip \<in> ip_IP ` set es"

lemma listed_ex: "list_ex (\<lambda>e. ip_IP e = ip) es \<longleftrightarrow> listed ip es"
  by (auto simp: listed_def list_ex_iff)

lemma AddToWhitelist_unfold:
  "AddToWhitelist y ip d who ex (m, w) =
    (case validateIPOrCIDR ip of
       Some e \<Rightarrow> (Some (WrapErr ''invalid IP or CIDR'' e), m, w)
     | None \<Rightarrow> if listed ip (wm_whitelist m) then (Some (NewErr (''IP '' @ ip @ '' already in whitelist'')), m, w)
       else let m1 = m\<lparr>wm_whitelist := wm_whitelist m @ [new_entry ip d who ex (read_clock w)]\<rparr>;
                u = updateTraefikConfig y m1 (snd (time_Now w))
            in (case fst u of
                  Some e \<Rightarrow> (Some (WrapErr ''failed to update Traefik config'' e), m, snd u)
                | None \<Rightarrow> (None, m1, audit_action m1 ''whitelist_add'' who ip [(''description'', d)] (snd u))))"
  by (simp add: AddToWhitelist_def listed_ex new_entry_def read_clock_def time_Now_def Let_def
        case_prod_beta split: option.split)


lemma AddToWhitelist_error_rolls_back:
  fixes w :: "'z aworld_scheme"
  assumes "AddToWhitelist y ip d who ex (m, w) = (Some e, m', w')"
  shows "m' = m \<and> w_zap w' = w_zap w
    \<and> (\<forall>q. q \<noteq> wm_traefikConfigPath m \<longrightarrow> w_files w' q = w_files w q)
    \<and> (validateIPOrCIDR ip \<noteq> None \<or> listed ip (wm_whitelist m) \<longrightarrow> w' = w)"
proof (cases "validateIPOrCIDR ip = None \<and> \<not> listed ip (wm_whitelist m)")
  case False
  with assms show ?thesis
    by (auto simp: AddToWhitelist_unfold split: option.splits)
next
  case True
  let ?m1 = "m\<lparr>wm_whitelist := wm_whitelist m @ [new_entry ip d who ex (read_clock w)]\<rparr>"
  from True assms have "m' = m" "w' = snd (updateTraefikConfig y ?m1 (snd (time_Now w)))"
    by (auto simp: AddToWhitelist_unfold Let_def split: option.splits)
  with True update_other_file [of _ ?m1 y "snd (time_Now w)"] show ?thesis
    by (simp add: world_simps)
qed

lemma AddToWhitelist_success:
  fixes w :: "'z aworld_scheme"
  assumes "AddToWhitelist y ip d who ex (m, w) = (None, m', w')" "clock_mono w"
  shows "validateIPOrCIDR ip = None \<and> \<not> listed ip (wm_whitelist m)
    \<and> m' = m\<lparr>wm_whitelist := wm_whitelist m @ [new_entry ip d who ex (read_clock w)]\<rparr>
    \<and> (\<exists>cs. w_zap w' = w_zap w @ cs \<and> length cs = audits m)
    \<and> (\<exists>r. file_shows y (wm_traefikConfigPath m) r w'
        \<and> live_ips (read_clock w') (wm_whitelist m') \<subseteq> set r
        \<and> set r \<subseteq> live_ips (read_clock w) (wm_whitelist m'))"
proof -
  let ?m1 = "m\<lparr>wm_whitelist := wm_whitelist m @ [new_entry ip d who ex (read_clock w)]\<rparr>"
  let ?u = "updateTraefikConfig y ?m1 (snd (time_Now w))"
  from assms(1) have v: "validateIPOrCIDR ip = None" "\<not> listed ip (wm_whitelist m)"
    by (auto simp: AddToWhitelist_unfold split: option.splits if_splits)
  with assms(1) have u: "?u = (None, snd ?u)" and m': "m' = ?m1"
    and w': "w' = audit_action ?m1 ''whitelist_add'' who ip [(''description'', d)] (snd ?u)"
    by (auto simp: AddToWhitelist_unfold Let_def split: option.splits) (metis prod.collapse)
  have mono: "clock_mono (snd (time_Now w))"
    using assms(2) later_time_Now later_clock_mono by blast
  obtain r where r: "file_shows y (wm_traefikConfigPath m) r (snd ?u)"
    "live_ips (read_clock (snd ?u)) (wm_whitelist ?m1) \<subseteq> set r"
    "set r \<subseteq> live_ips (read_clock (snd (time_Now w))) (wm_whitelist ?m1)"
    using update_ok [OF u mono] by auto
  have fs: "file_shows y (wm_traefikConfigPath m) r w'"
    using r(1) by (simp add: w' file_shows_def world_simps)
  have lo: "live_ips (read_clock w') (wm_whitelist ?m1) \<subseteq> set r"
    using r(2) live_ips_antimono [OF later_read [OF later_clock_mono [OF mono update_later] later_audit_action]]
    unfolding w' by blast
  have hi: "set r \<subseteq> live_ips (read_clock w) (wm_whitelist ?m1)"
    using r(3) live_ips_antimono [OF later_read [OF assms(2) later_time_Now]] by blast
  have "\<exists>cs. w_zap w' = w_zap w @ cs \<and> length cs = audits m"
    using audit_action_zap [of ?m1 "''whitelist_add''" who ip "[(''description'', d)]" "snd ?u"]
    unfolding w' by (simp add: world_simps audits_def)
  with v m' fs lo hi show ?thesis by blast
qed


subsection \<open>Removing from the whitelist\<close>

lemma RemoveFromWhitelist_unfold:
  "RemoveFromWhitelist y ip who (m, w) =
    (if \<not> listed ip (wm_whitelist m) then (Some (NewErr (''IP '' @ ip @ '' not found in whitelist'')), m, w)
     else let m1 = m\<lparr>wm_whitelist := filter (\<lambda>e. ip_IP e \<noteq> ip) (wm_whitelist m)\<rparr>;
              u = updateTraefikConfig y m1 w
          in (case fst u of
                Some e \<Rightarrow> (Some (WrapErr ''failed to update Traefik config'' e), m1, snd u)
              | None \<Rightarrow> (None, m1, audit_action m1 ''whitelist_remove'' who ip [] (snd u))))"
  by (simp add: RemoveFromWhitelist_def listed_ex Let_def case_prod_beta split: option.split)


lemma RemoveFromWhitelist_failed_write_sticks:
  fixes w :: "'z aworld_scheme"
  assumes "RemoveFromWhitelist y ip who (m, w) = (Some e, m', w')" "listed ip (wm_whitelist m)"
  shows "\<not> listed ip (wm_whitelist m') \<and> w_zap w' = w_zap w
    \<and> (\<forall>w2 :: 'z aworld_scheme. RemoveFromWhitelist y ip who (m', w2)
        = (Some (NewErr (''IP '' @ ip @ '' not found in whitelist'')), m', w2))"
proof -
  let ?m1 = "m\<lparr>wm_whitelist := filter (\<lambda>e. ip_IP e \<noteq> ip) (wm_whitelist m)\<rparr>"
  from assms have m': "m' = ?m1" and w': "w' = snd (updateTraefikConfig y ?m1 w)"
    by (auto simp: RemoveFromWhitelist_unfold Let_def split: option.splits)
  have gone: "\<not> listed ip (wm_whitelist m')"
    by (auto simp: m' listed_def)
  then show ?thesis
    by (simp add: w' world_simps RemoveFromWhitelist_unfold)
qed

lemma RemoveFromWhitelist_entries:
  "RemoveFromWhitelist y ip who (m, w) = (err, m', w') \<Longrightarrow>
   wm_whitelist m' = filter (\<lambda>e. ip_IP e \<noteq> ip) (wm_whitelist m) \<and> wm_blacklist m' = wm_blacklist m
   \<and> wm_traefikConfigPath m' = wm_traefikConfigPath m \<and> wm_audit m' = wm_audit m
   \<and> (err = None \<longrightarrow> listed ip (wm_whitelist m))"
  by (auto simp: RemoveFromWhitelist_unfold Let_def listed_def split: if_splits option.splits
        intro!: filter_True [symmetric])

subsection \<open>The blacklist\<close>

lemma AddToBlacklist_unfold:
  "AddToBlacklist ip d who (m, w) =
    (case validateIPOrCIDR ip of
       Some e \<Rightarrow> (Some (WrapErr ''invalid IP or CIDR'' e), m, w)
     | None \<Rightarrow> if listed ip (wm_blacklist m) then (Some (NewErr (''IP '' @ ip @ '' already in blacklist'')), m, w)
       else let m1 = m\<lparr>wm_blacklist := wm_blacklist m @ [new_entry ip d who None (read_clock w)]\<rparr>
            in (None, m1, audit_action m1 ''blacklist_add'' who ip [(''description'', d)] (snd (time_Now w))))"
  by (simp add: AddToBlacklist_def listed_ex new_entry_def read_clock_def time_Now_def Let_def
        split: option.split)

lemma RemoveFromBlacklist_unfold:
  "RemoveFromBlacklist ip who (m, w) =
    (if \<not> listed ip (wm_blacklist m) then (Some (NewErr (''IP '' @ ip @ '' not found in blacklist'')), m, w)
     else let m1 = m\<lparr>wm_blacklist := filter (\<lambda>e. ip_IP e \<noteq> ip) (wm_blacklist m)\<rparr>
          in (None, m1, audit_action m1 ''blacklist_remove'' who ip [] w))"
  by (simp add: RemoveFromBlacklist_def listed_ex Let_def)

subsection \<open>The contract of a managed list\<close>

text \<open>
  What both lists promise their callers: an addition that succeeds appends one valid address that
  was not there, a failed one leaves the list alone, a removal drops every entry of the address,
  and neither touches the other list.
\<close>

locale ip_list =
  fixes entries :: "'s \<Rightarrow> IPEntry list"
    and others :: "'s \<Rightarrow> IPEntry list"
    and add :: "'i \<Rightarrow> string \<Rightarrow> 's \<Rightarrow> go_error option \<times> 's"
    and remove :: "'j \<Rightarrow> string \<Rightarrow> 's \<Rightarrow> go_error option \<times> 's"
  assumes add_error: "add i ip s = (Some e, s') \<Longrightarrow> entries s' = entries s"
    and add_ok: "add i ip s = (None, s') \<Longrightarrow> validateIPOrCIDR ip = None \<and> \<not> listed ip (entries s)
      \<and> (\<exists>e. ip_IP e = ip \<and> entries s' = entries s @ [e])"
    and add_total: "validateIPOrCIDR ip \<noteq> None \<or> listed ip (entries s) \<Longrightarrow> fst (add i ip s) \<noteq> None"
    and remove_entries: "entries (snd (remove j ip s)) = filter (\<lambda>e. ip_IP e \<noteq> ip) (entries s)"
    and remove_ok: "fst (remove j ip s) = None \<Longrightarrow> listed ip (entries s)"
    and add_others: "others (snd (add i ip s)) = others s"
    and remove_others: "others (snd (remove j ip s)) = others s"
begin

definition wf :: "'s \<Rightarrow> bool" where
  "wf s \<longleftrightarrow> distinct (map ip_IP (entries s)) \<and> (\<forall>e \<in> set (entries s). validateIPOrCIDR (ip_IP e) = None)"

definition ips :: "'s \<Rightarrow> string set" where
  "ips s = ip_IP ` set (entries s)"

lemma add_wf: "wf s \<Longrightarrow> wf (snd (add i ip s))"
proof (cases "add i ip s")
  fix err s'
  assume a: "add i ip s = (err, s')" and "wf s"
  then show "wf (snd (add i ip s))"
    using add_error [of i ip s _ s'] add_ok [of i ip s s']
    by (cases err) (auto simp: wf_def listed_def)
qed

lemma remove_wf: "wf s \<Longrightarrow> wf (snd (remove j ip s))"
  by (auto simp: wf_def remove_entries distinct_map_filter)

lemma add_ips: "ips (snd (add i ip s)) = (if fst (add i ip s) = None then insert ip (ips s) else ips s)"
proof (cases "add i ip s")
  fix err s'
  assume a: "add i ip s = (err, s')"
  then show ?thesis
    using add_error [of i ip s _ s'] add_ok [of i ip s s']
    by (cases err) (auto simp: ips_def)
qed

lemma remove_ips: "ips (snd (remove j ip s)) = ips s - {ip}"
  by (auto simp: ips_def remove_entries)

lemma add_then_remove:
  assumes "fst (add i ip s) = None"
  shows "entries (snd (remove j ip (snd (add i ip s)))) = entries s"
proof -
  from assms obtain s' where s': "add i ip s = (None, s')" by (metis prod.collapse)
  from add_ok [OF s'] obtain e where e: "ip_IP e = ip" "entries s' = entries s @ [e]"
    and new: "ip \<notin> ip_IP ` set (entries s)" by (auto simp: listed_def)
  from new have "filter (\<lambda>e. ip_IP e \<noteq> ip) (entries s) = entries s"
    by (intro filter_True) blast
  with e show ?thesis by (simp add: s' remove_entries)
qed

lemma add_twice_fails: "fst (add i ip s) = None \<Longrightarrow> fst (add k ip (snd (add i ip s))) \<noteq> None"
  using add_ips [of i ip s] by (intro add_total) (simp add: listed_def ips_def)

end

interpretation wl: ip_list "\<lambda>s. wm_whitelist (fst s)" "\<lambda>s. wm_blacklist (fst s)"
  "\<lambda>(y, d, who, ex) ip. AddToWhitelist y ip d who ex" "\<lambda>(y, who) ip. RemoveFromWhitelist y ip who"
  by unfold_locales
     (auto simp: AddToWhitelist_unfold RemoveFromWhitelist_unfold Let_def new_entry_def listed_def
       split: option.splits if_splits intro!: filter_True [symmetric])

interpretation bl: ip_list "\<lambda>s. wm_blacklist (fst s)" "\<lambda>s. wm_whitelist (fst s)"
  "\<lambda>(d, who) ip. AddToBlacklist ip d who" "\<lambda>who ip. RemoveFromBlacklist ip who"
  by unfold_locales
     (auto simp: AddToBlacklist_unfold RemoveFromBlacklist_unfold Let_def new_entry_def listed_def
       split: option.splits if_splits intro!: filter_True [symmetric])

subsection \<open>Cleaning up\<close>

lemma cleanup_loop_spec:
  "cleanup_loop m now es w = (kept, removed, w') \<Longrightarrow>
   kept = filter (\<lambda>e. \<not> expired_at now e) es \<and> removed = int (length (filter (expired_at now) es))
   \<and> w_files w' = w_files w \<and> w_clock w' = w_clock w \<and> w_faults w' = w_faults w
   \<and> (\<exists>cs. w_zap w' = w_zap w @ cs \<and> int (length cs) = int (audits m) * removed)"
proof (induction es arbitrary: w kept removed w')
  case (Cons e es)
  let ?w1 = "if expired_at now e then (case wm_audit m of None \<Rightarrow> w
            | Some a \<Rightarrow> LogEvent a (zero_event\<lparr>ev_Timestamp := now, ev_Action := ''whitelist_expired'',
                ev_Actor := ''system'', ev_Resource := ip_IP e, ev_Success := True\<rparr>) w) else w"
  obtain k r v where l: "cleanup_loop m now es ?w1 = (k, r, v)" by (metis prod_cases3)
  have w1: "w_files ?w1 = w_files w" "w_clock ?w1 = w_clock w" "w_faults ?w1 = w_faults w"
    by (simp_all add: world_simps split: option.split)
  have z: "\<exists>cs. w_zap ?w1 = w_zap w @ cs \<and> length cs = (if expired_at now e then audits m else 0)"
    by (simp add: world_simps audits_def split: option.split)
  from Cons.IH [OF l] z show ?case
    using Cons.prems l w1
    by (auto simp: Let_def algebra_simps split: prod.splits if_splits)
qed simp

lemma CleanupExpired_unfold:
  "CleanupExpired y (m, w) =
    (let c = cleanup_loop m (read_clock w) (wm_whitelist m) (snd (time_Now w));
         m1 = m\<lparr>wm_whitelist := fst c\<rparr>
     in if 0 < fst (snd c) then (fst (snd c), m1, snd (updateTraefikConfig y m1 (snd (snd c))))
        else (fst (snd c), m, snd (snd c)))"
  by (simp add: CleanupExpired_def read_clock_def time_Now_def Let_def case_prod_beta)

lemma CleanupExpired_exact:
  fixes w :: "'z aworld_scheme"
  assumes "CleanupExpired y (m, w) = (n, m', w')"
  shows "wm_whitelist m' = filter (\<lambda>e. \<not> expired_at (read_clock w) e) (wm_whitelist m)
    \<and> n = int (length (wm_whitelist m)) - int (length (wm_whitelist m'))
    \<and> wm_blacklist m' = wm_blacklist m
    \<and> (\<exists>cs. w_zap w' = w_zap w @ cs \<and> int (length cs) = int (audits m) * n)
    \<and> (n = 0 \<longrightarrow> m' = m \<and> w_files w' = w_files w)"
proof -
  let ?t = "read_clock w"
  obtain k r v where l: "cleanup_loop m ?t (wm_whitelist m) (snd (time_Now w)) = (k, r, v)"
    by (metis prod_cases3)
  from cleanup_loop_spec [OF l] have
    k: "k = filter (\<lambda>e. \<not> expired_at ?t e) (wm_whitelist m)"
    and r: "r = int (length (filter (expired_at ?t) (wm_whitelist m)))"
    and v: "w_files v = w_files w"
    and z: "\<exists>cs. w_zap v = w_zap w @ cs \<and> int (length cs) = int (audits m) * r"
    unfolding world_simps by blast+
  have sum: "int (length (wm_whitelist m)) - int (length k) = r"
    using sum_length_filter_compl [of "expired_at ?t" "wm_whitelist m"] unfolding k r by simp
  show ?thesis
  proof (cases "0 < r")
    case True
    with assms l have "n = r" "m' = m\<lparr>wm_whitelist := k\<rparr>"
      "w' = snd (updateTraefikConfig y (m\<lparr>wm_whitelist := k\<rparr>) v)"
      by (auto simp: CleanupExpired_unfold Let_def)
    with True k z sum show ?thesis by (simp add: world_simps)
  next
    case False
    with r have "r = 0" "filter (expired_at ?t) (wm_whitelist m) = []" by simp_all
    moreover from this(2) have "k = wm_whitelist m" unfolding k by (metis filter_empty_conv filter_True)
    moreover have "n = r" "m' = m" "w' = v"
      using assms l False by (auto simp: CleanupExpired_unfold Let_def)
    ultimately show ?thesis using k z v by simp
  qed
qed

subsection \<open>What a pattern matches\<close>

lemma ipMatches_self: "ParseIP ip = Some p \<Longrightarrow> CHR ''/'' \<notin> set ip \<Longrightarrow> ipMatches p ip"
  by (simp add: ipMatches_def ParseCIDR_no_slash IP_Equal_def)

lemma ipMatches_cidr:
  assumes "ParseCIDR pat = Some (q, net)" "length x = 16"
  obtains addr bl a n m where "pat = addr @ CHR ''/'' # m" "ParseAddr addr = Some (bl, a)" "n \<le> bl"
    "ipMatches x pat \<longleftrightarrow> same_prefix (128 - bl + n) (As16 (bl, a)) x
       \<and> (bl = 128 \<and> n < 96 \<longrightarrow> \<not> v4mapped x)"
proof -
  from ParseCIDR_net [OF assms(1)] obtain addr c n m where
    p: "pat = addr @ CHR ''/'' # m" "ParseAddr addr = Some c" "n \<le> fst c" "net = cidr_net c n"
    by metis
  obtain bl a where c: "c = (bl, a)" by fastforce
  from ParseAddr_length [of addr bl a] p(2) c have
    len: "bl = 32 \<and> length a = 4 \<or> bl = 128 \<and> length a = 16" by simp
  have "ipMatches x pat \<longleftrightarrow> IPNet_Contains (cidr_net (bl, a) n) x"
    using assms(1) p(4) c by (simp add: ipMatches_def)
  also have "\<dots> \<longleftrightarrow> same_prefix (128 - bl + n) (As16 (bl, a)) x \<and> (bl = 128 \<and> n < 96 \<longrightarrow> \<not> v4mapped x)"
    using len p(3) c assms(2) Contains_v4 [of a n x] Contains_v6 [of a n x] by (auto simp: As16_def)
  finally show thesis using that p c by simp
qed

lemma ipMatches_v4_prefix:
  assumes "length os = 4" "\<forall>k \<in> set os. k < 256" "n \<le> 32" "ParseIP s = Some x"
  shows "ipMatches x (show_v4 os @ ''/'' @ fmt_nat n)
      \<longleftrightarrow> same_prefix (96 + n) (v4InV6Prefix @ map of_nat os) x"
  using Contains_v4 [of "map of_nat os" n x] ParseIP_length [OF assms(4)] ParseCIDR_show_v4 [OF assms(1-3)] assms
  by (simp add: ipMatches_def)

subsection \<open>Effect on decisions\<close>

lemma blacklist_dominates:
  assumes "ParseIP ip = Some p" "e \<in> set (wm_blacklist m)" "ipMatches p (ip_IP e)"
  shows "IsAllowed m ip w = (False, w)"
  using assms by (auto simp: IsAllowed_def list_ex_iff)

lemma validate_single: "CHR ''/'' \<notin> set ip \<Longrightarrow> validateIPOrCIDR ip = None \<Longrightarrow> \<exists>p. ParseIP ip = Some p"
  by (auto simp: validateIPOrCIDR_def ParseCIDR_no_slash split: if_splits)

lemma AddToWhitelist_takes_effect:
  fixes w :: "'z aworld_scheme"
  assumes "AddToWhitelist y ip d who None (m, w) = (None, m', w')" "clock_mono w" "CHR ''/'' \<notin> set ip"
    "\<forall>p. ParseIP ip = Some p \<longrightarrow> \<not> list_ex (\<lambda>e. ipMatches p (ip_IP e)) (wm_blacklist m)" "clock_mono v"
  shows "fst (IsAllowed m' ip v)"
proof -
  from AddToWhitelist_success [OF assms(1,2)] have valid: "validateIPOrCIDR ip = None"
    and m': "m' = m\<lparr>wm_whitelist := wm_whitelist m @ [new_entry ip d who None (read_clock w)]\<rparr>" by blast+
  from validate_single [OF assms(3) valid] obtain p where p: "ParseIP ip = Some p" by blast
  have "allowed_at t m' ip" for t
    using assms(4) p ipMatches_self [OF p assms(3)]
    by (simp add: allowed_at_def m' new_entry_def expired_at_def)
  with IsAllowed_between_readings [OF assms(5)] show ?thesis by blast
qed

subsection \<open>Runs of the manager\<close>

text \<open>
  One step is one call, or anything the rest of the system does to the world (time passes, other
  processes write files) between two calls.
\<close>

inductive wl_step :: "yaml_ops \<Rightarrow> 'z wl_state \<Rightarrow> 'z wl_state \<Rightarrow> bool" for y where
  add_white: "AddToWhitelist y ip d who ex s = (err, s') \<Longrightarrow> wl_step y s s'"
| remove_white: "RemoveFromWhitelist y ip who s = (err, s') \<Longrightarrow> wl_step y s s'"
| add_black: "AddToBlacklist ip d who s = (err, s') \<Longrightarrow> wl_step y s s'"
| remove_black: "RemoveFromBlacklist ip who s = (err, s') \<Longrightarrow> wl_step y s s'"
| cleanup: "CleanupExpired y s = (n, s') \<Longrightarrow> wl_step y s s'"
| query: "IsAllowed m ip w = (b, w') \<Longrightarrow> wl_step y (m, w) (m, w')"
| environment: "wl_step y (m, w) (m, w')"

inductive wl_reachable :: "yaml_ops \<Rightarrow> wl_Config \<Rightarrow> 'z wl_state \<Rightarrow> bool" for y cfg where
  start: "wl_NewManager y cfg w = (Inr m, w') \<Longrightarrow> wl_reachable y cfg (m, w')"
| step: "wl_reachable y cfg s \<Longrightarrow> wl_step y s s' \<Longrightarrow> wl_reachable y cfg s'"

text \<open>The abstract state: the listed and the blocked addresses, as sets.\<close>

type_synonym access = "string set \<times> string set"

definition wl_abs :: "'z wl_state \<Rightarrow> access" where
  "wl_abs s = (wl.ips s, bl.ips s)"

inductive access_step :: "access \<Rightarrow> access \<Rightarrow> bool" where
  allow: "validateIPOrCIDR ip = None \<Longrightarrow> ip \<notin> W \<Longrightarrow> access_step (W, B) (insert ip W, B)"
| disallow: "access_step (W, B) (W - {ip}, B)"
| block: "validateIPOrCIDR ip = None \<Longrightarrow> ip \<notin> B \<Longrightarrow> access_step (W, B) (W, insert ip B)"
| unblock: "ip \<in> B \<Longrightarrow> access_step (W, B) (W, B - {ip})"
| expire: "W' \<subseteq> W \<Longrightarrow> access_step (W, B) (W', B)"

lemma access_stutter: "access_step (W, B) (W, B)"
  by (rule access_step.expire) simp

lemma others_ips: "wm_blacklist m' = wm_blacklist m \<Longrightarrow> bl.ips (m', w') = bl.ips (m, w)"
  "wm_whitelist m' = wm_whitelist m \<Longrightarrow> wl.ips (m', w') = wl.ips (m, w)"
  by (simp_all add: bl.ips_def wl.ips_def)


text \<open>One call at a time: each is a step of the abstract state, or leaves it.\<close>

lemma AddToWhitelist_refines:
  assumes "AddToWhitelist y ip d who ex s = (err, s')"
  shows "access_step (wl_abs s) (wl_abs s')"
proof (cases err)
  case None
  with wl.add_ok [of "(y, d, who, ex)" ip s s'] wl.add_ips [of "(y, d, who, ex)" ip s]
    wl.add_others [of "(y, d, who, ex)" ip s] assms
  show ?thesis by (auto simp: wl_abs_def wl.ips_def bl.ips_def listed_def intro!: access_step.allow)
next
  case (Some e)
  with wl.add_ips [of "(y, d, who, ex)" ip s] wl.add_others [of "(y, d, who, ex)" ip s] assms
  show ?thesis by (simp add: wl_abs_def bl.ips_def access_stutter)
qed

lemma AddToBlacklist_refines:
  assumes "AddToBlacklist ip d who s = (err, s')"
  shows "access_step (wl_abs s) (wl_abs s')"
proof (cases err)
  case None
  with bl.add_ok [of "(d, who)" ip s s'] bl.add_ips [of "(d, who)" ip s] bl.add_others [of "(d, who)" ip s] assms
  show ?thesis by (auto simp: wl_abs_def bl.ips_def wl.ips_def listed_def intro!: access_step.block)
next
  case (Some e)
  with bl.add_ips [of "(d, who)" ip s] bl.add_others [of "(d, who)" ip s] assms
  show ?thesis by (simp add: wl_abs_def wl.ips_def access_stutter)
qed

lemma RemoveFromBlacklist_refines:
  assumes "RemoveFromBlacklist ip who s = (err, s')"
  shows "access_step (wl_abs s) (wl_abs s')"
proof -
  have w: "wl.ips s' = wl.ips s" using bl.remove_others [of ip who s] assms by (simp add: wl.ips_def)
  with bl.remove_ips [of ip who s] assms show ?thesis
    by (cases "ip \<in> bl.ips s") (simp_all add: wl_abs_def access_step.unblock access_stutter)
qed

lemma CleanupExpired_refines:
  assumes "CleanupExpired y s = (n, s')"
  shows "access_step (wl_abs s) (wl_abs s')"
proof -
  obtain m w m' w' where s: "s = (m, w)" "s' = (m', w')" by (metis prod.collapse)
  from CleanupExpired_exact [OF assms [unfolded s]]
  have "wl.ips s' \<subseteq> wl.ips s" "bl.ips s' = bl.ips s" by (auto simp: s wl.ips_def bl.ips_def)
  then show ?thesis by (simp add: wl_abs_def access_step.expire)
qed

lemma world_refines: "access_step (wl_abs (m, w)) (wl_abs (m, w'))"
proof -
  have "wl_abs (m, w') = wl_abs (m, w)" by (simp add: wl_abs_def wl.ips_def bl.ips_def)
  then show ?thesis using access_stutter by (metis prod.collapse)
qed

lemma wl_step_refines:
  "wl_step y s s' \<Longrightarrow> access_step (wl_abs s) (wl_abs s')"
proof (induction rule: wl_step.induct)
  case (remove_white ip who s err s')
  then show ?case
    using wl.remove_ips [of "(y, who)" ip s] wl.remove_others [of "(y, who)" ip s]
    by (simp add: wl_abs_def bl.ips_def access_step.disallow)
qed (blast intro: AddToWhitelist_refines AddToBlacklist_refines RemoveFromBlacklist_refines
    CleanupExpired_refines world_refines)+

lemma wl_step_wf: "wl_step y s s' \<Longrightarrow> (wl.wf s \<longrightarrow> wl.wf s') \<and> (bl.wf s \<longrightarrow> bl.wf s')"
proof (induction rule: wl_step.induct)
  case (add_white ip d who ex s err s')
  then show ?case
    using wl.add_wf [of s "(y, d, who, ex)" ip] wl.add_others [of "(y, d, who, ex)" ip s]
    by (simp add: bl.wf_def)
next
  case (remove_white ip who s err s')
  then show ?case
    using wl.remove_wf [of s "(y, who)" ip] wl.remove_others [of "(y, who)" ip s]
    by (simp add: bl.wf_def)
next
  case (add_black ip d who s err s')
  then show ?case
    using bl.add_wf [of s "(d, who)" ip] bl.add_others [of "(d, who)" ip s] by (simp add: wl.wf_def)
next
  case (remove_black ip who s err s')
  then show ?case
    using bl.remove_wf [of s ip who] bl.remove_others [of ip who s] by (simp add: wl.wf_def)
next
  case (cleanup s n s')
  obtain m w m' w' where s: "s = (m, w)" "s' = (m', w')" by (metis prod.collapse)
  from CleanupExpired_exact [OF cleanup [unfolded s]] show ?case
    by (auto simp: s wl.wf_def bl.wf_def distinct_map_filter)
qed (simp_all add: wl.wf_def bl.wf_def)

lemma wl_step_frame: "wl_step y s s' \<Longrightarrow> wm_traefikConfigPath (fst s') = wm_traefikConfigPath (fst s)
   \<and> wm_audit (fst s') = wm_audit (fst s)"
  by (induction rule: wl_step.induct)
     (auto simp: AddToWhitelist_unfold RemoveFromWhitelist_unfold AddToBlacklist_unfold
       RemoveFromBlacklist_unfold CleanupExpired_unfold Let_def split: option.splits if_splits prod.splits)

end
