(* ===== verification/WhitelistProps.thy ===== *)
theory WhitelistProps
  imports Whitelist
begin

text \<open>
  The properties of the whitelist manager, with a concrete YAML library, manager and world on
  which their hypotheses hold.
\<close>

subsection \<open>Concrete instances\<close>

fun enc :: "string list \<Rightarrow> string" where
  "enc [] = []"
| "enc (s # ss) = concat (map (\<lambda>c. [CHR ''c'', c]) s) @ CHR ''.'' # enc ss"

fun dec :: "string \<Rightarrow> string \<Rightarrow> string list" where
  "dec acc [] = []"
| "dec acc [a] = (if a = CHR ''.'' then [acc] else [])"
| "dec acc (a # c # ys) = (if a = CHR ''.'' then acc # dec [] (c # ys) else dec (acc @ [c]) ys)"

lemma dec_string: "dec acc (concat (map (\<lambda>c. [CHR ''c'', c]) s) @ CHR ''.'' # t) = (acc @ s) # dec [] t"
  by (induction s arbitrary: acc) (auto, cases t, auto)

lemma dec_enc: "dec [] (enc r) = r"
  by (induction r) (simp_all add: dec_string)

definition demo_yaml :: yaml_ops where
  "demo_yaml = \<lparr>
     yaml_Marshal = (\<lambda>c. case td_Middlewares c middleware_name of
        None \<Rightarrow> Inl (NewErr ''no middleware'') | Some r \<Rightarrow> Inr (enc r)),
     yaml_Unmarshal = (\<lambda>s. Inr (whitelist_config (dec [] (drop 98 s)))),
     time_Format = (\<lambda>_. [])\<rparr>"

definition demo_manager :: "IPEntry list \<Rightarrow> IPEntry list \<Rightarrow> wl_Manager" where
  "demo_manager ws bs = \<lparr>wm_whitelist = ws, wm_blacklist = bs, wm_traefikConfigPath = ''t.yml'',
     wm_audit = Some \<lparr>al_logger = 0\<rparr>\<rparr>"

definition broken_disk :: aworld where
  "broken_disk = demo_world\<lparr>w_faults := [WriteFault ''no space left on device'' None]\<rparr>"

lemma demo_clock [simp]: "clock_mono demo_world" "clock_mono broken_disk"
  by (simp_all add: clock_mono_def demo_world_def broken_disk_def mono_def)

lemma demo_valid: "validateIPOrCIDR ''10.0.0.7'' = None"
  by (simp add: validateIPOrCIDR_def ParseCIDR_def ParseIP_def ParseAddr_def parseIPv4Fields_def digit_val_def Let_def)

lemma demo_len: "length (config_header demo_yaml now) = 98"
  by (simp add: config_header_def demo_yaml_def)


definition yaml_ok :: "yaml_ops \<Rightarrow> bool" where
  "yaml_ok y \<longleftrightarrow> (\<forall>r d now. yaml_Marshal y (whitelist_config r) = Inr d
     \<longrightarrow> yaml_Unmarshal y (config_header y now @ d) = Inr (whitelist_config r))"

lemma demo_yaml_ok: "yaml_ok demo_yaml"
proof -
  have "drop 98 (config_header demo_yaml now @ d) = d" for now d
    using demo_len [of now] by simp
  then show ?thesis
    by (simp add: yaml_ok_def demo_yaml_def whitelist_config_def dec_enc)
qed

lemma update_no_faults:
  fixes w :: "'z world_scheme"
  assumes "w_faults w = []" "\<forall>r. \<exists>d. yaml_Marshal y (whitelist_config r) = Inr d"
  shows "fst (updateTraefikConfig y m w) = None \<and> w_faults (snd (updateTraefikConfig y m w)) = []"
proof -
  let ?sr = "source_range (wm_whitelist m) w"
  obtain d where d: "yaml_Marshal y (whitelist_config (fst ?sr)) = Inr d" using assms(2) by blast
  have f: "w_faults (snd (time_Now (snd ?sr))) = []"
    by (simp add: world_simps ticked_sel [OF ticked_source_range] assms(1))
  have "fst (os_WriteFile p t v) = None \<and> w_faults (snd (os_WriteFile p t v)) = []"
    if "w_faults v = []" for p t and v :: "'z world_scheme"
    using that by (simp add: os_WriteFile_def next_fault_def Let_def)
  from this [OF f] show ?thesis
    by (simp add: updateTraefikConfig_def Let_def case_prod_beta d)
qed

lemma demo_marshal: "\<forall>r. \<exists>d. yaml_Marshal demo_yaml (whitelist_config r) = Inr d"
  by (simp add: demo_yaml_def whitelist_config_def)

lemma demo_add:
  "\<exists>m' w'. AddToWhitelist demo_yaml ''10.0.0.7'' ''office'' ''ops'' ex (demo_manager [] [], demo_world)
     = (None, m', w') \<and> w_faults w' = []"
proof -
  have "w_faults (snd (time_Now demo_world)) = []"
    by (simp add: world_simps) (simp add: demo_world_def)
  note u = update_no_faults [OF this demo_marshal]
  show ?thesis
    by (simp add: AddToWhitelist_unfold demo_valid listed_def demo_manager_def Let_def u world_simps)
qed

lemma demo_remove_fails:
  "\<exists>e m' w'. RemoveFromWhitelist demo_yaml ''10.0.0.7'' ''ops''
     (demo_manager [new_entry ''10.0.0.7'' ''office'' ''ops'' None 0] [], broken_disk) = (Some e, m', w')
   \<and> w_files w' = w_files broken_disk"
  by (simp add: RemoveFromWhitelist_unfold listed_def demo_manager_def Let_def updateTraefikConfig_def
      os_WriteFile_def next_fault_def demo_world_def broken_disk_def time_Now_def demo_yaml_def
      whitelist_config_def new_entry_def)

subsection \<open>Access decisions\<close>

text \<open>C1 (safety).  An access decision is right for an instant of the call: if the address would be allowed
  at the last reading of the clock it is allowed, and if it is allowed then it was at the first
  one; with a clock that stands still the two instants coincide and the decision is exactly the
  specification (a parsable address, no blacklist match, a live whitelist match).\<close>

theorem access_decision_exact:
  assumes "clock_mono w"
  shows "(allowed_at (read_clock (snd (IsAllowed m ip w))) m ip \<longrightarrow> fst (IsAllowed m ip w))
    \<and> (fst (IsAllowed m ip w) \<longrightarrow> allowed_at (read_clock w) m ip)
    \<and> ((\<forall>k. w_clock w k = t) \<longrightarrow> fst (IsAllowed m ip w) = allowed_at t m ip)"
proof -
  have "(\<forall>k. w_clock w k = t) \<Longrightarrow> read_clock w = t \<and> read_clock (snd (IsAllowed m ip w)) = t"
    using IsAllowed_later [of w m ip] by (simp add: later_def read_clock_def)
  with IsAllowed_between_readings [OF assms, of m ip] show ?thesis by auto
qed

lemma access_decision_exact_witness:
  "\<not> fst (IsAllowed (demo_manager [new_entry ''10.0.0.7'' ''d'' ''o'' (Some 4) 0] []) ''10.0.0.7''
     (demo_world\<lparr>w_clock := \<lambda>_. 5\<rparr>))"
proof -
  let ?w = "demo_world\<lparr>w_clock := \<lambda>_. 5\<rparr>"
  have "clock_mono ?w" by (simp add: clock_mono_def mono_def)
  from access_decision_exact [OF this, of "demo_manager [new_entry ''10.0.0.7'' ''d'' ''o'' (Some 4) 0] []" "''10.0.0.7''" 5]
  show ?thesis
    by (simp add: allowed_at_def demo_manager_def new_entry_def expired_at_def After_def split: option.splits)
qed

text \<open>C34 (functional).  A whitelist or blacklist entry in CIDR form over IPv4 matches an address exactly
  when the two agree on the network's leading bits (of the sixteen byte form), whatever the octets.\<close>

theorem cidr_entry_matches_prefix:
  assumes "length os = 4" "\<forall>k \<in> set os. k < 256" "n \<le> 32" "ParseIP s = Some x"
  shows "ipMatches x (show_v4 os @ ''/'' @ fmt_nat n)
    \<longleftrightarrow> take (96 + n) (bits x) = take (96 + n) (bits (v4InV6Prefix @ map of_nat os))"
  using ipMatches_v4_prefix [OF assms] by (auto simp: same_prefix_def)

lemma parse_demo: "ParseIP ''10.0.0.7'' = Some (v4InV6Prefix @ [10, 0, 0, 7])"
  by (simp add: ParseIP_def ParseAddr_def parseIPv4Fields_def digit_val_def Let_def As16_def)

lemma cidr_entry_matches_prefix_witness:
  "ipMatches (v4InV6Prefix @ [10, 0, 0, 7]) (show_v4 [10, 0, 0, 0] @ ''/'' @ fmt_nat 29)
   \<and> \<not> ipMatches (v4InV6Prefix @ [10, 0, 0, 7]) (show_v4 [10, 0, 0, 0] @ ''/'' @ fmt_nat 30)"
proof -
  have os: "length [10, 0, 0, 0 :: nat] = 4" "\<forall>k \<in> set [10, 0, 0, 0 :: nat]. k < 256" by simp_all
  show ?thesis
    using cidr_entry_matches_prefix [OF os, of 29, OF _ parse_demo]
      cidr_entry_matches_prefix [OF os, of 30, OF _ parse_demo]
    by (simp add: bits_append) (simp add: bits8_def)
qed

subsection \<open>Adding and removing\<close>

text \<open>C19 (error).  Adding to the whitelist is all or nothing: on any error (invalid address, duplicate,
  configuration that cannot be written) the manager and the audit log are as before and no other
  file has changed; on an invalid or known address not even the clock is read.\<close>

theorem add_whitelist_atomic:
  fixes w :: "'z aworld_scheme"
  assumes "AddToWhitelist y ip d who ex (m, w) = (Some e, m', w')"
  shows "m' = m \<and> w_zap w' = w_zap w
    \<and> (\<forall>q. q \<noteq> wm_traefikConfigPath m \<longrightarrow> w_files w' q = w_files w q)
    \<and> (validateIPOrCIDR ip \<noteq> None \<or> ip \<in> ip_IP ` set (wm_whitelist m) \<longrightarrow> w' = w)"
  using AddToWhitelist_error_rolls_back [OF assms] by (simp add: listed_def)

lemma add_whitelist_atomic_witness:
  "fst (snd (AddToWhitelist demo_yaml ''10.0.0.7'' ''x'' ''y'' None (demo_manager [] [], broken_disk)))
     = demo_manager [] []"
proof -
  have "\<exists>e m' w'. AddToWhitelist demo_yaml ''10.0.0.7'' ''x'' ''y'' None (demo_manager [] [], broken_disk) = (Some e, m', w')"
    by (simp add: AddToWhitelist_unfold demo_valid listed_def demo_manager_def Let_def updateTraefikConfig_def
      os_WriteFile_def next_fault_def demo_world_def broken_disk_def time_Now_def demo_yaml_def
      whitelist_config_def new_entry_def expired_now_def case_prod_beta)
  then obtain e m' w' where r: "AddToWhitelist demo_yaml ''10.0.0.7'' ''x'' ''y'' None (demo_manager [] [], broken_disk) = (Some e, m', w')"
    by blast
  with add_whitelist_atomic [OF r] show ?thesis by simp
qed

text \<open>A successful addition: the address was valid and new, one entry with the caller's
  data and the time of the call is appended and nothing else of the manager changes, one audit
  record is written if there is a logger, and the file now shows the addresses that are live: all
  that are live when the call returns, and none that had expired when it began.\<close>

lemma add_whitelist_success:
  fixes w :: "'z aworld_scheme"
  assumes "AddToWhitelist y ip d who ex (m, w) = (None, m', w')" "clock_mono w"
  shows "validateIPOrCIDR ip = None \<and> ip \<notin> ip_IP ` set (wm_whitelist m)
    \<and> m' = m\<lparr>wm_whitelist := wm_whitelist m @ [new_entry ip d who ex (read_clock w)]\<rparr>
    \<and> (\<exists>cs. w_zap w' = w_zap w @ cs \<and> length cs = audits m)
    \<and> (\<exists>r. file_shows y (wm_traefikConfigPath m) r w'
        \<and> live_ips (read_clock w') (wm_whitelist m') \<subseteq> set r
        \<and> set r \<subseteq> live_ips (read_clock w) (wm_whitelist m'))"
  using AddToWhitelist_success [OF assms] unfolding listed_def .

lemma add_whitelist_success_witness:
  "\<exists>m' w'. AddToWhitelist demo_yaml ''10.0.0.7'' ''office'' ''ops'' None (demo_manager [] [], demo_world) = (None, m', w')
     \<and> map ip_IP (wm_whitelist m') = [''10.0.0.7'']"
proof -
  obtain m' w' where r: "AddToWhitelist demo_yaml ''10.0.0.7'' ''office'' ''ops'' None (demo_manager [] [], demo_world) = (None, m', w')"
    using demo_add by blast
  with add_whitelist_success [OF r] show ?thesis by (auto simp: demo_manager_def new_entry_def)
qed

text \<open>An address that was added without expiry, and that no blacklist entry matches, is
  allowed by every later check of the new manager.\<close>

lemma add_whitelist_takes_effect:
  fixes w :: "'z aworld_scheme"
  assumes "AddToWhitelist y ip d who None (m, w) = (None, m', w')" "clock_mono w" "CHR ''/'' \<notin> set ip"
    "\<forall>p. ParseIP ip = Some p \<longrightarrow> \<not> list_ex (\<lambda>e. ipMatches p (ip_IP e)) (wm_blacklist m)" "clock_mono v"
  shows "fst (IsAllowed m' ip v)"
  by (rule AddToWhitelist_takes_effect [OF assms])

lemma add_whitelist_takes_effect_witness:
  "\<exists>m' w'. AddToWhitelist demo_yaml ''10.0.0.7'' ''office'' ''ops'' None (demo_manager [] [], demo_world) = (None, m', w')
     \<and> fst (IsAllowed m' ''10.0.0.7'' demo_world)"
proof -
  obtain m' w' where r: "AddToWhitelist demo_yaml ''10.0.0.7'' ''office'' ''ops'' None (demo_manager [] [], demo_world) = (None, m', w')"
    using demo_add by blast
  with add_whitelist_takes_effect [OF r, of demo_world] show ?thesis by (simp add: demo_manager_def)
qed

text \<open>C26 (error).  A removal whose configuration write fails is not rolled back: it reports the error, the
  address is gone from memory, nothing is logged, and every retry answers that the address is not
  in the whitelist and leaves the world alone, so the stale file is not written by retrying.\<close>

theorem failed_removal_cannot_be_retried:
  fixes w v :: "'z aworld_scheme"
  assumes "RemoveFromWhitelist y ip who (m, w) = (Some e, m', w')" "ip \<in> ip_IP ` set (wm_whitelist m)"
  shows "ip \<notin> ip_IP ` set (wm_whitelist m') \<and> w_zap w' = w_zap w
    \<and> RemoveFromWhitelist y ip who (m', v)
        = (Some (NewErr (''IP '' @ ip @ '' not found in whitelist'')), m', v)"
  using RemoveFromWhitelist_failed_write_sticks [OF assms(1)] assms(2) unfolding listed_def by blast

lemma failed_removal_cannot_be_retried_witness:
  "\<exists>m' w'. snd (RemoveFromWhitelist demo_yaml ''10.0.0.7'' ''ops''
      (demo_manager [new_entry ''10.0.0.7'' ''office'' ''ops'' None 0] [], broken_disk)) = (m', w')
    \<and> w_files w' = w_files broken_disk
    \<and> fst (RemoveFromWhitelist demo_yaml ''10.0.0.7'' ''ops'' (m', w')) \<noteq> None"
proof -
  let ?m = "demo_manager [new_entry ''10.0.0.7'' ''office'' ''ops'' None 0] []"
  obtain e m' w' where r: "RemoveFromWhitelist demo_yaml ''10.0.0.7'' ''ops'' (?m, broken_disk) = (Some e, m', w')"
    and f: "w_files w' = w_files broken_disk" using demo_remove_fails by blast
  have "''10.0.0.7'' \<in> ip_IP ` set (wm_whitelist ?m)" by (simp add: demo_manager_def new_entry_def)
  from failed_removal_cannot_be_retried [OF r this, of w'] r f show ?thesis by simp
qed

text \<open>C38 (functional).  A clean-up removes exactly the whitelist entries that had expired at its one reading
  of the clock, returns how many, leaves the blacklist alone, logs one record per removed entry,
  and without anything to remove changes neither the manager nor the files.\<close>

lemma cleanup_removes_exactly_expired:
  fixes w :: "'z aworld_scheme"
  assumes "CleanupExpired y (m, w) = (n, m', w')"
  shows "wm_whitelist m' = filter (\<lambda>e. \<not> expired_at (read_clock w) e) (wm_whitelist m)
    \<and> n = int (length (wm_whitelist m)) - int (length (wm_whitelist m'))
    \<and> wm_blacklist m' = wm_blacklist m
    \<and> (\<exists>cs. w_zap w' = w_zap w @ cs \<and> int (length cs) = int (audits m) * n)
    \<and> (n = 0 \<longrightarrow> m' = m \<and> w_files w' = w_files w)"
  by (rule CleanupExpired_exact [OF assms])

lemma cleanup_removes_exactly_expired_witness:
  "map ip_IP (wm_whitelist (fst (snd (CleanupExpired demo_yaml
     (demo_manager [new_entry ''10.0.0.7'' ''d'' ''o'' (Some 4) 0, new_entry ''10.0.0.8'' ''d'' ''o'' None 0] [],
      demo_world\<lparr>w_tick := 9\<rparr>))))) = [''10.0.0.8'']"
proof -
  let ?s = "(demo_manager [new_entry ''10.0.0.7'' ''d'' ''o'' (Some 4) 0, new_entry ''10.0.0.8'' ''d'' ''o'' None 0] [],
      demo_world\<lparr>w_tick := 9\<rparr>)"
  obtain n m' w' where r: "CleanupExpired demo_yaml ?s = (n, m', w')" by (metis prod_cases3)
  with cleanup_removes_exactly_expired [OF r] show ?thesis
    by (simp add: demo_manager_def new_entry_def expired_at_def After_def read_clock_def demo_world_def)
qed


subsection \<open>Runs\<close>

text \<open>A run is a list of calls and of moves of the environment.\<close>

datatype 'z wl_op =
    AddW string string string "time option"
  | RemW string string
  | AddB string string string
  | RemB string string
  | Cleanup
  | Query string
  | Env "'z aworld_scheme \<Rightarrow> 'z aworld_scheme"

fun wl_exec :: "yaml_ops \<Rightarrow> 'z wl_op \<Rightarrow> 'z wl_state \<Rightarrow> 'z wl_state" where
  "wl_exec y (AddW ip d who ex) s = snd (AddToWhitelist y ip d who ex s)"
| "wl_exec y (RemW ip who) s = snd (RemoveFromWhitelist y ip who s)"
| "wl_exec y (AddB ip d who) s = snd (AddToBlacklist ip d who s)"
| "wl_exec y (RemB ip who) s = snd (RemoveFromBlacklist ip who s)"
| "wl_exec y Cleanup s = snd (CleanupExpired y s)"
| "wl_exec y (Query ip) s = (fst s, snd (IsAllowed (fst s) ip (snd s)))"
| "wl_exec y (Env f) s = (fst s, f (snd s))"

lemma wl_exec_step: "wl_step y s (wl_exec y p s)"
proof (cases p)
  case (Query ip)
  then show ?thesis by (cases s) (auto intro: wl_step.query [OF prod.collapse [symmetric]])
next
  case (Env f)
  then show ?thesis by (cases s) (auto intro: wl_step.environment)
qed (auto intro: wl_step.intros prod.collapse [symmetric])

text \<open>Only a removal of an address unblocks it.\<close>

lemma wl_exec_keeps_block:
  assumes "ip \<in> bl.ips s" "\<forall>who. p \<noteq> RemB ip who"
  shows "ip \<in> bl.ips (wl_exec y p s)"
proof (cases p)
  case (AddW a d who ex)
  then show ?thesis using assms wl.add_others [of "(y, d, who, ex)" a s] by (simp add: bl.ips_def)
next
  case (RemW a who)
  then show ?thesis using assms wl.remove_others [of "(y, who)" a s] by (simp add: bl.ips_def)
next
  case (AddB a d who)
  then show ?thesis using assms bl.add_ips [of "(d, who)" a s] by simp
next
  case (RemB a who)
  then show ?thesis using assms bl.remove_ips [of a who s] by simp
next
  case Cleanup
  obtain m w n m' w' where s: "s = (m, w)" "CleanupExpired y s = (n, m', w')" by (metis prod_cases3 prod.collapse)
  from CleanupExpired_exact [OF s(2) [unfolded s(1)]] assms Cleanup show ?thesis
    by (simp add: s bl.ips_def) (metis s fst_conv snd_conv)
qed (use assms in \<open>simp_all add: bl.ips_def\<close>)

lemma run_keeps_block:
  "ip \<in> bl.ips s \<Longrightarrow> \<forall>who. RemB ip who \<notin> set ps \<Longrightarrow> ip \<in> bl.ips (fold (wl_exec y) ps s)"
proof (induction ps arbitrary: s)
  case (Cons p ps)
  then have "ip \<in> bl.ips (wl_exec y p s)" by (intro wl_exec_keeps_block) auto
  with Cons show ?case by simp
qed simp

text \<open>A blocked address stays denied: once a plain address is in the blacklist, every check of
  it answers no through any run of calls and environment moves that does not take it off the
  blacklist, whatever is added to the whitelist meanwhile.\<close>

lemma blocked_address_stays_denied:
  assumes "ip \<in> ip_IP ` set (wm_blacklist (fst s))" "CHR ''/'' \<notin> set ip"
    "\<forall>who. RemB ip who \<notin> set ps"
  shows "\<not> fst (IsAllowed (fst (fold (wl_exec y) ps s)) ip v)"
proof -
  let ?m = "fst (fold (wl_exec y) ps s)"
  from run_keeps_block [of ip s ps y] assms have "ip \<in> ip_IP ` set (wm_blacklist ?m)"
    by (simp add: bl.ips_def)
  then obtain e where e: "e \<in> set (wm_blacklist ?m)" "ip_IP e = ip" by auto
  show ?thesis
  proof (cases "ParseIP ip")
    case None
    then show ?thesis by (simp add: IsAllowed_def)
  next
    case (Some p)
    have "IsAllowed ?m ip v = (False, v)"
      using ipMatches_self [OF Some assms(2)] e(2) by (intro blacklist_dominates [OF Some e(1)]) simp
    then show ?thesis by simp
  qed
qed

lemma blocked_address_stays_denied_witness:
  "\<not> fst (IsAllowed (fst (fold (wl_exec demo_yaml) [AddW ''10.0.0.7'' ''d'' ''o'' None, Cleanup]
      (demo_manager [] [new_entry ''10.0.0.7'' ''d'' ''o'' None 0], demo_world))) ''10.0.0.7'' demo_world)"
  by (rule blocked_address_stays_denied) (simp_all add: demo_manager_def new_entry_def)

text \<open>The manager refines a pair of sets: each call or environment move is a step of the
  abstract machine that inserts a valid address, removes one, drops expired ones, or does nothing.\<close>

lemma manager_refines_access_sets:
  "access_step (wl_abs s) (wl_abs (wl_exec y p s))"
  by (rule wl_step_refines [OF wl_exec_step])

lemma NewManager_start:
  "wl_NewManager y cfg w = (Inr m, w') \<Longrightarrow> wm_blacklist m = []
    \<and> wm_traefikConfigPath m = wc_TraefikConfigPath cfg \<and> wm_audit m = wc_AuditLogger cfg"
  by (auto simp: wl_NewManager_def loadFromTraefikConfig_def Let_def
      split: prod.splits option.splits read_result.splits sum.splits)

text \<open>In every state reachable from start-up the blacklist has no duplicates and only valid
  entries, the whitelist keeps that property from any state that has it, and the configuration path
  and the logger are those of the start.\<close>

lemma reachable_lists_well_formed:
  fixes w :: "'a aworld_scheme"
  assumes "wl_reachable y cfg (m, w)"
  shows "distinct (map ip_IP (wm_blacklist m))
    \<and> (\<forall>e \<in> set (wm_blacklist m). validateIPOrCIDR (ip_IP e) = None)
    \<and> wm_traefikConfigPath m = wc_TraefikConfigPath cfg \<and> wm_audit m = wc_AuditLogger cfg
    \<and> (\<forall>ps. wl.wf (m, w) \<longrightarrow> wl.wf (fold (wl_exec y) ps (m, w)))"
proof -
  have inv: "bl.wf s \<and> wm_traefikConfigPath (fst s) = wc_TraefikConfigPath cfg
      \<and> wm_audit (fst s) = wc_AuditLogger cfg" if "wl_reachable y cfg s" for s
    using that
  proof (induction rule: wl_reachable.induct)
    case (start w m w')
    from NewManager_start [OF start] show ?case by (simp add: bl.wf_def)
  next
    case (step s s')
    with wl_step_wf [OF step.hyps(2)] wl_step_frame [OF step.hyps(2)] show ?case by simp
  qed
  have run: "wl.wf s \<Longrightarrow> wl.wf (fold (wl_exec y) ps s)" for s :: "'a wl_state" and ps
  proof (induction ps arbitrary: s)
    case (Cons p ps)
    then show ?case using wl_step_wf [OF wl_exec_step, of s y p] by simp
  qed simp
  from inv [OF assms] run show ?thesis by (auto simp: bl.wf_def)
qed

lemma reachable_lists_well_formed_witness:
  "distinct (map ip_IP (wm_blacklist (demo_manager [] [])))"
proof -
  have "wl_NewManager demo_yaml \<lparr>wc_TraefikConfigPath = ''t.yml'', wc_AuditLogger = Some \<lparr>al_logger = 0\<rparr>\<rparr> demo_world
      = (Inr (demo_manager [] []), demo_world)"
    by (simp add: wl_NewManager_def loadFromTraefikConfig_def os_ReadFile_def next_fault_def demo_world_def
        demo_manager_def)
  from reachable_lists_well_formed [OF wl_reachable.start [OF this]] show ?thesis by simp
qed

subsection \<open>Restarting\<close>

lemma load_entries_spec:
  "load_entries r w = (es, w') \<Longrightarrow> map ip_IP es = r \<and> (\<forall>e \<in> set es. ip_ExpiresAt e = None)"
  by (induction r arbitrary: w es w') (auto simp: Let_def split: prod.splits)

lemma NewManager_reads:
  assumes "yaml_ok y" "file_shows y path r w" "w_faults w = []"
  shows "\<exists>m' w'. wl_NewManager y \<lparr>wc_TraefikConfigPath = path, wc_AuditLogger = a\<rparr> w = (Inr m', w')
     \<and> map ip_IP (wm_whitelist m') = r \<and> (\<forall>e \<in> set (wm_whitelist m'). ip_ExpiresAt e = None)
     \<and> wm_blacklist m' = []"
proof -
  obtain now d where d: "yaml_Marshal y (whitelist_config r) = Inr d"
    "w_files w path = Some (config_header y now @ d)" using assms(2) by (auto simp: file_shows_def)
  then have u: "yaml_Unmarshal y (config_header y now @ d) = Inr (whitelist_config r)"
    using assms(1) by (simp add: yaml_ok_def)
  obtain es w' where l: "load_entries r w = (es, w')" by fastforce
  from load_entries_spec [OF l] l d u assms(3) show ?thesis
    by (simp add: wl_NewManager_def loadFromTraefikConfig_def os_ReadFile_def next_fault_def
        whitelist_config_def Let_def)
qed

text \<open>C33 (roundtrip).  What a restart recovers.  After a successful addition, a new manager on the same file
  (YAML reading back what it wrote, comments skipped) has the addresses that were live, each of
  them without expiry, and an empty blacklist: temporary entries become permanent and every
  blocked address is forgotten.\<close>

theorem restart_forgets_expiry_and_blacklist:
  fixes w :: "'z aworld_scheme"
  assumes "yaml_ok y" "AddToWhitelist y ip d who ex (m, w) = (None, m', w')" "clock_mono w" "w_faults w' = []"
  shows "\<exists>m2 w2. wl_NewManager y \<lparr>wc_TraefikConfigPath = wm_traefikConfigPath m, wc_AuditLogger = wm_audit m\<rparr> w'
      = (Inr m2, w2)
    \<and> live_ips (read_clock w') (wm_whitelist m') \<subseteq> ip_IP ` set (wm_whitelist m2)
    \<and> ip_IP ` set (wm_whitelist m2) \<subseteq> live_ips (read_clock w) (wm_whitelist m')
    \<and> (\<forall>e \<in> set (wm_whitelist m2). ip_ExpiresAt e = None) \<and> wm_blacklist m2 = []"
proof -
  from AddToWhitelist_success [OF assms(2,3)] obtain r where
    r: "file_shows y (wm_traefikConfigPath m) r w'" "live_ips (read_clock w') (wm_whitelist m') \<subseteq> set r"
      "set r \<subseteq> live_ips (read_clock w) (wm_whitelist m')" by blast
  from NewManager_reads [OF assms(1) r(1) assms(4), of "wm_audit m"] r(2,3) show ?thesis
    by (metis list.set_map)
qed

lemma restart_forgets_expiry_and_blacklist_witness:
  "\<exists>w' m2 w2. wl_NewManager demo_yaml \<lparr>wc_TraefikConfigPath = ''t.yml'', wc_AuditLogger = Some \<lparr>al_logger = 0\<rparr>\<rparr>
      (w' :: aworld) = (Inr m2, w2) \<and> (\<forall>e \<in> set (wm_whitelist m2). ip_ExpiresAt e = None)"
proof -
  obtain m' w' where r: "AddToWhitelist demo_yaml ''10.0.0.7'' ''office'' ''ops'' (Some 60) (demo_manager [] [], demo_world) = (None, m', w')"
    "w_faults w' = []" using demo_add by blast
  from restart_forgets_expiry_and_blacklist [OF demo_yaml_ok r(1) _ r(2)]
  show ?thesis by (auto simp: demo_manager_def)
qed

end
