(* ===== verification/Cache.thy ===== *)
theory Cache
  imports Config
begin

text \<open>
  Package \<open>internal/cache\<close>: the Redis wrapper and the token cache (redis.go), the query cache
  (query_cache.go).  The go-redis client and the server behind it are a parameter: a record of the
  client's commands on a server state of any type.  The JSON codec of the cached values and the
  hash of a query text are parameters as well.
\<close>

subsection \<open>The go-redis client\<close>

record redis_options =
  ro_Addr :: string
  ro_Password :: string
  ro_DB :: int
  ro_PoolSize :: int
  ro_DialTimeout :: duration
  ro_ReadTimeout :: duration
  ro_WriteTimeout :: duration
  ro_TLSConfig :: "(int \<times> bool) option"

record PoolStats =
  ps_Hits :: "32 word"
  ps_Misses :: "32 word"
  ps_Timeouts :: "32 word"
  ps_TotalConns :: "32 word"
  ps_IdleConns :: "32 word"
  ps_StaleConns :: "32 word"

datatype redis_reply = RNil | RErr go_error | RBytes string

record 'rd redis_client =
  rd_Ping :: "'rd \<Rightarrow> go_error option \<times> 'rd"
  rd_Set :: "string \<Rightarrow> string \<Rightarrow> duration \<Rightarrow> 'rd \<Rightarrow> go_error option \<times> 'rd"
  rd_Get :: "string \<Rightarrow> 'rd \<Rightarrow> redis_reply \<times> 'rd"
  rd_Del :: "string \<Rightarrow> 'rd \<Rightarrow> go_error option \<times> 'rd"
  rd_Exists :: "string \<Rightarrow> 'rd \<Rightarrow> (int \<times> go_error option) \<times> 'rd"
  rd_Expire :: "string \<Rightarrow> duration \<Rightarrow> 'rd \<Rightarrow> go_error option \<times> 'rd"
  rd_Incr :: "string \<Rightarrow> 'rd \<Rightarrow> (int \<times> go_error option) \<times> 'rd"
  rd_IncrBy :: "string \<Rightarrow> int \<Rightarrow> 'rd \<Rightarrow> (int \<times> go_error option) \<times> 'rd"
  rd_SetNX :: "string \<Rightarrow> string \<Rightarrow> duration \<Rightarrow> 'rd \<Rightarrow> (bool \<times> go_error option) \<times> 'rd"
  rd_TTL :: "string \<Rightarrow> 'rd \<Rightarrow> (duration \<times> go_error option) \<times> 'rd"
  rd_Keys :: "string \<Rightarrow> 'rd \<Rightarrow> (string list \<times> go_error option) \<times> 'rd"
  rd_FlushDB :: "'rd \<Rightarrow> go_error option \<times> 'rd"
  rd_Close :: "'rd \<Rightarrow> go_error option \<times> 'rd"
  rd_PoolStats :: "'rd \<Rightarrow> PoolStats"

record 'rd RedisCache =
  rch_client :: "'rd redis_client"

record 'v codec =
  js_Marshal :: "'v \<Rightarrow> string result"
  js_Unmarshal :: "string \<Rightarrow> 'v result"

subsection \<open>The wrapper\<close>

definition redis_options_of :: "RedisConfig \<Rightarrow> redis_options" where
  "redis_options_of cfg = \<lparr>ro_Addr = GetRedisAddr cfg, ro_Password = rc_Password cfg, ro_DB = rc_DB cfg,
     ro_PoolSize = rc_PoolSize cfg, ro_DialTimeout = rc_Timeout cfg, ro_ReadTimeout = rc_Timeout cfg,
     ro_WriteTimeout = rc_Timeout cfg,
     ro_TLSConfig = (if tls_Enabled (rc_TLS cfg)
       then Some (tls_MinVersion (rc_TLS cfg), tls_InsecureSkipVerify (rc_TLS cfg)) else None)\<rparr>"

definition NewRedisCache :: "(redis_options \<Rightarrow> 'rd redis_client) \<Rightarrow> RedisConfig \<Rightarrow> 'rd \<Rightarrow>
    'rd RedisCache result \<times> 'rd" where
  "NewRedisCache NewClient cfg s =
     (let client = NewClient (redis_options_of cfg); (err, s1) = rd_Ping client s
      in case err of
           Some e \<Rightarrow> (Inl (WrapErr ''failed to connect to Redis'' e), s1)
         | None \<Rightarrow> (Inr \<lparr>rch_client = client\<rparr>, s1))"

definition cache_Set :: "'rd RedisCache \<Rightarrow> 'v codec \<Rightarrow> string \<Rightarrow> 'v \<Rightarrow> duration \<Rightarrow> 'rd \<Rightarrow>
    go_error option \<times> 'rd" where
  "cache_Set r j key v expiration s = (case js_Marshal j v of
     Inl e \<Rightarrow> (Some (WrapErr ''failed to marshal value'' e), s)
   | Inr data \<Rightarrow> rd_Set (rch_client r) key data expiration s)"

definition cache_Get :: "'rd RedisCache \<Rightarrow> 'v codec \<Rightarrow> string \<Rightarrow> 'rd \<Rightarrow> 'v result \<times> 'rd" where
  "cache_Get r j key s = (let (reply, s1) = rd_Get (rch_client r) key s in
     case reply of
       RNil \<Rightarrow> (Inl (NewErr (''key not found: '' @ key)), s1)
     | RErr e \<Rightarrow> (Inl (WrapErr ''failed to get value'' e), s1)
     | RBytes data \<Rightarrow> (case js_Unmarshal j data of
         Inl e \<Rightarrow> (Inl (WrapErr ''failed to unmarshal value'' e), s1)
       | Inr v \<Rightarrow> (Inr v, s1)))"

definition cache_Delete :: "'rd RedisCache \<Rightarrow> string \<Rightarrow> 'rd \<Rightarrow> go_error option \<times> 'rd" where
  "cache_Delete r key s = rd_Del (rch_client r) key s"

definition cache_Exists :: "'rd RedisCache \<Rightarrow> string \<Rightarrow> 'rd \<Rightarrow> (bool \<times> go_error option) \<times> 'rd" where
  "cache_Exists r key s = (let ((n, err), s1) = rd_Exists (rch_client r) key s in ((0 < n, err), s1))"

definition cache_Expire :: "'rd RedisCache \<Rightarrow> string \<Rightarrow> duration \<Rightarrow> 'rd \<Rightarrow> go_error option \<times> 'rd" where
  "cache_Expire r key expiration s = rd_Expire (rch_client r) key expiration s"

definition cache_Increment :: "'rd RedisCache \<Rightarrow> string \<Rightarrow> 'rd \<Rightarrow> (int \<times> go_error option) \<times> 'rd" where
  "cache_Increment r key s = rd_Incr (rch_client r) key s"

definition cache_IncrementBy :: "'rd RedisCache \<Rightarrow> string \<Rightarrow> int \<Rightarrow> 'rd \<Rightarrow> (int \<times> go_error option) \<times> 'rd" where
  "cache_IncrementBy r key n s = rd_IncrBy (rch_client r) key n s"

definition cache_SetNX :: "'rd RedisCache \<Rightarrow> 'v codec \<Rightarrow> string \<Rightarrow> 'v \<Rightarrow> duration \<Rightarrow> 'rd \<Rightarrow>
    (bool \<times> go_error option) \<times> 'rd" where
  "cache_SetNX r j key v expiration s = (case js_Marshal j v of
     Inl e \<Rightarrow> ((False, Some (WrapErr ''failed to marshal value'' e)), s)
   | Inr data \<Rightarrow> rd_SetNX (rch_client r) key data expiration s)"

definition cache_GetTTL :: "'rd RedisCache \<Rightarrow> string \<Rightarrow> 'rd \<Rightarrow> (duration \<times> go_error option) \<times> 'rd" where
  "cache_GetTTL r key s = rd_TTL (rch_client r) key s"

definition cache_Keys :: "'rd RedisCache \<Rightarrow> string \<Rightarrow> 'rd \<Rightarrow> (string list \<times> go_error option) \<times> 'rd" where
  "cache_Keys r pat s = rd_Keys (rch_client r) pat s"

definition cache_FlushDB :: "'rd RedisCache \<Rightarrow> 'rd \<Rightarrow> go_error option \<times> 'rd" where
  "cache_FlushDB r s = rd_FlushDB (rch_client r) s"

definition cache_Close :: "'rd RedisCache \<Rightarrow> 'rd \<Rightarrow> go_error option \<times> 'rd" where
  "cache_Close r s = rd_Close (rch_client r) s"

definition cache_Ping :: "'rd RedisCache \<Rightarrow> 'rd \<Rightarrow> go_error option \<times> 'rd" where
  "cache_Ping r s = rd_Ping (rch_client r) s"

definition cache_PoolStats :: "'rd RedisCache \<Rightarrow> 'rd \<Rightarrow> PoolStats" where
  "cache_PoolStats r s = rd_PoolStats (rch_client r) s"

definition cache_Client :: "'rd RedisCache \<Rightarrow> 'rd redis_client" where
  "cache_Client r = rch_client r"

subsection \<open>Tokens\<close>

record Token =
  tk_AccessToken :: string
  tk_RefreshToken :: string
  tk_TokenType :: string
  tk_ExpiresAt :: time
  tk_Scope :: string

record 'rd TokenCache =
  tc_cache :: "'rd RedisCache"
  tc_prefix :: string

definition NewTokenCache :: "'rd RedisCache \<Rightarrow> 'rd TokenCache" where
  "NewTokenCache c = \<lparr>tc_cache = c, tc_prefix = ''token:''\<rparr>"

definition SetToken :: "'rd TokenCache \<Rightarrow> Token codec \<Rightarrow> string \<Rightarrow> Token \<Rightarrow>
    'rd \<times> 'z world_scheme \<Rightarrow> go_error option \<times> 'rd \<times> 'z world_scheme" where
  "SetToken t j service token st = (case st of (s, w) \<Rightarrow>
     (let key = tc_prefix t @ service; (now, w1) = time_Now w;
          expiration = tk_ExpiresAt token - now;
          (err, s1) = cache_Set (tc_cache t) j key token expiration s
      in (err, s1, w1)))"

definition GetToken :: "'rd TokenCache \<Rightarrow> Token codec \<Rightarrow> string \<Rightarrow> 'rd \<Rightarrow> Token result \<times> 'rd" where
  "GetToken t j service s = (let key = tc_prefix t @ service in cache_Get (tc_cache t) j key s)"

definition DeleteToken :: "'rd TokenCache \<Rightarrow> string \<Rightarrow> 'rd \<Rightarrow> go_error option \<times> 'rd" where
  "DeleteToken t service s = (let key = tc_prefix t @ service in cache_Delete (tc_cache t) key s)"

definition IsTokenValid :: "'rd TokenCache \<Rightarrow> Token codec \<Rightarrow> string \<Rightarrow>
    'rd \<times> 'z world_scheme \<Rightarrow> (bool \<times> go_error option) \<times> 'rd \<times> 'z world_scheme" where
  "IsTokenValid t j service st = (case st of (s, w) \<Rightarrow>
     (let (res, s1) = GetToken t j service s in
      case res of
        Inl e \<Rightarrow> ((False, None), s1, w)
      | Inr token \<Rightarrow> (let (now, w1) = time_Now w in
          ((Before now (tk_ExpiresAt token), None), s1, w1))))"

end
