(* ===== verification/QueryCache.thy ===== *)
theory QueryCache
  imports Cache
begin

text \<open>
  Query cache of \<open>internal/cache\<close> (query_cache.go).  A cached value has the type \<open>interface{}\<close>:
  here \<^typ>\<open>'v option\<close>, where \<^const>\<open>None\<close> is \<open>nil\<close>.  The SHA-256 digest of the query text is a
  parameter of the key.  The goroutine that stores a result is a job of its own, which runs after
  the wrapper has returned.
\<close>

record 'rd QueryCache =
  qc_redis :: "'rd RedisCache option"
  qc_defaultTTL :: duration
  qc_prefix :: string

record 'rd QueryCacheConfig =
  qcc_Redis :: "'rd RedisCache option"
  qcc_DefaultTTL :: duration
  qcc_Prefix :: string

definition NewQueryCache :: "'rd QueryCacheConfig \<Rightarrow> 'rd QueryCache" where
  "NewQueryCache cfg0 =
     (let cfg1 = (if qcc_DefaultTTL cfg0 = 0 then cfg0\<lparr>qcc_DefaultTTL := 5 * Minute\<rparr> else cfg0);
          cfg = (if qcc_Prefix cfg1 = [] then cfg1\<lparr>qcc_Prefix := ''query''\<rparr> else cfg1)
      in \<lparr>qc_redis = qcc_Redis cfg, qc_defaultTTL = qcc_DefaultTTL cfg, qc_prefix = qcc_Prefix cfg\<rparr>)"

text \<open>\<open>hex.EncodeToString\<close>: two lower case digits per byte.\<close>

definition hex_digit :: "nat \<Rightarrow> char" where
  "hex_digit d = ''0123456789abcdef'' ! d"

definition hex_encode :: "string \<Rightarrow> string" where
  "hex_encode bs = concat (map (\<lambda>c. [hex_digit (of_char c div 16), hex_digit (of_char c mod 16)]) bs)"

definition generateKey :: "(string \<Rightarrow> string) \<Rightarrow> 'rd QueryCache \<Rightarrow> string \<Rightarrow> string" where
  "generateKey sha256 qc query = qc_prefix qc @ '':'' @ hex_encode (sha256 query)"

definition qc_not_configured :: go_error where
  "qc_not_configured = NewErr ''redis cache not configured''"

text \<open>\<open>Get\<close>: the flag, the value written to the destination (if any), the error.\<close>

definition qc_Get :: "(string \<Rightarrow> string) \<Rightarrow> 'v option codec \<Rightarrow> 'rd QueryCache \<Rightarrow> string \<Rightarrow> 'rd \<Rightarrow>
    (bool \<times> 'v option \<times> go_error option) \<times> 'rd" where
  "qc_Get sha256 j qc query s = (case qc_redis qc of
     None \<Rightarrow> ((False, None, Some qc_not_configured), s)
   | Some r \<Rightarrow> (let key = generateKey sha256 qc query; (res, s1) = cache_Get r j key s in
       case res of Inl e \<Rightarrow> ((False, None, None), s1) | Inr v \<Rightarrow> ((True, v, None), s1)))"

definition qc_Set :: "(string \<Rightarrow> string) \<Rightarrow> 'v option codec \<Rightarrow> 'rd QueryCache \<Rightarrow> string \<Rightarrow> 'v option \<Rightarrow>
    duration list \<Rightarrow> 'rd \<Rightarrow> go_error option \<times> 'rd" where
  "qc_Set sha256 j qc query data ttl s = (case qc_redis qc of
     None \<Rightarrow> (Some qc_not_configured, s)
   | Some r \<Rightarrow>
       (let cacheTTL = (case ttl of t # _ \<Rightarrow> if 0 < t then t else qc_defaultTTL qc | [] \<Rightarrow> qc_defaultTTL qc);
            key = generateKey sha256 qc query
        in cache_Set r j key data cacheTTL s))"

definition Invalidate :: "(string \<Rightarrow> string) \<Rightarrow> 'rd QueryCache \<Rightarrow> string \<Rightarrow> 'rd \<Rightarrow> go_error option \<times> 'rd" where
  "Invalidate sha256 qc query s = (case qc_redis qc of
     None \<Rightarrow> (Some qc_not_configured, s)
   | Some r \<Rightarrow> cache_Delete r (generateKey sha256 qc query) s)"

definition InvalidatePattern :: "'rd QueryCache \<Rightarrow> string \<Rightarrow> go_error option" where
  "InvalidatePattern qc pat = (case qc_redis qc of
     None \<Rightarrow> Some qc_not_configured
   | Some r \<Rightarrow> Some (NewErr ''pattern invalidation not implemented''))"

datatype query_cache_stats = StatsDisabled | StatsEnabled string string "32 word" "32 word" "32 word" "32 word"

definition qc_GetStats :: "'rd QueryCache \<Rightarrow> 'rd \<Rightarrow> query_cache_stats" where
  "qc_GetStats qc s = (case qc_redis qc of
     None \<Rightarrow> StatsDisabled
   | Some r \<Rightarrow> (let stats = cache_PoolStats r s in
       StatsEnabled (fmt_duration (qc_defaultTTL qc)) (qc_prefix qc) (ps_TotalConns stats) (ps_IdleConns stats)
         (ps_Hits stats) (ps_Misses stats)))"

text \<open>
  The wrapper around a query function that works on a database of its own: the result, the two
  states, the lines it prints and the job it leaves behind.  \<open>cache_job\<close> is that job.
\<close>

definition CacheWrapper :: "(string \<Rightarrow> string) \<Rightarrow> 'v option codec \<Rightarrow> 'rd QueryCache \<Rightarrow> string \<Rightarrow> duration \<Rightarrow>
    ('db \<Rightarrow> 'v option result \<times> 'db) \<Rightarrow> 'rd \<times> 'db \<Rightarrow>
    'v option result \<times> ('rd \<times> 'db) \<times> string list \<times> (string \<times> 'v option \<times> duration) option" where
  "CacheWrapper sha256 j qc query ttl fn st = (case st of (s, db) \<Rightarrow>
     (let ((hit, result, err), s1) = qc_Get sha256 j qc query s;
          out = (case err of None \<Rightarrow> [] | Some e \<Rightarrow> [''Cache get error: '' @ Error e @ [CHR 0x0A]])
      in if hit \<and> result \<noteq> None then (Inr result, (s1, db), out, None)
         else (case fn db of
             (Inl e, db1) \<Rightarrow> (Inl e, (s1, db1), out, None)
           | (Inr v, db1) \<Rightarrow> (Inr v, (s1, db1), out, Some (query, v, ttl)))))"

definition cache_job :: "(string \<Rightarrow> string) \<Rightarrow> 'v option codec \<Rightarrow> 'rd QueryCache \<Rightarrow>
    string \<times> 'v option \<times> duration \<Rightarrow> 'rd \<Rightarrow> string list \<times> 'rd" where
  "cache_job sha256 j qc job s = (case job of (query, result, ttl) \<Rightarrow>
     (let (err, s1) = qc_Set sha256 j qc query result [ttl] s in
      ((case err of None \<Rightarrow> [] | Some e \<Rightarrow> [''Cache set error: '' @ Error e @ [CHR 0x0A]]), s1)))"

end
