(* ===== verification/CacheProps.thy ===== *)
theory CacheProps
  imports QueryCache
begin

text \<open>
  Properties of \<open>internal/cache\<close>: what the token cache and the query cache promise, relative to what
  the code relies on of the Redis server behind them.
\<close>

subsection \<open>The server\<close>

text \<open>
  What the code relies on of a Redis server, for commands issued one right after the other: a
  successful SET is read back, a successful DEL leaves nothing, and a command touches no other key.
\<close>

definition redis_laws :: "'rd redis_client \<Rightarrow> bool" where
  "redis_laws c \<longleftrightarrow>
     (\<forall>k v d s s'. 0 < d \<longrightarrow> rd_Set c k v d s = (None, s') \<longrightarrow> fst (rd_Get c k s') = RBytes v)
   \<and> (\<forall>k s s'. rd_Del c k s = (None, s') \<longrightarrow> fst (rd_Get c k s') = RNil)
   \<and> (\<forall>k k' v d s. k \<noteq> k' \<longrightarrow> fst (rd_Get c k (snd (rd_Set c k' v d s))) = fst (rd_Get c k s))
   \<and> (\<forall>k k' s. k \<noteq> k' \<longrightarrow> fst (rd_Get c k (snd (rd_Del c k' s))) = fst (rd_Get c k s))"

lemma redis_set_get:
  assumes "redis_laws c" "0 < d" "rd_Set c k v d s = (None, s')"
  shows "fst (rd_Get c k s') = RBytes v"
proof -
  from assms(1) have "\<forall>k v d s s'. 0 < d \<longrightarrow> rd_Set c k v d s = (None, s') \<longrightarrow> fst (rd_Get c k s') = RBytes v"
    unfolding redis_laws_def by (rule conjunct1)
  from this [rule_format, OF assms(2,3)] show ?thesis .
qed

lemma redis_del_get:
  assumes "redis_laws c" "rd_Del c k s = (None, s')"
  shows "fst (rd_Get c k s') = RNil"
proof -
  from assms(1) have "\<forall>k s s'. rd_Del c k s = (None, s') \<longrightarrow> fst (rd_Get c k s') = RNil"
    unfolding redis_laws_def by (elim conjE)
  from this [rule_format, OF assms(2)] show ?thesis .
qed

text \<open>A server that obeys the laws: a map, without expiry, that never fails.\<close>

definition map_redis :: "(string \<rightharpoonup> string) redis_client" where
  "map_redis = \<lparr>rd_Ping = \<lambda>s. (None, s),
     rd_Set = \<lambda>k v d s. (None, s(k \<mapsto> v)),
     rd_Get = \<lambda>k s. (case s k of None \<Rightarrow> RNil | Some v \<Rightarrow> RBytes v, s),
     rd_Del = \<lambda>k s. (None, s(k := None)),
     rd_Exists = \<lambda>k s. ((if s k = None then 0 else 1, None), s),
     rd_Expire = \<lambda>k d s. (None, s),
     rd_Incr = \<lambda>k s. ((1, None), s(k \<mapsto> ''1'')),
     rd_IncrBy = \<lambda>k n s. ((n, None), s(k \<mapsto> fmt_d n)),
     rd_SetNX = \<lambda>k v d s. if s k = None then ((True, None), s(k \<mapsto> v)) else ((False, None), s),
     rd_TTL = \<lambda>k s. ((-1, None), s),
     rd_Keys = \<lambda>p s. (([], None), s),
     rd_FlushDB = \<lambda>s. (None, Map.empty),
     rd_Close = \<lambda>s. (None, s),
     rd_PoolStats = \<lambda>s. \<lparr>ps_Hits = 0, ps_Misses = 0, ps_Timeouts = 0, ps_TotalConns = 0, ps_IdleConns = 0,
       ps_StaleConns = 0\<rparr>\<rparr>"

lemma map_redis_laws: "redis_laws map_redis"
  by (simp add: redis_laws_def map_redis_def)

lemma cache_Get_Set:
  assumes "redis_laws (rch_client r)" "0 < d" "cache_Set r j k v d s = (None, s')"
    "\<forall>data. js_Marshal j v = Inr data \<longrightarrow> js_Unmarshal j data = Inr v"
  shows "fst (cache_Get r j k s') = Inr v"
proof -
  from assms(3) obtain data where m: "js_Marshal j v = Inr data"
    and "rd_Set (rch_client r) k data d s = (None, s')"
    by (auto simp: cache_Set_def split: sum.splits)
  from redis_set_get [OF assms(1,2) this(2)] m assms(4) show ?thesis
    by (auto simp: cache_Get_def Let_def split: prod.split)
qed

lemma cache_Get_Delete:
  assumes "redis_laws (rch_client r)" "cache_Delete r k s = (None, s')"
  shows "fst (cache_Get r j k s') = Inl (NewErr (''key not found: '' @ k))"
proof -
  from redis_del_get [OF assms(1)] assms(2) have "fst (rd_Get (rch_client r) k s') = RNil"
    by (simp add: cache_Delete_def)
  then show ?thesis by (auto simp: cache_Get_def Let_def split: prod.split)
qed

subsection \<open>Tokens\<close>

text \<open>A validity check of a token never fails: an absent, unreadable or undecodable entry
  counts as invalid, and otherwise the answer compares the stored expiry with the clock, which is
  read only then.\<close>

lemma IsTokenValid_decides:
  "fst (IsTokenValid t j service (s, w)) =
     (case fst (GetToken t j service s) of
        Inl e \<Rightarrow> (False, None)
      | Inr token \<Rightarrow> (w_clock w (w_tick w) < tk_ExpiresAt token, None))
   \<and> fst (snd (IsTokenValid t j service (s, w))) = snd (GetToken t j service s)
   \<and> w_tick (snd (snd (IsTokenValid t j service (s, w)))) =
       w_tick w + (case fst (GetToken t j service s) of Inl e \<Rightarrow> 0 | Inr token \<Rightarrow> 1)"
  by (auto simp: IsTokenValid_def Let_def Before_def time_Now_def split: prod.split sum.split)

text \<open>C23 (roundtrip).  A token stored before its expiry is read back by its service name, is valid exactly as
  long as the clock has not reached the expiry, and after a successful deletion is gone.\<close>

theorem token_store_roundtrip:
  fixes w w2 :: "'z world_scheme"
  assumes "redis_laws (rch_client (tc_cache t))"
    and "SetToken t j service token (s, w) = (None, s', w')"
    and "w_clock w (w_tick w) < tk_ExpiresAt token"
    and "\<forall>data. js_Marshal j token = Inr data \<longrightarrow> js_Unmarshal j data = Inr token"
  shows "fst (GetToken t j service s') = Inr token
    \<and> fst (fst (IsTokenValid t j service (s', w2))) = (w_clock w2 (w_tick w2) < tk_ExpiresAt token)
    \<and> (\<forall>s2. DeleteToken t service s' = (None, s2) \<longrightarrow> \<not> fst (fst (IsTokenValid t j service (s2, w2))))"
proof -
  let ?d = "tk_ExpiresAt token - w_clock w (w_tick w)"
  from assms(2) have set: "cache_Set (tc_cache t) j (tc_prefix t @ service) token ?d s = (None, s')"
    by (auto simp: SetToken_def time_Now_def Let_def split: prod.splits)
  have get: "fst (GetToken t j service s') = Inr token"
    using cache_Get_Set [OF assms(1) _ set assms(4)] assms(3) by (simp add: GetToken_def)
  have valid: "fst (fst (IsTokenValid t j service (s'', v))) =
      (case fst (GetToken t j service s'') of Inl e \<Rightarrow> False | Inr tk \<Rightarrow> w_clock v (w_tick v) < tk_ExpiresAt tk)"
    for s'' and v :: "'z world_scheme"
    by (auto simp: IsTokenValid_def Let_def Before_def time_Now_def split: prod.split sum.split)
  have "fst (GetToken t j service s2) = Inl (NewErr (''key not found: '' @ tc_prefix t @ service))"
    if "DeleteToken t service s' = (None, s2)" for s2
    using cache_Get_Delete [OF assms(1)] that by (simp add: DeleteToken_def GetToken_def)
  with get valid show ?thesis by simp
qed

definition demo_token :: Token where
  "demo_token = \<lparr>tk_AccessToken = ''a'', tk_RefreshToken = [], tk_TokenType = ''Bearer'', tk_ExpiresAt = 100,
     tk_Scope = []\<rparr>"

definition demo_token_codec :: "Token codec" where
  "demo_token_codec = \<lparr>js_Marshal = \<lambda>_. Inr ''t'', js_Unmarshal = \<lambda>_. Inr demo_token\<rparr>"

definition clock_world :: world where
  "clock_world = \<lparr>w_clock = int, w_tick = 0, w_files = Map.empty, w_faults = []\<rparr>"

lemma token_store_roundtrip_witness:
  "\<exists>s' w'. SetToken (NewTokenCache \<lparr>rch_client = map_redis\<rparr>) demo_token_codec ''visma'' demo_token
      (Map.empty, clock_world) = (None, s', w')
    \<and> fst (GetToken (NewTokenCache \<lparr>rch_client = map_redis\<rparr>) demo_token_codec ''visma'' s') = Inr demo_token"
proof -
  let ?t = "NewTokenCache \<lparr>rch_client = map_redis\<rparr>"
  obtain s' w' where r: "SetToken ?t demo_token_codec ''visma'' demo_token (Map.empty, clock_world) = (None, s', w')"
    by (simp add: SetToken_def NewTokenCache_def cache_Set_def demo_token_codec_def map_redis_def time_Now_def)
  have l: "redis_laws (rch_client (tc_cache ?t))" by (simp add: NewTokenCache_def map_redis_laws)
  from token_store_roundtrip [OF l r] r show ?thesis
    by (simp add: clock_world_def demo_token_def demo_token_codec_def)
qed

subsection \<open>Keys of cached queries\<close>

lemma hex_digit_inject: "a < 16 \<Longrightarrow> b < 16 \<Longrightarrow> hex_digit a = hex_digit b \<longleftrightarrow> a = b"
  unfolding hex_digit_def by (subst nth_eq_iff_index_eq) auto

lemma hex_encode_inject: "hex_encode a = hex_encode b \<longleftrightarrow> a = b"
proof (induction a arbitrary: b)
  case Nil
  then show ?case by (cases b) (auto simp: hex_encode_def)
next
  case (Cons c a)
  show ?case
  proof (cases b)
    case Nil
    then show ?thesis by (simp add: hex_encode_def)
  next
    case (Cons d b')
    have lt: "of_char x div 16 < (16 :: nat)" "of_char x mod 16 < (16 :: nat)" for x
      using nat_of_char_less_256 [of x] by linarith+
    have "of_char c div 16 = (of_char d div 16 :: nat) \<and> of_char c mod 16 = (of_char d mod 16 :: nat) \<longleftrightarrow> c = d"
      by (metis div_mult_mod_eq of_char_eq_iff)
    with Cons Cons.IH [of b'] lt show ?thesis
      by (auto simp: hex_encode_def hex_digit_inject)
  qed
qed

lemma hex_encode_length: "length (hex_encode a) = 2 * length a"
  by (induction a) (simp_all add: hex_encode_def)


lemma generateKey_eq:
  "generateKey h qc q = generateKey h qc q' \<longleftrightarrow> h q = h q'"
  by (simp add: generateKey_def hex_encode_inject)

text \<open>Caches with different prefixes never share a key, however queries hash.\<close>

lemma generateKey_prefix:
  assumes "length (h q) = length (h q')" "generateKey h qc q = generateKey h qc' q'"
  shows "qc_prefix qc = qc_prefix qc' \<and> h q = h q'"
  using assms by (simp add: generateKey_def hex_encode_length hex_encode_inject)

lemma cache_Set_other:
  assumes "redis_laws (rch_client r)" "k \<noteq> k'"
  shows "fst (cache_Get r j k (snd (cache_Set r j' k' v d s))) = fst (cache_Get r j k s)"
proof -
  have "fst (rd_Get (rch_client r) k (snd (cache_Set r j' k' v d s))) = fst (rd_Get (rch_client r) k s)"
    using assms unfolding redis_laws_def cache_Set_def by (auto split: sum.split)
  then show ?thesis
    by (simp add: cache_Get_def Let_def case_prod_beta split: redis_reply.split sum.split)
qed

text \<open>C39 (safety).  Two query caches on one server, with digests of one length: an entry written through
  one of them changes what the other reads for a query only if the prefixes agree and the two
  queries have the same digest.\<close>

lemma query_cache_isolation:
  assumes "redis_laws (rch_client r)" "qc_redis qc = Some r" "qc_redis qc' = Some r"
    and "\<forall>a b. length (sha a) = length (sha b)"
    and "qc_prefix qc \<noteq> qc_prefix qc' \<or> sha q \<noteq> sha q'"
  shows "fst (qc_Get sha j qc q (snd (qc_Set sha j qc' q' v ttl s))) = fst (qc_Get sha j qc q s)"
proof -
  have ne: "generateKey sha qc q \<noteq> generateKey sha qc' q'"
    using generateKey_prefix [of sha q q' qc qc'] assms(4,5) by blast
  show ?thesis
    using cache_Set_other [OF assms(1) ne, of j j v _ s] assms(2,3)
    by (simp add: qc_Get_def qc_Set_def Let_def case_prod_beta split: sum.split)
qed

definition id_codec :: "string option codec" where
  "id_codec = \<lparr>js_Marshal = (\<lambda>v. Inr (case v of None \<Rightarrow> ''null'' | Some s \<Rightarrow> ''s'' @ s)),
     js_Unmarshal = (\<lambda>d. Inr (if d = ''null'' then None else Some (tl d)))\<rparr>"

definition demo_qc :: "string \<Rightarrow> (string \<rightharpoonup> string) QueryCache" where
  "demo_qc p = NewQueryCache \<lparr>qcc_Redis = Some \<lparr>rch_client = map_redis\<rparr>, qcc_DefaultTTL = 0, qcc_Prefix = p\<rparr>"

lemma query_cache_isolation_witness:
  "fst (qc_Get (\<lambda>_. ''h'') id_codec (demo_qc ''a'') ''q''
      (snd (qc_Set (\<lambda>_. ''h'') id_codec (demo_qc ''b'') ''q'' (Some ''x'') [] Map.empty))) = (False, None, None)"
  by (subst query_cache_isolation [of "\<lparr>rch_client = map_redis\<rparr>"])
     (simp_all add: map_redis_laws,
      simp_all add: demo_qc_def NewQueryCache_def qc_Get_def cache_Get_def map_redis_def)

subsection \<open>The wrapper\<close>

lemma qc_Get_Set:
  assumes "redis_laws (rch_client r)" "qc_redis qc = Some r" "0 < qc_defaultTTL qc"
    and "qc_Set sha j qc q v ttl s = (None, s')"
    and "\<forall>data. js_Marshal j v = Inr data \<longrightarrow> js_Unmarshal j data = Inr v"
  shows "fst (qc_Get sha j qc q s') = (True, v, None)"
proof -
  define d where "d = (case ttl of t # _ \<Rightarrow> if 0 < t then t else qc_defaultTTL qc | [] \<Rightarrow> qc_defaultTTL qc)"
  have "0 < d" using assms(3) by (auto simp: d_def split: list.split)
  moreover have "cache_Set r j (generateKey sha qc q) v d s = (None, s')"
    using assms(2,4) by (simp add: qc_Set_def Let_def d_def)
  ultimately have "fst (cache_Get r j (generateKey sha qc q) s') = Inr v"
    using cache_Get_Set [OF assms(1) _ _ assms(5)] by blast
  then show ?thesis
    using assms(2) by (auto simp: qc_Get_def Let_def split: prod.split)
qed

text \<open>C22 (roundtrip).  Once the job left behind by a wrapped query has run without an error, in whatever state the
  Redis server then is, the same query is answered from the cache, the query function is not run again
  and the database is untouched; so an invalidation between the query and its job is undone.
  A \<open>nil\<close> result is the exception: it is stored, but never answered from the cache.\<close>

theorem wrapped_query_cached_once:
  fixes fn fn' :: "'db \<Rightarrow> 'v option result \<times> 'db"
  assumes "redis_laws (rch_client r)" "qc_redis qc = Some r" "0 < qc_defaultTTL qc"
    and "CacheWrapper sha j qc q ttl fn (s, db) = (Inr v, (s1, db1), out, Some job)"
    and "cache_job sha j qc job sx = ([], s2)"
    and "\<forall>data. js_Marshal j v = Inr data \<longrightarrow> js_Unmarshal j data = Inr v"
  shows "if v = None
    then fst (CacheWrapper sha j qc q ttl' fn' (s2, db2)) = fst (fn' db2)
    else fst (CacheWrapper sha j qc q ttl' fn' (s2, db2)) = Inr v
      \<and> snd (fst (snd (CacheWrapper sha j qc q ttl' fn' (s2, db2)))) = db2"
proof -
  have job: "job = (q, v, ttl)"
    using assms(4) by (auto simp: CacheWrapper_def Let_def split: prod.splits if_splits sum.splits)
  obtain err where e: "qc_Set sha j qc q v [ttl] sx = (err, s2)"
    and "(case err of None \<Rightarrow> [] | Some e \<Rightarrow> [''Cache set error: '' @ Error e @ [CHR 0x0A]]) = ([] :: string list)"
    using assms(5) by (auto simp: cache_job_def job Let_def split: prod.splits)
  then have "qc_Set sha j qc q v [ttl] sx = (None, s2)" by (cases err) auto
  from qc_Get_Set [OF assms(1-3) this assms(6)] obtain s3 where g: "qc_Get sha j qc q s2 = ((True, v, None), s3)"
    by (metis prod.collapse)
  show ?thesis
    by (cases "fn' db2"; cases "fst (fn' db2)") (auto simp: CacheWrapper_def Let_def g)
qed

lemma wrapped_query_cached_once_witness:
  "fst (CacheWrapper (\<lambda>_. ''h'') id_codec (demo_qc []) ''q'' 0 (\<lambda>n. (Inl (NewErr ''down''), Suc n))
      (snd (cache_job (\<lambda>_. ''h'') id_codec (demo_qc []) (''q'', Some ''x'', 0)
        (snd (Invalidate (\<lambda>_. ''h'') (demo_qc []) ''q'' Map.empty))), 0)) = Inr (Some ''x'')"
proof -
  let ?qc = "demo_qc []"
  let ?sx = "snd (Invalidate (\<lambda>_. ''h'') ?qc ''q'' Map.empty)"
  let ?s2 = "snd (cache_job (\<lambda>_. ''h'') id_codec ?qc (''q'', Some ''x'', 0) ?sx)"
  have run: "CacheWrapper (\<lambda>_. ''h'') id_codec ?qc ''q'' 0 (\<lambda>n. (Inr (Some ''x''), n)) (Map.empty, 0 :: nat)
      = (Inr (Some ''x''), (Map.empty, 0), [], Some (''q'', Some ''x'', 0))"
    by (simp add: CacheWrapper_def qc_Get_def cache_Get_def demo_qc_def NewQueryCache_def map_redis_def)
  have job: "cache_job (\<lambda>_. ''h'') id_codec ?qc (''q'', Some ''x'', 0) ?sx = ([], ?s2)"
    by (simp add: cache_job_def qc_Set_def cache_Set_def demo_qc_def NewQueryCache_def map_redis_def id_codec_def)
  have l: "redis_laws (rch_client \<lparr>rch_client = map_redis\<rparr>)" by (simp add: map_redis_laws)
  have r: "qc_redis ?qc = Some \<lparr>rch_client = map_redis\<rparr>" "0 < qc_defaultTTL ?qc"
    by (simp_all add: demo_qc_def NewQueryCache_def Minute_def Second_def)
  show ?thesis
    using wrapped_query_cached_once [OF l r run job, where fn' = "\<lambda>n. (Inl (NewErr ''down''), Suc n)" and ttl' = 0 and ?db2.0 = 0]
    by (simp add: id_codec_def)
qed

end
