(* ===== verification/Gate.thy ===== *)
theory Gate
  imports GoHttp
begin

text \<open>
  The contract of an HTTP middleware that guards the handlers behind it: it either enters the next
  handler, with a response that is still open, or rejects with a status of its own and does not run
  the next handler at all.  The rate limiters, the API key check and the scope check obey it.
\<close>

definition answers :: "'s handler \<Rightarrow> bool" where
  "answers h \<longleftrightarrow> (\<forall>r rs s. rs_sent rs = None \<longrightarrow> rs_sent (fst (h r rs s)) \<noteq> None)"

locale gate =
  fixes mw :: "'s handler \<Rightarrow> 's handler"
    and enter :: "request \<Rightarrow> response \<Rightarrow> 's \<Rightarrow> (request \<times> response \<times> 's) option"
    and reject :: "request \<Rightarrow> response \<Rightarrow> 's \<Rightarrow> response \<times> 's"
    and code :: int
  assumes mw_cases: "mw next r rs s = (case enter r rs s of
      Some (r', rs', s') \<Rightarrow> next r' rs' s' | None \<Rightarrow> reject r rs s)"
    and enter_open: "enter r rs s = Some (r', rs', s') \<Longrightarrow> rs_sent rs = None \<Longrightarrow> rs_sent rs' = None"
    and reject_status: "enter r rs s = None \<Longrightarrow> rs_sent rs = None \<Longrightarrow>
      rs_status (fst (reject r rs s)) = Some code"
begin

lemma rejected:
  assumes "enter r rs s = None"
  shows "mw next r rs s = reject r rs s"
  using assms by (simp add: mw_cases)

lemma rejected_same: "enter r rs s = None \<Longrightarrow> mw next r rs s = mw next' r rs s"
  by (simp add: mw_cases)

lemma entered: "enter r rs s = Some (r', rs', s') \<Longrightarrow> mw next r rs s = next r' rs' s'"
  by (simp add: mw_cases)

lemma rejected_code: "enter r rs s = None \<Longrightarrow> rs_sent rs = None \<Longrightarrow>
    rs_status (fst (mw next r rs s)) = Some code"
  by (simp add: mw_cases reject_status)

lemma mw_answers: "answers next \<Longrightarrow> answers (mw next)"
  unfolding answers_def
proof (intro allI impI)
  fix r s and rs :: response
  assume nx: "\<forall>r rs s. rs_sent rs = None \<longrightarrow> rs_sent (fst (next r rs s)) \<noteq> None"
    and open_rs: "rs_sent rs = None"
  show "rs_sent (fst (mw next r rs s)) \<noteq> None"
  proof (cases "enter r rs s")
    case None
    with rejected_code [OF None open_rs, of "next"] show ?thesis by (auto simp: rs_status_def)
  next
    case (Some x)
    then obtain r' rs' s' where "enter r rs s = Some (r', rs', s')" by (cases x) auto
    with nx enter_open [OF this open_rs] show ?thesis by (simp add: entered)
  qed
qed

text \<open>An invariant of the state that the gate and the handler behind it keep is kept by both.\<close>

lemma mw_invariant:
  assumes "\<And>r' rs' s'. enter r rs s = Some (r', rs', s') \<Longrightarrow> I s'"
    and "enter r rs s = None \<Longrightarrow> I (snd (reject r rs s))"
    and "\<And>r' rs' s'. I s' \<Longrightarrow> I (snd (next r' rs' s'))"
  shows "I (snd (mw next r rs s))"
  using assms by (auto simp: mw_cases split: option.split)

end

text \<open>Two gates in a row: the handler is reached exactly through both.\<close>

locale two_gates =
  outer: gate mw1 enter1 reject1 code1 + inner: gate mw2 enter2 reject2 code2
  for mw1 mw2 :: "'s handler \<Rightarrow> 's handler" and enter1 enter2 reject1 reject2 code1 code2
begin

lemma chain_answers: "answers next \<Longrightarrow> answers (mw1 (mw2 next))"
  by (rule outer.mw_answers) (rule inner.mw_answers)

lemma chain_cases:
  assumes "rs_sent rs = None"
  obtains (outer) "rs_status (fst (mw1 (mw2 next) r rs s)) = Some code1"
      "\<And>next'. mw1 (mw2 next') r rs s = mw1 (mw2 next) r rs s"
  | (inner) "rs_status (fst (mw1 (mw2 next) r rs s)) = Some code2"
      "\<And>next'. mw1 (mw2 next') r rs s = mw1 (mw2 next) r rs s"
  | (both) r1 rs1 s1 r2 rs2 s2 where "enter1 r rs s = Some (r1, rs1, s1)"
      "enter2 r1 rs1 s1 = Some (r2, rs2, s2)" "rs_sent rs2 = None"
      "mw1 (mw2 next) r rs s = next r2 rs2 s2"
proof (cases "enter1 r rs s")
  case None
  with outer.rejected_code [OF None assms] outer.rejected_same [OF None] that(1) show thesis by blast
next
  case (Some x)
  then obtain r1 rs1 s1 where e1: "enter1 r rs s = Some (r1, rs1, s1)" by (cases x) auto
  with outer.enter_open assms have o1: "rs_sent rs1 = None" by blast
  show thesis
  proof (cases "enter2 r1 rs1 s1")
    case None
    with inner.rejected_code [OF None o1] that(2) show thesis by (simp add: outer.entered [OF e1] inner.rejected)
  next
    case (Some y)
    then obtain r2 rs2 s2 where e2: "enter2 r1 rs1 s1 = Some (r2, rs2, s2)" by (cases y) auto
    with inner.enter_open o1 have "rs_sent rs2 = None" by blast
    with that(3) e1 e2 show thesis by (simp add: outer.entered inner.entered)
  qed
qed

end

end
