(* ===== verification/GoRuntime.thy ===== *)
theory GoRuntime
  imports Complex_Main GoHttp
begin

text \<open>
  Further parts of the Go language and library: panics, slicing, whole and rational numbers as
  float64, and \<open>time.ParseDuration\<close>.
\<close>

subsection \<open>Panics\<close>

text \<open>A call returns, or panics with a message; an unrecovered panic ends the process.\<close>

datatype 'a outcome = Returns 'a | Panics string

primrec bind_outcome :: "'a outcome \<Rightarrow> ('a \<Rightarrow> 'b outcome) \<Rightarrow> 'b outcome" where
  "bind_outcome (Returns x) f = f x"
| "bind_outcome (Panics m) f = Panics m"

fun map_outcomes :: "('a \<Rightarrow> 'b outcome) \<Rightarrow> 'a list \<Rightarrow> 'b list outcome" where
  "map_outcomes f [] = Returns []"
| "map_outcomes f (x # xs) = (case f x of Panics m \<Rightarrow> Panics m | Returns y \<Rightarrow>
     (case map_outcomes f xs of Panics m \<Rightarrow> Panics m | Returns ys \<Rightarrow> Returns (y # ys)))"

definition bounds_panic :: "nat \<Rightarrow> nat \<Rightarrow> string" where
  "bounds_panic i n = ''runtime error: slice bounds out of range ['' @ fmt_nat i @ ''/'' @ fmt_nat n @ '']''"

text \<open>The slices \<open>s[:n]\<close> and \<open>s[n:]\<close> of a string.\<close>

definition slice_to :: "string \<Rightarrow> nat \<Rightarrow> string outcome" where
  "slice_to s n = (if n \<le> length s then Returns (take n s) else Panics (bounds_panic n (length s)))"

definition slice_from :: "string \<Rightarrow> nat \<Rightarrow> string outcome" where
  "slice_from s n = (if n \<le> length s then Returns (drop n s) else Panics (bounds_panic n (length s)))"

lemma map_outcomes_Returns:
  "map_outcomes f xs = Returns ys \<longleftrightarrow> length xs = length ys \<and> (\<forall>i < length xs. f (xs ! i) = Returns (ys ! i))"
proof (induction xs arbitrary: ys)
  case Nil
  then show ?case by auto
next
  case (Cons x xs)
  show ?case
  proof (cases ys)
    case Nil
    then show ?thesis by (auto split: outcome.splits)
  next
    case (Cons y ys')
    then show ?thesis
      using Cons.IH [of ys'] by (cases "f x"; cases "map_outcomes f xs") (auto simp: less_Suc_eq_0_disj)
  qed
qed

lemma map_outcomes_total: "(\<forall>x \<in> set xs. f x = Returns (g x)) \<Longrightarrow> map_outcomes f xs = Returns (map g xs)"
  by (induction xs) simp_all

subsection \<open>Numbers as float64\<close>

text \<open>
  A float64 keeps 53 significant bits; operations round to the nearest, ties to even.  The numbers
  below stay far from the ranges of overflow and of subnormal values, which are left out.  A whole
  number is converted back exactly in the range of \<open>int64\<close>; outside of it the language leaves the
  result open, here it is the one of the amd64 instruction.
\<close>

fun bit_len :: "nat \<Rightarrow> nat" where
  "bit_len n = (if n = 0 then 0 else Suc (bit_len (n div 2)))"

declare bit_len.simps [simp del]

definition round_half_even :: "nat \<Rightarrow> nat \<Rightarrow> nat" where
  "round_half_even p q = (let d = p div q; r = p mod q in
     if 2 * r > q \<or> 2 * r = q \<and> odd d then d + 1 else d)"

definition f64 :: "int \<Rightarrow> int" where
  "f64 n = (let a = nat \<bar>n\<bar> in
     if a \<le> 2 ^ 53 then n
     else let e = bit_len a - 53 in sgn n * int (round_half_even a (2 ^ e) * 2 ^ e))"

definition int_of_f64 :: "int \<Rightarrow> int" where
  "int_of_f64 x = (if - (2 ^ 63) \<le> x \<and> x < 2 ^ 63 then x else - (2 ^ 63))"

text \<open>The float64 nearest to a positive rational \<open>p / q\<close>, and to any rational.\<close>

definition f64_ratio :: "nat \<Rightarrow> nat \<Rightarrow> rat" where
  "f64_ratio p q =
     (let d = int (bit_len p) - int (bit_len q);
          up = (if 0 \<le> d then q * 2 ^ nat d \<le> p else q \<le> p * 2 ^ nat (- d));
          e = (if up then d else d - 1) - 52
      in if 0 \<le> e then of_nat (round_half_even p (q * 2 ^ nat e)) * 2 ^ nat e
         else of_nat (round_half_even (p * 2 ^ nat (- e)) q) / 2 ^ nat (- e))"

definition f64_rat :: "rat \<Rightarrow> rat" where
  "f64_rat r = (let (p, q) = quotient_of r in
     if p = 0 then 0 else if 0 < p then f64_ratio (nat p) (nat q) else - f64_ratio (nat (- p)) (nat q))"

lemma f64_id: "\<bar>n\<bar> \<le> 2 ^ 53 \<Longrightarrow> f64 n = n"
  by (simp add: f64_def Let_def nat_le_iff)

subsection \<open>\<open>time.ParseDuration\<close>\<close>

text \<open>
  The value of a duration text such as \<open>1h30m\<close> or \<open>1.5s\<close>.  Sums are kept in 64 unsigned bits and
  checked against \<open>2 ^ 63\<close>; a fraction is scaled in float64.  The text of an error is the library's.
\<close>

definition dec_val :: "char \<Rightarrow> int" where
  "dec_val c = of_char c - 48"

fun leadingInt :: "int \<Rightarrow> string \<Rightarrow> (int \<times> string) option" where
  "leadingInt x [] = Some (x, [])"
| "leadingInt x (c # s) = (if \<not> is_digit c then Some (x, c # s)
     else if x > 2 ^ 63 div 10 then None
     else let y = x * 10 + dec_val c in if y > 2 ^ 63 then None else leadingInt y s)"

fun leadingFraction :: "int \<Rightarrow> int \<Rightarrow> bool \<Rightarrow> string \<Rightarrow> int \<times> int \<times> string" where
  "leadingFraction x scale ovf [] = (x, scale, [])"
| "leadingFraction x scale ovf (c # s) = (if \<not> is_digit c then (x, scale, c # s)
     else if ovf \<or> x > (2 ^ 63 - 1) div 10 then leadingFraction x scale True s
     else let y = x * 10 + dec_val c in
       if y > 2 ^ 63 then leadingFraction x scale True s else leadingFraction y (scale * 10) False s)"

definition unitMap :: "string \<rightharpoonup> int" where
  "unitMap = map_of [(''ns'', 1), (''us'', 1000), ([CHR 0xC2, CHR 0xB5, CHR 0x73], 1000),
     ([CHR 0xCE, CHR 0xBC, CHR 0x73], 1000), (''ms'', 1000000), (''s'', 1000000000),
     (''m'', 60000000000), (''h'', 3600000000000)]"

definition fraction_ns :: "int \<Rightarrow> int \<Rightarrow> int \<Rightarrow> int" where
  "fraction_ns f scale u = \<lfloor>f64_rat (f64_rat (of_int f) * f64_rat (of_int u / of_int scale))\<rfloor>"

definition unit_char :: "char \<Rightarrow> bool" where
  "unit_char c \<longleftrightarrow> c \<noteq> CHR ''.'' \<and> \<not> is_digit c"

text \<open>What may follow the digits of a number: its fraction, the scale of the fraction, the rest, and
  whether the fraction has digits.\<close>

definition duration_fraction :: "string \<Rightarrow> int \<times> int \<times> string \<times> bool" where
  "duration_fraction s = (case s of [] \<Rightarrow> (0, 1, s, False)
     | c # t \<Rightarrow> if c = CHR ''.'' then
         (let (f, scale, t1) = leadingFraction 0 1 False t in (f, scale, t1, length t1 \<noteq> length t))
       else (0, 1, s, False))"

text \<open>One number with its unit: its value and the rest of the text.\<close>

definition duration_unit :: "int \<Rightarrow> int \<Rightarrow> int \<Rightarrow> string \<Rightarrow> (int \<times> string) option" where
  "duration_unit v f scale s = (let u = takeWhile unit_char s; s' = dropWhile unit_char s in
     if u = [] then None
     else (case unitMap u of None \<Rightarrow> None
       | Some k \<Rightarrow> if v > 2 ^ 63 div k then None
           else let v1 = v * k; v2 = (if f > 0 then v1 + fraction_ns f scale k else v1) in
             if v2 > 2 ^ 63 then None else Some (v2, s')))"

definition duration_item :: "string \<Rightarrow> (int \<times> string) option" where
  "duration_item s = (if s = [] \<or> hd s \<noteq> CHR ''.'' \<and> \<not> is_digit (hd s) then None
     else (case leadingInt 0 s of None \<Rightarrow> None
       | Some (v, s1) \<Rightarrow> (let (f, scale, s2, post) = duration_fraction s1 in
           if length s1 = length s \<and> \<not> post then None else duration_unit v f scale s2)))"

lemma leadingInt_length: "leadingInt x s = Some (v, s') \<Longrightarrow> length s' \<le> length s"
  by (induction x s rule: leadingInt.induct) (auto simp: Let_def split: if_splits)

lemma leadingFraction_length: "leadingFraction x sc ovf s = (v, sc', s') \<Longrightarrow> length s' \<le> length s"
  by (induction x sc ovf s rule: leadingFraction.induct) (auto simp: Let_def split: if_splits)

lemma length_dropWhile_less: "takeWhile P s \<noteq> [] \<Longrightarrow> length (dropWhile P s) < length s"
  by (metis length_append length_greater_0_conv less_add_same_cancel2 takeWhile_dropWhile_id)

lemma duration_item_shorter:
  assumes "duration_item s = Some (v, s')"
  shows "length s' < length s"
proof -
  obtain w s1 where l: "leadingInt 0 s = Some (w, s1)"
    using assms by (auto simp: duration_item_def split: if_splits option.splits)
  obtain f scale s2 post where fr: "duration_fraction s1 = (f, scale, s2, post)" by (metis prod_cases4)
  have "duration_unit w f scale s2 = Some (v, s')"
    using assms by (auto simp: duration_item_def l fr split: if_splits)
  then have s': "s' = dropWhile unit_char s2" "takeWhile unit_char s2 \<noteq> []"
    by (auto simp: duration_unit_def Let_def split: if_splits option.splits)
  have "length s2 \<le> length s1"
    using fr leadingFraction_length
    by (fastforce simp: duration_fraction_def split: list.splits if_splits prod.splits)
  with leadingInt_length [OF l] length_dropWhile_less [OF s'(2)] s'(1) show ?thesis by simp
qed

text \<open>Every item takes at least one byte, so the loop over the items ends.\<close>

function duration_items :: "int \<Rightarrow> string \<Rightarrow> int option" where
  "duration_items d [] = Some d"
| "duration_items d (c # s) = (case duration_item (c # s) of None \<Rightarrow> None
     | Some (v, s1) \<Rightarrow> if d + v > 2 ^ 63 then None else duration_items (d + v) s1)"
  by pat_completeness auto
termination
  by (relation "measure (\<lambda>(d, s). length s)") (use duration_item_shorter in fastforce)+

definition ParseDuration :: "string \<Rightarrow> duration option" where
  "ParseDuration s0 =
     (let neg = (s0 \<noteq> [] \<and> hd s0 = CHR ''-'');
          s = (if s0 \<noteq> [] \<and> (hd s0 = CHR ''-'' \<or> hd s0 = CHR ''+'') then tl s0 else s0)
      in if s = ''0'' then Some 0
         else if s = [] then None
         else (case duration_items 0 s of None \<Rightarrow> None
           | Some d \<Rightarrow> if neg then Some (int64 (- d)) else if d > 2 ^ 63 - 1 then None else Some d))"

text \<open>A whole number of seconds.\<close>

lemma dec_val_digit: "d < 10 \<Longrightarrow> dec_val (digit d) = int d"
  using digit_upt [of d] by (auto simp: dec_val_def digit_def)

lemma leadingInt_append: "leadingInt x ds = Some (y, []) \<Longrightarrow> leadingInt x (ds @ t) = leadingInt y t"
  by (induction x ds rule: leadingInt.induct) (auto simp: Let_def split: if_splits)

lemma leadingInt_fmt_nat: "int n < 2 ^ 63 div 10 \<Longrightarrow> leadingInt 0 (fmt_nat n) = Some (int n, [])"
proof (induction n rule: fmt_nat.induct)
  case (1 n)
  show ?case
  proof (cases "n < 10")
    case True
    then show ?thesis by (simp add: dec_val_digit)
  next
    case False
    have "int (n div 10) < 2 ^ 63 div 10" using 1(2) by simp
    with 1(1) [OF False] have "leadingInt 0 (fmt_nat (n div 10)) = Some (int (n div 10), [])" by simp
    then have "leadingInt 0 (fmt_nat n) = leadingInt (int (n div 10)) [digit (n mod 10)]"
      using False leadingInt_append by (subst fmt_nat.simps) auto
    also have "\<dots> = Some (int n, [])"
      using 1(2) by (simp add: dec_val_digit Let_def zdiv_int zmod_int)
    finally show ?thesis .
  qed
qed

lemma ParseDuration_seconds:
  assumes "n \<le> 9000000000"
  shows "ParseDuration (fmt_nat n @ ''s'') = Some (int n * Second)"
proof -
  let ?s = "fmt_nat n @ ''s''"
  have "is_digit (hd (fmt_nat n))" by (rule fmt_nat_digits) (rule hd_in_set, simp)
  then have c: "is_digit (hd ?s)" by simp
  then have sgn: "hd ?s \<noteq> CHR ''-''" "hd ?s \<noteq> CHR ''+''" by (auto simp: is_digit_def)
  have ne: "?s \<noteq> ''0''" by (cases "fmt_nat n") auto
  have s: "\<not> is_digit CHR ''s''" by (simp add: is_digit_def)
  have li: "leadingInt 0 ?s = Some (int n, ''s'')"
    using leadingInt_append [OF leadingInt_fmt_nat, of n "''s''"] assms s by simp
  have "duration_unit (int n) 0 1 ''s'' = Some (int n * 1000000000, [])"
    using assms s by (simp add: duration_unit_def unitMap_def unit_char_def Let_def)
  then have item: "duration_item ?s = Some (int n * 1000000000, [])"
    using c by (simp add: duration_item_def li duration_fraction_def)
  have "duration_items 0 ?s = Some (int n * 1000000000)"
    using item assms by (cases ?s) auto
  then show ?thesis
    unfolding ParseDuration_def using sgn ne assms by (simp add: Second_def)
qed

end
