(* ===== verification/RateLimit.thy ===== *)
theory RateLimit
  imports Gate GoRuntime CacheProps AuditLog
begin

text \<open>
  Package \<open>internal/ratelimit\<close> (ratelimit.go).  The token bucket of \<open>golang.org/x/time/rate\<close> is a
  parameter: a record of its three functions on a bucket of any type (a limit is a float64 that holds
  a whole number, here the number).  Buckets are reached through pointers, so they live in a heap, a
  list in the world (an address is a position); the Redis server is part of the world as well.
\<close>

subsection \<open>Limits as text\<close>

text \<open>
  The verb \<open>%v\<close> of a whole float64 below \<open>2 ^ 53\<close> in magnitude: plain digits below one million, a
  mantissa without trailing zeros and an exponent from there on.  The verb \<open>%d\<close> does not accept a
  \<open>rate.Limit\<close>, a float type, and prints what \<open>fmt_d_Limit\<close> gives.
\<close>

definition fmt_exponent :: "nat \<Rightarrow> string" where
  "fmt_exponent e = ''e+'' @ (if e < 10 then ''0'' @ fmt_nat e else fmt_nat e)"

definition fmt_v_float :: "int \<Rightarrow> string" where
  "fmt_v_float n = (if \<bar>n\<bar> < 1000000 then fmt_d n
     else let ds = fmt_nat (nat \<bar>n\<bar>); m = rev (dropWhile (\<lambda>c. c = CHR ''0'') (rev ds))
          in (if n < 0 then ''-'' else []) @ take 1 m @ (if length m = 1 then [] else ''.'' @ drop 1 m)
             @ fmt_exponent (length ds - 1))"

definition fmt_d_Limit :: "int \<Rightarrow> string" where
  "fmt_d_Limit x = ''%!d(rate.Limit='' @ fmt_v_float x @ '')''"

subsection \<open>Buckets\<close>

record 'l rate_ops =
  rt_NewLimiter :: "int \<Rightarrow> int \<Rightarrow> 'l"
  rt_Allow :: "time \<Rightarrow> 'l \<Rightarrow> bool \<times> 'l"
  rt_Limit :: "'l \<Rightarrow> int"

record ('l, 'rd) rworld = aworld +
  rw_limiters :: "'l list"
  rw_redis :: 'rd

type_synonym limiter_ptr = nat

definition alloc_limiter :: "'l \<Rightarrow> ('l, 'rd, 'z) rworld_scheme \<Rightarrow> limiter_ptr \<times> ('l, 'rd, 'z) rworld_scheme" where
  "alloc_limiter l w = (length (rw_limiters w), w\<lparr>rw_limiters := rw_limiters w @ [l]\<rparr>)"

text \<open>\<open>Limiter.Allow\<close> asks for one token at the current time.\<close>

definition limiter_Allow :: "'l rate_ops \<Rightarrow> limiter_ptr \<Rightarrow> ('l, 'rd, 'z) rworld_scheme \<Rightarrow>
    bool \<times> ('l, 'rd, 'z) rworld_scheme" where
  "limiter_Allow R p w = (let (now, w1) = time_Now w; (ok, l) = rt_Allow R now (rw_limiters w1 ! p)
     in (ok, w1\<lparr>rw_limiters := (rw_limiters w1)[p := l]\<rparr>))"

definition limiter_Limit :: "'l rate_ops \<Rightarrow> limiter_ptr \<Rightarrow> ('l, 'rd, 'z) rworld_scheme \<Rightarrow> int" where
  "limiter_Limit R p w = rt_Limit R (rw_limiters w ! p)"

subsection \<open>The global and admin limiters\<close>

record 'rd Limiter =
  lim_globalLimiter :: limiter_ptr
  lim_adminLimiter :: limiter_ptr
  lim_cache :: "'rd RedisCache option"
  lim_audit :: "AuditLogger option"
  lim_distributed :: bool

record 'rd limiter_Config =
  lmc_GlobalRPS :: int
  lmc_AdminRPS :: int
  lmc_BurstSize :: int
  lmc_Distributed :: bool
  lmc_Cache :: "'rd RedisCache option"
  lmc_AuditLogger :: "AuditLogger option"

definition limiter_New :: "'l rate_ops \<Rightarrow> 'rd limiter_Config \<Rightarrow> ('l, 'rd, 'z) rworld_scheme \<Rightarrow>
    'rd Limiter \<times> ('l, 'rd, 'z) rworld_scheme" where
  "limiter_New R cfg w =
     (let (g, w1) = alloc_limiter (rt_NewLimiter R (f64 (lmc_GlobalRPS cfg)) (lmc_BurstSize cfg)) w;
          (a, w2) = alloc_limiter (rt_NewLimiter R (f64 (lmc_AdminRPS cfg)) (go_div (lmc_BurstSize cfg) 2)) w1
      in (\<lparr>lim_globalLimiter = g, lim_adminLimiter = a, lim_cache = lmc_Cache cfg,
           lim_audit = lmc_AuditLogger cfg, lim_distributed = lmc_Distributed cfg\<rparr>, w2))"

text \<open>The field \<open>cache\<close> is read after its nil check: the cache \<open>r\<close> is an argument.\<close>

definition allowDistributed :: "'l rate_ops \<Rightarrow> 'rd Limiter \<Rightarrow> 'rd RedisCache \<Rightarrow> string \<Rightarrow> int \<Rightarrow>
    ('l, 'rd, 'z) rworld_scheme \<Rightarrow> bool \<times> ('l, 'rd, 'z) rworld_scheme" where
  "allowDistributed R l r tier limit w =
     (let (now, w1) = time_Now w;
          key = ''ratelimit:'' @ tier @ '':'' @ fmt_d (go_div (Unix now) 60);
          ((count, err), s) = cache_Increment r key (rw_redis w1);
          w2 = w1\<lparr>rw_redis := s\<rparr>
      in case err of
           Some _ \<Rightarrow> (if tier = ''admin'' then limiter_Allow R (lim_adminLimiter l) w2
                      else limiter_Allow R (lim_globalLimiter l) w2)
         | None \<Rightarrow>
             (let w3 = (if count = 1
                        then w2\<lparr>rw_redis := snd (cache_Expire r key (2 * Minute) (rw_redis w2))\<rparr> else w2)
              in (count \<le> int64 (int_of_f64 limit * 60), w3)))"

definition AllowGlobal :: "'l rate_ops \<Rightarrow> 'rd Limiter \<Rightarrow> ('l, 'rd, 'z) rworld_scheme \<Rightarrow>
    bool \<times> ('l, 'rd, 'z) rworld_scheme" where
  "AllowGlobal R l w = (case (lim_distributed l, lim_cache l) of
     (True, Some r) \<Rightarrow> allowDistributed R l r ''global'' (limiter_Limit R (lim_globalLimiter l) w) w
   | _ \<Rightarrow> limiter_Allow R (lim_globalLimiter l) w)"

definition AllowAdmin :: "'l rate_ops \<Rightarrow> 'rd Limiter \<Rightarrow> ('l, 'rd, 'z) rworld_scheme \<Rightarrow>
    bool \<times> ('l, 'rd, 'z) rworld_scheme" where
  "AllowAdmin R l w = (case (lim_distributed l, lim_cache l) of
     (True, Some r) \<Rightarrow> allowDistributed R l r ''admin'' (limiter_Limit R (lim_adminLimiter l) w) w
   | _ \<Rightarrow> limiter_Allow R (lim_adminLimiter l) w)"

definition getLimit :: "'l rate_ops \<Rightarrow> 'rd Limiter \<Rightarrow> string \<Rightarrow> ('l, 'rd, 'z) rworld_scheme \<Rightarrow> int" where
  "getLimit R l tier w = (if tier = ''admin'' then int_of_f64 (limiter_Limit R (lim_adminLimiter l) w)
     else int_of_f64 (limiter_Limit R (lim_globalLimiter l) w))"

definition limiter_Middleware :: "'l rate_ops \<Rightarrow> 'rd Limiter \<Rightarrow> string \<Rightarrow>
    ('l, 'rd, 'z) rworld_scheme handler \<Rightarrow> ('l, 'rd, 'z) rworld_scheme handler" where
  "limiter_Middleware R l tier next r rs w =
     (let (allowed, w1) = (if tier = ''admin'' then AllowAdmin R l w else AllowGlobal R l w) in
      if \<not> allowed then
        (let w2 = (case lim_audit l of None \<Rightarrow> w1 | Some a \<Rightarrow> LogRateLimitExceeded a r tier w1);
             rs1 = Header_Set ''X-RateLimit-Limit'' (fmt_d (getLimit R l tier w2)) rs;
             rs2 = Header_Set ''X-RateLimit-Remaining'' ''0'' rs1;
             rs3 = Header_Set ''Retry-After'' ''60'' rs2;
             rs4 = WriteHeader StatusTooManyRequests rs3
         in (Write (Bytes ''{\"error\":\"rate_limit_exceeded\",\"message\":\"Too many requests\"}'') rs4, w2))
      else next r (Header_Set ''X-RateLimit-Limit'' (fmt_d (getLimit R l tier w1)) rs) w1)"

record limiter_Stats =
  st_GlobalLimit :: int
  st_AdminLimit :: int
  st_Distributed :: bool
  st_Backend :: string

definition limiter_GetStats :: "'l rate_ops \<Rightarrow> 'rd Limiter \<Rightarrow> ('l, 'rd, 'z) rworld_scheme \<Rightarrow> limiter_Stats" where
  "limiter_GetStats R l w =
     (let backend = (if lim_distributed l \<and> lim_cache l \<noteq> None then ''redis'' else ''local'')
      in \<lparr>st_GlobalLimit = int_of_f64 (limiter_Limit R (lim_globalLimiter l) w),
          st_AdminLimit = int_of_f64 (limiter_Limit R (lim_adminLimiter l) w),
          st_Distributed = lim_distributed l, st_Backend = backend\<rparr>)"

subsection \<open>The limiters per address\<close>

text \<open>The map from addresses to buckets as an association list; the struct is mutable state.\<close>

record PerIPLimiter =
  pl_limiters :: "(string \<times> limiter_ptr) list"
  pl_limit :: int
  pl_burst :: int

definition NewPerIPLimiter :: "int \<Rightarrow> int \<Rightarrow> PerIPLimiter" where
  "NewPerIPLimiter rps burst = \<lparr>pl_limiters = [], pl_limit = f64 rps, pl_burst = burst\<rparr>"

definition GetLimiter :: "'l rate_ops \<Rightarrow> string \<Rightarrow> PerIPLimiter \<times> ('l, 'rd, 'z) rworld_scheme \<Rightarrow>
    limiter_ptr \<times> PerIPLimiter \<times> ('l, 'rd, 'z) rworld_scheme" where
  "GetLimiter R ip st = (case st of (pl, w) \<Rightarrow>
     (case map_of (pl_limiters pl) ip of
        Some p \<Rightarrow> (p, pl, w)
      | None \<Rightarrow> (let (p, w1) = alloc_limiter (rt_NewLimiter R (pl_limit pl) (pl_burst pl)) w
                 in (p, pl\<lparr>pl_limiters := (ip, p) # pl_limiters pl\<rparr>, w1))))"

definition CleanupStale :: "PerIPLimiter \<Rightarrow> PerIPLimiter" where
  "CleanupStale pl = (if length (pl_limiters pl) > 10000 then pl\<lparr>pl_limiters := []\<rparr> else pl)"

definition getIP :: "request \<Rightarrow> string" where
  "getIP r = (let xff = r_header r ''X-Forwarded-For'' in if xff \<noteq> [] then xff
     else let xri = r_header r ''X-Real-IP'' in if xri \<noteq> [] then xri
     else r_RemoteAddr r)"

definition perip_Middleware :: "'l rate_ops \<Rightarrow> AuditLogger option \<Rightarrow>
    (PerIPLimiter \<times> ('l, 'rd, 'z) rworld_scheme) handler \<Rightarrow> (PerIPLimiter \<times> ('l, 'rd, 'z) rworld_scheme) handler" where
  "perip_Middleware R audit next r rs st =
     (let ip = getIP r; (limiter, pl, w) = GetLimiter R ip st; (ok, w1) = limiter_Allow R limiter w in
      if \<not> ok then
        (let w2 = (case audit of None \<Rightarrow> w1 | Some a \<Rightarrow> LogRateLimitExceeded a r ''per-ip'' w1);
             rs1 = Header_Set ''X-RateLimit-Limit'' (fmt_d_Limit (pl_limit pl)) rs;
             rs2 = Header_Set ''X-RateLimit-Remaining'' ''0'' rs1;
             rs3 = Header_Set ''Retry-After'' ''60'' rs2;
             rs4 = WriteHeader StatusTooManyRequests rs3
         in (Write (Bytes ''{\"error\":\"rate_limit_exceeded\",\"message\":\"Too many requests from your IP\"}'') rs4,
             pl, w2))
      else next r rs (pl, w1))"


subsection \<open>Frames\<close>

lemma time_Now_rw [world_simps]:
  "rw_limiters (snd (time_Now w)) = rw_limiters w" "rw_redis (snd (time_Now w)) = rw_redis w"
  by (simp_all add: time_Now_def)

lemma LogRateLimitExceeded_rw [world_simps]:
  "rw_limiters (LogRateLimitExceeded a r s w) = rw_limiters w"
  "rw_redis (LogRateLimitExceeded a r s w) = rw_redis w"
  by (simp_all add: LogRateLimitExceeded_def LogEvent_eq zap_emit_def case_prod_beta world_simps)

lemma limiter_Allow_unfold:
  "limiter_Allow R p w =
     (fst (rt_Allow R (w_clock w (w_tick w)) (rw_limiters w ! p)),
      (snd (time_Now w))\<lparr>rw_limiters :=
        (rw_limiters w)[p := snd (rt_Allow R (w_clock w (w_tick w)) (rw_limiters w ! p))]\<rparr>)"
  by (simp add: limiter_Allow_def case_prod_beta Let_def world_simps)

lemma limiter_Allow_sel [world_simps]:
  "rw_limiters (snd (limiter_Allow R p w)) =
     (rw_limiters w)[p := snd (rt_Allow R (w_clock w (w_tick w)) (rw_limiters w ! p))]"
  "rw_redis (snd (limiter_Allow R p w)) = rw_redis w"
  "w_zap (snd (limiter_Allow R p w)) = w_zap w"
  "w_clock (snd (limiter_Allow R p w)) = w_clock w"
  by (simp_all add: limiter_Allow_unfold world_simps)

subsection \<open>The middlewares as gates\<close>

definition allow_tier :: "'l rate_ops \<Rightarrow> string \<Rightarrow> 'rd Limiter \<Rightarrow> ('l, 'rd, 'z) rworld_scheme \<Rightarrow>
    bool \<times> ('l, 'rd, 'z) rworld_scheme" where
  "allow_tier R tier l w = (if tier = ''admin'' then AllowAdmin R l w else AllowGlobal R l w)"

definition audit_limit :: "AuditLogger option \<Rightarrow> request \<Rightarrow> string \<Rightarrow> 'z aworld_scheme \<Rightarrow> 'z aworld_scheme" where
  "audit_limit a r tier w = (case a of None \<Rightarrow> w | Some l \<Rightarrow> LogRateLimitExceeded l r tier w)"

text \<open>The response of a limiter that rejects: its headers, status and body.\<close>

definition too_many :: "string \<Rightarrow> string \<Rightarrow> response \<Rightarrow> response" where
  "too_many limit body rs = Write (Bytes body) (WriteHeader StatusTooManyRequests
     (Header_Set ''Retry-After'' ''60'' (Header_Set ''X-RateLimit-Remaining'' ''0''
       (Header_Set ''X-RateLimit-Limit'' limit rs))))"

definition limiter_enter :: "'l rate_ops \<Rightarrow> 'rd Limiter \<Rightarrow> string \<Rightarrow> request \<Rightarrow> response \<Rightarrow>
    ('l, 'rd, 'z) rworld_scheme \<Rightarrow> (request \<times> response \<times> ('l, 'rd, 'z) rworld_scheme) option" where
  "limiter_enter R l tier r rs w = (let (ok, w1) = allow_tier R tier l w in
     if ok then Some (r, Header_Set ''X-RateLimit-Limit'' (fmt_d (getLimit R l tier w1)) rs, w1) else None)"

definition limiter_reject :: "'l rate_ops \<Rightarrow> 'rd Limiter \<Rightarrow> string \<Rightarrow> request \<Rightarrow> response \<Rightarrow>
    ('l, 'rd, 'z) rworld_scheme \<Rightarrow> response \<times> ('l, 'rd, 'z) rworld_scheme" where
  "limiter_reject R l tier r rs w = (let w2 = audit_limit (lim_audit l) r tier (snd (allow_tier R tier l w)) in
     (too_many (fmt_d (getLimit R l tier w2))
        ''{\"error\":\"rate_limit_exceeded\",\"message\":\"Too many requests\"}'' rs, w2))"

definition perip_enter :: "'l rate_ops \<Rightarrow> request \<Rightarrow> response \<Rightarrow> PerIPLimiter \<times> ('l, 'rd, 'z) rworld_scheme \<Rightarrow>
    (request \<times> response \<times> PerIPLimiter \<times> ('l, 'rd, 'z) rworld_scheme) option" where
  "perip_enter R r rs st = (let (p, pl, w) = GetLimiter R (getIP r) st; (ok, w1) = limiter_Allow R p w in
     if ok then Some (r, rs, pl, w1) else None)"

definition perip_reject :: "'l rate_ops \<Rightarrow> AuditLogger option \<Rightarrow> request \<Rightarrow> response \<Rightarrow>
    PerIPLimiter \<times> ('l, 'rd, 'z) rworld_scheme \<Rightarrow> response \<times> PerIPLimiter \<times> ('l, 'rd, 'z) rworld_scheme" where
  "perip_reject R audit r rs st = (let (p, pl, w) = GetLimiter R (getIP r) st in
     (too_many (fmt_d_Limit (pl_limit pl))
        ''{\"error\":\"rate_limit_exceeded\",\"message\":\"Too many requests from your IP\"}'' rs,
      pl, audit_limit audit r ''per-ip'' (snd (limiter_Allow R p w))))"

lemma too_many_status [simp]: "rs_sent rs = None \<Longrightarrow> rs_status (too_many lt body rs) = Some StatusTooManyRequests"
  by (simp add: too_many_def rs_status_def Header_Set_def WriteHeader_def Write_def Let_def)

lemma audit_limit_sel [world_simps]:
  "rw_limiters (audit_limit a r s w) = rw_limiters w" "rw_redis (audit_limit a r s w) = rw_redis w"
  "w_clock (audit_limit a r s w) = w_clock w" "w_files (audit_limit a r s w) = w_files w"
  by (simp_all add: audit_limit_def world_simps split: option.split)

interpretation tier_gate: gate "limiter_Middleware R l tier" "limiter_enter R l tier"
    "limiter_reject R l tier" StatusTooManyRequests for R l tier
proof
  show "limiter_Middleware R l tier next r rs s = (case limiter_enter R l tier r rs s of
      None \<Rightarrow> limiter_reject R l tier r rs s | Some (r', rs', s') \<Rightarrow> next r' rs' s')" for "next" r rs s
    by (auto simp: limiter_Middleware_def limiter_enter_def limiter_reject_def allow_tier_def audit_limit_def
        too_many_def Let_def split: prod.split option.split)
qed (auto simp: limiter_enter_def limiter_reject_def Let_def split: prod.splits if_splits)

interpretation ip_gate: gate "perip_Middleware R audit" "perip_enter R"
    "perip_reject R audit" StatusTooManyRequests for R audit
proof
  show "perip_Middleware R audit next r rs s = (case perip_enter R r rs s of
      None \<Rightarrow> perip_reject R audit r rs s | Some (r', rs', s') \<Rightarrow> next r' rs' s')" for "next" r rs s
    by (simp add: perip_Middleware_def perip_enter_def perip_reject_def audit_limit_def
        too_many_def Let_def case_prod_beta)
qed (auto simp: perip_enter_def perip_reject_def Let_def split: prod.splits if_splits)

end
