(* ===== verification/RateLimitProps.thy ===== *)
theory RateLimitProps
  imports RateLimit
begin

text \<open>
  Properties of \<open>internal/ratelimit\<close>: the distributed window, the response of a limiter that rejects,
  and what the per-address limiter separates and what it does not.
\<close>

subsection \<open>The distributed window\<close>

text \<open>
  What the limiter relies on of a healthy Redis server within a window: INCR adds one to the counter
  of the key (an absent key counts zero) and returns the new value, and setting an expiry in the
  future does not change a counter.
\<close>

definition counter_laws :: "'rd redis_client \<Rightarrow> ('rd \<Rightarrow> string \<Rightarrow> int) \<Rightarrow> bool" where
  "counter_laws c cnt \<longleftrightarrow>
     (\<forall>k s. fst (rd_Incr c k s) = (cnt s k + 1, None)
        \<and> cnt (snd (rd_Incr c k s)) = (cnt s)(k := cnt s k + 1))
   \<and> (\<forall>k d s. 0 < d \<longrightarrow> cnt (snd (rd_Expire c k d s)) = cnt s)"

definition window_key :: "string \<Rightarrow> time \<Rightarrow> string" where
  "window_key tier t = ''ratelimit:'' @ tier @ '':'' @ fmt_d (go_div (Unix t) 60)"

lemma allowDistributed_healthy:
  assumes "counter_laws (rch_client r) cnt"
  shows "let k = window_key tier (w_clock w (w_tick w)); res = allowDistributed R l r tier limit w in
     fst res = (cnt (rw_redis w) k + 1 \<le> int64 (int_of_f64 limit * 60))
     \<and> cnt (rw_redis (snd res)) = (cnt (rw_redis w))(k := cnt (rw_redis w) k + 1)
     \<and> rw_limiters (snd res) = rw_limiters w \<and> w_clock (snd res) = w_clock w
     \<and> w_tick (snd res) = Suc (w_tick w)"
proof -
  obtain s where i: "rd_Incr (rch_client r) (window_key tier (w_clock w (w_tick w))) (rw_redis w)
      = ((cnt (rw_redis w) (window_key tier (w_clock w (w_tick w))) + 1, None), s)"
    and s: "cnt s = (cnt (rw_redis w))(window_key tier (w_clock w (w_tick w)) :=
      cnt (rw_redis w) (window_key tier (w_clock w (w_tick w))) + 1)"
    using assms unfolding counter_laws_def by (metis prod.collapse snd_conv)
  have e: "cnt (snd (rd_Expire (rch_client r) k (2 * Minute) s)) = cnt s" for k
    using assms by (simp add: counter_laws_def Minute_def Second_def)
  show ?thesis
    unfolding allowDistributed_def cache_Increment_def cache_Expire_def Let_def case_prod_beta world_simps
      window_key_def [symmetric]
    by (simp add: i s e time_Now_def)
qed

text \<open>A sequence of calls to limiters, of one gateway or of several that share the server.\<close>

fun allow_calls :: "'l rate_ops \<Rightarrow> string \<Rightarrow> 'rd Limiter list \<Rightarrow> ('l, 'rd, 'z) rworld_scheme \<Rightarrow>
    bool list \<times> ('l, 'rd, 'z) rworld_scheme" where
  "allow_calls R tier [] w = ([], w)"
| "allow_calls R tier (l # ls) w = (let (b, w1) = allow_tier R tier l w; (bs, w2) = allow_calls R tier ls w1
     in (b # bs, w2))"

definition tier_limit :: "'l rate_ops \<Rightarrow> string \<Rightarrow> 'rd Limiter \<Rightarrow> ('l, 'rd, 'z) rworld_scheme \<Rightarrow> int" where
  "tier_limit R tier l w = (if tier = ''admin'' then limiter_Limit R (lim_adminLimiter l) w
     else limiter_Limit R (lim_globalLimiter l) w)"

definition shares_redis :: "'l rate_ops \<Rightarrow> string \<Rightarrow> 'rd RedisCache \<Rightarrow> int \<Rightarrow> ('l, 'rd, 'z) rworld_scheme \<Rightarrow>
    'rd Limiter \<Rightarrow> bool" where
  "shares_redis R tier r L w l \<longleftrightarrow> lim_distributed l \<and> lim_cache l = Some r \<and> tier_limit R tier l w = L"

lemma shares_redis_cong: "rw_limiters w' = rw_limiters w \<Longrightarrow> shares_redis R tier r L w' l = shares_redis R tier r L w l"
  by (simp add: shares_redis_def tier_limit_def limiter_Limit_def)

definition limiter_tier :: "string \<Rightarrow> string" where
  "limiter_tier tier = (if tier = ''admin'' then ''admin'' else ''global'')"

lemma allow_tier_shared:
  assumes "shares_redis R tier r L w l"
  shows "allow_tier R tier l w = allowDistributed R l r (limiter_tier tier) L w"
  using assms by (simp add: shares_redis_def tier_limit_def limiter_tier_def allow_tier_def AllowAdmin_def AllowGlobal_def
      split: if_splits)

text \<open>C8 (bounds).  With a healthy Redis server, the limiters that share it admit exactly the first requests
  of a minute, up to sixty times the configured rate, in the order in which they reach the server,
  whichever gateway instance each of them came to.\<close>

theorem distributed_window_exact:
  assumes "counter_laws (rch_client r) cnt"
    and "\<forall>l \<in> set ls. shares_redis R tier r L w l"
    and "\<forall>i < length ls. window_key (limiter_tier tier) (w_clock w (w_tick w + i)) = k"
    and "\<bar>L * 60\<bar> < 2 ^ 63"
  shows "fst (allow_calls R tier ls w) =
    map (\<lambda>i. cnt (rw_redis w) k + int i < L * 60) [0..<length ls]"
  using assms(2,3)
proof (induction ls arbitrary: w)
  case Nil
  then show ?case by simp
next
  case (Cons l ls)
  obtain b w1 where a: "allow_tier R tier l w = (b, w1)" by (cases "allow_tier R tier l w")
  have k: "window_key (limiter_tier tier) (w_clock w (w_tick w)) = k" using Cons.prems(2) by force
  have "shares_redis R tier r L w l" using Cons.prems(1) by simp
  from allow_tier_shared [OF this] a have ad: "allowDistributed R l r (limiter_tier tier) L w = (b, w1)" by simp
  from allowDistributed_healthy [OF assms(1), of "limiter_tier tier" w R l L]
  have b: "b = (cnt (rw_redis w) k + 1 \<le> int64 (int_of_f64 L * 60))"
    and cnt: "cnt (rw_redis w1) = (cnt (rw_redis w))(k := cnt (rw_redis w) k + 1)"
    and f: "rw_limiters w1 = rw_limiters w" "w_clock w1 = w_clock w" "w_tick w1 = Suc (w_tick w)"
    by (simp_all add: Let_def ad k)
  have lim: "int64 (int_of_f64 L * 60) = L * 60"
  proof -
    from assms(4) have "- (2 ^ 63) \<le> L" "L < 2 ^ 63" "- (2 ^ 63) \<le> L * 60" "L * 60 < 2 ^ 63"
      by (simp_all add: abs_less_iff)
    then show ?thesis by (simp add: int_of_f64_def int64_id)
  qed
  have "fst (allow_calls R tier ls w1) = map (\<lambda>i. cnt (rw_redis w1) k + int i < L * 60) [0..<length ls]"
  proof (rule Cons.IH)
    show "\<forall>l \<in> set ls. shares_redis R tier r L w1 l" using Cons.prems(1) shares_redis_cong [OF f(1)] by auto
    show "\<forall>i < length ls. window_key (limiter_tier tier) (w_clock w1 (w_tick w1 + i)) = k"
      using Cons.prems(2) f by (auto simp: less_Suc_eq_0_disj)
  qed
  moreover have "[0..<length (l # ls)] = 0 # map Suc [0..<length ls]"
    by (simp add: map_Suc_upt upt_conv_Cons del: upt_Suc)
  ultimately show ?case
    by (simp add: a b lim cnt case_prod_beta Let_def comp_def add.assoc add1_zle_eq del: upt_Suc)
qed


text \<open>A bucket without refill, for concrete runs, and a server that counts.\<close>

definition demo_rate :: "(int \<times> int) rate_ops" where
  "demo_rate = \<lparr>rt_NewLimiter = Pair, rt_Allow = \<lambda>t (l, b). if 0 < b then (True, (l, b - 1)) else (False, (l, b)),
     rt_Limit = fst\<rparr>"

definition count_redis :: "(string \<Rightarrow> int) redis_client" where
  "count_redis = \<lparr>rd_Ping = \<lambda>s. (None, s), rd_Set = \<lambda>k v d s. (None, s), rd_Get = \<lambda>k s. (RNil, s),
     rd_Del = \<lambda>k s. (None, s(k := 0)), rd_Exists = \<lambda>k s. ((0, None), s), rd_Expire = \<lambda>k d s. (None, s),
     rd_Incr = \<lambda>k s. ((s k + 1, None), s(k := s k + 1)),
     rd_IncrBy = \<lambda>k n s. ((s k + n, None), s(k := s k + n)),
     rd_SetNX = \<lambda>k v d s. ((False, None), s), rd_TTL = \<lambda>k s. ((-1, None), s),
     rd_Keys = \<lambda>p s. (([], None), s), rd_FlushDB = \<lambda>s. (None, \<lambda>_. 0), rd_Close = \<lambda>s. (None, s),
     rd_PoolStats = \<lambda>s. \<lparr>ps_Hits = 0, ps_Misses = 0, ps_Timeouts = 0, ps_TotalConns = 0, ps_IdleConns = 0,
       ps_StaleConns = 0\<rparr>\<rparr>"

lemma count_redis_laws: "counter_laws count_redis (\<lambda>s. s)"
  by (simp add: counter_laws_def count_redis_def)

definition demo_rworld :: "(int \<times> int) list \<Rightarrow> (int \<times> int, string \<Rightarrow> int) rworld" where
  "demo_rworld ls = \<lparr>w_clock = int, w_tick = 0, w_files = Map.empty, w_faults = [], w_zap = [],
     rw_limiters = ls, rw_redis = (\<lambda>_. 0)\<rparr>"

definition demo_limiter :: "nat \<Rightarrow> (string \<Rightarrow> int) Limiter" where
  "demo_limiter g = \<lparr>lim_globalLimiter = g, lim_adminLimiter = g, lim_cache = Some \<lparr>rch_client = count_redis\<rparr>,
     lim_audit = Some \<lparr>al_logger = 0\<rparr>, lim_distributed = True\<rparr>"

lemma distributed_window_exact_witness:
  "fst (allow_calls demo_rate ''global'' (replicate 40 (demo_limiter 0) @ replicate 40 (demo_limiter 1))
      (demo_rworld [(1, 5), (1, 5)])) = map (\<lambda>i. int i < 60) [0..<80]"
proof -
  let ?ls = "replicate 40 (demo_limiter 0) @ replicate 40 (demo_limiter 1)"
  let ?w = "demo_rworld [(1, 5), (1, 5)]"
  let ?k = "window_key ''global'' 0"
  have l: "counter_laws (rch_client \<lparr>rch_client = count_redis\<rparr>) (\<lambda>s. s)" by (simp add: count_redis_laws)
  have sh: "\<forall>l \<in> set ?ls. shares_redis demo_rate ''global'' \<lparr>rch_client = count_redis\<rparr> 1 ?w l"
    by (simp add: shares_redis_def demo_limiter_def tier_limit_def limiter_Limit_def demo_rworld_def demo_rate_def)
  have k: "\<forall>i < length ?ls. window_key (limiter_tier ''global'') (w_clock ?w (w_tick ?w + i)) = ?k"
    by (simp add: window_key_def limiter_tier_def Unix_def Second_def demo_rworld_def)
  from distributed_window_exact [OF l sh k] show ?thesis by (simp add: demo_rworld_def del: upt_Suc upt_rec_numeral)
qed

subsection \<open>Errors of the server\<close>

text \<open>When the server fails to count, a distributed limiter decides exactly as its local bucket
  does (neither open nor closed), and the bucket is charged.\<close>

lemma redis_failure_falls_back:
  assumes "shares_redis R tier r L w l"
    and "rd_Incr (rch_client r) (window_key (limiter_tier tier) (w_clock w (w_tick w))) (rw_redis w) = ((n, Some e), s)"
  shows "allow_tier R tier l w =
    limiter_Allow R (if tier = ''admin'' then lim_adminLimiter l else lim_globalLimiter l)
      ((snd (time_Now w))\<lparr>rw_redis := s\<rparr>)"
  using assms(2) unfolding allow_tier_shared [OF assms(1)] allowDistributed_def cache_Increment_def Let_def case_prod_beta
    world_simps window_key_def [symmetric]
  by (cases "tier = ''admin''") (simp_all add: limiter_tier_def)

definition broken_redis :: "(string \<Rightarrow> int) redis_client" where
  "broken_redis = count_redis\<lparr>rd_Incr := \<lambda>k s. ((0, Some (NewErr ''EOF'')), s)\<rparr>"

lemma redis_failure_falls_back_witness:
  "fst (allow_tier demo_rate ''global'' ((demo_limiter 0)\<lparr>lim_cache := Some \<lparr>rch_client = broken_redis\<rparr>\<rparr>)
      (demo_rworld [(1, 1)]))
   \<and> \<not> fst (allow_tier demo_rate ''global'' ((demo_limiter 0)\<lparr>lim_cache := Some \<lparr>rch_client = broken_redis\<rparr>\<rparr>)
      (demo_rworld [(1, 0)]))"
proof -
  let ?l = "(demo_limiter 0)\<lparr>lim_cache := Some \<lparr>rch_client = broken_redis\<rparr>\<rparr>"
  have sh: "shares_redis demo_rate ''global'' \<lparr>rch_client = broken_redis\<rparr> 1 (demo_rworld [(1, b)]) ?l" for b
    by (simp add: shares_redis_def demo_limiter_def tier_limit_def limiter_Limit_def demo_rworld_def demo_rate_def)
  have i: "rd_Incr (rch_client \<lparr>rch_client = broken_redis\<rparr>) k s = ((0, Some (NewErr ''EOF'')), s)" for k s
    by (simp add: broken_redis_def)
  show ?thesis
    by (simp add: redis_failure_falls_back [OF sh i] limiter_Allow_unfold)
       (simp add: demo_limiter_def demo_rworld_def demo_rate_def time_Now_def)
qed

subsection \<open>Responses\<close>

text \<open>C14 (safety).  The limiter of a tier runs the handler behind it exactly when the decision was to allow,
  with the limit in the response header; otherwise the answer is a 429 with the retry header, the
  log gets the entry of the violation when there is a logger, and neither response nor state depends
  on the handler.\<close>

theorem limiter_denies_without_running_handler:
  assumes "rs_sent rs = None"
  shows "if fst (allow_tier R tier l w)
    then limiter_Middleware R l tier next r rs w =
      (let w1 = snd (allow_tier R tier l w)
       in next r (Header_Set ''X-RateLimit-Limit'' (fmt_d (getLimit R l tier w1)) rs) w1)
    else limiter_Middleware R l tier next r rs w = limiter_Middleware R l tier next' r rs w
    \<and> rs_status (fst (limiter_Middleware R l tier next r rs w)) = Some StatusTooManyRequests
    \<and> sent_header (fst (limiter_Middleware R l tier next r rs w)) ''Retry-After'' = Some ''60''
    \<and> sent_header (fst (limiter_Middleware R l tier next r rs w)) ''X-RateLimit-Remaining'' = Some ''0''
    \<and> snd (limiter_Middleware R l tier next r rs w) =
        audit_limit (lim_audit l) r tier (snd (allow_tier R tier l w))"
proof (cases "fst (allow_tier R tier l w)")
  case True
  then have "limiter_enter R l tier r rs w = Some (r, Header_Set ''X-RateLimit-Limit''
      (fmt_d (getLimit R l tier (snd (allow_tier R tier l w)))) rs, snd (allow_tier R tier l w))"
    by (simp add: limiter_enter_def case_prod_beta Let_def)
  from tier_gate.entered [OF this, of "next"] True show ?thesis by (simp add: Let_def)
next
  case False
  then have e: "limiter_enter R l tier r rs w = None"
    by (simp add: limiter_enter_def case_prod_beta Let_def)
  show ?thesis
    using tier_gate.rejected_same [OF e, of "next" next'] tier_gate.rejected_code [OF e assms, of "next"] assms False
    by (simp add: tier_gate.rejected [OF e] limiter_reject_def Let_def too_many_def sent_header_def Header_Set_def
        WriteHeader_def Write_def)
qed

lemma limiter_denies_without_running_handler_witness:
  "limiter_Middleware demo_rate ((demo_limiter 0)\<lparr>lim_distributed := False\<rparr>) ''admin'' (\<lambda>r rs w. (Write (Bytes ''x'') rs, w))
      (demo_request ''10.0.0.9'') new_response (demo_rworld [(1, 0)])
   = limiter_Middleware demo_rate ((demo_limiter 0)\<lparr>lim_distributed := False\<rparr>) ''admin'' (\<lambda>r rs w. (rs, w))
      (demo_request ''10.0.0.9'') new_response (demo_rworld [(1, 0)])"
proof -
  have "\<not> fst (allow_tier demo_rate ''admin'' ((demo_limiter 0)\<lparr>lim_distributed := False\<rparr>) (demo_rworld [(1, 0)]))"
    by (simp add: allow_tier_def AllowAdmin_def limiter_Allow_unfold demo_limiter_def demo_rworld_def demo_rate_def)
  moreover have "rs_sent new_response = None" by (simp add: new_response_def)
  ultimately show ?thesis using limiter_denies_without_running_handler by meson
qed


subsection \<open>Addresses\<close>

text \<open>The map of the per-address limiter points to distinct buckets of the heap.\<close>

definition pl_ok :: "PerIPLimiter \<times> ('l, 'rd, 'z) rworld_scheme \<Rightarrow> bool" where
  "pl_ok st \<longleftrightarrow> distinct (map fst (pl_limiters (fst st))) \<and> distinct (map snd (pl_limiters (fst st)))
     \<and> (\<forall>p \<in> set (map snd (pl_limiters (fst st))). p < length (rw_limiters (snd st)))"

definition bucket_of :: "string \<Rightarrow> PerIPLimiter \<times> ('l, 'rd, 'z) rworld_scheme \<Rightarrow> 'l option" where
  "bucket_of ip st = map_option (\<lambda>p. rw_limiters (snd st) ! p) (map_of (pl_limiters (fst st)) ip)"

lemma map_of_snd: "map_of xs k = Some p \<Longrightarrow> p \<in> set (map snd xs)"
  by (force dest: map_of_SomeD)

lemma map_of_distinct_snd:
  "distinct (map snd xs) \<Longrightarrow> map_of xs k = Some p \<Longrightarrow> map_of xs k' = Some q \<Longrightarrow> k \<noteq> k' \<Longrightarrow> p \<noteq> q"
  by (induction xs) (auto dest: map_of_snd split: if_splits)

lemma GetLimiter_ok:
  assumes "pl_ok st" "GetLimiter R ip st = (p, st')"
  shows "pl_ok st'" "map_of (pl_limiters (fst st')) ip = Some p" "p < length (rw_limiters (snd st'))"
    "ip' \<noteq> ip \<Longrightarrow> bucket_of ip' st' = bucket_of ip' st"
    "bucket_of ip st' = Some (case bucket_of ip st of Some l \<Rightarrow> l
       | None \<Rightarrow> rt_NewLimiter R (pl_limit (fst st)) (pl_burst (fst st)))"
    "pl_limit (fst st') = pl_limit (fst st)" "pl_burst (fst st') = pl_burst (fst st)"
proof -
  obtain pl w where st: "st = (pl, w)" by (cases st)
  have "pl_ok st' \<and> map_of (pl_limiters (fst st')) ip = Some p \<and> p < length (rw_limiters (snd st'))
    \<and> (ip' \<noteq> ip \<longrightarrow> bucket_of ip' st' = bucket_of ip' st)
    \<and> bucket_of ip st' = Some (case bucket_of ip st of Some l \<Rightarrow> l
       | None \<Rightarrow> rt_NewLimiter R (pl_limit (fst st)) (pl_burst (fst st)))
    \<and> pl_limit (fst st') = pl_limit (fst st) \<and> pl_burst (fst st') = pl_burst (fst st)"
  proof (cases "map_of (pl_limiters pl) ip")
    case None
    have fresh: "length (rw_limiters w) \<notin> set (map snd (pl_limiters pl))"
      using assms(1) by (auto simp: pl_ok_def st)
    have new: "ip \<notin> set (map fst (pl_limiters pl))" using None by (simp add: map_of_eq_None_iff)
    have old: "q < length (rw_limiters w)" if "map_of (pl_limiters pl) k = Some q" for k q
      using map_of_snd [OF that] assms(1) by (auto simp: pl_ok_def st)
    have lt: "b < length (rw_limiters w)" if "(a, b) \<in> set (pl_limiters pl)" for a b
      using that assms(1) by (force simp: pl_ok_def st)
    have bk: "map_option ((!) (rw_limiters w @ ys)) (map_of (pl_limiters pl) ip')
        = map_option ((!) (rw_limiters w)) (map_of (pl_limiters pl) ip')" for ys
      by (cases "map_of (pl_limiters pl) ip'") (auto simp: nth_append dest: old)
    show ?thesis
      using assms None fresh new
      by (auto simp: GetLimiter_def st alloc_limiter_def pl_ok_def bucket_of_def nth_append less_Suc_eq bk
          dest: lt split: option.split)
  next
    case (Some q)
    then have st': "st' = st" "p = q" using assms(2) by (simp_all add: GetLimiter_def st)
    have "q < length (rw_limiters w)" using map_of_snd [OF Some] assms(1) by (auto simp: pl_ok_def st)
    with Some assms(1) show ?thesis unfolding st' by (simp add: st bucket_of_def)
  qed
  then show "pl_ok st'" "map_of (pl_limiters (fst st')) ip = Some p" "p < length (rw_limiters (snd st'))"
    "ip' \<noteq> ip \<Longrightarrow> bucket_of ip' st' = bucket_of ip' st"
    "bucket_of ip st' = Some (case bucket_of ip st of Some l \<Rightarrow> l
       | None \<Rightarrow> rt_NewLimiter R (pl_limit (fst st)) (pl_burst (fst st)))"
    "pl_limit (fst st') = pl_limit (fst st)" "pl_burst (fst st') = pl_burst (fst st)" by blast+
qed

lemma limiter_Allow_ok:
  assumes "pl_ok (pl, w)" "map_of (pl_limiters pl) ip = Some p"
  shows "pl_ok (pl, snd (limiter_Allow R p w))"
    "ip' \<noteq> ip \<Longrightarrow> bucket_of ip' (pl, snd (limiter_Allow R p w)) = bucket_of ip' (pl, w)"
proof -
  show "pl_ok (pl, snd (limiter_Allow R p w))" using assms(1) by (simp add: pl_ok_def world_simps)
  assume ne: "ip' \<noteq> ip"
  show "bucket_of ip' (pl, snd (limiter_Allow R p w)) = bucket_of ip' (pl, w)"
  proof (cases "map_of (pl_limiters pl) ip'")
    case (Some q)
    with map_of_distinct_snd [OF _ assms(2) Some] assms(1) ne have "p \<noteq> q" by (auto simp: pl_ok_def)
    with Some show ?thesis by (simp add: bucket_of_def world_simps)
  qed (simp add: bucket_of_def)
qed


fun perip_run :: "'l rate_ops \<Rightarrow> AuditLogger option \<Rightarrow>
    (PerIPLimiter \<times> ('l, 'rd, 'z) rworld_scheme) handler \<Rightarrow> request list \<Rightarrow>
    PerIPLimiter \<times> ('l, 'rd, 'z) rworld_scheme \<Rightarrow> response list \<times> PerIPLimiter \<times> ('l, 'rd, 'z) rworld_scheme" where
  "perip_run R audit next [] st = ([], st)"
| "perip_run R audit next (r # reqs) st =
     (let (rs, st1) = perip_Middleware R audit next r new_response st; (rss, st2) = perip_run R audit next reqs st1
      in (rs # rss, st2))"

text \<open>A handler that leaves the buckets of the limiter alone.\<close>

definition keeps_buckets :: "(PerIPLimiter \<times> ('l, 'rd, 'z) rworld_scheme) handler \<Rightarrow> bool" where
  "keeps_buckets next \<longleftrightarrow> (\<forall>r rs st. fst (snd (next r rs st)) = fst st
     \<and> rw_limiters (snd (snd (next r rs st))) = rw_limiters (snd st))"

lemma keeps_bucketsD:
  assumes "keeps_buckets next"
  shows "fst (snd (next r rs st)) = fst st" "rw_limiters (snd (snd (next r rs st))) = rw_limiters (snd st)"
  using assms unfolding keeps_buckets_def by blast+

lemma bucket_cong:
  "fst st' = fst st \<Longrightarrow> rw_limiters (snd st') = rw_limiters (snd st) \<Longrightarrow>
     bucket_of ip st' = bucket_of ip st \<and> pl_ok st' = pl_ok st"
  by (simp add: bucket_of_def pl_ok_def)

lemma perip_step:
  assumes "pl_ok st" "keeps_buckets next"
  shows "let st' = snd (perip_Middleware R audit next r rs st) in
     pl_ok st' \<and> (\<forall>ip. ip \<noteq> getIP r \<longrightarrow> bucket_of ip st' = bucket_of ip st)
     \<and> (pl_limit (fst st'), pl_burst (fst st')) = (pl_limit (fst st), pl_burst (fst st))
     \<and> set (map fst (pl_limiters (fst st'))) \<subseteq> insert (getIP r) (set (map fst (pl_limiters (fst st))))"
proof -
  obtain p pl w where g: "GetLimiter R (getIP r) st = (p, pl, w)" by (metis prod.collapse)
  note ok = GetLimiter_ok [OF assms(1) g]
  define st2 where "st2 = (pl, snd (limiter_Allow R p w))"
  have al: "pl_ok st2 \<and> (\<forall>ip. ip \<noteq> getIP r \<longrightarrow> bucket_of ip st2 = bucket_of ip st)"
    using ok(4) limiter_Allow_ok [OF ok(1) [simplified], simplified, OF ok(2) [simplified]] by (simp add: st2_def)
  have keys: "set (map fst (pl_limiters pl)) \<subseteq> insert (getIP r) (set (map fst (pl_limiters (fst st))))"
    using g by (auto simp: GetLimiter_def alloc_limiter_def split: prod.splits option.splits)
  have same: "fst (snd (perip_Middleware R audit next r rs st)) = fst st2
     \<and> rw_limiters (snd (snd (perip_Middleware R audit next r rs st))) = rw_limiters (snd st2)"
  proof (cases "fst (limiter_Allow R p w)")
    case True
    then have "perip_enter R r rs st = Some (r, rs, st2)"
      by (simp add: perip_enter_def g case_prod_beta Let_def st2_def)
    then show ?thesis by (simp add: ip_gate.entered keeps_bucketsD [OF assms(2)])
  next
    case False
    then have "perip_enter R r rs st = None" by (simp add: perip_enter_def g case_prod_beta Let_def)
    then show ?thesis by (simp add: ip_gate.rejected perip_reject_def g Let_def st2_def world_simps)
  qed
  show ?thesis
    using bucket_cong [of "snd (perip_Middleware R audit next r rs st)" st2] same al keys ok(6,7)
    by (simp add: Let_def st2_def)
qed

lemma perip_run_others:
  assumes "pl_ok st" "keeps_buckets next" "\<forall>r \<in> set reqs. getIP r \<noteq> ip"
  shows "let st' = snd (perip_run R audit next reqs st) in pl_ok st' \<and> bucket_of ip st' = bucket_of ip st
    \<and> (pl_limit (fst st'), pl_burst (fst st')) = (pl_limit (fst st), pl_burst (fst st))"
  using assms(1,3)
proof (induction reqs arbitrary: st)
  case Nil
  then show ?case by simp
next
  case (Cons r reqs)
  let ?st1 = "snd (perip_Middleware R audit next r new_response st)"
  have s: "pl_ok ?st1" "bucket_of ip ?st1 = bucket_of ip st"
    "pl_limit (fst ?st1) = pl_limit (fst st)" "pl_burst (fst ?st1) = pl_burst (fst st)"
    using perip_step [OF Cons.prems(1) assms(2), of R audit r new_response] Cons.prems(2) by (auto simp: Let_def)
  from Cons.IH [OF s(1)] Cons.prems(2) s show ?case by (simp add: Let_def case_prod_beta)
qed

lemma perip_enter_iff:
  assumes "pl_ok (pl, w)"
  shows "perip_enter R r rs (pl, w) \<noteq> None \<longleftrightarrow> fst (rt_Allow R (w_clock w (w_tick w))
    (case bucket_of (getIP r) (pl, w) of Some l \<Rightarrow> l | None \<Rightarrow> rt_NewLimiter R (pl_limit pl) (pl_burst pl)))"
proof -
  obtain p pl' w' where g: "GetLimiter R (getIP r) (pl, w) = (p, pl', w')" by (metis prod.collapse)
  have c: "w_clock w' = w_clock w" "w_tick w' = w_tick w"
    using g by (auto simp: GetLimiter_def alloc_limiter_def split: option.splits)
  from GetLimiter_ok(2,5) [OF assms g] have "rw_limiters w' ! p = (case bucket_of (getIP r) (pl, w) of Some l \<Rightarrow> l
     | None \<Rightarrow> rt_NewLimiter R (pl_limit pl) (pl_burst pl))"
    by (simp add: bucket_of_def cong: option.case_cong)
  with c show ?thesis by (simp add: perip_enter_def g limiter_Allow_unfold Let_def)
qed

text \<open>Clients do not share a bucket: whatever requests other addresses have sent, a request of
  this address is let through exactly when the bucket that its address had before them (or a fresh
  one) has a token now.\<close>

lemma perip_isolation:
  assumes "pl_ok st" "keeps_buckets next" "\<forall>r' \<in> set reqs. getIP r' \<noteq> getIP r"
    and "snd (perip_run R audit next reqs st) = (pl, w)"
  shows "perip_enter R r rs (pl, w) \<noteq> None \<longleftrightarrow> fst (rt_Allow R (w_clock w (w_tick w))
    (case bucket_of (getIP r) st of Some l \<Rightarrow> l
     | None \<Rightarrow> rt_NewLimiter R (pl_limit (fst st)) (pl_burst (fst st))))"
  using perip_run_others [OF assms(1-3), of R audit] perip_enter_iff [of pl w R r rs] assms(4)
  by (simp add: Let_def cong: option.case_cong)

definition serve_ok :: "'s handler" where
  "serve_ok r rs s = (Write (Bytes ''ok'') rs, s)"

lemma perip_isolation_witness:
  "perip_enter demo_rate (demo_request ''b'') new_response
     (snd (perip_run demo_rate None serve_ok (replicate 3 (demo_request ''a'')) (NewPerIPLimiter 1 1, demo_rworld []))) \<noteq> None"
proof -
  have st: "pl_ok (NewPerIPLimiter 1 1, demo_rworld [])" by (simp add: pl_ok_def NewPerIPLimiter_def)
  have k: "keeps_buckets (serve_ok :: (PerIPLimiter \<times> (int \<times> int, string \<Rightarrow> int) rworld) handler)"
    by (simp add: keeps_buckets_def serve_ok_def)
  have n: "\<forall>r' \<in> set (replicate 3 (demo_request ''a'')). getIP r' \<noteq> getIP (demo_request ''b'')"
    by (simp add: getIP_def demo_request_def)
  obtain pl w where r: "snd (perip_run demo_rate None serve_ok (replicate 3 (demo_request ''a''))
      (NewPerIPLimiter 1 1, demo_rworld [])) = (pl, w)" by (metis prod.collapse)
  show ?thesis unfolding r perip_isolation [OF st k n r]
    by (simp add: demo_rate_def bucket_of_def NewPerIPLimiter_def f64_id)
qed

text \<open>The request \<open>r\<close> with another \<open>X-Forwarded-For\<close> header.\<close>

definition forge :: "request \<Rightarrow> string \<Rightarrow> request" where
  "forge r x = r\<lparr>r_header := (r_header r)(''X-Forwarded-For'' := x)\<rparr>"

text \<open>C32 (bounds).  The limit holds per header value, not per client: one connection that sends each of its
  requests with a forwarding header of its own, not seen before, is never limited, however many
  requests it sends, as soon as a fresh bucket has a token.\<close>

theorem perip_limit_evaded_by_header:
  assumes "pl_ok st" "keeps_buckets next"
    and "distinct xs" "[] \<notin> set xs" "\<forall>x \<in> set xs. map_of (pl_limiters (fst st)) x = None"
    and "\<forall>t. fst (rt_Allow R t (rt_NewLimiter R (pl_limit (fst st)) (pl_burst (fst st))))"
    and "\<forall>r rs st. rs_sent rs = None \<longrightarrow> rs_status (fst (next r rs st)) \<noteq> Some StatusTooManyRequests"
  shows "length (fst (perip_run R audit next (map (forge r) xs) st)) = length xs
    \<and> (\<forall>rs \<in> set (fst (perip_run R audit next (map (forge r) xs) st)). rs_status rs \<noteq> Some StatusTooManyRequests)"
  using assms(1,3-6)
proof (induction xs arbitrary: st)
  case Nil
  then show ?case by simp
next
  case (Cons x xs)
  let ?m = "perip_Middleware R audit next (forge r x) new_response st"
  have ip: "getIP (forge r x) = x" using Cons.prems(3) by (auto simp: forge_def getIP_def)
  have s: "pl_ok (snd ?m)" "pl_limit (fst (snd ?m)) = pl_limit (fst st)" "pl_burst (fst (snd ?m)) = pl_burst (fst st)"
    "set (map fst (pl_limiters (fst (snd ?m)))) \<subseteq> insert x (set (map fst (pl_limiters (fst st))))"
    using perip_step [OF Cons.prems(1) assms(2), of R audit "forge r x" new_response] ip by (auto simp: Let_def)
  have "perip_enter R (forge r x) new_response st \<noteq> None"
    using perip_enter_iff [of "fst st" "snd st" R "forge r x"] Cons.prems ip by (simp add: bucket_of_def)
  then obtain r1 rs1 st1 where e: "perip_enter R (forge r x) new_response st = Some (r1, rs1, st1)" by auto
  have "rs_sent rs1 = None" using ip_gate.enter_open [OF e] by (simp add: new_response_def)
  then have first: "rs_status (fst ?m) \<noteq> Some StatusTooManyRequests"
    unfolding ip_gate.entered [OF e] using assms(7) by blast
  have "\<forall>y \<in> set xs. map_of (pl_limiters (fst (snd ?m))) y = None"
    using s(4) Cons.prems(2,4) by (auto simp: map_of_eq_None_iff)
  with Cons.IH [OF s(1)] Cons.prems s(2,3) first show ?case by (simp add: case_prod_beta Let_def)
qed

lemma perip_limit_evaded_by_header_witness:
  "Some StatusTooManyRequests \<notin> rs_status ` set (fst (perip_run demo_rate None serve_ok
     (map (forge (demo_request ''203.0.113.9:4711'')) [''a'', ''b'', ''c'']) (NewPerIPLimiter 1 1, demo_rworld [])))"
proof -
  let ?st = "(NewPerIPLimiter 1 1, demo_rworld [])"
  have st: "pl_ok ?st" by (simp add: pl_ok_def NewPerIPLimiter_def)
  have k: "keeps_buckets (serve_ok :: (PerIPLimiter \<times> (int \<times> int, string \<Rightarrow> int) rworld) handler)"
    by (simp add: keeps_buckets_def serve_ok_def)
  have xs: "distinct [''a'', ''b'', ''c'']" "[] \<notin> set [''a'', ''b'', ''c'']" by simp_all
  have new: "\<forall>x \<in> set [''a'', ''b'', ''c'']. map_of (pl_limiters (fst ?st)) x = None"
    by (simp add: NewPerIPLimiter_def)
  have fresh: "\<forall>t. fst (rt_Allow demo_rate t (rt_NewLimiter demo_rate (pl_limit (fst ?st)) (pl_burst (fst ?st))))"
    by (simp add: demo_rate_def NewPerIPLimiter_def)
  have ok: "\<forall>r rs (st :: PerIPLimiter \<times> (int \<times> int, string \<Rightarrow> int) rworld). rs_sent rs = None \<longrightarrow>
      rs_status (fst (serve_ok r rs st)) \<noteq> Some StatusTooManyRequests"
    by (simp add: serve_ok_def Write_def rs_status_def WriteHeader_def status_defs Let_def)
  show ?thesis using perip_limit_evaded_by_header [OF st k xs new fresh ok] by force
qed

end
