(* ===== verification/LimiterThreads.thy ===== *)
theory LimiterThreads
  imports RateLimitProps "HOL-Library.Multiset"
begin

text \<open>
  Requests that meet at the distributed limiter.  The method \<open>allowDistributed\<close> holds no lock: between its
  reading of the clock, its INCR and its EXPIRE, requests of the same and of other gateways run, and
  a gateway may die.  Here the method is cut into these actions, a pool of requests takes them in any
  order, and the limit is shown for every order.
\<close>

subsection \<open>The actions of one request\<close>

text \<open>The position of a request in the method, with the local variables that are alive there.\<close>

datatype dist_pc = AtClock | AtIncr string | AtExpire string int | AtFallback
  | Decided string int bool | DecidedLocally bool

fun verdict :: "dist_pc \<Rightarrow> bool option" where
  "verdict (Decided k n b) = Some b"
| "verdict (DecidedLocally b) = Some b"
| "verdict _ = None"

fun dist_action :: "'l rate_ops \<Rightarrow> 'rd Limiter \<Rightarrow> 'rd RedisCache \<Rightarrow> string \<Rightarrow> int \<Rightarrow>
    dist_pc \<times> ('l, 'rd, 'z) rworld_scheme \<Rightarrow> dist_pc \<times> ('l, 'rd, 'z) rworld_scheme" where
  "dist_action R l r tier limit (AtClock, w) =
     (let (now, w1) = time_Now w in (AtIncr (''ratelimit:'' @ tier @ '':'' @ fmt_d (go_div (Unix now) 60)), w1))"
| "dist_action R l r tier limit (AtIncr key, w) =
     (let ((n, err), s) = cache_Increment r key (rw_redis w); w1 = w\<lparr>rw_redis := s\<rparr>
      in case err of
           Some _ \<Rightarrow> (AtFallback, w1)
         | None \<Rightarrow> if n = 1 then (AtExpire key n, w1)
                   else (Decided key n (n \<le> int64 (int_of_f64 limit * 60)), w1))"
| "dist_action R l r tier limit (AtExpire key n, w) =
     (Decided key n (n \<le> int64 (int_of_f64 limit * 60)),
      w\<lparr>rw_redis := snd (cache_Expire r key (2 * Minute) (rw_redis w))\<rparr>)"
| "dist_action R l r tier limit (AtFallback, w) =
     (let (b, w1) = limiter_Allow R (if tier = ''admin'' then lim_adminLimiter l else lim_globalLimiter l) w
      in (DecidedLocally b, w1))"
| "dist_action R l r tier limit (pc, w) = (pc, w)"

lemma dist_action_clock [simp]:
  "dist_action R l r tier limit (AtClock, w) = (AtIncr (window_key tier (w_clock w (w_tick w))), snd (time_Now w))"
  by (simp add: Let_def case_prod_beta window_key_def world_simps)

declare dist_action.simps(1) [simp del]

lemmas cache_counting = cache_Increment_def cache_Expire_def case_prod_beta Let_def

text \<open>The cut is the method: alone, a request that takes three actions has decided, and it has decided as
  the method does, with the same state left behind.\<close>

lemma allowDistributed_actions:
  "\<exists>pc w'. (dist_action R l r tier limit ^^ 3) (AtClock, w) = (pc, w')
     \<and> verdict pc = Some (fst (allowDistributed R l r tier limit w)) \<and> w' = snd (allowDistributed R l r tier limit w)"
proof -
  let ?k = "window_key tier (w_clock w (w_tick w))"
  let ?w1 = "snd (time_Now w)"
  let ?act = "dist_action R l r tier limit"
  obtain n err s where i: "rd_Incr (rch_client r) ?k (rw_redis w) = ((n, err), s)" by (metis prod.collapse)
  have three: "(?act ^^ 3) (AtClock, w) = ?act (?act (AtIncr ?k, ?w1))"
    by (simp add: numeral_3_eq_3 del: dist_action.simps)
  have whole: "allowDistributed R l r tier limit w = (case err of
      Some _ \<Rightarrow> limiter_Allow R (if tier = ''admin'' then lim_adminLimiter l else lim_globalLimiter l) (?w1\<lparr>rw_redis := s\<rparr>)
    | None \<Rightarrow> (n \<le> int64 (int_of_f64 limit * 60),
        if n = 1 then ?w1\<lparr>rw_redis := snd (rd_Expire (rch_client r) ?k (2 * Minute) s)\<rparr> else ?w1\<lparr>rw_redis := s\<rparr>))"
    unfolding allowDistributed_def cache_counting world_simps window_key_def [symmetric] i
    by (simp add: world_simps split: option.split)
  show ?thesis
    unfolding three whole by (cases err; cases "n = 1") (simp_all add: cache_counting i world_simps)
qed

subsection \<open>A pool of requests\<close>

record 'rd dthread =
  dt_limiter :: "'rd Limiter"
  dt_cache :: "'rd RedisCache"
  dt_tier :: string
  dt_limit :: int
  dt_pc :: dist_pc
  dt_alive :: bool

type_synonym ('l, 'rd, 'z) pool = "'rd dthread list \<times> ('l, 'rd, 'z) rworld_scheme"

definition thread_action :: "'l rate_ops \<Rightarrow> 'rd dthread \<Rightarrow> ('l, 'rd, 'z) rworld_scheme \<Rightarrow>
    'rd dthread \<times> ('l, 'rd, 'z) rworld_scheme" where
  "thread_action R t w = (let (pc, w1) = dist_action R (dt_limiter t) (dt_cache t) (dt_tier t) (dt_limit t) (dt_pc t, w)
     in (t\<lparr>dt_pc := pc\<rparr>, w1))"

inductive pool_own :: "'l rate_ops \<Rightarrow> ('l, 'rd, 'z) pool \<Rightarrow> ('l, 'rd, 'z) pool \<Rightarrow> bool" for R where
  act: "i < length ts \<Longrightarrow> dt_alive (ts ! i) \<Longrightarrow> verdict (dt_pc (ts ! i)) = None \<Longrightarrow>
    thread_action R (ts ! i) w = (t, w1) \<Longrightarrow> pool_own R (ts, w) (ts[i := t], w1)"
| die: "i < length ts \<Longrightarrow> dt_alive (ts ! i) \<Longrightarrow> verdict (dt_pc (ts ! i)) = None \<Longrightarrow>
    pool_own R (ts, w) (ts[i := (ts ! i)\<lparr>dt_alive := False\<rparr>], w)"

text \<open>The rest of the world may change anything but the counters, which \<open>E\<close> has to keep.\<close>

inductive pool_step :: "'l rate_ops \<Rightarrow> ('rd \<Rightarrow> 'rd \<Rightarrow> bool) \<Rightarrow> ('l, 'rd, 'z) pool \<Rightarrow> ('l, 'rd, 'z) pool \<Rightarrow> bool"
  for R E where
  own: "pool_own R p p1 \<Longrightarrow> pool_step R E p p1"
| environment: "E (rw_redis w) (rw_redis w1) \<Longrightarrow> pool_step R E (ts, w) (ts, w1)"

inductive_cases pool_ownE: "pool_own R (ts, w) p1"
inductive_cases pool_stepE: "pool_step R E (ts, w) p1"

inductive pool_run :: "'l rate_ops \<Rightarrow> ('rd \<Rightarrow> 'rd \<Rightarrow> bool) \<Rightarrow> ('l, 'rd, 'z) pool \<Rightarrow> ('l, 'rd, 'z) pool \<Rightarrow> bool"
  for R E where
  nothing: "pool_run R E p p"
| more: "pool_run R E p p1 \<Longrightarrow> pool_step R E p1 p2 \<Longrightarrow> pool_run R E p p2"

definition arrived :: "'rd dthread \<Rightarrow> bool" where
  "arrived t \<longleftrightarrow> dt_pc t = AtClock \<and> dt_alive t"

subsection \<open>What the counters say\<close>

text \<open>The key and the number under which a request was counted.\<close>

fun pc_count :: "dist_pc \<Rightarrow> (string \<times> int) option" where
  "pc_count (AtExpire k n) = Some (k, n)"
| "pc_count (Decided k n b) = Some (k, n)"
| "pc_count _ = None"

definition thread_numbers :: "string \<Rightarrow> 'rd dthread \<Rightarrow> int multiset" where
  "thread_numbers k t = (case pc_count (dt_pc t) of Some (k', n) \<Rightarrow> if k' = k then {#n#} else {#} | None \<Rightarrow> {#})"

definition numbers :: "string \<Rightarrow> 'rd dthread list \<Rightarrow> int multiset" where
  "numbers k ts = (\<Sum>t \<leftarrow> ts. thread_numbers k t)"

lemma numbers_update:
  assumes "i < length ts"
  shows "numbers k (ts[i := t]) + thread_numbers k (ts ! i) = numbers k ts + thread_numbers k t"
  using assms
proof (induction ts arbitrary: i)
  case (Cons u us)
  then show ?case by (cases i) (auto simp: numbers_def ac_simps)
qed simp

text \<open>How one action changes the counters and the numbers, with a healthy server.\<close>

lemma dist_action_counts:
  assumes "counter_laws (rch_client r) cnt" "dist_action R l r tier limit (pc, w) = (pc1, w1)" "verdict pc = None" "pc \<noteq> AtFallback"
  shows "(\<exists>k. pc = AtIncr k \<and> pc_count pc1 = Some (k, cnt (rw_redis w) k + 1)
            \<and> cnt (rw_redis w1) = (cnt (rw_redis w))(k := cnt (rw_redis w) k + 1))
       \<or> (pc_count pc1 = pc_count pc \<and> cnt (rw_redis w1) = cnt (rw_redis w))"
proof (cases pc)
  case (AtIncr k)
  obtain s where i: "rd_Incr (rch_client r) k (rw_redis w) = ((cnt (rw_redis w) k + 1, None), s)"
    and s: "cnt s = (cnt (rw_redis w))(k := cnt (rw_redis w) k + 1)"
    using assms(1) unfolding counter_laws_def by (metis prod.collapse snd_conv)
  show ?thesis using assms(2) by (auto simp: AtIncr cache_counting i s split: if_splits)
next
  case (AtExpire k n)
  have "cnt (snd (rd_Expire (rch_client r) k (2 * Minute) s)) = cnt s" for s
    using assms(1) by (simp add: counter_laws_def Minute_def Second_def)
  then show ?thesis using assms(2) by (auto simp: AtExpire cache_counting)
next
  case AtClock
  then show ?thesis using assms(2) by (auto simp: Let_def case_prod_beta world_simps)
qed (use assms(3,4) in auto)

text \<open>What holds of every request of a healthy pool; \<open>L\<close> gives the limit of a tier.\<close>

definition sane_pc :: "string \<Rightarrow> int \<Rightarrow> dist_pc \<Rightarrow> bool" where
  "sane_pc tier limit pc = (case pc of
     AtClock \<Rightarrow> True
   | AtIncr k \<Rightarrow> (\<exists>u. k = window_key tier u)
   | AtExpire k n \<Rightarrow> (\<exists>u. k = window_key tier u) \<and> n = 1
   | Decided k n b \<Rightarrow> (\<exists>u. k = window_key tier u) \<and> b = (n \<le> int64 (int_of_f64 limit * 60))
   | _ \<Rightarrow> False)"

definition sane_thread :: "('rd \<Rightarrow> string \<Rightarrow> int) \<Rightarrow> (string \<Rightarrow> int) \<Rightarrow> 'rd dthread \<Rightarrow> bool" where
  "sane_thread cnt L t \<longleftrightarrow> counter_laws (rch_client (dt_cache t)) cnt \<and> dt_tier t \<in> {''global'', ''admin''}
     \<and> dt_limit t = L (dt_tier t) \<and> sane_pc (dt_tier t) (dt_limit t) (dt_pc t)"

lemma sane_alive: "sane_thread cnt L (t\<lparr>dt_alive := b\<rparr>) = sane_thread cnt L t"
  by (simp add: sane_thread_def)

lemma sane_pc_action:
  assumes "counter_laws (rch_client r) cnt" "sane_pc tier limit pc"
  shows "sane_pc tier limit (fst (dist_action R l r tier limit (pc, w)))"
proof -
  have "snd (fst (rd_Incr (rch_client r) k s)) = None" for k s using assms(1) by (simp add: counter_laws_def)
  then show ?thesis
    using assms(2) by (cases pc) (auto simp: sane_pc_def cache_counting)
qed

lemma sane_thread_action:
  "sane_thread cnt L t \<Longrightarrow> thread_action R t w = (t1, w1) \<Longrightarrow> sane_thread cnt L t1"
  by (auto simp: sane_thread_def thread_action_def Let_def case_prod_beta intro: sane_pc_action)

lemma thread_action_counts:
  assumes "sane_thread cnt L t" "thread_action R t w = (t1, w1)" "verdict (dt_pc t) = None"
  shows "(\<exists>k. dt_pc t = AtIncr k \<and> pc_count (dt_pc t1) = Some (k, cnt (rw_redis w) k + 1)
            \<and> cnt (rw_redis w1) = (cnt (rw_redis w))(k := cnt (rw_redis w) k + 1))
       \<or> (pc_count (dt_pc t1) = pc_count (dt_pc t) \<and> cnt (rw_redis w1) = cnt (rw_redis w))"
proof -
  obtain pc where pc: "dist_action R (dt_limiter t) (dt_cache t) (dt_tier t) (dt_limit t) (dt_pc t, w) = (pc, w1)"
    and t1: "t1 = t\<lparr>dt_pc := pc\<rparr>" using assms(2) by (auto simp: thread_action_def Let_def split: prod.splits)
  have laws: "counter_laws (rch_client (dt_cache t)) cnt" and "dt_pc t \<noteq> AtFallback"
    using assms(1) by (auto simp: sane_thread_def sane_pc_def)
  from dist_action_counts [OF laws pc assms(3) this(2)] show ?thesis by (simp add: t1)
qed

text \<open>The numbers given out so far are all the numbers up to the counter, each one once.\<close>

definition pool_inv :: "('rd \<Rightarrow> string \<Rightarrow> int) \<Rightarrow> (string \<Rightarrow> int) \<Rightarrow> (string \<Rightarrow> int) \<Rightarrow> ('l, 'rd, 'z) pool \<Rightarrow> bool" where
  "pool_inv cnt c0 L p \<longleftrightarrow> (\<forall>t \<in> set (fst p). sane_thread cnt L t)
     \<and> (\<forall>k. c0 k \<le> cnt (rw_redis (snd p)) k \<and> numbers k (fst p) = mset [c0 k + 1 .. cnt (rw_redis (snd p)) k])"

lemma mset_upto_Suc: "a \<le> c \<Longrightarrow> mset [a + 1 .. c + 1] = add_mset (c + 1) (mset [a + 1 .. c])" for a c :: int
  using upto_rec2 [of "a + 1" "c + 1"] by simp

lemma pool_own_inv: "pool_own R p p1 \<Longrightarrow> pool_inv cnt c0 L p \<Longrightarrow> pool_inv cnt c0 L p1"
proof (induction rule: pool_own.induct)
  case (act i ts w t w1)
  let ?t = "ts ! i"
  from act have sane: "sane_thread cnt L ?t" and inv: "\<And>k. numbers k ts = mset [c0 k + 1 .. cnt (rw_redis w) k]"
    "\<And>k. c0 k \<le> cnt (rw_redis w) k" by (auto simp: pool_inv_def)
  from sane_thread_action [OF sane act(4)] act.prems have "\<forall>u \<in> set (ts[i := t]). sane_thread cnt L u"
    using set_update_subset_insert [of ts i t] by (auto simp: pool_inv_def)
  moreover have "c0 k \<le> cnt (rw_redis w1) k \<and> numbers k (ts[i := t]) = mset [c0 k + 1 .. cnt (rw_redis w1) k]" for k
    using thread_action_counts [OF sane act(4,3)]
  proof (elim disjE exE conjE)
    fix k1 assume c: "dt_pc ?t = AtIncr k1" "pc_count (dt_pc t) = Some (k1, cnt (rw_redis w) k1 + 1)"
      "cnt (rw_redis w1) = (cnt (rw_redis w))(k1 := cnt (rw_redis w) k1 + 1)"
    then have "numbers k (ts[i := t]) = numbers k ts + (if k = k1 then {#cnt (rw_redis w) k1 + 1#} else {#})"
      using numbers_update [OF act(1), of k t] by (simp add: thread_numbers_def split: if_splits)
    with inv [of k] c(3) mset_upto_Suc [of "c0 k" "cnt (rw_redis w) k"] show ?thesis by (cases "k = k1") simp_all
  next
    assume c: "pc_count (dt_pc t) = pc_count (dt_pc ?t)" "cnt (rw_redis w1) = cnt (rw_redis w)"
    then have "numbers k (ts[i := t]) = numbers k ts"
      using numbers_update [OF act(1), of k t] by (simp add: thread_numbers_def)
    with inv [of k] c(2) show ?thesis by simp
  qed
  ultimately show ?case by (simp add: pool_inv_def)
next
  case (die i ts w)
  let ?t = "(ts ! i)\<lparr>dt_alive := False\<rparr>"
  have "numbers k (ts[i := ?t]) = numbers k ts" for k
    using numbers_update [OF die(1), of k ?t] by (simp add: thread_numbers_def)
  moreover have "sane_thread cnt L (ts ! i)" using die by (auto simp: pool_inv_def)
  then have "sane_thread cnt L ?t" by (simp add: sane_alive)
  then have "\<forall>u \<in> set (ts[i := ?t]). sane_thread cnt L u"
    using die.prems set_update_subset_insert [of ts i ?t] by (auto simp: pool_inv_def)
  ultimately show ?case using die.prems by (simp add: pool_inv_def)
qed

lemma pool_run_inv:
  assumes "pool_run R E p p1" "pool_inv cnt c0 L p" "\<forall>s s'. E s s' \<longrightarrow> cnt s' = cnt s"
  shows "pool_inv cnt c0 L p1"
  using assms(1,2)
proof (induction rule: pool_run.induct)
  case (more p p1 p2)
  from more.hyps(2) more.IH [OF more.prems] show ?case
  proof (cases rule: pool_step.cases)
    case own
    then show ?thesis using pool_own_inv more.IH [OF more.prems] by blast
  next
    case (environment w w1 ts)
    with more.IH [OF more.prems] assms(3) show ?thesis by (simp add: pool_inv_def)
  qed
qed

lemma arrived_pool_inv:
  assumes "\<forall>t \<in> set ts0. arrived t \<and> counter_laws (rch_client (dt_cache t)) cnt
        \<and> dt_tier t \<in> {''global'', ''admin''} \<and> dt_limit t = L (dt_tier t)"
  shows "pool_inv cnt (cnt (rw_redis w0)) L (ts0, w0)"
proof -
  have "numbers k' ts0 = {#}" for k'
    using assms by (induction ts0) (auto simp: numbers_def thread_numbers_def arrived_def)
  moreover have "\<forall>t \<in> set ts0. sane_thread cnt L t"
    using assms by (auto simp: sane_thread_def sane_pc_def arrived_def)
  ultimately show ?thesis by (simp add: pool_inv_def)
qed

subsection \<open>The limit\<close>

fun admits :: "string \<Rightarrow> dist_pc \<Rightarrow> bool" where
  "admits k (Decided k' n b) = (k' = k \<and> b)"
| "admits k _ = False"

definition admitted :: "string \<Rightarrow> 'rd dthread list \<Rightarrow> nat" where
  "admitted k ts = length (filter (\<lambda>t. admits k (dt_pc t)) ts)"

definition counted :: "string \<Rightarrow> 'rd dthread list \<Rightarrow> nat" where
  "counted k ts = size (numbers k ts)"

lemma window_key_tier:
  "window_key t1 u1 = window_key t2 u2 \<Longrightarrow> t1 \<in> {''global'', ''admin''} \<Longrightarrow> t2 \<in> {''global'', ''admin''} \<Longrightarrow> t1 = t2"
  by (auto simp: window_key_def)

lemma admits_number:
  fixes u :: time
  assumes "sane_thread cnt L t" "tier \<in> {''global'', ''admin''}"
  defines "N \<equiv> filter_mset (\<lambda>n. n \<le> int64 (int_of_f64 (L tier) * 60)) (thread_numbers (window_key tier u) t)"
  shows "of_bool (admits (window_key tier u) (dt_pc t)) \<le> size N"
    and "verdict (dt_pc t) \<noteq> None \<Longrightarrow> of_bool (admits (window_key tier u) (dt_pc t)) = size N"
proof -
  have key: "L (dt_tier t) = L tier" if "window_key (dt_tier t) v = window_key tier u" for v
    using window_key_tier [OF that] assms(1,2) by (auto simp: sane_thread_def)
  have "dt_limit t = L (dt_tier t)" using assms(1) by (simp add: sane_thread_def)
  with assms(1) key show "of_bool (admits (window_key tier u) (dt_pc t)) \<le> size N"
    "verdict (dt_pc t) \<noteq> None \<Longrightarrow> of_bool (admits (window_key tier u) (dt_pc t)) = size N"
    by (cases "dt_pc t"; force simp: N_def thread_numbers_def sane_thread_def sane_pc_def)+
qed

lemma admitted_numbers:
  fixes u :: time
  assumes "\<forall>t \<in> set ts. sane_thread cnt L t" "tier \<in> {''global'', ''admin''}"
  defines "N \<equiv> filter_mset (\<lambda>n. n \<le> int64 (int_of_f64 (L tier) * 60)) (numbers (window_key tier u) ts)"
  shows "admitted (window_key tier u) ts \<le> size N"
    and "\<forall>t \<in> set ts. verdict (dt_pc t) \<noteq> None \<Longrightarrow> admitted (window_key tier u) ts = size N"
  using assms(1) unfolding N_def
proof (induction ts)
  case (Cons t ts)
  case 1
  with Cons(1) admits_number(1) [of cnt L t tier u, OF _ assms(2)] show ?case
    by (auto simp: admitted_def numbers_def)
next
  case (Cons t ts)
  case 2
  with Cons(2) admits_number(2) [of cnt L t tier u, OF _ assms(2)] show ?case
    by (auto simp: admitted_def numbers_def)
qed (simp_all add: admitted_def numbers_def)

lemma size_numbers_upto:
  fixes a c M :: int
  assumes "a \<le> c"
  shows "int (size (filter_mset (\<lambda>n. n \<le> M) (mset [a + 1 .. c]))) = max 0 (min M c - a)"
proof -
  have "size (filter_mset (\<lambda>n. n \<le> M) (mset [a + 1 .. c])) = length (filter (\<lambda>n. n \<le> M) [a + 1 .. c])"
    by (simp flip: mset_filter)
  also have "\<dots> = card (set (filter (\<lambda>n. n \<le> M) [a + 1 .. c]))"
    by (rule distinct_card [symmetric]) simp
  also have "set (filter (\<lambda>n. n \<le> M) [a + 1 .. c]) = {a + 1 .. min M c}" by auto
  finally show ?thesis using assms by simp
qed

text \<open>C9 (bounds).  Whatever way the requests of all gateways interleave, and whichever of them die on the way, the
  distributed limiter admits no more than sixty times the rate of the tier in one minute.  It is
  exact: when all requests have decided, those admitted are as many as were counted, up to what the
  limit left at the start.\<close>

theorem limit_holds_under_interleaving:
  fixes u :: time
  assumes "pool_run R E (ts0, w0) (ts, w)"
    and "\<forall>t \<in> set ts0. arrived t \<and> counter_laws (rch_client (dt_cache t)) cnt
        \<and> dt_tier t \<in> {''global'', ''admin''} \<and> dt_limit t = L (dt_tier t)"
    and "\<forall>s s'. E s s' \<longrightarrow> cnt s' = cnt s"
    and "tier \<in> {''global'', ''admin''}" "\<bar>L tier * 60\<bar> < 2 ^ 63"
  defines "k \<equiv> window_key tier u" and "room \<equiv> max 0 (L tier * 60 - cnt (rw_redis w0) (window_key tier u))"
  shows "int (admitted k ts) \<le> room
    \<and> ((\<forall>t \<in> set ts. verdict (dt_pc t) \<noteq> None) \<longrightarrow> int (admitted k ts) = min room (int (counted k ts)))"
proof -
  let ?start = "cnt (rw_redis w0)" and ?now = "cnt (rw_redis w)"
  have "pool_inv cnt ?start L (ts0, w0)" using assms(2) by (rule arrived_pool_inv)
  from pool_run_inv [OF assms(1) this assms(3)] have sane: "\<forall>t \<in> set ts. sane_thread cnt L t"
    and c: "?start k \<le> ?now k" "numbers k ts = mset [?start k + 1 .. ?now k]" by (simp_all add: pool_inv_def)
  have "int64 (int_of_f64 (L tier) * 60) = L tier * 60"
    using assms(5) by (simp add: int_of_f64_def int64_id abs_less_iff)
  then have size: "int (size (filter_mset (\<lambda>n. n \<le> int64 (int_of_f64 (L tier) * 60)) (numbers k ts)))
      = max 0 (min (L tier * 60) (?now k) - ?start k)"
    using size_numbers_upto [OF c(1), of "L tier * 60"] by (simp add: c(2))
  have cd: "int (counted k ts) = ?now k - ?start k" using c by (simp add: counted_def)
  define S where "S = size (filter_mset (\<lambda>n. n \<le> int64 (int_of_f64 (L tier) * 60)) (numbers k ts))"
  have le: "admitted k ts \<le> S" and eq: "\<forall>t \<in> set ts. verdict (dt_pc t) \<noteq> None \<Longrightarrow> admitted k ts = S"
    using admitted_numbers [OF sane assms(4), of u] by (simp_all add: S_def k_def)
  have S: "int S = max 0 (min (L tier * 60) (?now k) - ?start k)" using size by (simp add: S_def)
  have "int S \<le> room" "int S = min room (int (counted k ts))"
    using c(1) cd S unfolding room_def k_def by (auto simp: min_def max_def)
  with le eq show ?thesis by auto
qed

subsection \<open>The expiry of a window\<close>

text \<open>
  What Redis documents of expiries: INCR leaves them as they are, EXPIRE with a duration in the future
  sets that of an existing key.  \<open>ttl\<close> gives the keys that have one.
\<close>

definition expiry_laws :: "'rd redis_client \<Rightarrow> ('rd \<Rightarrow> string \<Rightarrow> int) \<Rightarrow> ('rd \<Rightarrow> string set) \<Rightarrow> bool" where
  "expiry_laws c cnt ttl \<longleftrightarrow> (\<forall>k s. ttl (snd (rd_Incr c k s)) = ttl s)
     \<and> (\<forall>k d s. 0 < d \<longrightarrow> 0 < cnt s k \<longrightarrow> ttl (snd (rd_Expire c k d s)) = insert k (ttl s))"

fun finished_first :: "string \<Rightarrow> dist_pc \<Rightarrow> bool" where
  "finished_first k (Decided k' n b) = (k' = k \<and> n = 1)"
| "finished_first k _ = False"

definition ttl_inv :: "('rd \<Rightarrow> string set) \<Rightarrow> string set \<Rightarrow> ('l, 'rd, 'z) pool \<Rightarrow> bool" where
  "ttl_inv ttl T p \<longleftrightarrow> (\<forall>k. k \<notin> T \<longrightarrow>
     (k \<in> ttl (rw_redis (snd p)) \<longleftrightarrow> (\<exists>t \<in> set (fst p). finished_first k (dt_pc t))))"

lemma ex_list_update:
  assumes "i < length xs" "\<not> P (xs ! i)"
  shows "(\<exists>y \<in> set (xs[i := x]). P y) \<longleftrightarrow> P x \<or> (\<exists>y \<in> set xs. P y)"
  using assms by (auto simp: set_conv_nth nth_list_update)

lemma dist_action_ttl:
  assumes "expiry_laws (rch_client r) cnt ttl" "sane_pc tier limit pc" "verdict pc = None"
    "dist_action R l r tier limit (pc, w) = (pc1, w1)"
    "\<forall>k n. pc = AtExpire k n \<longrightarrow> 0 < cnt (rw_redis w) k"
  shows "k \<in> ttl (rw_redis w1) \<longleftrightarrow> finished_first k pc1 \<or> k \<in> ttl (rw_redis w)"
proof (cases pc)
  case (AtIncr k1)
  obtain n err s where i: "rd_Incr (rch_client r) k1 (rw_redis w) = ((n, err), s)" by (metis prod.collapse)
  have t: "ttl s = ttl (rw_redis w)"
    using assms(1) i unfolding expiry_laws_def by (metis snd_conv)
  have "pc1 = fst (dist_action R l r tier limit (pc, w))" "w1 = snd (dist_action R l r tier limit (pc, w))"
    using assms(4) by simp_all
  then have "rw_redis w1 = s" "\<not> finished_first k pc1"
    by (cases err; simp add: AtIncr cache_counting i)+
  with t show ?thesis by simp
next
  case (AtExpire k1 n)
  have "ttl (snd (rd_Expire (rch_client r) k1 (2 * Minute) (rw_redis w))) = insert k1 (ttl (rw_redis w))"
    using assms(1,5) by (simp add: expiry_laws_def AtExpire Minute_def Second_def)
  then show ?thesis using assms(2,4) by (auto simp: AtExpire cache_counting sane_pc_def)
qed (use assms(2-4) in \<open>auto simp: sane_pc_def world_simps\<close>)

lemma thread_number_in: "t \<in> set ts \<Longrightarrow> thread_numbers k t \<subseteq># numbers k ts"
  by (induction ts) (auto simp: numbers_def intro: subset_mset.order_trans)

lemma number_range:
  assumes "pool_inv cnt c0 L (ts, w)" "t \<in> set ts" "pc_count (dt_pc t) = Some (k, n)"
  shows "n \<le> cnt (rw_redis w) k"
proof -
  have "n \<in># numbers k ts"
    using thread_number_in [OF assms(2), of k] assms(3) by (auto simp: thread_numbers_def dest: mset_subset_eqD)
  with assms(1) show ?thesis by (simp add: pool_inv_def)
qed

lemma pool_own_ttl:
  "pool_own R p p1 \<Longrightarrow> pool_inv cnt c0 L p \<Longrightarrow> ttl_inv ttl T p \<Longrightarrow>
    \<forall>t \<in> set (fst p). expiry_laws (rch_client (dt_cache t)) cnt ttl \<Longrightarrow>
    ttl_inv ttl T p1 \<and> (\<forall>t \<in> set (fst p1). expiry_laws (rch_client (dt_cache t)) cnt ttl)"
proof (induction rule: pool_own.induct)
  case (act i ts w t w1)
  let ?t = "ts ! i"
  have mem: "?t \<in> set ts" using act(1) by simp
  with act.prems have sane: "sane_thread cnt L ?t" and laws: "expiry_laws (rch_client (dt_cache ?t)) cnt ttl"
    by (auto simp: pool_inv_def)
  obtain pc where pc: "dist_action R (dt_limiter ?t) (dt_cache ?t) (dt_tier ?t) (dt_limit ?t) (dt_pc ?t, w) = (pc, w1)"
    and t: "t = ?t\<lparr>dt_pc := pc\<rparr>" using act(4) by (auto simp: thread_action_def Let_def split: prod.splits)
  have pos: "0 < cnt (rw_redis w) k" if "dt_pc ?t = AtExpire k n" for k n
    using number_range [OF act.prems(1) mem, of k n] that sane by (simp add: sane_thread_def sane_pc_def)
  have "sane_pc (dt_tier ?t) (dt_limit ?t) (dt_pc ?t)" using sane unfolding sane_thread_def by blast
  from dist_action_ttl [OF laws this act(3) pc] pos
  have step: "k \<in> ttl (rw_redis w1) \<longleftrightarrow> finished_first k (dt_pc t) \<or> k \<in> ttl (rw_redis w)" for k
    by (auto simp: t)
  have "\<not> finished_first k (dt_pc ?t)" for k using act(3) by (cases "dt_pc ?t") auto
  then have "(\<exists>u \<in> set (ts[i := t]). finished_first k (dt_pc u)) \<longleftrightarrow>
      finished_first k (dt_pc t) \<or> (\<exists>u \<in> set ts. finished_first k (dt_pc u))" for k
    using ex_list_update [OF act(1), of "\<lambda>u. finished_first k (dt_pc u)"] by blast
  with step act.prems(2) have "ttl_inv ttl T (ts[i := t], w1)" by (simp add: ttl_inv_def)
  moreover have "\<forall>u \<in> set (ts[i := t]). expiry_laws (rch_client (dt_cache u)) cnt ttl"
    using act.prems(3) laws set_update_subset_insert [of ts i t] by (auto simp: t)
  ultimately show ?case by simp
next
  case (die i ts w)
  let ?t = "(ts ! i)\<lparr>dt_alive := False\<rparr>"
  have "\<not> finished_first k (dt_pc (ts ! i))" for k using die(3) by (cases "dt_pc (ts ! i)") auto
  then have "(\<exists>u \<in> set (ts[i := ?t]). finished_first k (dt_pc u)) \<longleftrightarrow> (\<exists>u \<in> set ts. finished_first k (dt_pc u))" for k
    using ex_list_update [OF die(1), of "\<lambda>u. finished_first k (dt_pc u)" ?t] by simp
  with die.prems(2) have "ttl_inv ttl T (ts[i := ?t], w)" by (simp add: ttl_inv_def)
  moreover have "\<forall>u \<in> set (ts[i := ?t]). expiry_laws (rch_client (dt_cache u)) cnt ttl"
    using die set_update_subset_insert [of ts i ?t] by auto
  ultimately show ?case by simp
qed

lemma pool_run_ttl:
  assumes "pool_run R E p p1" "pool_inv cnt c0 L p" "ttl_inv ttl T p"
    and "\<forall>t \<in> set (fst p). expiry_laws (rch_client (dt_cache t)) cnt ttl"
    and E: "\<forall>s s'. E s s' \<longrightarrow> cnt s' = cnt s \<and> ttl s' = ttl s"
  shows "pool_inv cnt c0 L p1 \<and> ttl_inv ttl T p1 \<and> (\<forall>t \<in> set (fst p1). expiry_laws (rch_client (dt_cache t)) cnt ttl)"
  using assms(1-4)
proof (induction rule: pool_run.induct)
  case (more p p1 p2)
  note IH = more.IH [OF more.prems]
  have inv: "pool_inv cnt c0 L p2"
    using pool_run_inv [OF pool_run.more [OF more.hyps] more.prems(1)] E by blast
  show ?case using more.hyps(2)
  proof (cases rule: pool_step.cases)
    case own
    then show ?thesis using pool_own_ttl IH inv by blast
  next
    case (environment w w1 ts)
    with IH inv E show ?thesis by (simp add: ttl_inv_def)
  qed
qed simp

lemma numbers_twice:
  assumes "t \<in> set ts" "u \<in> set ts" "t \<noteq> u"
  shows "thread_numbers k t + thread_numbers k u \<subseteq># numbers k ts"
  using assms
proof (induction ts)
  case (Cons v ts)
  then show ?case using thread_number_in [of t ts k] thread_number_in [of u ts k]
    by (auto simp: numbers_def ac_simps intro: subset_mset.order_trans)
qed simp

text \<open>C18 (invariant).  A window gets its expiry from the request that opened it and from no other: the counter of a
  key that had none expires exactly when the request with number one has finished.  If that request
  died between its two commands, no later request repairs it and the counter stays for ever.\<close>

theorem window_expires_iff_opener_finished:
  assumes "pool_run R E (ts0, w0) (ts, w)"
    and "\<forall>t \<in> set ts0. arrived t \<and> counter_laws (rch_client (dt_cache t)) cnt
        \<and> expiry_laws (rch_client (dt_cache t)) cnt ttl
        \<and> dt_tier t \<in> {''global'', ''admin''} \<and> dt_limit t = L (dt_tier t)"
    and "\<forall>s s'. E s s' \<longrightarrow> cnt s' = cnt s \<and> ttl s' = ttl s"
    and "k \<notin> ttl (rw_redis w0)"
  shows "(k \<in> ttl (rw_redis w) \<longleftrightarrow> (\<exists>t \<in> set ts. finished_first k (dt_pc t)))
    \<and> ((\<exists>t \<in> set ts. dt_pc t = AtExpire k 1) \<longrightarrow> k \<notin> ttl (rw_redis w))"
proof -
  let ?start = "cnt (rw_redis w0)" and ?T = "ttl (rw_redis w0)"
  have start: "pool_inv cnt ?start L (ts0, w0)"
    using assms(2) by (intro arrived_pool_inv) auto
  have "\<not> finished_first k' (dt_pc t)" if "t \<in> set ts0" for k' t
    using assms(2) that by (auto simp: arrived_def)
  then have "ttl_inv ttl ?T (ts0, w0)" by (auto simp: ttl_inv_def)
  from pool_run_ttl [OF assms(1) start this] assms(2,3) have inv: "pool_inv cnt ?start L (ts, w)" "ttl_inv ttl ?T (ts, w)"
    by simp_all
  from inv(2) assms(4) have iff: "k \<in> ttl (rw_redis w) \<longleftrightarrow> (\<exists>t \<in> set ts. finished_first k (dt_pc t))"
    by (simp add: ttl_inv_def)
  have "\<not> finished_first k (dt_pc u)" if t: "t \<in> set ts" "dt_pc t = AtExpire k 1" and u: "u \<in> set ts" for t u
  proof
    assume f: "finished_first k (dt_pc u)"
    then have "thread_numbers k u = {#1#}" by (cases "dt_pc u") (simp_all add: thread_numbers_def)
    moreover have "thread_numbers k t = {#1#}" "t \<noteq> u" using t f by (auto simp: thread_numbers_def)
    ultimately have "{#1, 1#} \<subseteq># mset [?start k + 1 .. cnt (rw_redis w) k]"
      using numbers_twice [OF t(1) u, of k] inv(1) by (simp add: pool_inv_def)
    then have "2 \<le> Multiset.count (mset [?start k + 1 .. cnt (rw_redis w) k]) 1"
      using mset_subset_eq_count [of "{#1, 1#}" _ 1] by fastforce
    then show False using distinct_count_atmost_1 [of "[?start k + 1 .. cnt (rw_redis w) k]"] by (simp split: if_splits)
  qed
  with iff show ?thesis by blast
qed

subsection \<open>Concrete pools\<close>

text \<open>A schedule names the requests that act, or die, one after the other.\<close>

datatype turn = Acts nat | Dies nat

fun follow_turn :: "'l rate_ops \<Rightarrow> turn \<Rightarrow> ('l, 'rd, 'z) pool \<Rightarrow> ('l, 'rd, 'z) pool" where
  "follow_turn R (Acts i) (ts, w) = (if i < length ts \<and> dt_alive (ts ! i) \<and> verdict (dt_pc (ts ! i)) = None
     then (let (t, w1) = thread_action R (ts ! i) w in (ts[i := t], w1)) else (ts, w))"
| "follow_turn R (Dies i) (ts, w) = (if i < length ts \<and> dt_alive (ts ! i) \<and> verdict (dt_pc (ts ! i)) = None
     then (ts[i := (ts ! i)\<lparr>dt_alive := False\<rparr>], w) else (ts, w))"

definition follow :: "'l rate_ops \<Rightarrow> turn list \<Rightarrow> ('l, 'rd, 'z) pool \<Rightarrow> ('l, 'rd, 'z) pool" where
  "follow R is p = fold (follow_turn R) is p"

lemma follow_turn_own: "follow_turn R i p = p \<or> pool_own R p (follow_turn R i p)"
proof (cases "(R, i, p)" rule: follow_turn.cases)
  case (1 R i ts w)
  then show ?thesis by (cases "thread_action R (ts ! i) w") (simp add: pool_own.act)
qed (simp add: pool_own.die)

lemma follow_run: "pool_run R E p p1 \<Longrightarrow> pool_run R E p (follow R is p1)"
proof (induction "is" arbitrary: p1)
  case (Cons i "is")
  have "pool_run R E p (follow_turn R i p1)"
    using follow_turn_own [of R i p1] Cons.prems by (metis pool_run.more pool_step.own)
  from Cons.IH [OF this] show ?case by (simp add: follow_def)
qed (simp add: follow_def)

text \<open>A server that counts and remembers which keys expire.\<close>

definition ttl_redis :: "((string \<Rightarrow> int) \<times> string set) redis_client" where
  "ttl_redis = \<lparr>rd_Ping = \<lambda>s. (None, s), rd_Set = \<lambda>k v d s. (None, s), rd_Get = \<lambda>k s. (RNil, s),
     rd_Del = \<lambda>k s. (None, s), rd_Exists = \<lambda>k s. ((0, None), s),
     rd_Expire = \<lambda>k d (c, T). (None, (c, insert k T)),
     rd_Incr = \<lambda>k (c, T). ((c k + 1, None), (c(k := c k + 1), T)),
     rd_IncrBy = \<lambda>k n s. ((n, None), s), rd_SetNX = \<lambda>k v d s. ((False, None), s), rd_TTL = \<lambda>k s. ((-1, None), s),
     rd_Keys = \<lambda>p s. (([], None), s), rd_FlushDB = \<lambda>s. (None, s), rd_Close = \<lambda>s. (None, s),
     rd_PoolStats = \<lambda>s. \<lparr>ps_Hits = 0, ps_Misses = 0, ps_Timeouts = 0, ps_TotalConns = 0, ps_IdleConns = 0,
       ps_StaleConns = 0\<rparr>\<rparr>"

lemma ttl_redis_laws: "counter_laws ttl_redis fst" "expiry_laws ttl_redis fst snd"
  by (auto simp: counter_laws_def expiry_laws_def ttl_redis_def)

definition demo_thread :: "((string \<Rightarrow> int) \<times> string set) dthread" where
  "demo_thread = \<lparr>dt_limiter = \<lparr>lim_globalLimiter = 0, lim_adminLimiter = 0, lim_cache = Some \<lparr>rch_client = ttl_redis\<rparr>,
     lim_audit = None, lim_distributed = True\<rparr>, dt_cache = \<lparr>rch_client = ttl_redis\<rparr>, dt_tier = ''global'', dt_limit = 1,
     dt_pc = AtClock, dt_alive = True\<rparr>"

definition demo_pool :: "int \<Rightarrow> (int \<times> int, (string \<Rightarrow> int) \<times> string set, unit) pool" where
  "demo_pool n = ([demo_thread, demo_thread],
     \<lparr>w_clock = int, w_tick = 0, w_files = Map.empty, w_faults = [], w_zap = [], rw_limiters = [(1, 5)],
      rw_redis = (\<lambda>_. n, {})\<rparr>)"

lemmas demo_pool_defs = follow_def demo_pool_def demo_thread_def ttl_redis_def thread_action_def cache_counting

lemma demo_key: "window_key tier 1 = window_key tier 0"
  by (simp add: window_key_def Unix_def Second_def)

lemma limit_holds_under_interleaving_witness:
  "admitted (window_key ''global'' 0) (fst (follow demo_rate [Acts 0, Acts 1, Acts 1, Acts 0] (demo_pool 59))) = 1"
proof -
  let ?is = "[Acts 0, Acts 1, Acts 1, Acts 0]"
  obtain ts w where p: "follow demo_rate ?is (demo_pool 59) = (ts, w)" by fastforce
  obtain ts0 w0 where p0: "demo_pool 59 = (ts0, w0)" by fastforce
  have run: "pool_run demo_rate (=) (ts0, w0) (ts, w)"
    unfolding p [symmetric] p0 [symmetric] by (rule follow_run) (rule pool_run.nothing)
  have all: "\<forall>t \<in> set ts0. arrived t \<and> counter_laws (rch_client (dt_cache t)) fst
      \<and> dt_tier t \<in> {''global'', ''admin''} \<and> dt_limit t = (\<lambda>_. 1) (dt_tier t)"
    using p0 ttl_redis_laws by (auto simp: demo_pool_def demo_thread_def arrived_def)
  have fin: "\<forall>t \<in> set ts. verdict (dt_pc t) \<noteq> None" and c: "counted (window_key ''global'' 0) ts = 2"
    using p by (auto simp: demo_pool_defs counted_def numbers_def thread_numbers_def time_Now_def demo_key)
  have c0: "fst (rw_redis w0) k = 59" for k using p0 by (auto simp: demo_pool_def)
  show ?thesis
    using limit_holds_under_interleaving [OF run all, of "''global''" 0] fin unfolding p by (simp add: c c0)
qed

lemma window_expires_iff_opener_finished_witness:
  "window_key ''global'' 0 \<notin> snd (rw_redis (snd (follow demo_rate
     [Acts 0, Acts 0, Dies 0, Acts 1, Acts 1] (demo_pool 0))))"
proof -
  let ?is = "[Acts 0, Acts 0, Dies 0, Acts 1, Acts 1]" and ?k = "window_key ''global'' 0"
  obtain ts w where p: "follow demo_rate ?is (demo_pool 0) = (ts, w)" by fastforce
  obtain ts0 w0 where p0: "demo_pool 0 = (ts0, w0)" by fastforce
  have run: "pool_run demo_rate (=) (ts0, w0) (ts, w)"
    unfolding p [symmetric] p0 [symmetric] by (rule follow_run) (rule pool_run.nothing)
  have all: "\<forall>t \<in> set ts0. arrived t \<and> counter_laws (rch_client (dt_cache t)) fst
      \<and> expiry_laws (rch_client (dt_cache t)) fst snd
      \<and> dt_tier t \<in> {''global'', ''admin''} \<and> dt_limit t = (\<lambda>_. 1) (dt_tier t)"
    using p0 ttl_redis_laws by (auto simp: demo_pool_def demo_thread_def arrived_def)
  have start: "?k \<notin> snd (rw_redis w0)" using p0 by (auto simp: demo_pool_def)
  have "\<exists>t \<in> set ts. dt_pc t = AtExpire ?k 1"
    using p by (auto simp: demo_pool_defs time_Now_def demo_key)
  with window_expires_iff_opener_finished [OF run all _ start] show ?thesis unfolding p snd_conv by blast
qed

end
