(* ===== verification/Auth.thy ===== *)
theory Auth
  imports Gate AuditLog
begin

text \<open>
  Package \<open>internal/auth\<close> (apikey.go): API keys, their extraction from a request, and the two
  middlewares that guard routes with them.  The map of keys is an association list; the order in
  which Go ranges over a map is not fixed, so ranging takes an order \<open>ord\<close>, any rearrangement of the
  entries, as an argument.
\<close>

record APIKey =
  ak_Key :: string
  ak_Name :: string
  ak_Description :: string
  ak_CreatedAt :: time
  ak_ExpiresAt :: "time option"
  ak_Scopes :: "string list"
  ak_Enabled :: bool

definition zero_key :: APIKey where
  "zero_key = \<lparr>ak_Key = [], ak_Name = [], ak_Description = [], ak_CreatedAt = 0, ak_ExpiresAt = None,
     ak_Scopes = [], ak_Enabled = False\<rparr>"

type_synonym key_map = "(string \<times> APIKey) list"

record APIKeyAuthenticator =
  au_keys :: key_map
  au_audit :: "AuditLogger option"

record auth_Config =
  auc_Keys :: "APIKey list"
  auc_AuditLogger :: "AuditLogger option"

text \<open>Assignment to an entry of the map, and \<open>delete\<close>.\<close>

definition key_put :: "string \<Rightarrow> APIKey \<Rightarrow> key_map \<Rightarrow> key_map" where
  "key_put k v m = (k, v) # filter (\<lambda>e. fst e \<noteq> k) m"

definition key_delete :: "string \<Rightarrow> key_map \<Rightarrow> key_map" where
  "key_delete k m = filter (\<lambda>e. fst e \<noteq> k) m"

definition AddKey :: "APIKeyAuthenticator \<Rightarrow> APIKey \<Rightarrow> APIKeyAuthenticator" where
  "AddKey a key = (if ak_Enabled key then a\<lparr>au_keys := key_put (ak_Key key) key (au_keys a)\<rparr> else a)"

definition RemoveKey :: "APIKeyAuthenticator \<Rightarrow> string \<Rightarrow> APIKeyAuthenticator" where
  "RemoveKey a keyValue = a\<lparr>au_keys := key_delete keyValue (au_keys a)\<rparr>"

primrec index_keys :: "APIKey list \<Rightarrow> APIKeyAuthenticator \<Rightarrow> APIKeyAuthenticator" where
  "index_keys [] auth = auth"
| "index_keys (key # keys) auth = index_keys keys
     (if ak_Enabled key then auth\<lparr>au_keys := key_put (ak_Key key) key (au_keys auth)\<rparr> else auth)"

definition NewAPIKeyAuthenticator :: "auth_Config \<Rightarrow> APIKeyAuthenticator" where
  "NewAPIKeyAuthenticator cfg = index_keys (auc_Keys cfg) \<lparr>au_keys = [], au_audit = auc_AuditLogger cfg\<rparr>"

definition extractAPIKey :: "request \<Rightarrow> string" where
  "extractAPIKey r =
     (let apiKey = r_header r ''X-API-Key'' in
      if apiKey \<noteq> [] then apiKey
      else let authHeader = r_header r ''Authorization'' in
        if HasPrefix authHeader ''Bearer '' then TrimPrefix authHeader ''Bearer ''
        else r_query r ''api_key'')"

text \<open>\<open>subtle.ConstantTimeCompare\<close>: one for equal slices, zero otherwise.\<close>

definition ConstantTimeCompare :: "string \<Rightarrow> string \<Rightarrow> int" where
  "ConstantTimeCompare x y = (if length x \<noteq> length y then 0
     else if list_all (\<lambda>(a, b). a = b) (zip x y) then 1 else 0)"

primrec range_keys :: "string \<Rightarrow> key_map \<Rightarrow> APIKey \<times> bool" where
  "range_keys apiKey [] = (zero_key, False)"
| "range_keys apiKey (e # es) =
     (if ConstantTimeCompare apiKey (ak_Key (snd e)) = 1 then (snd e, True) else range_keys apiKey es)"

definition validateAPIKey :: "(key_map \<Rightarrow> key_map) \<Rightarrow> APIKeyAuthenticator \<Rightarrow> string \<Rightarrow> APIKey \<times> bool" where
  "validateAPIKey ord a apiKey = range_keys apiKey (ord (au_keys a))"

definition hasScopes :: "APIKey \<Rightarrow> string list \<Rightarrow> bool" where
  "hasScopes key required =
     (let keyScopes = fold (\<lambda>scope m. m(scope := True)) (ak_Scopes key) (\<lambda>_. False)
      in list_all keyScopes required)"

definition logAuthFailure :: "APIKeyAuthenticator \<Rightarrow> request \<Rightarrow> string \<Rightarrow> 'z aworld_scheme \<Rightarrow> 'z aworld_scheme" where
  "logAuthFailure a r reason w = (case au_audit a of None \<Rightarrow> w | Some l \<Rightarrow> LogAuthFailure l r reason w)"

definition respondUnauthorized :: "string \<Rightarrow> response \<Rightarrow> response" where
  "respondUnauthorized message rs =
     (let rs1 = Header_Set ''Content-Type'' ''application/json'' rs;
          rs2 = Header_Set ''WWW-Authenticate'' ''Bearer realm=\"API\"'' rs1;
          rs3 = WriteHeader StatusUnauthorized rs2
      in Write (JsonLine (JObj [(''error'', JStr ''unauthorized''), (''message'', JStr message)])) rs3)"

definition respondForbidden :: "string \<Rightarrow> response \<Rightarrow> response" where
  "respondForbidden message rs =
     (let rs1 = Header_Set ''Content-Type'' ''application/json'' rs;
          rs2 = WriteHeader StatusForbidden rs1
      in Write (JsonLine (JObj [(''error'', JStr ''forbidden''), (''message'', JStr message)])) rs2)"

definition auth_getIPAddress :: "request \<Rightarrow> string" where
  "auth_getIPAddress r =
     (let xff = r_header r ''X-Forwarded-For'' in
      if xff \<noteq> [] then TrimSpace (first_field CHR '','' xff)
      else let xri = r_header r ''X-Real-IP'' in if xri \<noteq> [] then xri else r_RemoteAddr r)"

definition auth_Middleware :: "(key_map \<Rightarrow> key_map) \<Rightarrow> APIKeyAuthenticator \<Rightarrow>
    'z aworld_scheme handler \<Rightarrow> 'z aworld_scheme handler" where
  "auth_Middleware ord a next r rs w =
     (let apiKey = extractAPIKey r in
      if apiKey = [] then (respondUnauthorized ''API key is required'' rs, logAuthFailure a r ''missing_api_key'' w)
      else let (key, valid) = validateAPIKey ord a apiKey in
        if \<not> valid then (respondUnauthorized ''Invalid API key'' rs, logAuthFailure a r ''invalid_api_key'' w)
        else let (expired, w1) = (case ak_ExpiresAt key of None \<Rightarrow> (False, w)
                  | Some t \<Rightarrow> (let (now, w1) = time_Now w in (After now t, w1)))
          in if expired then
               (respondUnauthorized ''API key has expired'' rs, logAuthFailure a r ''expired_api_key'' w1)
             else
               let w2 = (case au_audit a of None \<Rightarrow> w1
                 | Some l \<Rightarrow> (let (now, w2) = time_Now w1 in
                     LogEvent l (zero_event\<lparr>ev_Timestamp := now, ev_Action := ''api_key_authenticated'',
                       ev_Actor := ak_Name key, ev_Resource := r_path r, ev_Success := True,
                       ev_IPAddress := auth_getIPAddress r, ev_UserAgent := UserAgent r\<rparr>) w2))
               in next r rs w2)"

definition RequireScopes :: "(key_map \<Rightarrow> key_map) \<Rightarrow> APIKeyAuthenticator \<Rightarrow> string list \<Rightarrow>
    'z aworld_scheme handler \<Rightarrow> 'z aworld_scheme handler" where
  "RequireScopes ord a scopes next r rs w =
     (let apiKey = extractAPIKey r; (key, valid) = validateAPIKey ord a apiKey in
      if \<not> valid then (respondForbidden ''Access denied'' rs, w)
      else if \<not> hasScopes key scopes then
        (respondForbidden ''Insufficient permissions'' rs, logAuthFailure a r ''insufficient_scopes'' w)
      else next r rs w)"

record APIKeyInfo =
  ki_Name :: string
  ki_Description :: string
  ki_CreatedAt :: time
  ki_ExpiresAt :: "time option"
  ki_Scopes :: "string list"
  ki_Enabled :: bool

definition GetKeys :: "(key_map \<Rightarrow> key_map) \<Rightarrow> APIKeyAuthenticator \<Rightarrow> APIKeyInfo list" where
  "GetKeys ord a = map (\<lambda>(k, key). \<lparr>ki_Name = ak_Name key, ki_Description = ak_Description key,
     ki_CreatedAt = ak_CreatedAt key, ki_ExpiresAt = ak_ExpiresAt key, ki_Scopes = ak_Scopes key,
     ki_Enabled = ak_Enabled key\<rparr>) (ord (au_keys a))"

subsection \<open>The map of keys\<close>

definition auth_ok :: "APIKeyAuthenticator \<Rightarrow> bool" where
  "auth_ok a \<longleftrightarrow> distinct (map fst (au_keys a))
     \<and> (\<forall>(k, key) \<in> set (au_keys a). ak_Key key = k \<and> ak_Enabled key)"

definition rearranges :: "(key_map \<Rightarrow> key_map) \<Rightarrow> bool" where
  "rearranges ord \<longleftrightarrow> (\<forall>m. set (ord m) = set m)"

lemma ConstantTimeCompare_eq [simp]: "ConstantTimeCompare x y = 1 \<longleftrightarrow> x = y"
  by (auto simp: ConstantTimeCompare_def list_all_iff list_eq_iff_zip_eq)

lemma hasScopes_iff [simp]: "hasScopes key required \<longleftrightarrow> set required \<subseteq> set (ak_Scopes key)"
proof -
  have "fold (\<lambda>scope m. m(scope := True)) xs f s = (s \<in> set xs \<or> f s)" for xs f and s :: string
    by (induction xs arbitrary: f) auto
  then show ?thesis by (auto simp: hasScopes_def list_all_iff)
qed

lemma key_put_ok: "auth_ok a \<Longrightarrow> ak_Enabled key \<Longrightarrow> auth_ok (a\<lparr>au_keys := key_put (ak_Key key) key (au_keys a)\<rparr>)"
  by (auto simp: auth_ok_def key_put_def distinct_map_filter)

lemma AddKey_ok: "auth_ok a \<Longrightarrow> auth_ok (AddKey a key)"
  by (simp add: AddKey_def key_put_ok)

lemma RemoveKey_ok: "auth_ok a \<Longrightarrow> auth_ok (RemoveKey a k)"
  by (auto simp: RemoveKey_def key_delete_def auth_ok_def distinct_map_filter)

lemma index_keys_ok: "auth_ok a \<Longrightarrow> auth_ok (index_keys ks a)"
  by (induction ks arbitrary: a) (simp_all add: key_put_ok)

lemma NewAPIKeyAuthenticator_ok: "auth_ok (NewAPIKeyAuthenticator cfg)"
  unfolding NewAPIKeyAuthenticator_def by (rule index_keys_ok) (simp add: auth_ok_def)

lemma map_of_key_put [simp]: "map_of (key_put k v m) = (map_of m)(k \<mapsto> v)"
  by (auto simp: key_put_def map_of_filter_in fun_eq_iff)
     (induction m; auto)

lemma map_of_key_delete [simp]: "map_of (key_delete k m) = (map_of m)(k := None)"
  by (induction m) (auto simp: key_delete_def fun_eq_iff)

lemma range_keys_iff:
  assumes "\<forall>(k, key) \<in> set es. ak_Key key = k" "\<forall>e \<in> set es. \<forall>e' \<in> set es. fst e = fst e' \<longrightarrow> e = e'"
  shows "range_keys k es = (case map_of es k of Some key \<Rightarrow> (key, True) | None \<Rightarrow> (zero_key, False))"
  using assms by (induction es) (auto split: option.splits)

lemma validateAPIKey_eq:
  assumes "auth_ok a" "rearranges ord"
  shows "validateAPIKey ord a k = (case map_of (au_keys a) k of Some key \<Rightarrow> (key, True) | None \<Rightarrow> (zero_key, False))"
proof -
  have set: "set (ord (au_keys a)) = set (au_keys a)" using assms(2) by (simp add: rearranges_def)
  have u: "\<forall>e \<in> set (au_keys a). \<forall>e' \<in> set (au_keys a). fst e = fst e' \<longrightarrow> e = e'"
    using assms(1) unfolding auth_ok_def distinct_map inj_on_def by blast
  have m: "map_of (ord (au_keys a)) k = map_of (au_keys a) k"
  proof (cases "map_of (au_keys a) k")
    case None
    then show ?thesis by (metis set map_of_eq_None_iff list.set_map)
  next
    case (Some key)
    then have i: "(k, key) \<in> set (ord (au_keys a))" using set map_of_SomeD by fastforce
    then obtain key' where k': "map_of (ord (au_keys a)) k = Some key'"
      by (metis map_of_eq_None_iff not_None_eq fst_conv image_eqI list.set_map)
    with u i set have "key' = key" using map_of_SomeD [OF k'] by force
    with k' Some show ?thesis by simp
  qed
  have k: "\<forall>(k, key) \<in> set (ord (au_keys a)). ak_Key key = k" using assms(1) set by (auto simp: auth_ok_def)
  show ?thesis
    unfolding validateAPIKey_def m [symmetric] by (rule range_keys_iff [OF k]) (use u set in simp)
qed


subsection \<open>The middlewares as gates\<close>

definition key_expired :: "APIKey \<Rightarrow> 'z world_scheme \<Rightarrow> bool" where
  "key_expired key w \<longleftrightarrow> (case ak_ExpiresAt key of None \<Rightarrow> False | Some t \<Rightarrow> t < w_clock w (w_tick w))"

text \<open>The verdict on a request: the reason of the refusal, if there is one.\<close>

definition auth_refusal :: "(key_map \<Rightarrow> key_map) \<Rightarrow> APIKeyAuthenticator \<Rightarrow> request \<Rightarrow> 'z world_scheme \<Rightarrow>
    (string \<times> string) option" where
  "auth_refusal ord a r w = (let k = extractAPIKey r; (key, valid) = validateAPIKey ord a k in
     if k = [] then Some (''missing_api_key'', ''API key is required'')
     else if \<not> valid then Some (''invalid_api_key'', ''Invalid API key'')
     else if key_expired key w then Some (''expired_api_key'', ''API key has expired'')
     else None)"

definition auth_clock :: "(key_map \<Rightarrow> key_map) \<Rightarrow> APIKeyAuthenticator \<Rightarrow> request \<Rightarrow> 'z aworld_scheme \<Rightarrow> 'z aworld_scheme" where
  "auth_clock ord a r w = (let k = extractAPIKey r; (key, valid) = validateAPIKey ord a k in
     if k \<noteq> [] \<and> valid \<and> ak_ExpiresAt key \<noteq> None then snd (time_Now w) else w)"

definition auth_enter :: "(key_map \<Rightarrow> key_map) \<Rightarrow> APIKeyAuthenticator \<Rightarrow> request \<Rightarrow> response \<Rightarrow>
    'z aworld_scheme \<Rightarrow> (request \<times> response \<times> 'z aworld_scheme) option" where
  "auth_enter ord a r rs w = (case auth_refusal ord a r w of Some _ \<Rightarrow> None
     | None \<Rightarrow> (let w1 = auth_clock ord a r w; key = fst (validateAPIKey ord a (extractAPIKey r)) in
         Some (r, rs, case au_audit a of None \<Rightarrow> w1
           | Some l \<Rightarrow> LogEvent l (zero_event\<lparr>ev_Timestamp := fst (time_Now w1), ev_Action := ''api_key_authenticated'',
               ev_Actor := ak_Name key, ev_Resource := r_path r, ev_Success := True,
               ev_IPAddress := auth_getIPAddress r, ev_UserAgent := UserAgent r\<rparr>) (snd (time_Now w1)))))"

definition auth_reject :: "(key_map \<Rightarrow> key_map) \<Rightarrow> APIKeyAuthenticator \<Rightarrow> request \<Rightarrow> response \<Rightarrow>
    'z aworld_scheme \<Rightarrow> response \<times> 'z aworld_scheme" where
  "auth_reject ord a r rs w = (case auth_refusal ord a r w of None \<Rightarrow> (rs, w)
     | Some (reason, message) \<Rightarrow>
         (respondUnauthorized message rs, logAuthFailure a r reason (auth_clock ord a r w)))"

definition scopes_enter :: "(key_map \<Rightarrow> key_map) \<Rightarrow> APIKeyAuthenticator \<Rightarrow> string list \<Rightarrow> request \<Rightarrow> response \<Rightarrow>
    'z aworld_scheme \<Rightarrow> (request \<times> response \<times> 'z aworld_scheme) option" where
  "scopes_enter ord a scopes r rs w = (let (key, valid) = validateAPIKey ord a (extractAPIKey r) in
     if valid \<and> hasScopes key scopes then Some (r, rs, w) else None)"

definition scopes_reject :: "(key_map \<Rightarrow> key_map) \<Rightarrow> APIKeyAuthenticator \<Rightarrow> request \<Rightarrow> response \<Rightarrow>
    'z aworld_scheme \<Rightarrow> response \<times> 'z aworld_scheme" where
  "scopes_reject ord a r rs w = (if snd (validateAPIKey ord a (extractAPIKey r))
     then (respondForbidden ''Insufficient permissions'' rs, logAuthFailure a r ''insufficient_scopes'' w)
     else (respondForbidden ''Access denied'' rs, w))"

lemma respond_status [simp]:
  "rs_sent rs = None \<Longrightarrow> rs_status (respondUnauthorized m rs) = Some StatusUnauthorized"
  "rs_sent rs = None \<Longrightarrow> rs_status (respondForbidden m rs) = Some StatusForbidden"
  by (simp_all add: respondUnauthorized_def respondForbidden_def rs_status_def Header_Set_def WriteHeader_def
      Write_def Let_def)

interpretation key_gate: gate "auth_Middleware ord a" "auth_enter ord a" "auth_reject ord a" StatusUnauthorized for ord a
proof
  show "auth_Middleware ord a next r rs s = (case auth_enter ord a r rs s of
      None \<Rightarrow> auth_reject ord a r rs s | Some (r', rs', s') \<Rightarrow> next r' rs' s')" for "next" r rs s
  proof (cases "validateAPIKey ord a (extractAPIKey r)")
    case (Pair key valid)
    then show ?thesis
      by (auto simp: auth_Middleware_def auth_enter_def auth_reject_def auth_refusal_def auth_clock_def key_expired_def
          After_def time_Now_def Let_def split: option.split)
  qed
qed (auto simp: auth_enter_def auth_reject_def Let_def split: option.splits)

interpretation scope_gate: gate "RequireScopes ord a scopes" "scopes_enter ord a scopes" "scopes_reject ord a"
    StatusForbidden for ord a scopes
proof
  show "RequireScopes ord a scopes next r rs s = (case scopes_enter ord a scopes r rs s of
      None \<Rightarrow> scopes_reject ord a r rs s | Some (r', rs', s') \<Rightarrow> next r' rs' s')" for "next" r rs s
    by (simp add: RequireScopes_def scopes_enter_def scopes_reject_def case_prod_beta Let_def)
qed (auto simp: scopes_enter_def scopes_reject_def case_prod_beta Let_def split: if_splits)

interpretation key_scope: two_gates "auth_Middleware ord a" "RequireScopes ord a scopes" "auth_enter ord a"
    "scopes_enter ord a scopes" "auth_reject ord a" "scopes_reject ord a" StatusUnauthorized StatusForbidden
  for ord a scopes ..

definition grants :: "APIKeyAuthenticator \<Rightarrow> request \<Rightarrow> APIKey \<Rightarrow> bool" where
  "grants a r key \<longleftrightarrow> extractAPIKey r \<noteq> [] \<and> map_of (au_keys a) (extractAPIKey r) = Some key"

lemma auth_enter_iff:
  assumes "auth_ok a" "rearranges ord"
  shows "auth_enter ord a r rs w \<noteq> None \<longleftrightarrow> (\<exists>key. grants a r key \<and> \<not> key_expired key w)"
  by (auto simp: auth_enter_def auth_refusal_def validateAPIKey_eq [OF assms] grants_def Let_def
      split: option.splits if_splits)

lemma scopes_enter_iff:
  assumes "auth_ok a" "rearranges ord"
  shows "scopes_enter ord a scopes r rs w \<noteq> None \<longleftrightarrow>
    (\<exists>key. map_of (au_keys a) (extractAPIKey r) = Some key \<and> set scopes \<subseteq> set (ak_Scopes key))"
  by (auto simp: scopes_enter_def validateAPIKey_eq [OF assms] Let_def split: option.splits)

lemma auth_enter_frame:
  "auth_enter ord a r rs w = Some (r1, rs1, w1) \<Longrightarrow> r1 = r \<and> rs1 = rs"
  by (auto simp: auth_enter_def Let_def split: option.splits)

lemma scopes_enter_frame:
  "scopes_enter ord a scopes r rs w = Some (r1, rs1, w1) \<Longrightarrow> r1 = r \<and> rs1 = rs \<and> w1 = w"
  by (auto simp: scopes_enter_def Let_def case_prod_beta split: if_splits)

lemma auth_reject_log:
  assumes "auth_enter ord a r rs w = None" "au_audit a = Some l"
  shows "\<exists>reason w1. snd (auth_reject ord a r rs w) = LogAuthFailure l r reason w1 \<and> w_zap w1 = w_zap w"
proof -
  obtain reason msg where "auth_refusal ord a r w = Some (reason, msg)"
    using assms(1) by (cases "auth_refusal ord a r w") (auto simp: auth_enter_def Let_def)
  moreover have "w_zap (auth_clock ord a r w) = w_zap w"
    by (simp add: auth_clock_def case_prod_beta Let_def world_simps)
  ultimately show ?thesis using assms(2) by (auto simp: auth_reject_def logAuthFailure_def)
qed

end
