(* ===== verification/AuthProps.thy ===== *)
theory AuthProps
  imports Auth
begin

text \<open>
  Properties of \<open>internal/auth\<close>: which requests the two middlewares let through, alone and in a row,
  whatever the order of map iteration, and how long a key that was removed or disabled stays good.
\<close>

text \<open>C7 (safety).  A route behind the key check and the scope check runs its handler exactly for a request
  with a registered key that has not expired and holds all required scopes; it answers 401 without a
  good key and 403 without the scopes, in both cases with the same response and state whatever the
  handler is.  The order in which Go ranges over the key map plays no role.\<close>

theorem guarded_route_exact:
  assumes "auth_ok a" "rearranges ord" "rs_sent rs = None"
  shows "if \<nexists>key. grants a r key \<and> \<not> key_expired key w
    then rs_status (fst (auth_Middleware ord a (RequireScopes ord a scopes next) r rs w)) = Some StatusUnauthorized
      \<and> auth_Middleware ord a (RequireScopes ord a scopes next) r rs w
        = auth_Middleware ord a (RequireScopes ord a scopes next') r rs w
    else if \<nexists>key. grants a r key \<and> set scopes \<subseteq> set (ak_Scopes key)
    then rs_status (fst (auth_Middleware ord a (RequireScopes ord a scopes next) r rs w)) = Some StatusForbidden
      \<and> auth_Middleware ord a (RequireScopes ord a scopes next) r rs w
        = auth_Middleware ord a (RequireScopes ord a scopes next') r rs w
    else \<exists>w'. auth_Middleware ord a (RequireScopes ord a scopes next) r rs w = next r rs w'"
proof (cases "auth_enter ord a r rs w")
  case None
  then have n: "\<nexists>key. grants a r key \<and> \<not> key_expired key w" using auth_enter_iff [OF assms(1,2)] by blast
  show ?thesis
    unfolding if_P [OF n] using key_gate.rejected_code [OF None assms(3)] key_gate.rejected_same [OF None] by blast
next
  case (Some x)
  then obtain w1 where e1: "auth_enter ord a r rs w = Some (r, rs, w1)"
    using auth_enter_frame [of ord a r rs w] by (cases x) auto
  then obtain key where g: "grants a r key" "\<not> key_expired key w"
    using auth_enter_iff [OF assms(1,2), of r rs w] by auto
  have sc: "scopes_enter ord a scopes r rs w1 \<noteq> None \<longleftrightarrow> (\<exists>key. grants a r key \<and> set scopes \<subseteq> set (ak_Scopes key))"
    using g(1) scopes_enter_iff [OF assms(1,2)] unfolding grants_def by metis
  show ?thesis
  proof (cases "scopes_enter ord a scopes r rs w1")
    case None
    with sc g scope_gate.rejected_code [OF None assms(3)] scope_gate.rejected_same [OF None] show ?thesis
      unfolding key_gate.entered [OF e1] by (smt (verit, best))
  next
    case (Some y)
    then have "scopes_enter ord a scopes r rs w1 = Some (r, rs, w1)"
      using scopes_enter_frame [of ord a scopes r rs w1] by (cases y) auto
    with sc g show ?thesis unfolding key_gate.entered [OF e1] by (auto simp: scope_gate.entered)
  qed
qed

definition demo_key :: "string \<Rightarrow> APIKey" where
  "demo_key k = zero_key\<lparr>ak_Key := k, ak_Name := ''ci'', ak_ExpiresAt := Some 100, ak_Scopes := [''read''],
     ak_Enabled := True\<rparr>"

definition demo_auth :: APIKeyAuthenticator where
  "demo_auth = NewAPIKeyAuthenticator \<lparr>auc_Keys = [demo_key ''k1'', demo_key ''k2''], auc_AuditLogger = None\<rparr>"

definition with_key :: "string \<Rightarrow> request" where
  "with_key k = (demo_request ''10.1.1.1'')\<lparr>r_header := (\<lambda>_. [])(''X-API-Key'' := k)\<rparr>"

lemma demo_auth_keys [simp]: "au_keys demo_auth = [(''k2'', demo_key ''k2''), (''k1'', demo_key ''k1'')]"
  by (simp add: demo_auth_def NewAPIKeyAuthenticator_def demo_key_def key_put_def)

lemma demo_auth_ok: "auth_ok demo_auth"
  unfolding demo_auth_def by (rule NewAPIKeyAuthenticator_ok)

lemma with_key_extract [simp]: "k \<noteq> [] \<Longrightarrow> extractAPIKey (with_key k) = k"
  by (simp add: extractAPIKey_def with_key_def)

lemma rearranges_rev: "rearranges rev" by (simp add: rearranges_def)

lemma guarded_route_exact_witness:
  "rs_status (fst (auth_Middleware rev demo_auth (RequireScopes rev demo_auth [''write''] (\<lambda>r rs w. (rs, w)))
     (with_key ''k1'') new_response demo_world)) = Some StatusForbidden"
proof -
  have o: "rs_sent new_response = None" by (simp add: new_response_def)
  have g: "\<exists>key. grants demo_auth (with_key ''k1'') key \<and> \<not> key_expired key demo_world"
    "\<nexists>key. grants demo_auth (with_key ''k1'') key \<and> set [''write''] \<subseteq> set (ak_Scopes key)"
    by (simp_all add: grants_def key_expired_def demo_key_def demo_world_def zero_key_def)
  show ?thesis
    using guarded_route_exact [OF demo_auth_ok rearranges_rev o, of "with_key ''k1''" demo_world "[''write'']" "\<lambda>r rs w. (rs, w)"]
    unfolding if_not_P [OF not_not [THEN iffD2], OF g(1)] if_P [OF g(2)] by (rule conjunct1)
qed

text \<open>C36 (safety).  The scope check alone is weaker than the key check: a registered key that has expired is
  refused by the key check with 401, but passes the scope check.\<close>

lemma scope_check_ignores_expiry:
  assumes "auth_ok a" "rearranges ord" "rs_sent rs = None"
    and "grants a r key" "key_expired key w" "set scopes \<subseteq> set (ak_Scopes key)"
  shows "RequireScopes ord a scopes h r rs w = h r rs w
    \<and> rs_status (fst (auth_Middleware ord a h r rs w)) = Some StatusUnauthorized"
proof -
  have "scopes_enter ord a scopes r rs w \<noteq> None"
    using scopes_enter_iff [OF assms(1,2)] assms(4,6) unfolding grants_def by blast
  then have e: "scopes_enter ord a scopes r rs w = Some (r, rs, w)"
    using scopes_enter_frame [of ord a scopes r rs w] by auto
  have "\<nexists>key. grants a r key \<and> \<not> key_expired key w" using assms(4,5) by (auto simp: grants_def)
  then have "auth_enter ord a r rs w = None" using auth_enter_iff [OF assms(1,2)] by blast
  from scope_gate.entered [OF e] key_gate.rejected_code [OF this assms(3)] show ?thesis by blast
qed

lemma scope_check_ignores_expiry_witness:
  "RequireScopes rev demo_auth [''read''] (\<lambda>r rs w. (rs, w)) (with_key ''k2'') new_response (demo_world\<lparr>w_tick := 101\<rparr>)
     = (new_response, demo_world\<lparr>w_tick := 101\<rparr>)"
proof -
  have o: "rs_sent new_response = None" by (simp add: new_response_def)
  have g: "grants demo_auth (with_key ''k2'') (demo_key ''k2'')" by (simp add: grants_def)
  have x: "key_expired (demo_key ''k2'') (demo_world\<lparr>w_tick := 101\<rparr>)"
    by (simp add: key_expired_def demo_key_def demo_world_def)
  have s: "set [''read''] \<subseteq> set (ak_Scopes (demo_key ''k2''))" by (simp add: demo_key_def)
  show ?thesis
    using scope_check_ignores_expiry [OF demo_auth_ok rearranges_rev o g x s, where h = "\<lambda>r rs w. (rs, w)"] by simp
qed

subsection \<open>Revocation\<close>

datatype key_op = KAdd APIKey | KRemove string

fun key_step :: "key_op \<Rightarrow> APIKeyAuthenticator \<Rightarrow> APIKeyAuthenticator" where
  "key_step (KAdd key) a = AddKey a key"
| "key_step (KRemove k) a = RemoveKey a k"

fun registers :: "string \<Rightarrow> key_op \<Rightarrow> bool" where
  "registers k (KAdd key) \<longleftrightarrow> ak_Enabled key \<and> ak_Key key = k"
| "registers k (KRemove _) \<longleftrightarrow> False"

lemma key_step_ok: "auth_ok a \<Longrightarrow> auth_ok (key_step p a)"
  by (cases p) (simp_all add: AddKey_ok RemoveKey_ok)

lemma unregistered_stays:
  assumes "map_of (au_keys a) k = None" "\<forall>p \<in> set ops. \<not> registers k p" "auth_ok a"
  shows "map_of (au_keys (fold key_step ops a)) k = None \<and> auth_ok (fold key_step ops a)"
  using assms
proof (induction ops arbitrary: a)
  case Nil
  then show ?case by simp
next
  case (Cons p ops)
  have "map_of (au_keys (key_step p a)) k = None"
    using Cons.prems(1,2) by (cases p) (auto simp: AddKey_def RemoveKey_def)
  with Cons.IH [OF this] Cons.prems(2,3) key_step_ok show ?case by simp
qed

text \<open>C20 (safety).  Once a key is removed, no request that presents it passes either middleware again, through
  any sequence of additions and removals that does not register the same key anew.\<close>

theorem removed_key_refused:
  assumes "auth_ok a" "rearranges ord" "rs_sent rs = None"
    and "\<forall>p \<in> set ops. \<not> registers k p" "extractAPIKey r = k"
  shows "rs_status (fst (auth_Middleware ord (fold key_step ops (RemoveKey a k)) next r rs w)) = Some StatusUnauthorized
    \<and> rs_status (fst (RequireScopes ord (fold key_step ops (RemoveKey a k)) scopes next r rs w)) = Some StatusForbidden"
proof -
  let ?a = "fold key_step ops (RemoveKey a k)"
  have m: "map_of (au_keys (RemoveKey a k)) k = None" by (simp add: RemoveKey_def)
  have u: "map_of (au_keys ?a) k = None" "auth_ok ?a"
    using unregistered_stays [OF m assms(4) RemoveKey_ok [OF assms(1)]] by blast+
  have "\<nexists>key. grants ?a r key \<and> \<not> key_expired key w" using u(1) assms(5) by (auto simp: grants_def)
  then have "auth_enter ord ?a r rs w = None" using auth_enter_iff [OF u(2) assms(2)] by blast
  moreover have "scopes_enter ord ?a scopes r rs w = None"
    using scopes_enter_iff [OF u(2) assms(2)] u(1) assms(5) by (metis option.distinct(1))
  ultimately show ?thesis using key_gate.rejected_code scope_gate.rejected_code assms(3) by blast
qed

lemma removed_key_refused_witness:
  "rs_status (fst (auth_Middleware rev (fold key_step [KAdd (demo_key ''k3'')] (RemoveKey demo_auth ''k1''))
     (\<lambda>r rs w. (rs, w)) (with_key ''k1'') new_response demo_world)) = Some StatusUnauthorized"
proof -
  have o: "rs_sent new_response = None" by (simp add: new_response_def)
  have n: "\<forall>p \<in> set [KAdd (demo_key ''k3'')]. \<not> registers ''k1'' p" by (simp add: demo_key_def)
  have e: "extractAPIKey (with_key ''k1'') = ''k1''" by simp
  show ?thesis using removed_key_refused [OF demo_auth_ok rearranges_rev o n e] by blast
qed

text \<open>C37 (error).  Registering a key again with the flag \<open>Enabled\<close> cleared does not disable it: the old entry
  stays, and requests that present the key still pass.\<close>

lemma disabled_registration_keeps_key:
  assumes "auth_ok a" "rearranges ord" "grants a r old" "\<not> key_expired old w"
    and "ak_Key key = extractAPIKey r" "\<not> ak_Enabled key"
  shows "\<exists>w'. auth_Middleware ord (AddKey a key) h r rs w = h r rs w'"
proof -
  have a: "AddKey a key = a" using assms(6) by (simp add: AddKey_def)
  have "auth_enter ord a r rs w \<noteq> None" using auth_enter_iff [OF assms(1,2)] assms(3,4) by blast
  then obtain w' where "auth_enter ord a r rs w = Some (r, rs, w')" using auth_enter_frame [of ord a r rs w] by auto
  from key_gate.entered [OF this] a show ?thesis by auto
qed

lemma disabled_registration_keeps_key_witness:
  "\<exists>w'. auth_Middleware rev (AddKey demo_auth ((demo_key ''k1'')\<lparr>ak_Enabled := False\<rparr>)) (\<lambda>r rs w. (rs, w))
     (with_key ''k1'') new_response demo_world = (new_response, w')"
proof -
  have g: "grants demo_auth (with_key ''k1'') (demo_key ''k1'')" by (simp add: grants_def)
  have x: "\<not> key_expired (demo_key ''k1'') demo_world" by (simp add: key_expired_def demo_key_def demo_world_def)
  have k: "ak_Key ((demo_key ''k1'')\<lparr>ak_Enabled := False\<rparr>) = extractAPIKey (with_key ''k1'')"
    "\<not> ak_Enabled ((demo_key ''k1'')\<lparr>ak_Enabled := False\<rparr>)" by (simp_all add: demo_key_def)
  show ?thesis
    using disabled_registration_keeps_key [OF demo_auth_ok rearranges_rev g x k, where h = "\<lambda>r rs w. (rs, w)"] by simp
qed

end
