(* ===== verification/CircuitBreaker.thy ===== *)
theory CircuitBreaker
  imports GoRuntime AuditLog
begin

text \<open>
  Package \<open>pkg/circuitbreaker\<close> (circuitbreaker.go).  The breaker of \<open>github.com/sony/gobreaker\<close> is a parameter
  (\<open>breaker_ops\<close>): how it is made from its settings, how it runs a function, what state and counts it
  shows.  The settings, with their callbacks, are the code's.  A function that is guarded works on a
  world \<open>'w\<close>; its result is bytes or an error, and it may panic.
\<close>

subsection \<open>Code that runs in a goroutine\<close>

text \<open>
  When the context of a call ends, the goroutine that makes the call may be anywhere in it.  Code of
  which that matters is a task: a result, or a step that changes the state and goes on as the state that
  it found says.  \<open>complete_task\<close> runs a task to its end, \<open>advance n\<close> at most \<open>n\<close> steps of it; \<open>then_task\<close> puts one
  task behind another, and \<open>focus\<close> runs a task on a part of the state.
\<close>

datatype ('s, 'r) task = Result 'r | Step "'s \<Rightarrow> 's" "'s \<Rightarrow> ('s, 'r) task"

primrec complete_task :: "('s, 'r) task \<Rightarrow> 's \<Rightarrow> 'r \<times> 's" where
  "complete_task (Result r) = (\<lambda>s. (r, s))"
| "complete_task (Step f k) = (\<lambda>s. complete_task (k s) (f s))"

fun advance :: "nat \<Rightarrow> ('s, 'r) task \<times> 's \<Rightarrow> ('s, 'r) task \<times> 's" where
  "advance (Suc n) (Step f k, s) = advance n (k s, f s)"
| "advance n (t, s) = (t, s)"

primrec then_task :: "('s, 'a) task \<Rightarrow> ('a \<Rightarrow> ('s, 'b) task) \<Rightarrow> ('s, 'b) task" where
  "then_task (Result a) g = g a"
| "then_task (Step f k) g = Step f (\<lambda>s. then_task (k s) g)"

primrec focus :: "('s \<Rightarrow> 't) \<Rightarrow> ('t \<Rightarrow> 's \<Rightarrow> 's) \<Rightarrow> ('t, 'r) task \<Rightarrow> ('s, 'r) task" where
  "focus get put (Result r) = Result r"
| "focus get put (Step f k) = Step (\<lambda>s. put (f (get s)) s) (\<lambda>s. focus get put (k (get s)))"

lemma advance_complete: "advance n (t, s) = (t1, s1) \<Longrightarrow> complete_task t1 s1 = complete_task t s"
  by (induction n "(t, s)" arbitrary: t s rule: advance.induct) auto

lemma complete_then: "complete_task (then_task t g) s = complete_task (g (fst (complete_task t s))) (snd (complete_task t s))"
  by (induction t arbitrary: s) simp_all

lemma complete_focus:
  assumes "\<And>x s. get (put x s) = x" "\<And>x y s. put x (put y s) = put x s" "\<And>s. put (get s) s = s"
  shows "complete_task (focus get put t) s = (fst (complete_task t (get s)), put (snd (complete_task t (get s))) s)"
  using assms by (induction t arbitrary: s) simp_all

text \<open>Tasks of which no step touches what \<open>obs\<close> sees of the state.\<close>

primrec silent :: "('s \<Rightarrow> 'o) \<Rightarrow> ('s, 'r) task \<Rightarrow> bool" where
  "silent obs (Result r) = True"
| "silent obs (Step f k) = (\<forall>s. obs (f s) = obs s \<and> silent obs (k s))"

lemma silent_complete: "silent obs t \<Longrightarrow> obs (snd (complete_task t s)) = obs s"
  by (induction t arbitrary: s) simp_all

lemma silent_advance: "silent obs t \<Longrightarrow> obs (snd (advance n (t, s))) = obs s"
  by (induction n "(t, s)" arbitrary: t s rule: advance.induct) auto

lemma silent_then: "silent obs t \<Longrightarrow> (\<And>a. silent obs (g a)) \<Longrightarrow> silent obs (then_task t g)"
  by (induction t) simp_all

lemma silent_focus:
  assumes "\<And>x s. get (put x s) = x"
  shows "silent obs t \<Longrightarrow> silent (\<lambda>s. obs (get s)) (focus get put t)"
  by (induction t) (simp_all add: assms)

subsection \<open>The library's breaker\<close>

datatype gb_State = StateClosed | StateHalfOpen | StateOpen | StateOther int

record Counts =
  ct_Requests :: "32 word"
  ct_TotalSuccesses :: "32 word"
  ct_TotalFailures :: "32 word"
  ct_ConsecutiveSuccesses :: "32 word"
  ct_ConsecutiveFailures :: "32 word"

type_synonym 'w on_change = "string \<Rightarrow> gb_State \<Rightarrow> gb_State \<Rightarrow> 'w \<Rightarrow> 'w"

record 'w gb_Settings =
  gs_Name :: string
  gs_MaxRequests :: "32 word"
  gs_Interval :: duration
  gs_Timeout :: duration
  gs_ReadyToTrip :: "Counts \<Rightarrow> bool"
  gs_OnStateChange :: "'w on_change option"
  gs_IsSuccessful :: "go_error option \<Rightarrow> bool"

type_synonym 'w guarded = "('w, string result outcome) task"

record ('b, 'w) breaker_ops =
  gb_NewCircuitBreaker :: "'w gb_Settings \<Rightarrow> 'b"
  gb_Execute :: "'w guarded \<Rightarrow> ('b \<times> 'w, string result outcome) task"
  gb_State_of :: "'b \<Rightarrow> gb_State"
  gb_Counts_of :: "'b \<Rightarrow> Counts"

subsection \<open>The wrapper\<close>

record 'w cb_Config =
  cbf_Name :: string
  cbf_MaxRequests :: "32 word"
  cbf_Interval :: duration
  cbf_Timeout :: duration
  cbf_FailureThreshold :: "32 word"
  cbf_OnStateChange :: "'w on_change option"

record ('b, 'w) CircuitBreaker =
  cbr_cb :: 'b
  cbr_config :: "'w cb_Config"

definition cb_settings :: "'w cb_Config \<Rightarrow> 'w gb_Settings" where
  "cb_settings config = \<lparr>gs_Name = cbf_Name config, gs_MaxRequests = cbf_MaxRequests config,
     gs_Interval = cbf_Interval config, gs_Timeout = cbf_Timeout config,
     gs_ReadyToTrip = (\<lambda>counts. cbf_FailureThreshold config \<le> ct_ConsecutiveFailures counts),
     gs_OnStateChange = cbf_OnStateChange config,
     gs_IsSuccessful = (\<lambda>err. err = None)\<rparr>"

definition cb_New :: "('b, 'w) breaker_ops \<Rightarrow> 'w cb_Config \<Rightarrow> ('b, 'w) CircuitBreaker" where
  "cb_New G config = \<lparr>cbr_cb = gb_NewCircuitBreaker G (cb_settings config), cbr_config = config\<rparr>"

text \<open>The method works on the library's breaker in the wrapper.\<close>

definition cb_Execute :: "('b, 'w) breaker_ops \<Rightarrow> 'w guarded \<Rightarrow>
    (('b, 'w) CircuitBreaker \<times> 'w, string result outcome) task" where
  "cb_Execute G fn = focus (\<lambda>(cb, w). (cbr_cb cb, w)) (\<lambda>(b, w1) (cb, w). (cb\<lparr>cbr_cb := b\<rparr>, w1)) (gb_Execute G fn)"

text \<open>
  \<open>ExecuteContext\<close> starts the call in a goroutine and waits for its result or for the end of the
  context; when both are there, either may be picked.  \<open>ctx_err\<close> is what the context says on entry, and
  \<open>pick\<close> what the \<open>select\<close> picks: the result, or the end of the context, at which the goroutine has taken
  any number of its steps: none, some, or all of them.  What is left of the call then runs on as a
  job, in whatever states it meets after \<open>ExecuteContext\<close> has returned.  A panic in the goroutine is not recovered, so it is the
  outcome of the process.
\<close>

datatype select_pick = PickResult | PickDone go_error nat

definition ExecuteContext :: "('b, 'w) breaker_ops \<Rightarrow> go_error option \<Rightarrow> select_pick \<Rightarrow> 'w guarded \<Rightarrow>
    ('b, 'w) CircuitBreaker \<times> 'w \<Rightarrow>
    string result outcome \<times> (('b, 'w) CircuitBreaker \<times> 'w)
      \<times> (('b, 'w) CircuitBreaker \<times> 'w, string result outcome) task option" where
  "ExecuteContext G ctx_err pick fn st = (case ctx_err of
     Some e \<Rightarrow> (Returns (Inl e), st, None)
   | None \<Rightarrow> (case pick of
       PickResult \<Rightarrow> (let (r, st1) = complete_task (cb_Execute G fn) st in (r, st1, None))
     | PickDone e n \<Rightarrow> (let (left, st1) = advance n (cb_Execute G fn, st) in
         case left of
           Result (Panics m) \<Rightarrow> (Panics m, st1, None)
         | Result (Returns res) \<Rightarrow> (Returns (Inl e), st1, None)
         | Step f k \<Rightarrow> (Returns (Inl e), st1, Some left))))"

definition cb_State :: "('b, 'w) breaker_ops \<Rightarrow> ('b, 'w) CircuitBreaker \<Rightarrow> gb_State" where
  "cb_State G cb = gb_State_of G (cbr_cb cb)"

definition cb_Name :: "('b, 'w) CircuitBreaker \<Rightarrow> string" where
  "cb_Name cb = cbf_Name (cbr_config cb)"

definition cb_Counts :: "('b, 'w) breaker_ops \<Rightarrow> ('b, 'w) CircuitBreaker \<Rightarrow> Counts" where
  "cb_Counts G cb = gb_Counts_of G (cbr_cb cb)"

fun StateString :: "gb_State \<Rightarrow> string" where
  "StateString StateClosed = ''closed''"
| "StateString StateOpen = ''open''"
| "StateString StateHalfOpen = ''half-open''"
| "StateString (StateOther n) = ''unknown''"

subsection \<open>The registry\<close>

text \<open>Breakers are held by pointer: the registry maps names to addresses of a heap of breakers.\<close>

type_synonym ('b, 'w) breaker_heap = "('b, 'w) CircuitBreaker list"

record cb_Manager =
  cbm_breakers :: "string \<rightharpoonup> nat"

definition cb_NewManager :: cb_Manager where
  "cb_NewManager = \<lparr>cbm_breakers = Map.empty\<rparr>"

definition cbm_Add :: "cb_Manager \<Rightarrow> string \<Rightarrow> nat \<Rightarrow> cb_Manager" where
  "cbm_Add m name cb = m\<lparr>cbm_breakers := (cbm_breakers m)(name \<mapsto> cb)\<rparr>"

definition cbm_Get :: "cb_Manager \<Rightarrow> string \<Rightarrow> nat result" where
  "cbm_Get m name = (case cbm_breakers m name of
     None \<Rightarrow> Inl (NewErr (''circuit breaker not found: '' @ name)) | Some cb \<Rightarrow> Inr cb)"

definition cbm_GetAll :: "cb_Manager \<Rightarrow> string \<rightharpoonup> nat" where
  "cbm_GetAll m = cbm_breakers m"

record CircuitBreakerStats =
  cbs_Name :: string
  cbs_State :: string
  cbs_TotalRequests :: "32 word"
  cbs_TotalSuccesses :: "32 word"
  cbs_TotalFailures :: "32 word"
  cbs_ConsecutiveSuccesses :: "32 word"
  cbs_ConsecutiveFailures :: "32 word"

definition cb_stats_of :: "('b, 'w) breaker_ops \<Rightarrow> string \<Rightarrow> ('b, 'w) CircuitBreaker \<Rightarrow> CircuitBreakerStats" where
  "cb_stats_of G name cb = (let counts = cb_Counts G cb in
     \<lparr>cbs_Name = name, cbs_State = StateString (cb_State G cb), cbs_TotalRequests = ct_Requests counts,
      cbs_TotalSuccesses = ct_TotalSuccesses counts, cbs_TotalFailures = ct_TotalFailures counts,
      cbs_ConsecutiveSuccesses = ct_ConsecutiveSuccesses counts,
      cbs_ConsecutiveFailures = ct_ConsecutiveFailures counts\<rparr>)"

definition cbm_GetStats :: "('b, 'w) breaker_ops \<Rightarrow> cb_Manager \<Rightarrow> ('b, 'w) breaker_heap \<Rightarrow>
    string \<rightharpoonup> CircuitBreakerStats" where
  "cbm_GetStats G m heap = (\<lambda>name. map_option (\<lambda>p. cb_stats_of G name (heap ! p)) (cbm_breakers m name))"

end
