(* ===== verification/HttpClient.thy ===== *)
theory HttpClient
  imports CircuitBreaker
begin

text \<open>
  Package \<open>pkg/httpclient\<close> (httpclient.go): the retry policy, its backoff, and requests that run through
  a circuit breaker.  The client of \<open>hashicorp/go-retryablehttp\<close>, with the network behind it, is a
  parameter (\<open>retry_ops\<close>) that is given the policy of the code and may take any number of steps; the parser of the standard library for
  URLs enters as a function from the text to the path.
\<close>

subsection \<open>Requests, responses and the retry policy\<close>

record http_req =
  hq_Method :: string
  hq_URL :: string
  hq_Path :: string
  hq_ContentType :: "string option"
  hq_ctx_err :: "go_error option"

text \<open>\<open>hr_Read n\<close> is the first read of the body into a buffer of \<open>n\<close> bytes.\<close>

record http_resp =
  hr_StatusCode :: int
  hr_Status :: string
  hr_header :: "string \<Rightarrow> string"
  hr_ContentLength :: int
  hr_Read :: "nat \<Rightarrow> string \<times> go_error option"

definition CheckRetry :: "go_error option \<Rightarrow> http_resp option \<Rightarrow> go_error option \<Rightarrow>
    (bool \<times> go_error option) outcome" where
  "CheckRetry ctx_err resp err = (case ctx_err of
     Some e \<Rightarrow> Returns (False, Some e)
   | None \<Rightarrow> (case err of
       Some e \<Rightarrow> Returns (True, None)
     | None \<Rightarrow> (case resp of
         None \<Rightarrow> Panics ''runtime error: invalid memory address or nil pointer dereference''
       | Some r \<Rightarrow>
           if hr_StatusCode r \<ge> 500 then Returns (True, None)
           else if hr_StatusCode r = StatusTooManyRequests then Returns (True, None)
           else if hr_StatusCode r = StatusRequestTimeout then Returns (True, None)
           else Returns (False, None))))"

text \<open>\<open>1 << uint(n)\<close> as a \<open>Duration\<close>: a shift by 64 or more gives zero, a negative count is a large one.\<close>

definition shl_one :: "int \<Rightarrow> duration" where
  "shl_one n = (if 0 \<le> n \<and> n < 64 then int64 (2 ^ nat n) else 0)"

definition Backoff :: "duration \<Rightarrow> duration \<Rightarrow> int \<Rightarrow> http_resp option \<Rightarrow> duration" where
  "Backoff mn mx attemptNum resp =
     (let requested = (case resp of
            None \<Rightarrow> None
          | Some r \<Rightarrow> if hr_StatusCode r = StatusTooManyRequests then
              (let retryAfter = hr_header r ''Retry-After'' in
               if retryAfter \<noteq> [] then ParseDuration (retryAfter @ ''s'') else None)
            else None)
      in case requested of
           Some d \<Rightarrow> d
         | None \<Rightarrow> (let wait = int64 (mn * shl_one attemptNum) in if wait > mx then mx else wait))"

record retry_policy =
  rp_RetryMax :: int
  rp_RetryWaitMin :: duration
  rp_RetryWaitMax :: duration
  rp_Timeout :: duration
  rp_CheckRetry :: "go_error option \<Rightarrow> http_resp option \<Rightarrow> go_error option \<Rightarrow> (bool \<times> go_error option) outcome"
  rp_Backoff :: "duration \<Rightarrow> duration \<Rightarrow> int \<Rightarrow> http_resp option \<Rightarrow> duration"

record ('q, 'w) retry_ops =
  rh_FromRequest :: "http_req \<Rightarrow> 'q result"
  rh_Do :: "retry_policy \<Rightarrow> 'q \<Rightarrow> ('w, http_resp result) task"

subsection \<open>The client\<close>

record hc_Config =
  hcf_RetryMax :: int
  hcf_RetryWaitMin :: duration
  hcf_RetryWaitMax :: duration
  hcf_Timeout :: duration
  hcf_ServiceName :: string
  hcf_AuditLogger :: "AuditLogger option"

record http_Client =
  hcl_client :: retry_policy
  hcl_audit :: "AuditLogger option"
  hcl_config :: hc_Config

definition http_New :: "hc_Config \<Rightarrow> http_Client" where
  "http_New config = \<lparr>hcl_client = \<lparr>rp_RetryMax = hcf_RetryMax config, rp_RetryWaitMin = hcf_RetryWaitMin config,
       rp_RetryWaitMax = hcf_RetryWaitMax config, rp_Timeout = hcf_Timeout config,
       rp_CheckRetry = CheckRetry, rp_Backoff = Backoff\<rparr>,
     hcl_audit = hcf_AuditLogger config, hcl_config = config\<rparr>"

text \<open>\<open>make([]byte, n)\<close> and one read into it: the bytes read, then zero bytes.\<close>

definition make_and_read :: "http_resp \<Rightarrow> string result outcome" where
  "make_and_read r = (if hr_ContentLength r < 0 then Panics ''runtime error: makeslice: len out of range''
     else let n = nat (hr_ContentLength r); (bs, err) = hr_Read r n in
       case err of Some e \<Rightarrow> Returns (Inl (WrapErr ''failed to read response'' e))
       | None \<Rightarrow> Returns (Inr (take n (bs @ replicate n (CHR 0x00)))))"

text \<open>The function that \<open>Do\<close> hands to the breaker.\<close>

definition http_attempt :: "('q, 'w) retry_ops \<Rightarrow> http_Client \<Rightarrow> http_req \<Rightarrow> 'w guarded" where
  "http_attempt H c req = (case rh_FromRequest H req of
     Inl e \<Rightarrow> Result (Returns (Inl (WrapErr ''failed to create retryable request'' e)))
   | Inr q \<Rightarrow> then_task (rh_Do H (hcl_client c) q) (\<lambda>res. Result (case res of
         Inl e \<Rightarrow> Returns (Inl e)
       | Inr resp \<Rightarrow>
           if hr_StatusCode resp < 200 \<or> hr_StatusCode resp \<ge> 300 then
             Returns (Inl (NewErr (''HTTP error: '' @ fmt_d (hr_StatusCode resp) @ '' '' @ hr_Status resp)))
           else make_and_read resp)))"

definition mock_response :: http_resp where
  "mock_response = \<lparr>hr_StatusCode = StatusOK, hr_Status = ''200 OK'', hr_header = (\<lambda>_. []), hr_ContentLength = 0,
     hr_Read = (\<lambda>_. ([], Some (NewErr ''EOF'')))\<rparr>"

definition http_Do :: "('b, 'z aworld_scheme) breaker_ops \<Rightarrow> ('q, 'z aworld_scheme) retry_ops \<Rightarrow> http_Client \<Rightarrow>
    http_req \<Rightarrow> select_pick \<Rightarrow> ('b, 'z aworld_scheme) CircuitBreaker \<times> 'z aworld_scheme \<Rightarrow>
    http_resp result outcome \<times> (('b, 'z aworld_scheme) CircuitBreaker \<times> 'z aworld_scheme)
      \<times> (('b, 'z aworld_scheme) CircuitBreaker \<times> 'z aworld_scheme, string result outcome) task option" where
  "http_Do G H c req pick st = (case st of (cb, w) \<Rightarrow>
     (let (startTime, w1) = time_Now w;
          (out, (cb2, w2), job) = ExecuteContext G (hq_ctx_err req) pick (http_attempt H c req) (cb, w1)
      in case out of
           Panics m \<Rightarrow> (Panics m, (cb2, w2), job)
         | Returns res \<Rightarrow>
             (let (now, w3) = time_Now w2;
                  err = (case res of Inl e \<Rightarrow> Some e | Inr _ \<Rightarrow> None);
                  w4 = (case hcl_audit c of None \<Rightarrow> w3
                    | Some a \<Rightarrow> LogIntegrationCall a (hcf_ServiceName (hcl_config c))
                        (hq_Method req @ '' '' @ hq_Path req) (err = None) err (now - startTime) w3)
              in case err of Some e \<Rightarrow> (Returns (Inl e), (cb2, w4), job)
                 | None \<Rightarrow> (Returns (Inr mock_response), (cb2, w4), job))))"

definition NewRequest :: "(string \<Rightarrow> string result) \<Rightarrow> go_error option \<Rightarrow> string \<Rightarrow> string \<Rightarrow> http_req result" where
  "NewRequest url_path ctx_err meth url = (case url_path url of Inl e \<Rightarrow> Inl e
     | Inr p \<Rightarrow> Inr \<lparr>hq_Method = meth, hq_URL = url, hq_Path = p, hq_ContentType = None, hq_ctx_err = ctx_err\<rparr>)"

type_synonym ('b, 'q, 'z) http_call = "('b, 'z aworld_scheme) CircuitBreaker \<times> 'z aworld_scheme \<Rightarrow>
    http_resp result outcome \<times> (('b, 'z aworld_scheme) CircuitBreaker \<times> 'z aworld_scheme)
      \<times> (('b, 'z aworld_scheme) CircuitBreaker \<times> 'z aworld_scheme, string result outcome) task option"

definition http_Get :: "(string \<Rightarrow> string result) \<Rightarrow> ('b, 'z aworld_scheme) breaker_ops \<Rightarrow>
    ('q, 'z aworld_scheme) retry_ops \<Rightarrow> http_Client \<Rightarrow> go_error option \<Rightarrow> select_pick \<Rightarrow> string \<Rightarrow>
    ('b, 'q, 'z) http_call" where
  "http_Get url_path G H c ctx_err pick url st = (case NewRequest url_path ctx_err ''GET'' url of
     Inl e \<Rightarrow> (Returns (Inl (WrapErr ''failed to create GET request'' e)), st, None)
   | Inr req \<Rightarrow> http_Do G H c req pick st)"

definition http_Post :: "(string \<Rightarrow> string result) \<Rightarrow> ('b, 'z aworld_scheme) breaker_ops \<Rightarrow>
    ('q, 'z aworld_scheme) retry_ops \<Rightarrow> http_Client \<Rightarrow> go_error option \<Rightarrow> select_pick \<Rightarrow> string \<Rightarrow> string \<Rightarrow>
    string \<Rightarrow> ('b, 'q, 'z) http_call" where
  "http_Post url_path G H c ctx_err pick url body contentType st = (case NewRequest url_path ctx_err ''POST'' url of
     Inl e \<Rightarrow> (Returns (Inl (WrapErr ''failed to create POST request'' e)), st, None)
   | Inr req \<Rightarrow> http_Do G H c (req\<lparr>hq_ContentType := Some contentType\<rparr>) pick st)"

definition http_Put :: "(string \<Rightarrow> string result) \<Rightarrow> ('b, 'z aworld_scheme) breaker_ops \<Rightarrow>
    ('q, 'z aworld_scheme) retry_ops \<Rightarrow> http_Client \<Rightarrow> go_error option \<Rightarrow> select_pick \<Rightarrow> string \<Rightarrow> string \<Rightarrow>
    string \<Rightarrow> ('b, 'q, 'z) http_call" where
  "http_Put url_path G H c ctx_err pick url body contentType st = (case NewRequest url_path ctx_err ''PUT'' url of
     Inl e \<Rightarrow> (Returns (Inl (WrapErr ''failed to create PUT request'' e)), st, None)
   | Inr req \<Rightarrow> http_Do G H c (req\<lparr>hq_ContentType := Some contentType\<rparr>) pick st)"

definition http_Delete :: "(string \<Rightarrow> string result) \<Rightarrow> ('b, 'z aworld_scheme) breaker_ops \<Rightarrow>
    ('q, 'z aworld_scheme) retry_ops \<Rightarrow> http_Client \<Rightarrow> go_error option \<Rightarrow> select_pick \<Rightarrow> string \<Rightarrow>
    ('b, 'q, 'z) http_call" where
  "http_Delete url_path G H c ctx_err pick url st = (case NewRequest url_path ctx_err ''DELETE'' url of
     Inl e \<Rightarrow> (Returns (Inl (WrapErr ''failed to create DELETE request'' e)), st, None)
   | Inr req \<Rightarrow> http_Do G H c req pick st)"

definition StandardClient :: "http_Client \<Rightarrow> retry_policy" where
  "StandardClient c = hcl_client c"

end
