(* ===== verification/HttpProps.thy ===== *)
theory HttpProps
  imports HttpClient
begin

text \<open>
  Properties of \<open>pkg/circuitbreaker\<close> and \<open>pkg/httpclient\<close>: what the code relies on of the breaker, step by
  step, the retry decision and its waiting times, and what a call through the breaker returns and logs.
\<close>

subsection \<open>The breaker\<close>

text \<open>
  What the code relies on of the library for a breaker without a state change callback.  \<open>Execute\<close>
  first decides, in one step under the breaker's mutex, whether the call is admitted; one that is not
  fails with an error of the breaker, and the function does not run.  Otherwise the function runs, step
  by step, and its result (or panic) is counted in one more step and handed through.
\<close>

definition on_world :: "('w, 'r) task \<Rightarrow> ('b \<times> 'w, 'r) task" where
  "on_world = focus snd (\<lambda>w1 (b, w). (b, w1))"

definition breaker_laws :: "('b, 'w) breaker_ops \<Rightarrow> bool" where
  "breaker_laws G \<longleftrightarrow> (\<exists>admit verdict settle. \<forall>fn. gb_Execute G fn =
     Step (\<lambda>(b, w). (admit (b, w), w)) (\<lambda>s. case verdict s of
         Some e \<Rightarrow> Result (Returns (Inl e))
       | None \<Rightarrow> then_task (on_world fn) (\<lambda>r. Step (\<lambda>(b, w). (settle s r (b, w), w)) (\<lambda>s1. Result r))))"

lemma complete_on_world: "complete_task (on_world t) (b, w) = (fst (complete_task t w), b, snd (complete_task t w))"
  unfolding on_world_def by (subst complete_focus) auto

lemma silent_on_world: "silent obs t \<Longrightarrow> silent (\<lambda>s. obs (snd s)) (on_world t)"
  unfolding on_world_def by (rule silent_focus) auto

lemma complete_cb_Execute: "complete_task (cb_Execute G fn) (cb, w)
    = (let (r, b, w1) = complete_task (gb_Execute G fn) (cbr_cb cb, w) in (r, cb\<lparr>cbr_cb := b\<rparr>, w1))"
  unfolding cb_Execute_def by (subst complete_focus) (auto simp: case_prod_beta)

lemma cb_Execute_cases:
  assumes "breaker_laws G"
  obtains (rejected) e cb' where "complete_task (cb_Execute G fn) (cb, w) = (Returns (Inl e), cb', w)" "cbr_config cb' = cbr_config cb"
  | (run) cb' where "complete_task (cb_Execute G fn) (cb, w) = (fst (complete_task fn w), cb', snd (complete_task fn w))"
      "cbr_config cb' = cbr_config cb"
proof -
  from assms obtain admit verdict settle where x: "gb_Execute G fn =
     Step (\<lambda>(b, w). (admit (b, w), w)) (\<lambda>s. case verdict s of
         Some e \<Rightarrow> Result (Returns (Inl e))
       | None \<Rightarrow> then_task (on_world fn) (\<lambda>r. Step (\<lambda>(b, w). (settle s r (b, w), w)) (\<lambda>s1. Result r)))"
    unfolding breaker_laws_def by blast
  show thesis
    using that by (cases "verdict (cbr_cb cb, w)")
      (auto simp: complete_cb_Execute x complete_then complete_on_world)
qed

lemma silent_cb_Execute:
  assumes "breaker_laws G" "silent obs fn"
  shows "silent (\<lambda>s. obs (snd s)) (cb_Execute G fn)"
proof -
  have "silent (\<lambda>s. obs (snd s)) (gb_Execute G fn)"
    using assms(1) silent_on_world [OF assms(2)] unfolding breaker_laws_def
    by (force intro!: silent_then split: option.split)
  from silent_focus [OF _ this, of "\<lambda>(cb, w). (cbr_cb cb, w)" "\<lambda>(b, w1) (cb, w). (cb\<lparr>cbr_cb := b\<rparr>, w1)"]
  show ?thesis by (simp add: cb_Execute_def case_prod_beta)
qed

text \<open>The job that a cancelled call leaves behind is what was left of the call: run on with nothing in
  between, it ends as the call would have.\<close>

lemma ExecuteContext_job:
  assumes "ExecuteContext G ctx_err pick fn st = (r, st1, Some job)"
  shows "complete_task job st1 = complete_task (cb_Execute G fn) st"
  using assms
  by (auto simp: ExecuteContext_def Let_def intro: advance_complete
      split: option.splits select_pick.splits prod.splits task.splits outcome.splits)

text \<open>A breaker that counts calls and opens after three of them.\<close>

definition demo_breaker :: "(nat, 'w) breaker_ops" where
  "demo_breaker = \<lparr>gb_NewCircuitBreaker = \<lambda>_. 0,
     gb_Execute = \<lambda>fn. Step (\<lambda>s. s) (\<lambda>s. if fst s \<ge> 3 then Result (Returns (Inl (NewErr ''circuit breaker is open'')))
       else then_task (on_world fn) (\<lambda>r. Step (\<lambda>(b, w). (Suc b, w)) (\<lambda>s1. Result r))),
     gb_State_of = \<lambda>b. if b \<ge> 3 then StateOpen else StateClosed,
     gb_Counts_of = \<lambda>b. \<lparr>ct_Requests = of_nat b, ct_TotalSuccesses = 0, ct_TotalFailures = 0,
       ct_ConsecutiveSuccesses = 0, ct_ConsecutiveFailures = 0\<rparr>\<rparr>"

lemma demo_breaker_laws: "breaker_laws demo_breaker"
  unfolding breaker_laws_def
  by (rule exI [of _ fst], rule exI [of _ "\<lambda>s. if fst s \<ge> 3 then Some (NewErr ''circuit breaker is open'') else None"],
      rule exI [of _ "\<lambda>s r (b, w). Suc b"]) (auto simp: demo_breaker_def fun_eq_iff)

definition demo_cb_config :: "'w cb_Config" where
  "demo_cb_config = \<lparr>cbf_Name = ''visma'', cbf_MaxRequests = 1, cbf_Interval = 0, cbf_Timeout = Second,
     cbf_FailureThreshold = 3, cbf_OnStateChange = None\<rparr>"

subsection \<open>Retries\<close>

text \<open>The wait that a response asks for, if it does: a 429 with a \<open>Retry-After\<close> that, with an \<open>s\<close> behind it,
  reads as a duration.  A connection error has no response.\<close>

definition asks_to_wait :: "http_resp option \<Rightarrow> duration option" where
  "asks_to_wait resp = (case resp of
     Some r \<Rightarrow> if hr_StatusCode r = StatusTooManyRequests \<and> hr_header r ''Retry-After'' \<noteq> []
       then ParseDuration (hr_header r ''Retry-After'' @ ''s'') else None
   | None \<Rightarrow> None)"

lemma Backoff_asked: "asks_to_wait resp = Some d \<Longrightarrow> Backoff mn mx k resp = d"
  by (auto simp: asks_to_wait_def Backoff_def Let_def split: option.splits if_splits)

lemma Backoff_unasked: "asks_to_wait resp = None \<Longrightarrow> Backoff mn mx k resp = min (int64 (mn * shl_one k)) mx"
  by (auto simp: asks_to_wait_def Backoff_def Let_def min_def split: option.splits if_splits)

lemma doubled_wait:
  assumes "0 < mn" "0 \<le> k" "mn * 2 ^ nat k < 2 ^ 63"
  shows "int64 (mn * shl_one k) = mn * 2 ^ nat k"
proof -
  have le: "(2 :: int) ^ nat k \<le> mn * 2 ^ nat k" using assms(1) by (simp add: mult_le_cancel_right1)
  have lt: "(2 :: int) ^ nat k < 2 ^ 63" using le assms(3) by linarith
  then have "nat k < 63" by (metis power_strict_increasing_iff one_less_numeral_iff semiring_norm(76))
  moreover have "int64 (2 ^ nat k) = 2 ^ nat k"
    by (rule int64_id) (use lt in \<open>auto intro: order_trans [of _ 0]\<close>)
  ultimately have "shl_one k = 2 ^ nat k" using assms(2) by (simp add: shl_one_def)
  moreover have "int64 (mn * 2 ^ nat k) = mn * 2 ^ nat k"
    by (rule int64_id) (use assms in \<open>auto intro: order_trans [of _ 0]\<close>)
  ultimately show ?thesis by simp
qed

text \<open>C35 (bounds).  The waiting time before a retry.  A 429 whose \<open>Retry-After\<close> can be read is obeyed as it stands,
  even beyond the configured maximum; for a whole number of seconds that is this many seconds.  In
  every other case (no response after a connection error, another status, a 429 whose header is missing
  or cannot be read, such as a date) the wait never exceeds the maximum, and as long as the doubled
  minimum fits in 63 bits it is exactly the minimum doubled once per attempt, cut at the maximum.
  Past that the product wraps around: after 64 attempts there is no wait at all.\<close>

theorem backoff_bounds:
  assumes "0 < mn" "mn \<le> mx"
  shows "case asks_to_wait resp of
      Some d \<Rightarrow> Backoff mn mx k resp = d
        \<and> (\<forall>r n. resp = Some r \<and> hr_header r ''Retry-After'' = fmt_nat n \<and> n \<le> 9000000000 \<longrightarrow> d = int n * Second)
    | None \<Rightarrow> (\<forall>r n. resp = Some r \<and> hr_StatusCode r = StatusTooManyRequests \<and> n \<le> 9000000000
          \<longrightarrow> hr_header r ''Retry-After'' \<noteq> fmt_nat n)
      \<and> Backoff mn mx k resp \<le> mx
      \<and> (0 \<le> k \<and> mn * 2 ^ nat k < 2 ^ 63 \<longrightarrow> Backoff mn mx k resp = min (mn * 2 ^ nat k) mx)
      \<and> (64 \<le> k \<longrightarrow> Backoff mn mx k resp = 0)"
proof (cases "asks_to_wait resp")
  case (Some d)
  have "d = int n * Second" if "resp = Some r" "hr_header r ''Retry-After'' = fmt_nat n" "n \<le> 9000000000" for r n
    using Some that by (simp add: asks_to_wait_def ParseDuration_seconds split: if_splits)
  with Some Backoff_asked [OF Some] show ?thesis by (simp only: option.case) blast
next
  case None
  note w = Backoff_unasked [OF None, of mn mx k]
  have "hr_header r ''Retry-After'' \<noteq> fmt_nat n" if "resp = Some r" "hr_StatusCode r = StatusTooManyRequests" "n \<le> 9000000000" for r n
    using None that fmt_nat_nonempty [of n, symmetric] by (auto simp: asks_to_wait_def ParseDuration_seconds split: if_splits)
  moreover have "Backoff mn mx k resp \<le> mx" by (simp add: w)
  moreover have "Backoff mn mx k resp = min (mn * 2 ^ nat k) mx" if "0 \<le> k" "mn * 2 ^ nat k < 2 ^ 63"
    using doubled_wait [OF assms(1) that] by (simp add: w)
  moreover have "Backoff mn mx k resp = 0" if "64 \<le> k"
    using assms that by (simp add: w shl_one_def int64_def)
  ultimately show ?thesis unfolding None option.case by blast
qed

definition demo_resp :: "int \<Rightarrow> string \<Rightarrow> int \<Rightarrow> http_resp" where
  "demo_resp code retry len = \<lparr>hr_StatusCode = code, hr_Status = fmt_d code, hr_header = (\<lambda>_. retry),
     hr_ContentLength = len, hr_Read = (\<lambda>n. if n = 0 then ([], Some (NewErr ''EOF'')) else (replicate n CHR ''x'', None))\<rparr>"

lemma fmt_nat_300: "fmt_nat 300 = ''300''"
  by (simp add: fmt_nat.simps digit_def)

lemma backoff_bounds_witness:
  "Backoff Second (30 * Second) 1 (Some (demo_resp 429 ''300'' 0)) = 300 * Second
   \<and> Backoff Second (30 * Second) 3 (Some (demo_resp 503 [] 0)) = 8 * Second
   \<and> Backoff Second (30 * Second) 3 (Some (demo_resp 429 [] 0)) = 8 * Second
   \<and> Backoff Second (30 * Second) 2 None = 4 * Second
   \<and> Backoff Second (30 * Second) 70 None = 0"
proof -
  have w: "asks_to_wait (Some (demo_resp 429 ''300'' 0)) = Some (300 * Second)"
    using ParseDuration_seconds [of 300] by (simp add: asks_to_wait_def demo_resp_def status_defs fmt_nat_300)
  have n: "asks_to_wait None = None" "asks_to_wait (Some (demo_resp 503 [] 0)) = None"
    "asks_to_wait (Some (demo_resp 429 [] 0)) = None"
    by (simp_all add: asks_to_wait_def demo_resp_def status_defs)
  show ?thesis
    using backoff_bounds [of Second "30 * Second" "Some (demo_resp 429 ''300'' 0)" 1]
      backoff_bounds [of Second "30 * Second" "Some (demo_resp 503 [] 0)" 3]
      backoff_bounds [of Second "30 * Second" "Some (demo_resp 429 [] 0)" 3]
      backoff_bounds [of Second "30 * Second" None 2] backoff_bounds [of Second "30 * Second" None 70]
    by (simp add: w n Second_def)
qed

text \<open>The retry decision is total on what the client passes to it: a call whose context is over
  is not retried and reports the context's error; otherwise every transport error is retried, and a
  response exactly when its status is 408, 429 or at least 500.\<close>

lemma check_retry_decision:
  assumes "err = None \<longrightarrow> resp \<noteq> None"
  shows "CheckRetry ctx_err resp err = Returns
    (case ctx_err of Some e \<Rightarrow> (False, Some e)
     | None \<Rightarrow> (err \<noteq> None \<or> (\<exists>r. resp = Some r \<and> (hr_StatusCode r \<in> {408, 429} \<or> 500 \<le> hr_StatusCode r)), None))"
  using assms by (cases ctx_err; cases err; cases resp) (auto simp: CheckRetry_def status_defs)

lemma check_retry_decision_witness:
  "CheckRetry None (Some (demo_resp 502 [] 0)) None = Returns (True, None)
   \<and> CheckRetry None (Some (demo_resp 404 [] 0)) None = Returns (False, None)"
  using check_retry_decision [of None "Some (demo_resp 502 [] 0)" None]
    check_retry_decision [of None "Some (demo_resp 404 [] 0)" None]
  by (simp add: demo_resp_def)

subsection \<open>Calls\<close>

lemma LogIntegrationCall_zap:
  "\<exists>ev. w_zap (LogIntegrationCall a sv op ok err d w) = w_zap w @ [audit_call a ev] \<and> ev_Success ev = ok
     \<and> ev_Resource ev = sv \<and> ev_Error ev = (case err of None \<Rightarrow> [] | Some x \<Rightarrow> Error x)"
  by (auto simp: LogIntegrationCall_def case_prod_beta world_simps mask_event_def set_error_def zero_event_def
      intro!: exI split: option.split)

lemma http_attempt_silent: "\<forall>q. silent obs (rh_Do H (hcl_client c) q) \<Longrightarrow> silent obs (http_attempt H c req)"
  by (auto simp: http_attempt_def intro: silent_then split: sum.split)

lemma ExecuteContext_silent:
  assumes "breaker_laws G" "silent obs fn"
  shows "obs (snd (fst (snd (ExecuteContext G ctx_err pick fn (cb, w))))) = obs w"
  using silent_complete [OF silent_cb_Execute [OF assms], of "(cb, w)"]
    silent_advance [OF silent_cb_Execute [OF assms], of _ "(cb, w)"]
  by (auto simp: ExecuteContext_def case_prod_beta Let_def
      split: option.split select_pick.split task.split outcome.split)

lemma ExecuteContext_Inr:
  assumes "breaker_laws G" "fst (ExecuteContext G ctx_err pick fn (cb, w)) = Returns (Inr x)"
  shows "fst (complete_task fn w) = Returns (Inr x)"
proof -
  have "fst (complete_task (cb_Execute G fn) (cb, w)) = Returns (Inr x)"
    using assms(2)
    by (auto simp: ExecuteContext_def case_prod_beta Let_def
        split: option.splits select_pick.splits task.splits outcome.splits)
  with cb_Execute_cases [OF assms(1), of fn cb w] show ?thesis by force
qed

text \<open>What \<open>Do\<close> does after the breaker has answered.\<close>

lemma http_Do_unfold:
  "http_Do G H c req pick (cb, w) =
    (let w1 = snd (time_Now w); ec = ExecuteContext G (hq_ctx_err req) pick (http_attempt H c req) (cb, w1) in
     case fst ec of
       Panics m \<Rightarrow> (Panics m, snd ec)
     | Returns res \<Rightarrow>
         (let w2 = snd (fst (snd ec)); err = (case res of Inl e \<Rightarrow> Some e | Inr _ \<Rightarrow> None);
              w4 = (case hcl_audit c of None \<Rightarrow> snd (time_Now w2)
                | Some a \<Rightarrow> LogIntegrationCall a (hcf_ServiceName (hcl_config c))
                    (hq_Method req @ '' '' @ hq_Path req) (err = None) err
                    (fst (time_Now w2) - fst (time_Now w)) (snd (time_Now w2)))
          in (Returns (case res of Inl e \<Rightarrow> Inl e | Inr _ \<Rightarrow> Inr mock_response), (fst (fst (snd ec)), w4), snd (snd ec))))"
  by (auto simp: http_Do_def case_prod_beta Let_def split: outcome.split sum.split)

text \<open>C24 (functional).  A call that returns has written exactly one audit entry for its service, marked
  successful exactly when the caller gets no error and carrying the text of the error otherwise.  It
  succeeds only if the request, sent now, was answered with a 2xx and a readable body; the response
  the caller gets is then a fixed empty 200, whatever the service answered.\<close>

theorem http_call_logged_once:
  assumes "breaker_laws G" "hcl_audit c = Some a"
    and "\<forall>q. silent w_zap (rh_Do H (hcl_client c) q)"
    and "http_Do G H c req pick (cb, w) = (Returns res, (cb', w'), job)"
  shows "(\<exists>ev. w_zap w' = w_zap w @ [audit_call a ev] \<and> ev_Resource ev = hcf_ServiceName (hcl_config c)
      \<and> (ev_Success ev \<longleftrightarrow> (\<exists>resp. res = Inr resp)) \<and> ev_Error ev = (case res of Inl e \<Rightarrow> Error e | Inr _ \<Rightarrow> []))
    \<and> (\<forall>resp. res = Inr resp \<longrightarrow> resp = mock_response
        \<and> (\<exists>body. fst (complete_task (http_attempt H c req) (snd (time_Now w))) = Returns (Inr body)))"
proof -
  let ?ec = "ExecuteContext G (hq_ctx_err req) pick (http_attempt H c req) (cb, snd (time_Now w))"
  obtain r where r: "fst ?ec = Returns r"
    using assms(4) by (cases "fst ?ec") (auto simp: http_Do_unfold Let_def)
  have zap: "w_zap (snd (fst (snd ?ec))) = w_zap w"
    using ExecuteContext_silent [OF assms(1) http_attempt_silent [OF assms(3)]] by (simp add: world_simps)
  have res: "res = (case r of Inl e \<Rightarrow> Inl e | Inr _ \<Rightarrow> Inr mock_response)"
    and w': "w' = LogIntegrationCall a (hcf_ServiceName (hcl_config c)) (hq_Method req @ '' '' @ hq_Path req)
      ((case r of Inl e \<Rightarrow> Some e | Inr _ \<Rightarrow> None) = None) (case r of Inl e \<Rightarrow> Some e | Inr _ \<Rightarrow> None)
      (fst (time_Now (snd (fst (snd ?ec)))) - fst (time_Now w)) (snd (time_Now (snd (fst (snd ?ec)))))"
    using assms(2,4) by (simp_all add: http_Do_unfold r Let_def)
  have zap2: "w_zap (snd (time_Now (snd (fst (snd ?ec))))) = w_zap w" using zap by (simp add: world_simps)
  obtain ev where "w_zap w' = w_zap w @ [audit_call a ev]" "ev_Resource ev = hcf_ServiceName (hcl_config c)"
    "ev_Success ev = ((case r of Inl e \<Rightarrow> Some e | Inr _ \<Rightarrow> None) = None)"
    "ev_Error ev = (case (case r of Inl e \<Rightarrow> Some e | Inr _ \<Rightarrow> None) of None \<Rightarrow> [] | Some x \<Rightarrow> Error x)"
    unfolding w' zap2 [symmetric] using LogIntegrationCall_zap by blast
  then have "\<exists>ev. w_zap w' = w_zap w @ [audit_call a ev] \<and> ev_Resource ev = hcf_ServiceName (hcl_config c)
      \<and> (ev_Success ev \<longleftrightarrow> (\<exists>resp. res = Inr resp)) \<and> ev_Error ev = (case res of Inl e \<Rightarrow> Error e | Inr _ \<Rightarrow> [])"
    using res by (intro exI [of _ ev]) (cases r; simp)
  moreover have "resp = mock_response \<and> (\<exists>body. fst (complete_task (http_attempt H c req) (snd (time_Now w))) = Returns (Inr body))"
    if "res = Inr resp" for resp
    using that res r ExecuteContext_Inr [OF assms(1)] by (cases r) auto
  ultimately show ?thesis by blast
qed

text \<open>A network that answers every request with the given response.\<close>

definition demo_net :: "http_resp \<Rightarrow> (http_req, 'w) retry_ops" where
  "demo_net resp = \<lparr>rh_FromRequest = Inr, rh_Do = \<lambda>pol q. Result (Inr resp)\<rparr>"

definition demo_client :: http_Client where
  "demo_client = http_New \<lparr>hcf_RetryMax = 3, hcf_RetryWaitMin = Second, hcf_RetryWaitMax = 30 * Second,
     hcf_Timeout = 30 * Second, hcf_ServiceName = ''visma'', hcf_AuditLogger = Some \<lparr>al_logger = 0\<rparr>\<rparr>"

definition demo_req :: http_req where
  "demo_req = \<lparr>hq_Method = ''GET'', hq_URL = ''http://v/'', hq_Path = ''/'', hq_ContentType = None, hq_ctx_err = None\<rparr>"

lemma http_call_logged_once_witness:
  "\<exists>cb' w' ev. http_Do demo_breaker (demo_net (demo_resp 200 [] 4)) demo_client demo_req PickResult
       (cb_New demo_breaker demo_cb_config, demo_world) = (Returns (Inr mock_response), (cb', w'), None)
     \<and> w_zap w' = [audit_call \<lparr>al_logger = 0\<rparr> ev] \<and> ev_Success ev"
proof -
  let ?cb = "cb_New demo_breaker demo_cb_config"
  have z: "\<forall>q. silent w_zap (rh_Do (demo_net (demo_resp 200 [] 4)) (hcl_client demo_client) q)"
    by (simp add: demo_net_def)
  have a: "hcl_audit demo_client = Some \<lparr>al_logger = 0\<rparr>" by (simp add: demo_client_def http_New_def)
  obtain cb' w' where r: "http_Do demo_breaker (demo_net (demo_resp 200 [] 4)) demo_client demo_req PickResult
      (?cb, demo_world) = (Returns (Inr mock_response), (cb', w'), None)"
    by (simp add: http_Do_unfold ExecuteContext_def complete_cb_Execute complete_then complete_on_world demo_breaker_def cb_New_def demo_req_def
        http_attempt_def demo_net_def demo_resp_def make_and_read_def Let_def)
  from http_call_logged_once [OF demo_breaker_laws a z r] r show ?thesis
    by (auto simp: demo_world_def)
qed

text \<open>C40 (error).  When the breaker admits a call and its goroutine gets to its end, a successful
  answer is only usable if its length is known and its body not empty: a 2xx response of unknown length
  (\<open>ContentLength\<close> is -1, as with chunked encoding) makes the buffer allocation panic in the goroutine, which
  nothing recovers, and one of length zero whose body is at its end is reported as an error.\<close>

lemma unknown_length_crashes:
  assumes "hq_ctx_err req = None"
    and "pick = PickResult \<or> (\<exists>e n r. pick = PickDone e n
      \<and> fst (advance n (cb_Execute G (http_attempt H c req), (cb, snd (time_Now w)))) = Result r)"
    and "\<forall>w. \<exists>b'. complete_task (gb_Execute G (http_attempt H c req)) (cbr_cb cb, w)
      = (fst (complete_task (http_attempt H c req) w), b', snd (complete_task (http_attempt H c req) w))"
    and "rh_FromRequest H req = Inr q" "\<forall>w. fst (complete_task (rh_Do H (hcl_client c) q) w) = Inr resp"
    and "200 \<le> hr_StatusCode resp" "hr_StatusCode resp < 300"
  shows "(hr_ContentLength resp < 0 \<longrightarrow>
      fst (http_Do G H c req pick (cb, w)) = Panics ''runtime error: makeslice: len out of range'')
    \<and> (hr_ContentLength resp = 0 \<and> hr_Read resp 0 = ([], Some eof) \<longrightarrow>
      (\<exists>e. fst (http_Do G H c req pick (cb, w)) = Returns (Inl e)))"
proof -
  let ?w = "snd (time_Now w)" and ?fn = "http_attempt H c req"
  have att: "fst (complete_task ?fn ?w) = make_and_read resp"
    using assms(4-7) spec [OF assms(5), of ?w] by (simp add: http_attempt_def complete_then)
  have ex: "fst (complete_task (cb_Execute G ?fn) (cb, ?w)) = make_and_read resp"
    using spec [OF assms(3), of ?w] att by (auto simp: complete_cb_Execute)
  then have "fst (advance n (cb_Execute G ?fn, (cb, ?w))) = Result r \<Longrightarrow> r = make_and_read resp" for n r
    using advance_complete [of n "cb_Execute G ?fn" "(cb, ?w)"] by (cases "advance n (cb_Execute G ?fn, (cb, ?w))") (auto dest: sym)
  with assms(2) have over: "fst (advance n (cb_Execute G ?fn, (cb, ?w))) = Result (make_and_read resp)" if "pick = PickDone e n" for e n
    using that by auto
  have ec: "fst (ExecuteContext G (hq_ctx_err req) pick ?fn (cb, ?w)) = (case make_and_read resp of
      Panics m \<Rightarrow> Panics m | Returns res \<Rightarrow> (case pick of PickResult \<Rightarrow> Returns res | PickDone e n \<Rightarrow> Returns (Inl e)))"
    using ex over assms(1)
    by (cases pick) (auto simp: ExecuteContext_def Let_def case_prod_beta split: outcome.split)
  show ?thesis
    by (auto simp: http_Do_unfold ec make_and_read_def Let_def split: select_pick.split)
qed

lemma unknown_length_crashes_witness:
  "fst (http_Do demo_breaker (demo_net (demo_resp 200 [] (-1))) demo_client demo_req PickResult
     (cb_New demo_breaker demo_cb_config, demo_world)) = Panics ''runtime error: makeslice: len out of range''"
proof -
  let ?resp = "demo_resp 200 [] (-1)"
  have x: "\<forall>w. \<exists>b'. complete_task (gb_Execute demo_breaker (http_attempt (demo_net ?resp) demo_client demo_req))
      (cbr_cb (cb_New demo_breaker demo_cb_config), w)
      = (fst (complete_task (http_attempt (demo_net ?resp) demo_client demo_req) w), b',
         snd (complete_task (http_attempt (demo_net ?resp) demo_client demo_req) w))"
    by (simp add: demo_breaker_def cb_New_def complete_then complete_on_world)
  have f: "rh_FromRequest (demo_net ?resp) demo_req = Inr demo_req"
    "\<forall>w. fst (complete_task (rh_Do (demo_net ?resp) (hcl_client demo_client) demo_req) w) = Inr ?resp"
    by (simp_all add: demo_net_def)
  have s: "200 \<le> hr_StatusCode ?resp" "hr_StatusCode ?resp < 300" by (simp_all add: demo_resp_def)
  have c: "hq_ctx_err demo_req = None" by (simp add: demo_req_def)
  show ?thesis
    using unknown_length_crashes [OF c disjI1 [OF refl] x f s] by (simp add: demo_resp_def)
qed

end
