(* ===== verification/GrpcReport.thy ===== *)
theory GrpcReport
  imports AuditLog
begin

text \<open>
  The contract shared by the gRPC methods that change something: they call an operation that may fail
  and answer with a message of their own in both cases, never with a gRPC error.  The flag of the
  message tells success, its text is the error or a fixed text.  After the operation the method may
  still read the clock, which the relation \<open>same\<close> between states abstracts from.
\<close>

locale reporting =
  fixes op :: "'s \<Rightarrow> go_error option \<times> 's"
    and rpc :: "'s \<Rightarrow> 'r result \<times> 's"
    and ok :: "'r \<Rightarrow> bool"
    and msg :: "'r \<Rightarrow> string"
    and good :: string
    and same :: "'s \<Rightarrow> 's \<Rightarrow> bool"
  assumes answers_success: "fst (op s) = None \<Longrightarrow>
      \<exists>r. fst (rpc s) = Inr r \<and> ok r \<and> msg r = good"
    and answers_failure: "fst (op s) = Some e \<Longrightarrow>
      \<exists>r. fst (rpc s) = Inr r \<and> \<not> ok r \<and> msg r = Error e"
    and same_state: "same (snd (op s)) (snd (rpc s))"
begin

lemma never_rpc_error: "\<exists>r. fst (rpc s) = Inr r"
  using answers_success answers_failure by (cases "fst (op s)") blast+

lemma flag_tells: "fst (rpc s) = Inr r \<Longrightarrow> ok r \<longleftrightarrow> fst (op s) = None"
  using answers_success [of s] answers_failure [of s] by (cases "fst (op s)") auto

lemma message_tells: "fst (rpc s) = Inr r \<Longrightarrow> msg r = (case fst (op s) of None \<Rightarrow> good | Some e \<Rightarrow> Error e)"
  using answers_success [of s] answers_failure [of s] by (cases "fst (op s)") auto

lemma report: "\<exists>r s'. rpc s = (Inr r, s') \<and> same (snd (op s)) s' \<and> (ok r \<longleftrightarrow> fst (op s) = None)
    \<and> msg r = (case fst (op s) of None \<Rightarrow> good | Some e \<Rightarrow> Error e)"
  using never_rpc_error flag_tells message_tells same_state by (metis prod.collapse)

end

text \<open>Worlds that differ at most in the number of clock readings.\<close>

definition same_but_clock :: "'z aworld_scheme \<Rightarrow> 'z aworld_scheme \<Rightarrow> bool" where
  "same_but_clock w w' \<longleftrightarrow> w'\<lparr>w_tick := 0\<rparr> = w\<lparr>w_tick := 0\<rparr> \<and> w_tick w \<le> w_tick w'"

lemma same_but_clock_refl [simp]: "same_but_clock w w"
  by (simp add: same_but_clock_def)

lemma same_but_clock_Now [simp]: "same_but_clock w (snd (time_Now w))"
  by (simp add: same_but_clock_def time_Now_def)

lemma same_but_clock_sel:
  assumes "same_but_clock w w'"
  shows "w_zap w' = w_zap w" "w_files w' = w_files w" "w_clock w' = w_clock w" "w_faults w' = w_faults w"
    "aworld.more w' = aworld.more w"
proof -
  from assms have e: "w'\<lparr>w_tick := 0\<rparr> = w\<lparr>w_tick := 0\<rparr>" by (simp add: same_but_clock_def)
  show "w_zap w' = w_zap w" using arg_cong [OF e, of w_zap] by simp
  show "w_files w' = w_files w" using arg_cong [OF e, of w_files] by simp
  show "w_clock w' = w_clock w" using arg_cong [OF e, of w_clock] by simp
  show "w_faults w' = w_faults w" using arg_cong [OF e, of w_faults] by simp
  show "aworld.more w' = aworld.more w" using arg_cong [OF e, of aworld.more] by simp
qed

end
