(* ===== verification/ProtoWhitelist.thy ===== *)
theory ProtoWhitelist
  imports Prelude
begin

text \<open>
  The messages of \<open>api/proto/whitelist/v1\<close> (whitelist.pb.go) as the generated Go code has them: a record per
  message without its bookkeeping fields, its zero value (\<open>Reset\<close>), and the view its getters take of a
  pointer: the getter of a field \<open>F\<close> is the selector of \<open>F\<close> after \<open>get_\<close>, so that a nil message shows
  zero values.  A timestamp message is kept as the instant it encodes.
\<close>

subsection \<open>The messages\<close>

record pb_AddToWhitelistRequest =
  AddToWhitelistRequest_Ip :: string
  AddToWhitelistRequest_Description :: string
  AddToWhitelistRequest_AddedBy :: string
  AddToWhitelistRequest_ExpiresAt :: "time option"

definition zero_AddToWhitelistRequest :: pb_AddToWhitelistRequest where
  "zero_AddToWhitelistRequest = \<lparr>AddToWhitelistRequest_Ip = [], AddToWhitelistRequest_Description = [],
     AddToWhitelistRequest_AddedBy = [], AddToWhitelistRequest_ExpiresAt = None\<rparr>"

definition get_AddToWhitelistRequest :: "pb_AddToWhitelistRequest option \<Rightarrow> pb_AddToWhitelistRequest" where
  "get_AddToWhitelistRequest x = (case x of None \<Rightarrow> zero_AddToWhitelistRequest | Some m \<Rightarrow> m)"

record pb_IPEntry =
  IPEntry_Ip :: string
  IPEntry_Description :: string
  IPEntry_AddedBy :: string
  IPEntry_AddedAt :: "time option"
  IPEntry_ExpiresAt :: "time option"
  IPEntry_Expired :: bool

definition zero_IPEntry :: pb_IPEntry where
  "zero_IPEntry = \<lparr>IPEntry_Ip = [], IPEntry_Description = [], IPEntry_AddedBy = [], IPEntry_AddedAt = None,
     IPEntry_ExpiresAt = None, IPEntry_Expired = False\<rparr>"

definition get_IPEntry :: "pb_IPEntry option \<Rightarrow> pb_IPEntry" where
  "get_IPEntry x = (case x of None \<Rightarrow> zero_IPEntry | Some m \<Rightarrow> m)"

record pb_AddToWhitelistResponse =
  AddToWhitelistResponse_Success :: bool
  AddToWhitelistResponse_Message :: string
  AddToWhitelistResponse_Entry :: "pb_IPEntry option"

definition zero_AddToWhitelistResponse :: pb_AddToWhitelistResponse where
  "zero_AddToWhitelistResponse = \<lparr>AddToWhitelistResponse_Success = False, AddToWhitelistResponse_Message = [],
     AddToWhitelistResponse_Entry = None\<rparr>"

definition get_AddToWhitelistResponse :: "pb_AddToWhitelistResponse option \<Rightarrow> pb_AddToWhitelistResponse" where
  "get_AddToWhitelistResponse x = (case x of None \<Rightarrow> zero_AddToWhitelistResponse | Some m \<Rightarrow> m)"

record pb_RemoveFromWhitelistRequest =
  RemoveFromWhitelistRequest_Ip :: string

definition zero_RemoveFromWhitelistRequest :: pb_RemoveFromWhitelistRequest where
  "zero_RemoveFromWhitelistRequest = \<lparr>RemoveFromWhitelistRequest_Ip = []\<rparr>"

definition get_RemoveFromWhitelistRequest :: "pb_RemoveFromWhitelistRequest option \<Rightarrow> pb_RemoveFromWhitelistRequest" where
  "get_RemoveFromWhitelistRequest x = (case x of None \<Rightarrow> zero_RemoveFromWhitelistRequest | Some m \<Rightarrow> m)"

record pb_RemoveFromWhitelistResponse =
  RemoveFromWhitelistResponse_Success :: bool
  RemoveFromWhitelistResponse_Message :: string

definition zero_RemoveFromWhitelistResponse :: pb_RemoveFromWhitelistResponse where
  "zero_RemoveFromWhitelistResponse = \<lparr>RemoveFromWhitelistResponse_Success = False, RemoveFromWhitelistResponse_Message = []\<rparr>"

definition get_RemoveFromWhitelistResponse :: "pb_RemoveFromWhitelistResponse option \<Rightarrow> pb_RemoveFromWhitelistResponse" where
  "get_RemoveFromWhitelistResponse x = (case x of None \<Rightarrow> zero_RemoveFromWhitelistResponse | Some m \<Rightarrow> m)"

datatype pb_GetWhitelistRequest = GetWhitelistRequest

record pb_GetWhitelistResponse =
  GetWhitelistResponse_Entries :: "pb_IPEntry list"

definition zero_GetWhitelistResponse :: pb_GetWhitelistResponse where
  "zero_GetWhitelistResponse = \<lparr>GetWhitelistResponse_Entries = []\<rparr>"

definition get_GetWhitelistResponse :: "pb_GetWhitelistResponse option \<Rightarrow> pb_GetWhitelistResponse" where
  "get_GetWhitelistResponse x = (case x of None \<Rightarrow> zero_GetWhitelistResponse | Some m \<Rightarrow> m)"

record pb_AddToBlacklistRequest =
  AddToBlacklistRequest_Ip :: string
  AddToBlacklistRequest_Description :: string
  AddToBlacklistRequest_AddedBy :: string
  AddToBlacklistRequest_ExpiresAt :: "time option"

definition zero_AddToBlacklistRequest :: pb_AddToBlacklistRequest where
  "zero_AddToBlacklistRequest = \<lparr>AddToBlacklistRequest_Ip = [], AddToBlacklistRequest_Description = [],
     AddToBlacklistRequest_AddedBy = [], AddToBlacklistRequest_ExpiresAt = None\<rparr>"

definition get_AddToBlacklistRequest :: "pb_AddToBlacklistRequest option \<Rightarrow> pb_AddToBlacklistRequest" where
  "get_AddToBlacklistRequest x = (case x of None \<Rightarrow> zero_AddToBlacklistRequest | Some m \<Rightarrow> m)"

record pb_AddToBlacklistResponse =
  AddToBlacklistResponse_Success :: bool
  AddToBlacklistResponse_Message :: string
  AddToBlacklistResponse_Entry :: "pb_IPEntry option"

definition zero_AddToBlacklistResponse :: pb_AddToBlacklistResponse where
  "zero_AddToBlacklistResponse = \<lparr>AddToBlacklistResponse_Success = False, AddToBlacklistResponse_Message = [],
     AddToBlacklistResponse_Entry = None\<rparr>"

definition get_AddToBlacklistResponse :: "pb_AddToBlacklistResponse option \<Rightarrow> pb_AddToBlacklistResponse" where
  "get_AddToBlacklistResponse x = (case x of None \<Rightarrow> zero_AddToBlacklistResponse | Some m \<Rightarrow> m)"

record pb_RemoveFromBlacklistRequest =
  RemoveFromBlacklistRequest_Ip :: string

definition zero_RemoveFromBlacklistRequest :: pb_RemoveFromBlacklistRequest where
  "zero_RemoveFromBlacklistRequest = \<lparr>RemoveFromBlacklistRequest_Ip = []\<rparr>"

definition get_RemoveFromBlacklistRequest :: "pb_RemoveFromBlacklistRequest option \<Rightarrow> pb_RemoveFromBlacklistRequest" where
  "get_RemoveFromBlacklistRequest x = (case x of None \<Rightarrow> zero_RemoveFromBlacklistRequest | Some m \<Rightarrow> m)"

record pb_RemoveFromBlacklistResponse =
  RemoveFromBlacklistResponse_Success :: bool
  RemoveFromBlacklistResponse_Message :: string

definition zero_RemoveFromBlacklistResponse :: pb_RemoveFromBlacklistResponse where
  "zero_RemoveFromBlacklistResponse = \<lparr>RemoveFromBlacklistResponse_Success = False, RemoveFromBlacklistResponse_Message = []\<rparr>"

definition get_RemoveFromBlacklistResponse :: "pb_RemoveFromBlacklistResponse option \<Rightarrow> pb_RemoveFromBlacklistResponse" where
  "get_RemoveFromBlacklistResponse x = (case x of None \<Rightarrow> zero_RemoveFromBlacklistResponse | Some m \<Rightarrow> m)"

datatype pb_GetBlacklistRequest = GetBlacklistRequest

record pb_GetBlacklistResponse =
  GetBlacklistResponse_Entries :: "pb_IPEntry list"

definition zero_GetBlacklistResponse :: pb_GetBlacklistResponse where
  "zero_GetBlacklistResponse = \<lparr>GetBlacklistResponse_Entries = []\<rparr>"

definition get_GetBlacklistResponse :: "pb_GetBlacklistResponse option \<Rightarrow> pb_GetBlacklistResponse" where
  "get_GetBlacklistResponse x = (case x of None \<Rightarrow> zero_GetBlacklistResponse | Some m \<Rightarrow> m)"

record pb_IsAllowedRequest =
  IsAllowedRequest_Ip :: string

definition zero_IsAllowedRequest :: pb_IsAllowedRequest where
  "zero_IsAllowedRequest = \<lparr>IsAllowedRequest_Ip = []\<rparr>"

definition get_IsAllowedRequest :: "pb_IsAllowedRequest option \<Rightarrow> pb_IsAllowedRequest" where
  "get_IsAllowedRequest x = (case x of None \<Rightarrow> zero_IsAllowedRequest | Some m \<Rightarrow> m)"

record pb_IsAllowedResponse =
  IsAllowedResponse_Allowed :: bool
  IsAllowedResponse_Reason :: string

definition zero_IsAllowedResponse :: pb_IsAllowedResponse where
  "zero_IsAllowedResponse = \<lparr>IsAllowedResponse_Allowed = False, IsAllowedResponse_Reason = []\<rparr>"

definition get_IsAllowedResponse :: "pb_IsAllowedResponse option \<Rightarrow> pb_IsAllowedResponse" where
  "get_IsAllowedResponse x = (case x of None \<Rightarrow> zero_IsAllowedResponse | Some m \<Rightarrow> m)"

datatype pb_CleanupExpiredRequest = CleanupExpiredRequest

record pb_CleanupExpiredResponse =
  CleanupExpiredResponse_WhitelistRemoved :: int
  CleanupExpiredResponse_BlacklistRemoved :: int
  CleanupExpiredResponse_Message :: string

definition zero_CleanupExpiredResponse :: pb_CleanupExpiredResponse where
  "zero_CleanupExpiredResponse = \<lparr>CleanupExpiredResponse_WhitelistRemoved = 0, CleanupExpiredResponse_BlacklistRemoved = 0,
     CleanupExpiredResponse_Message = []\<rparr>"

definition get_CleanupExpiredResponse :: "pb_CleanupExpiredResponse option \<Rightarrow> pb_CleanupExpiredResponse" where
  "get_CleanupExpiredResponse x = (case x of None \<Rightarrow> zero_CleanupExpiredResponse | Some m \<Rightarrow> m)"

end
