(* ===== verification/GrpcWhitelist.thy ===== *)
theory GrpcWhitelist
  imports GrpcReport WhitelistProps ProtoWhitelist
begin

text \<open>
  The gRPC service of the whitelist (\<open>internal/grpc/whitelist_service.go\<close>).  A method works on the
  state of the manager it holds, the manager and the world.
\<close>

text \<open>The server; the methods take the manager that it holds, with the world, and return the new one.\<close>

record WhitelistServiceServer =
  wss_manager :: wl_Manager

definition NewWhitelistServiceServer :: "wl_Manager \<Rightarrow> WhitelistServiceServer" where
  "NewWhitelistServiceServer manager = \<lparr>wss_manager = manager\<rparr>"

lemma wss_manager_New [simp]: "wss_manager (NewWhitelistServiceServer m) = m"
  by (simp add: NewWhitelistServiceServer_def)

definition pb_entry :: "string \<Rightarrow> string \<Rightarrow> string \<Rightarrow> time \<Rightarrow> time option \<Rightarrow> pb_IPEntry" where
  "pb_entry ip description addedBy addedAt expiresAt = zero_IPEntry\<lparr>IPEntry_Ip := ip,
     IPEntry_Description := description, IPEntry_AddedBy := addedBy, IPEntry_AddedAt := Some addedAt,
     IPEntry_ExpiresAt := expiresAt\<rparr>"

definition ws_AddToWhitelist :: "yaml_ops \<Rightarrow> pb_AddToWhitelistRequest \<Rightarrow> 'z wl_state \<Rightarrow>
    pb_AddToWhitelistResponse result \<times> 'z wl_state" where
  "ws_AddToWhitelist y req s =
     (let expiry = AddToWhitelistRequest_ExpiresAt req;
          (err, m1, w1) = AddToWhitelist y (AddToWhitelistRequest_Ip req) (AddToWhitelistRequest_Description req)
            (AddToWhitelistRequest_AddedBy req) expiry s
      in case err of
           Some e \<Rightarrow> (Inr (zero_AddToWhitelistResponse\<lparr>AddToWhitelistResponse_Success := False,
             AddToWhitelistResponse_Message := Error e\<rparr>), m1, w1)
         | None \<Rightarrow> (let (now, w2) = time_Now w1 in
             (Inr \<lparr>AddToWhitelistResponse_Success = True,
                AddToWhitelistResponse_Message = ''IP added to whitelist successfully'',
                AddToWhitelistResponse_Entry = Some (pb_entry (AddToWhitelistRequest_Ip req)
                  (AddToWhitelistRequest_Description req) (AddToWhitelistRequest_AddedBy req) now expiry)\<rparr>, m1, w2)))"

definition ws_RemoveFromWhitelist :: "yaml_ops \<Rightarrow> pb_RemoveFromWhitelistRequest \<Rightarrow> 'z wl_state \<Rightarrow>
    pb_RemoveFromWhitelistResponse result \<times> 'z wl_state" where
  "ws_RemoveFromWhitelist y req s =
     (let (err, s1) = RemoveFromWhitelist y (RemoveFromWhitelistRequest_Ip req) ''grpc-api'' s in
      case err of
        Some e \<Rightarrow> (Inr \<lparr>RemoveFromWhitelistResponse_Success = False, RemoveFromWhitelistResponse_Message = Error e\<rparr>, s1)
      | None \<Rightarrow> (Inr \<lparr>RemoveFromWhitelistResponse_Success = True,
          RemoveFromWhitelistResponse_Message = ''IP removed from whitelist successfully''\<rparr>, s1))"

definition convertToProtoIPEntry :: "IPEntry \<Rightarrow> 'z world_scheme \<Rightarrow> pb_IPEntry \<times> 'z world_scheme" where
  "convertToProtoIPEntry e w =
     (let p = pb_entry (ip_IP e) (ip_Description e) (ip_AddedBy e) (ip_AddedAt e) None in
      case ip_ExpiresAt e of
        None \<Rightarrow> (p, w)
      | Some t \<Rightarrow> (let p1 = p\<lparr>IPEntry_ExpiresAt := Some t\<rparr>; (now, w1) = time_Now w in
          (p1\<lparr>IPEntry_Expired := Before t now\<rparr>, w1)))"

fun convert_entries :: "IPEntry list \<Rightarrow> 'z world_scheme \<Rightarrow> pb_IPEntry list \<times> 'z world_scheme" where
  "convert_entries [] w = ([], w)"
| "convert_entries (e # es) w = (let (p, w1) = convertToProtoIPEntry e w; (ps, w2) = convert_entries es w1 in
     (p # ps, w2))"

definition ws_GetWhitelist :: "pb_GetWhitelistRequest \<Rightarrow> 'z wl_state \<Rightarrow> pb_GetWhitelistResponse result \<times> 'z wl_state" where
  "ws_GetWhitelist req s = (case s of (m, w) \<Rightarrow>
     (let entries = GetWhitelist m; (ps, w1) = convert_entries entries w in
      (Inr \<lparr>GetWhitelistResponse_Entries = ps\<rparr>, m, w1)))"

definition ws_AddToBlacklist :: "pb_AddToBlacklistRequest \<Rightarrow> 'z wl_state \<Rightarrow>
    pb_AddToBlacklistResponse result \<times> 'z wl_state" where
  "ws_AddToBlacklist req s =
     (let (err, m1, w1) = AddToBlacklist (AddToBlacklistRequest_Ip req) (AddToBlacklistRequest_Description req)
            (AddToBlacklistRequest_AddedBy req) s
      in case err of
           Some e \<Rightarrow> (Inr (zero_AddToBlacklistResponse\<lparr>AddToBlacklistResponse_Success := False,
             AddToBlacklistResponse_Message := Error e\<rparr>), m1, w1)
         | None \<Rightarrow> (let (now, w2) = time_Now w1 in
             (Inr \<lparr>AddToBlacklistResponse_Success = True,
                AddToBlacklistResponse_Message = ''IP added to blacklist successfully'',
                AddToBlacklistResponse_Entry = Some (pb_entry (AddToBlacklistRequest_Ip req)
                  (AddToBlacklistRequest_Description req) (AddToBlacklistRequest_AddedBy req) now None)\<rparr>, m1, w2)))"

definition ws_RemoveFromBlacklist :: "pb_RemoveFromBlacklistRequest \<Rightarrow> 'z wl_state \<Rightarrow>
    pb_RemoveFromBlacklistResponse result \<times> 'z wl_state" where
  "ws_RemoveFromBlacklist req s =
     (let (err, s1) = RemoveFromBlacklist (RemoveFromBlacklistRequest_Ip req) ''grpc-api'' s in
      case err of
        Some e \<Rightarrow> (Inr \<lparr>RemoveFromBlacklistResponse_Success = False, RemoveFromBlacklistResponse_Message = Error e\<rparr>, s1)
      | None \<Rightarrow> (Inr \<lparr>RemoveFromBlacklistResponse_Success = True,
          RemoveFromBlacklistResponse_Message = ''IP removed from blacklist successfully''\<rparr>, s1))"

definition ws_GetBlacklist :: "pb_GetBlacklistRequest \<Rightarrow> 'z wl_state \<Rightarrow> pb_GetBlacklistResponse result \<times> 'z wl_state" where
  "ws_GetBlacklist req s = (case s of (m, w) \<Rightarrow>
     (let entries = GetBlacklist m; (ps, w1) = convert_entries entries w in
      (Inr \<lparr>GetBlacklistResponse_Entries = ps\<rparr>, m, w1)))"

definition ws_IsAllowed :: "pb_IsAllowedRequest \<Rightarrow> 'z wl_state \<Rightarrow> pb_IsAllowedResponse result \<times> 'z wl_state" where
  "ws_IsAllowed req s = (case s of (m, w) \<Rightarrow>
     (let (allowed, w1) = IsAllowed m (IsAllowedRequest_Ip req) w;
          reason = (if \<not> allowed then ''IP not in whitelist or in blacklist'' else [])
      in (Inr \<lparr>IsAllowedResponse_Allowed = allowed, IsAllowedResponse_Reason = reason\<rparr>, m, w1)))"

definition ws_CleanupExpired :: "yaml_ops \<Rightarrow> pb_CleanupExpiredRequest \<Rightarrow> 'z wl_state \<Rightarrow>
    pb_CleanupExpiredResponse result \<times> 'z wl_state" where
  "ws_CleanupExpired y req s = (let (removed, s1) = CleanupExpired y s in
     (Inr \<lparr>CleanupExpiredResponse_WhitelistRemoved = int32 removed, CleanupExpiredResponse_BlacklistRemoved = 0,
        CleanupExpiredResponse_Message = ''Removed '' @ fmt_d removed @ '' expired entries''\<rparr>, s1))"

subsection \<open>Reports\<close>

definition same_wl :: "'z wl_state \<Rightarrow> 'z wl_state \<Rightarrow> bool" where
  "same_wl s s' \<longleftrightarrow> fst s' = fst s \<and> same_but_clock (snd s) (snd s')"

interpretation add_white: reporting
  "AddToWhitelist y (AddToWhitelistRequest_Ip req) (AddToWhitelistRequest_Description req)
     (AddToWhitelistRequest_AddedBy req) (AddToWhitelistRequest_ExpiresAt req)"
  "ws_AddToWhitelist y req" AddToWhitelistResponse_Success AddToWhitelistResponse_Message
  "''IP added to whitelist successfully''" same_wl for y req
  by unfold_locales
     (simp_all add: ws_AddToWhitelist_def zero_AddToWhitelistResponse_def same_wl_def Let_def case_prod_beta
       split: option.split)

interpretation remove_white: reporting
  "RemoveFromWhitelist y (RemoveFromWhitelistRequest_Ip req) ''grpc-api''" "ws_RemoveFromWhitelist y req"
  RemoveFromWhitelistResponse_Success RemoveFromWhitelistResponse_Message
  "''IP removed from whitelist successfully''" same_wl for y req
  by unfold_locales
     (simp_all add: ws_RemoveFromWhitelist_def same_wl_def Let_def case_prod_beta split: option.split)

interpretation add_black: reporting
  "AddToBlacklist (AddToBlacklistRequest_Ip req) (AddToBlacklistRequest_Description req) (AddToBlacklistRequest_AddedBy req)"
  "ws_AddToBlacklist req" AddToBlacklistResponse_Success AddToBlacklistResponse_Message
  "''IP added to blacklist successfully''" same_wl for req
  by unfold_locales
     (simp_all add: ws_AddToBlacklist_def zero_AddToBlacklistResponse_def same_wl_def Let_def case_prod_beta
       split: option.split)

interpretation remove_black: reporting
  "RemoveFromBlacklist (RemoveFromBlacklistRequest_Ip req) ''grpc-api''" "ws_RemoveFromBlacklist req"
  RemoveFromBlacklistResponse_Success RemoveFromBlacklistResponse_Message
  "''IP removed from blacklist successfully''" same_wl for req
  by unfold_locales
     (simp_all add: ws_RemoveFromBlacklist_def same_wl_def Let_def case_prod_beta split: option.split)

end
