(* ===== verification/Health.thy ===== *)
theory Health
  imports RateLimit
begin

text \<open>
  Package \<open>internal/health\<close> (checker.go): the checks of the two databases and the overall health.  The
  PostgreSQL handle of \<open>database/sql\<close> with its driver is a parameter, a record of the calls made on it;
  the database is part of the world.
\<close>

record 'db sql_ops =
  sql_Open :: "string \<Rightarrow> string \<Rightarrow> 'db \<Rightarrow> go_error option \<times> 'db"
  sql_Close :: "'db \<Rightarrow> 'db"
  sql_SetConnMaxLifetime :: "duration \<Rightarrow> 'db \<Rightarrow> 'db"
  sql_SetMaxOpenConns :: "int \<Rightarrow> 'db \<Rightarrow> 'db"
  sql_PingContext :: "'db \<Rightarrow> go_error option \<times> 'db"
  sql_QueryString :: "string \<Rightarrow> 'db \<Rightarrow> string result \<times> 'db"
  sql_QueryInts :: "string \<Rightarrow> 'db \<Rightarrow> (int \<times> int) result \<times> 'db"

record ('l, 'rd, 'db) hworld = "('l, 'rd) rworld" +
  hw_db :: 'db

text \<open>A call on the database inside the world.\<close>

definition on_db :: "('db \<Rightarrow> 'a \<times> 'db) \<Rightarrow> ('l, 'rd, 'db, 'z) hworld_scheme \<Rightarrow> 'a \<times> ('l, 'rd, 'db, 'z) hworld_scheme" where
  "on_db f w = (let (x, d) = f (hw_db w) in (x, w\<lparr>hw_db := d\<rparr>))"

definition on_redis :: "('rd \<Rightarrow> 'a \<times> 'rd) \<Rightarrow> ('l, 'rd, 'z) rworld_scheme \<Rightarrow> 'a \<times> ('l, 'rd, 'z) rworld_scheme" where
  "on_redis f w = (let (x, d) = f (rw_redis w) in (x, w\<lparr>rw_redis := d\<rparr>))"

subsection \<open>The checkers and their results\<close>

record 'rd DatabaseChecker =
  dbk_postgresURL :: string
  dbk_redisCache :: "'rd RedisCache option"

record 'rd health_Config =
  hlc_PostgresURL :: string
  hlc_RedisCache :: "'rd RedisCache option"

definition NewDatabaseChecker :: "'rd health_Config \<Rightarrow> 'rd DatabaseChecker" where
  "NewDatabaseChecker cfg = \<lparr>dbk_postgresURL = hlc_PostgresURL cfg, dbk_redisCache = hlc_RedisCache cfg\<rparr>"

record PostgreSQLHealth =
  pgh_Status :: string
  pgh_Version :: string
  pgh_Connections :: int
  pgh_MaxConnections :: int
  pgh_DatabaseSize :: string
  pgh_ResponseTime :: duration
  pgh_Error :: string

record RedisHealth =
  rdh_Status :: string
  rdh_Version :: string
  rdh_ConnectedClients :: int
  rdh_UsedMemory :: int
  rdh_ResponseTime :: duration
  rdh_Error :: string

definition unhealthy_pg :: PostgreSQLHealth where
  "unhealthy_pg = \<lparr>pgh_Status = ''unhealthy'', pgh_Version = [], pgh_Connections = 0, pgh_MaxConnections = 0,
     pgh_DatabaseSize = [], pgh_ResponseTime = 0, pgh_Error = []\<rparr>"

definition unhealthy_redis :: RedisHealth where
  "unhealthy_redis = \<lparr>rdh_Status = ''unhealthy'', rdh_Version = [], rdh_ConnectedClients = 0, rdh_UsedMemory = 0,
     rdh_ResponseTime = 0, rdh_Error = []\<rparr>"

definition version_query :: string where
  "version_query = ''SELECT version()''"

text \<open>A line break and the indentation of the source.\<close>

definition nl :: "nat \<Rightarrow> string" where
  "nl tabs = CHR 0x0A # replicate tabs (CHR 0x09)"

definition stats_query :: string where
  "stats_query = nl 2 @ ''SELECT '' @ nl 3 @ ''(SELECT count(*) FROM pg_stat_activity),'' @ nl 3 @
     ''(SELECT setting::int FROM pg_settings WHERE name = '' @ [CHR 0x27] @ ''max_connections'' @ [CHR 0x27] @
     '')'' @ nl 1"

definition size_query :: string where
  "size_query = nl 2 @ ''SELECT pg_size_pretty(pg_database_size(current_database()))'' @ nl 1"

definition Since :: "time \<Rightarrow> 'z world_scheme \<Rightarrow> duration \<times> 'z world_scheme" where
  "Since start w = (let (now, w1) = time_Now w in (now - start, w1))"

text \<open>An early return of the check: the error and the time it took.\<close>

definition pg_fail :: "string \<Rightarrow> go_error \<Rightarrow> time \<Rightarrow> PostgreSQLHealth \<Rightarrow> 'z world_scheme \<Rightarrow>
    PostgreSQLHealth \<times> 'z world_scheme" where
  "pg_fail what err start h w = (let h1 = h\<lparr>pgh_Error := what @ '': '' @ Error err\<rparr>; (d, w1) = Since start w
     in (h1\<lparr>pgh_ResponseTime := d\<rparr>, w1))"

text \<open>The steps after the connection is open; the deferred \<open>Close\<close> runs after them.\<close>

definition pg_checks :: "'db sql_ops \<Rightarrow> time \<Rightarrow> PostgreSQLHealth \<Rightarrow> ('l, 'rd, 'db, 'z) hworld_scheme \<Rightarrow>
    PostgreSQLHealth \<times> ('l, 'rd, 'db, 'z) hworld_scheme" where
  "pg_checks S start h0 w0 =
     (let w1 = w0\<lparr>hw_db := sql_SetMaxOpenConns S 5 (sql_SetConnMaxLifetime S (10 * Second) (hw_db w0))\<rparr>;
          (ping, w2) = on_db (sql_PingContext S) w1
      in case ping of Some e \<Rightarrow> pg_fail ''ping failed'' e start h0 w2
       | None \<Rightarrow> (let (version, w3) = on_db (sql_QueryString S version_query) w2 in
         case version of Inl e \<Rightarrow> pg_fail ''failed to get version'' e start h0 w3
       | Inr v \<Rightarrow> (let h1 = h0\<lparr>pgh_Version := v\<rparr>; (counts, w4) = on_db (sql_QueryInts S stats_query) w3 in
         case counts of Inl e \<Rightarrow> pg_fail ''failed to get connection stats'' e start h1 w4
       | Inr (connections, maxConnections) \<Rightarrow>
           (let h2 = h1\<lparr>pgh_Connections := connections, pgh_MaxConnections := maxConnections\<rparr>;
                (size, w5) = on_db (sql_QueryString S size_query) w4;
                h3 = (case size of Inr s \<Rightarrow> h2\<lparr>pgh_DatabaseSize := s\<rparr> | Inl _ \<Rightarrow> h2);
                h4 = h3\<lparr>pgh_Status := ''healthy''\<rparr>;
                (d, w6) = Since start w5
            in (h4\<lparr>pgh_ResponseTime := d\<rparr>, w6)))))"

definition CheckPostgreSQL :: "'db sql_ops \<Rightarrow> 'rd DatabaseChecker \<Rightarrow> ('l, 'rd, 'db, 'z) hworld_scheme \<Rightarrow>
    PostgreSQLHealth \<times> ('l, 'rd, 'db, 'z) hworld_scheme" where
  "CheckPostgreSQL S d w =
     (let (start, w1) = time_Now w;
          (err, w2) = on_db (sql_Open S ''postgres'' (dbk_postgresURL d)) w1
      in case err of
           Some e \<Rightarrow> pg_fail ''failed to open connection'' e start unhealthy_pg w2
         | None \<Rightarrow> (let (h, w3) = pg_checks S start unhealthy_pg w2 in (h, w3\<lparr>hw_db := sql_Close S (hw_db w3)\<rparr>)))"

definition CheckRedis :: "'rd DatabaseChecker \<Rightarrow> ('l, 'rd, 'z) rworld_scheme \<Rightarrow>
    RedisHealth \<times> ('l, 'rd, 'z) rworld_scheme" where
  "CheckRedis d w =
     (let (start, w1) = time_Now w in
      case dbk_redisCache d of
        None \<Rightarrow> (let (t, w2) = Since start w1 in
          (unhealthy_redis\<lparr>rdh_Error := ''Redis not configured'', rdh_ResponseTime := t\<rparr>, w2))
      | Some r \<Rightarrow> (let (err, w2) = on_redis (cache_Ping r) w1 in
          case err of
            Some e \<Rightarrow> (let (t, w3) = Since start w2 in
              (unhealthy_redis\<lparr>rdh_Error := ''ping failed: '' @ Error e, rdh_ResponseTime := t\<rparr>, w3))
          | None \<Rightarrow> (let stats = cache_PoolStats r (rw_redis w2);
                        clients = uint (ps_TotalConns stats - ps_IdleConns stats); (t, w3) = Since start w2
              in (unhealthy_redis\<lparr>rdh_ConnectedClients := clients, rdh_Status := ''healthy'',
                   rdh_ResponseTime := t\<rparr>, w3))))"

datatype db_health = PgHealth PostgreSQLHealth | RdHealth RedisHealth

definition CheckAll :: "'db sql_ops \<Rightarrow> 'rd DatabaseChecker \<Rightarrow> ('l, 'rd, 'db, 'z) hworld_scheme \<Rightarrow>
    (string \<rightharpoonup> db_health) \<times> ('l, 'rd, 'db, 'z) hworld_scheme" where
  "CheckAll S d w = (let (pg, w1) = CheckPostgreSQL S d w; (rd, w2) = CheckRedis d w1
     in ([''postgres'' \<mapsto> PgHealth pg, ''redis'' \<mapsto> RdHealth rd], w2))"

record ServiceHealth =
  svh_Status :: string
  svh_Timestamp :: time
  svh_Version :: string
  svh_Uptime :: duration
  svh_Database :: "string \<rightharpoonup> db_health"

record 'rd HealthChecker =
  hck_dbChecker :: "'rd DatabaseChecker"
  hck_startTime :: time
  hck_version :: string

definition NewHealthChecker :: "'rd DatabaseChecker \<Rightarrow> string \<Rightarrow> 'z world_scheme \<Rightarrow>
    'rd HealthChecker \<times> 'z world_scheme" where
  "NewHealthChecker d version w = (let (now, w1) = time_Now w in
     (\<lparr>hck_dbChecker = d, hck_startTime = now, hck_version = version\<rparr>, w1))"

definition health_Check :: "'db sql_ops \<Rightarrow> 'rd HealthChecker \<Rightarrow> ('l, 'rd, 'db, 'z) hworld_scheme \<Rightarrow>
    ServiceHealth \<times> ('l, 'rd, 'db, 'z) hworld_scheme" where
  "health_Check S h w =
     (let (now, w1) = time_Now w; (up, w2) = Since (hck_startTime h) w1; (dbs, w3) = CheckAll S (hck_dbChecker h) w2;
          s0 = \<lparr>svh_Status = ''healthy'', svh_Timestamp = now, svh_Version = hck_version h, svh_Uptime = up,
                svh_Database = dbs\<rparr>;
          s1 = (case dbs ''postgres'' of
                  Some (PgHealth pg) \<Rightarrow> if pgh_Status pg \<noteq> ''healthy'' then s0\<lparr>svh_Status := ''degraded''\<rparr> else s0
                | _ \<Rightarrow> s0);
          s2 = (case dbs ''redis'' of
                  Some (RdHealth rd) \<Rightarrow> if rdh_Status rd \<noteq> ''healthy'' \<and> rdh_Error rd \<noteq> ''Redis not configured''
                    then s1\<lparr>svh_Status := ''degraded''\<rparr> else s1
                | _ \<Rightarrow> s1)
      in (s2, w3))"

definition Liveness :: "'rd HealthChecker \<Rightarrow> bool" where
  "Liveness h = True"

definition Readiness :: "'db sql_ops \<Rightarrow> 'rd HealthChecker \<Rightarrow> ('l, 'rd, 'db, 'z) hworld_scheme \<Rightarrow>
    bool \<times> ('l, 'rd, 'db, 'z) hworld_scheme" where
  "Readiness S h w = (let (pg, w1) = CheckPostgreSQL S (hck_dbChecker h) w in
     if pgh_Status pg \<noteq> ''healthy'' then (False, w1) else (True, w1))"

subsection \<open>What decides the checks\<close>

text \<open>The database answers the two queries that the check depends on; the query for its size may fail.\<close>

definition pg_up :: "'db sql_ops \<Rightarrow> string \<Rightarrow> 'db \<Rightarrow> bool" where
  "pg_up S url db0 \<longleftrightarrow> (let (e, d1) = sql_Open S ''postgres'' url db0;
       d2 = sql_SetMaxOpenConns S 5 (sql_SetConnMaxLifetime S (10 * Second) d1); (p, d3) = sql_PingContext S d2;
       (v, d4) = sql_QueryString S version_query d3; (c, d5) = sql_QueryInts S stats_query d4
     in e = None \<and> p = None \<and> isl v = False \<and> isl c = False)"

definition redis_up :: "'rd DatabaseChecker \<Rightarrow> 'rd \<Rightarrow> bool" where
  "redis_up d s \<longleftrightarrow> (case dbk_redisCache d of None \<Rightarrow> True | Some r \<Rightarrow> fst (cache_Ping r s) = None)"

lemma time_Now_hw [world_simps]:
  "hw_db (snd (time_Now w)) = hw_db w"
  by (simp add: time_Now_def)

lemma pg_fail_status [simp]: "pgh_Status (fst (pg_fail what e start h w)) = pgh_Status h"
  by (simp add: pg_fail_def case_prod_beta Let_def)

lemma unhealthy_simps [simp]: "pgh_Status unhealthy_pg = ''unhealthy''" "rdh_Status unhealthy_redis = ''unhealthy''"
  "rdh_Error unhealthy_redis = []" "pgh_Error unhealthy_pg = []"
  by (simp_all add: unhealthy_pg_def unhealthy_redis_def)

lemma pg_fail_redis: "rw_redis (snd (pg_fail what e start h w)) = rw_redis w"
  by (simp add: pg_fail_def case_prod_beta Let_def Since_def world_simps)

lemma CheckPostgreSQL_status:
  "pgh_Status (fst (CheckPostgreSQL S d w)) = (if pg_up S (dbk_postgresURL d) (hw_db w) then ''healthy'' else ''unhealthy'')"
  by (simp add: CheckPostgreSQL_def pg_checks_def pg_up_def on_db_def case_prod_beta Let_def world_simps
      split: option.split sum.split)

lemma CheckPostgreSQL_redis: "rw_redis (snd (CheckPostgreSQL S d w)) = rw_redis w"
  by (simp add: CheckPostgreSQL_def pg_checks_def on_db_def case_prod_beta Let_def world_simps Since_def pg_fail_redis
      split: option.split sum.split)

lemma CheckRedis_status:
  "rdh_Status (fst (CheckRedis d w)) = ''healthy'' \<or> rdh_Error (fst (CheckRedis d w)) = ''Redis not configured''
    \<longleftrightarrow> redis_up d (rw_redis w)"
  by (simp add: CheckRedis_def on_redis_def case_prod_beta Let_def world_simps redis_up_def split: option.split)

end
