(* ===== verification/ProtoHealth.thy ===== *)
theory ProtoHealth
  imports Prelude
begin

text \<open>
  The messages of \<open>api/proto/health/v1\<close> (health.pb.go) as the generated Go code has them: a record per
  message without its bookkeeping fields, its zero value (\<open>Reset\<close>), and the view its getters take of a
  pointer: the getter of a field \<open>F\<close> is the selector of \<open>F\<close> after \<open>get_\<close>, so that a nil message shows
  zero values.  A timestamp message is kept as the instant it encodes.
\<close>

subsection \<open>The enumeration \<open>HealthStatus\<close>\<close>

datatype HealthStatus = HEALTH_STATUS_UNSPECIFIED | HEALTH_STATUS_HEALTHY | HEALTH_STATUS_DEGRADED | HEALTH_STATUS_UNHEALTHY

fun HealthStatus_Number :: "HealthStatus \<Rightarrow> int" where
  "HealthStatus_Number HEALTH_STATUS_UNSPECIFIED = 0"
| "HealthStatus_Number HEALTH_STATUS_HEALTHY = 1"
| "HealthStatus_Number HEALTH_STATUS_DEGRADED = 2"
| "HealthStatus_Number HEALTH_STATUS_UNHEALTHY = 3"

definition HealthStatus_name :: "int \<rightharpoonup> string" where
  "HealthStatus_name = map_of [
     (0, ''HEALTH_STATUS_UNSPECIFIED''),
     (1, ''HEALTH_STATUS_HEALTHY''),
     (2, ''HEALTH_STATUS_DEGRADED''),
     (3, ''HEALTH_STATUS_UNHEALTHY'')]"

definition HealthStatus_value :: "string \<rightharpoonup> int" where
  "HealthStatus_value = map_of [
     (''HEALTH_STATUS_UNSPECIFIED'', 0),
     (''HEALTH_STATUS_HEALTHY'', 1),
     (''HEALTH_STATUS_DEGRADED'', 2),
     (''HEALTH_STATUS_UNHEALTHY'', 3)]"

lemma HealthStatus_name_value: "Option.bind (HealthStatus_name k) HealthStatus_value = (if HealthStatus_name k = None then None else Some k)"
  by (auto simp: HealthStatus_name_def HealthStatus_value_def)

lemma HealthStatus_Number_name: "HealthStatus_name (HealthStatus_Number x) \<noteq> None"
  by (cases x) (simp_all add: HealthStatus_name_def)

subsection \<open>The messages\<close>

datatype pb_HealthCheckRequest = HealthCheckRequest

record pb_DatabaseHealth =
  DatabaseHealth_Status :: HealthStatus
  DatabaseHealth_Name :: string
  DatabaseHealth_ResponseTimeMs :: int
  DatabaseHealth_Error :: string

definition zero_DatabaseHealth :: pb_DatabaseHealth where
  "zero_DatabaseHealth = \<lparr>DatabaseHealth_Status = HEALTH_STATUS_UNSPECIFIED, DatabaseHealth_Name = [],
     DatabaseHealth_ResponseTimeMs = 0, DatabaseHealth_Error = []\<rparr>"

definition get_DatabaseHealth :: "pb_DatabaseHealth option \<Rightarrow> pb_DatabaseHealth" where
  "get_DatabaseHealth x = (case x of None \<Rightarrow> zero_DatabaseHealth | Some m \<Rightarrow> m)"

record pb_HealthCheckResponse =
  HealthCheckResponse_Status :: HealthStatus
  HealthCheckResponse_Message :: string
  HealthCheckResponse_Timestamp :: "time option"
  HealthCheckResponse_UptimeSeconds :: int
  HealthCheckResponse_Postgresql :: "pb_DatabaseHealth option"
  HealthCheckResponse_Redis :: "pb_DatabaseHealth option"

definition zero_HealthCheckResponse :: pb_HealthCheckResponse where
  "zero_HealthCheckResponse = \<lparr>HealthCheckResponse_Status = HEALTH_STATUS_UNSPECIFIED, HealthCheckResponse_Message = [],
     HealthCheckResponse_Timestamp = None, HealthCheckResponse_UptimeSeconds = 0,
     HealthCheckResponse_Postgresql = None, HealthCheckResponse_Redis = None\<rparr>"

definition get_HealthCheckResponse :: "pb_HealthCheckResponse option \<Rightarrow> pb_HealthCheckResponse" where
  "get_HealthCheckResponse x = (case x of None \<Rightarrow> zero_HealthCheckResponse | Some m \<Rightarrow> m)"

datatype pb_LivenessRequest = LivenessRequest

record pb_LivenessResponse =
  LivenessResponse_Alive :: bool
  LivenessResponse_Timestamp :: "time option"

definition zero_LivenessResponse :: pb_LivenessResponse where
  "zero_LivenessResponse = \<lparr>LivenessResponse_Alive = False, LivenessResponse_Timestamp = None\<rparr>"

definition get_LivenessResponse :: "pb_LivenessResponse option \<Rightarrow> pb_LivenessResponse" where
  "get_LivenessResponse x = (case x of None \<Rightarrow> zero_LivenessResponse | Some m \<Rightarrow> m)"

datatype pb_ReadinessRequest = ReadinessRequest

record pb_ReadinessResponse =
  ReadinessResponse_Ready :: bool
  ReadinessResponse_Message :: string
  ReadinessResponse_Timestamp :: "time option"

definition zero_ReadinessResponse :: pb_ReadinessResponse where
  "zero_ReadinessResponse = \<lparr>ReadinessResponse_Ready = False, ReadinessResponse_Message = [],
     ReadinessResponse_Timestamp = None\<rparr>"

definition get_ReadinessResponse :: "pb_ReadinessResponse option \<Rightarrow> pb_ReadinessResponse" where
  "get_ReadinessResponse x = (case x of None \<Rightarrow> zero_ReadinessResponse | Some m \<Rightarrow> m)"

record pb_PostgreSQLHealthRequest =
  PostgreSQLHealthRequest_ConnectionName :: string

definition zero_PostgreSQLHealthRequest :: pb_PostgreSQLHealthRequest where
  "zero_PostgreSQLHealthRequest = \<lparr>PostgreSQLHealthRequest_ConnectionName = []\<rparr>"

definition get_PostgreSQLHealthRequest :: "pb_PostgreSQLHealthRequest option \<Rightarrow> pb_PostgreSQLHealthRequest" where
  "get_PostgreSQLHealthRequest x = (case x of None \<Rightarrow> zero_PostgreSQLHealthRequest | Some m \<Rightarrow> m)"

record pb_PostgreSQLHealthResponse =
  PostgreSQLHealthResponse_Status :: HealthStatus
  PostgreSQLHealthResponse_Version :: string
  PostgreSQLHealthResponse_ActiveConnections :: int
  PostgreSQLHealthResponse_MaxConnections :: int
  PostgreSQLHealthResponse_DatabaseSizeBytes :: int
  PostgreSQLHealthResponse_ResponseTimeMs :: int
  PostgreSQLHealthResponse_Error :: string

definition zero_PostgreSQLHealthResponse :: pb_PostgreSQLHealthResponse where
  "zero_PostgreSQLHealthResponse = \<lparr>PostgreSQLHealthResponse_Status = HEALTH_STATUS_UNSPECIFIED,
     PostgreSQLHealthResponse_Version = [], PostgreSQLHealthResponse_ActiveConnections = 0,
     PostgreSQLHealthResponse_MaxConnections = 0,
     PostgreSQLHealthResponse_DatabaseSizeBytes = 0,
     PostgreSQLHealthResponse_ResponseTimeMs = 0, PostgreSQLHealthResponse_Error = []\<rparr>"

definition get_PostgreSQLHealthResponse :: "pb_PostgreSQLHealthResponse option \<Rightarrow> pb_PostgreSQLHealthResponse" where
  "get_PostgreSQLHealthResponse x = (case x of None \<Rightarrow> zero_PostgreSQLHealthResponse | Some m \<Rightarrow> m)"

record pb_RedisHealthRequest =
  RedisHealthRequest_ConnectionName :: string

definition zero_RedisHealthRequest :: pb_RedisHealthRequest where
  "zero_RedisHealthRequest = \<lparr>RedisHealthRequest_ConnectionName = []\<rparr>"

definition get_RedisHealthRequest :: "pb_RedisHealthRequest option \<Rightarrow> pb_RedisHealthRequest" where
  "get_RedisHealthRequest x = (case x of None \<Rightarrow> zero_RedisHealthRequest | Some m \<Rightarrow> m)"

record pb_RedisHealthResponse =
  RedisHealthResponse_Status :: HealthStatus
  RedisHealthResponse_Version :: string
  RedisHealthResponse_ConnectedClients :: int
  RedisHealthResponse_UsedMemoryBytes :: int
  RedisHealthResponse_ResponseTimeMs :: int
  RedisHealthResponse_Error :: string

definition zero_RedisHealthResponse :: pb_RedisHealthResponse where
  "zero_RedisHealthResponse = \<lparr>RedisHealthResponse_Status = HEALTH_STATUS_UNSPECIFIED, RedisHealthResponse_Version = [],
     RedisHealthResponse_ConnectedClients = 0, RedisHealthResponse_UsedMemoryBytes = 0,
     RedisHealthResponse_ResponseTimeMs = 0, RedisHealthResponse_Error = []\<rparr>"

definition get_RedisHealthResponse :: "pb_RedisHealthResponse option \<Rightarrow> pb_RedisHealthResponse" where
  "get_RedisHealthResponse x = (case x of None \<Rightarrow> zero_RedisHealthResponse | Some m \<Rightarrow> m)"

end
