(* ===== verification/ProtoDatabase.thy ===== *)
theory ProtoDatabase
  imports Complex_Main Prelude
begin

text \<open>
  The messages of \<open>api/proto/database/v1\<close> (database.pb.go) as the generated Go code has them: a record per
  message without its bookkeeping fields, its zero value (\<open>Reset\<close>), and the view its getters take of a
  pointer: the getter of a field \<open>F\<close> is the selector of \<open>F\<close> after \<open>get_\<close>, so that a nil message shows
  zero values.  A timestamp message is kept as the instant it encodes.  A \<open>double\<close> is a rational.
\<close>

subsection \<open>The enumeration \<open>DatabaseStatus\<close>\<close>

datatype DatabaseStatus = DATABASE_STATUS_UNSPECIFIED | DATABASE_STATUS_HEALTHY | DATABASE_STATUS_DEGRADED | DATABASE_STATUS_UNHEALTHY | DATABASE_STATUS_UNAVAILABLE

fun DatabaseStatus_Number :: "DatabaseStatus \<Rightarrow> int" where
  "DatabaseStatus_Number DATABASE_STATUS_UNSPECIFIED = 0"
| "DatabaseStatus_Number DATABASE_STATUS_HEALTHY = 1"
| "DatabaseStatus_Number DATABASE_STATUS_DEGRADED = 2"
| "DatabaseStatus_Number DATABASE_STATUS_UNHEALTHY = 3"
| "DatabaseStatus_Number DATABASE_STATUS_UNAVAILABLE = 4"

definition DatabaseStatus_name :: "int \<rightharpoonup> string" where
  "DatabaseStatus_name = map_of [
     (0, ''DATABASE_STATUS_UNSPECIFIED''),
     (1, ''DATABASE_STATUS_HEALTHY''),
     (2, ''DATABASE_STATUS_DEGRADED''),
     (3, ''DATABASE_STATUS_UNHEALTHY''),
     (4, ''DATABASE_STATUS_UNAVAILABLE'')]"

definition DatabaseStatus_value :: "string \<rightharpoonup> int" where
  "DatabaseStatus_value = map_of [
     (''DATABASE_STATUS_UNSPECIFIED'', 0),
     (''DATABASE_STATUS_HEALTHY'', 1),
     (''DATABASE_STATUS_DEGRADED'', 2),
     (''DATABASE_STATUS_UNHEALTHY'', 3),
     (''DATABASE_STATUS_UNAVAILABLE'', 4)]"

lemma DatabaseStatus_name_value: "Option.bind (DatabaseStatus_name k) DatabaseStatus_value = (if DatabaseStatus_name k = None then None else Some k)"
  by (auto simp: DatabaseStatus_name_def DatabaseStatus_value_def)

lemma DatabaseStatus_Number_name: "DatabaseStatus_name (DatabaseStatus_Number x) \<noteq> None"
  by (cases x) (simp_all add: DatabaseStatus_name_def)

subsection \<open>The messages\<close>

record pb_CheckPostgreSQLRequest =
  CheckPostgreSQLRequest_DatabaseName :: string

definition zero_CheckPostgreSQLRequest :: pb_CheckPostgreSQLRequest where
  "zero_CheckPostgreSQLRequest = \<lparr>CheckPostgreSQLRequest_DatabaseName = []\<rparr>"

definition get_CheckPostgreSQLRequest :: "pb_CheckPostgreSQLRequest option \<Rightarrow> pb_CheckPostgreSQLRequest" where
  "get_CheckPostgreSQLRequest x = (case x of None \<Rightarrow> zero_CheckPostgreSQLRequest | Some m \<Rightarrow> m)"

record pb_CheckPostgreSQLResponse =
  CheckPostgreSQLResponse_Status :: DatabaseStatus
  CheckPostgreSQLResponse_Version :: string
  CheckPostgreSQLResponse_ActiveConnections :: int
  CheckPostgreSQLResponse_MaxConnections :: int
  CheckPostgreSQLResponse_DatabaseSizeBytes :: int
  CheckPostgreSQLResponse_ResponseTimeMs :: int
  CheckPostgreSQLResponse_CheckedAt :: "time option"
  CheckPostgreSQLResponse_Error :: string

definition zero_CheckPostgreSQLResponse :: pb_CheckPostgreSQLResponse where
  "zero_CheckPostgreSQLResponse = \<lparr>CheckPostgreSQLResponse_Status = DATABASE_STATUS_UNSPECIFIED,
     CheckPostgreSQLResponse_Version = [], CheckPostgreSQLResponse_ActiveConnections = 0,
     CheckPostgreSQLResponse_MaxConnections = 0, CheckPostgreSQLResponse_DatabaseSizeBytes = 0,
     CheckPostgreSQLResponse_ResponseTimeMs = 0, CheckPostgreSQLResponse_CheckedAt = None,
     CheckPostgreSQLResponse_Error = []\<rparr>"

definition get_CheckPostgreSQLResponse :: "pb_CheckPostgreSQLResponse option \<Rightarrow> pb_CheckPostgreSQLResponse" where
  "get_CheckPostgreSQLResponse x = (case x of None \<Rightarrow> zero_CheckPostgreSQLResponse | Some m \<Rightarrow> m)"

record pb_CheckRedisRequest =
  CheckRedisRequest_ConnectionName :: string

definition zero_CheckRedisRequest :: pb_CheckRedisRequest where
  "zero_CheckRedisRequest = \<lparr>CheckRedisRequest_ConnectionName = []\<rparr>"

definition get_CheckRedisRequest :: "pb_CheckRedisRequest option \<Rightarrow> pb_CheckRedisRequest" where
  "get_CheckRedisRequest x = (case x of None \<Rightarrow> zero_CheckRedisRequest | Some m \<Rightarrow> m)"

record pb_CheckRedisResponse =
  CheckRedisResponse_Status :: DatabaseStatus
  CheckRedisResponse_Version :: string
  CheckRedisResponse_ConnectedClients :: int
  CheckRedisResponse_UsedMemoryBytes :: int
  CheckRedisResponse_MaxMemoryBytes :: int
  CheckRedisResponse_ResponseTimeMs :: int
  CheckRedisResponse_CheckedAt :: "time option"
  CheckRedisResponse_Error :: string

definition zero_CheckRedisResponse :: pb_CheckRedisResponse where
  "zero_CheckRedisResponse = \<lparr>CheckRedisResponse_Status = DATABASE_STATUS_UNSPECIFIED, CheckRedisResponse_Version = [],
     CheckRedisResponse_ConnectedClients = 0, CheckRedisResponse_UsedMemoryBytes = 0,
     CheckRedisResponse_MaxMemoryBytes = 0, CheckRedisResponse_ResponseTimeMs = 0,
     CheckRedisResponse_CheckedAt = None, CheckRedisResponse_Error = []\<rparr>"

definition get_CheckRedisResponse :: "pb_CheckRedisResponse option \<Rightarrow> pb_CheckRedisResponse" where
  "get_CheckRedisResponse x = (case x of None \<Rightarrow> zero_CheckRedisResponse | Some m \<Rightarrow> m)"

record pb_GetPostgreSQLStatsRequest =
  GetPostgreSQLStatsRequest_DatabaseName :: string

definition zero_GetPostgreSQLStatsRequest :: pb_GetPostgreSQLStatsRequest where
  "zero_GetPostgreSQLStatsRequest = \<lparr>GetPostgreSQLStatsRequest_DatabaseName = []\<rparr>"

definition get_GetPostgreSQLStatsRequest :: "pb_GetPostgreSQLStatsRequest option \<Rightarrow> pb_GetPostgreSQLStatsRequest" where
  "get_GetPostgreSQLStatsRequest x = (case x of None \<Rightarrow> zero_GetPostgreSQLStatsRequest | Some m \<Rightarrow> m)"

record pb_TableStats =
  TableStats_TableName :: string
  TableStats_RowCount :: int
  TableStats_TableSizeBytes :: int
  TableStats_IndexSizeBytes :: int
  TableStats_TotalSizeBytes :: int

definition zero_TableStats :: pb_TableStats where
  "zero_TableStats = \<lparr>TableStats_TableName = [], TableStats_RowCount = 0, TableStats_TableSizeBytes = 0,
     TableStats_IndexSizeBytes = 0, TableStats_TotalSizeBytes = 0\<rparr>"

definition get_TableStats :: "pb_TableStats option \<Rightarrow> pb_TableStats" where
  "get_TableStats x = (case x of None \<Rightarrow> zero_TableStats | Some m \<Rightarrow> m)"

record pb_GetPostgreSQLStatsResponse =
  GetPostgreSQLStatsResponse_Version :: string
  GetPostgreSQLStatsResponse_TotalConnections :: int
  GetPostgreSQLStatsResponse_ActiveConnections :: int
  GetPostgreSQLStatsResponse_IdleConnections :: int
  GetPostgreSQLStatsResponse_MaxConnections :: int
  GetPostgreSQLStatsResponse_DatabaseSizeBytes :: int
  GetPostgreSQLStatsResponse_TableCount :: int
  GetPostgreSQLStatsResponse_IndexCount :: int
  GetPostgreSQLStatsResponse_CacheHitRatio :: int
  GetPostgreSQLStatsResponse_TransactionsCommitted :: int
  GetPostgreSQLStatsResponse_TransactionsRolledBack :: int
  GetPostgreSQLStatsResponse_UptimeSince :: "time option"
  GetPostgreSQLStatsResponse_TableStats :: "pb_TableStats list"

definition zero_GetPostgreSQLStatsResponse :: pb_GetPostgreSQLStatsResponse where
  "zero_GetPostgreSQLStatsResponse = \<lparr>GetPostgreSQLStatsResponse_Version = [], GetPostgreSQLStatsResponse_TotalConnections = 0,
     GetPostgreSQLStatsResponse_ActiveConnections = 0,
     GetPostgreSQLStatsResponse_IdleConnections = 0,
     GetPostgreSQLStatsResponse_MaxConnections = 0,
     GetPostgreSQLStatsResponse_DatabaseSizeBytes = 0,
     GetPostgreSQLStatsResponse_TableCount = 0, GetPostgreSQLStatsResponse_IndexCount = 0,
     GetPostgreSQLStatsResponse_CacheHitRatio = 0,
     GetPostgreSQLStatsResponse_TransactionsCommitted = 0,
     GetPostgreSQLStatsResponse_TransactionsRolledBack = 0,
     GetPostgreSQLStatsResponse_UptimeSince = None, GetPostgreSQLStatsResponse_TableStats = []\<rparr>"

definition get_GetPostgreSQLStatsResponse :: "pb_GetPostgreSQLStatsResponse option \<Rightarrow> pb_GetPostgreSQLStatsResponse" where
  "get_GetPostgreSQLStatsResponse x = (case x of None \<Rightarrow> zero_GetPostgreSQLStatsResponse | Some m \<Rightarrow> m)"

record pb_GetRedisStatsRequest =
  GetRedisStatsRequest_ConnectionName :: string

definition zero_GetRedisStatsRequest :: pb_GetRedisStatsRequest where
  "zero_GetRedisStatsRequest = \<lparr>GetRedisStatsRequest_ConnectionName = []\<rparr>"

definition get_GetRedisStatsRequest :: "pb_GetRedisStatsRequest option \<Rightarrow> pb_GetRedisStatsRequest" where
  "get_GetRedisStatsRequest x = (case x of None \<Rightarrow> zero_GetRedisStatsRequest | Some m \<Rightarrow> m)"

record pb_GetRedisStatsResponse =
  GetRedisStatsResponse_Version :: string
  GetRedisStatsResponse_Mode :: string
  GetRedisStatsResponse_ConnectedClients :: int
  GetRedisStatsResponse_BlockedClients :: int
  GetRedisStatsResponse_UsedMemoryBytes :: int
  GetRedisStatsResponse_UsedMemoryPeakBytes :: int
  GetRedisStatsResponse_MaxMemoryBytes :: int
  GetRedisStatsResponse_MemoryFragmentationRatio :: rat
  GetRedisStatsResponse_TotalKeys :: int
  GetRedisStatsResponse_ExpiredKeys :: int
  GetRedisStatsResponse_EvictedKeys :: int
  GetRedisStatsResponse_KeyspaceHits :: int
  GetRedisStatsResponse_KeyspaceMisses :: int
  GetRedisStatsResponse_HitRate :: rat
  GetRedisStatsResponse_UptimeSince :: "time option"

definition zero_GetRedisStatsResponse :: pb_GetRedisStatsResponse where
  "zero_GetRedisStatsResponse = \<lparr>GetRedisStatsResponse_Version = [], GetRedisStatsResponse_Mode = [],
     GetRedisStatsResponse_ConnectedClients = 0, GetRedisStatsResponse_BlockedClients = 0,
     GetRedisStatsResponse_UsedMemoryBytes = 0, GetRedisStatsResponse_UsedMemoryPeakBytes = 0,
     GetRedisStatsResponse_MaxMemoryBytes = 0,
     GetRedisStatsResponse_MemoryFragmentationRatio = 0, GetRedisStatsResponse_TotalKeys = 0,
     GetRedisStatsResponse_ExpiredKeys = 0, GetRedisStatsResponse_EvictedKeys = 0,
     GetRedisStatsResponse_KeyspaceHits = 0, GetRedisStatsResponse_KeyspaceMisses = 0,
     GetRedisStatsResponse_HitRate = 0, GetRedisStatsResponse_UptimeSince = None\<rparr>"

definition get_GetRedisStatsResponse :: "pb_GetRedisStatsResponse option \<Rightarrow> pb_GetRedisStatsResponse" where
  "get_GetRedisStatsResponse x = (case x of None \<Rightarrow> zero_GetRedisStatsResponse | Some m \<Rightarrow> m)"

record pb_GetConnectionPoolStatsRequest =
  GetConnectionPoolStatsRequest_PoolName :: string

definition zero_GetConnectionPoolStatsRequest :: pb_GetConnectionPoolStatsRequest where
  "zero_GetConnectionPoolStatsRequest = \<lparr>GetConnectionPoolStatsRequest_PoolName = []\<rparr>"

definition get_GetConnectionPoolStatsRequest :: "pb_GetConnectionPoolStatsRequest option \<Rightarrow> pb_GetConnectionPoolStatsRequest" where
  "get_GetConnectionPoolStatsRequest x = (case x of None \<Rightarrow> zero_GetConnectionPoolStatsRequest | Some m \<Rightarrow> m)"

record pb_GetConnectionPoolStatsResponse =
  GetConnectionPoolStatsResponse_PoolName :: string
  GetConnectionPoolStatsResponse_TotalConnections :: int
  GetConnectionPoolStatsResponse_IdleConnections :: int
  GetConnectionPoolStatsResponse_ActiveConnections :: int
  GetConnectionPoolStatsResponse_MaxConnections :: int
  GetConnectionPoolStatsResponse_WaitCount :: int
  GetConnectionPoolStatsResponse_WaitDurationMs :: int
  GetConnectionPoolStatsResponse_MaxIdleClosed :: int
  GetConnectionPoolStatsResponse_MaxLifetimeClosed :: int

definition zero_GetConnectionPoolStatsResponse :: pb_GetConnectionPoolStatsResponse where
  "zero_GetConnectionPoolStatsResponse = \<lparr>GetConnectionPoolStatsResponse_PoolName = [],
     GetConnectionPoolStatsResponse_TotalConnections = 0,
     GetConnectionPoolStatsResponse_IdleConnections = 0,
     GetConnectionPoolStatsResponse_ActiveConnections = 0,
     GetConnectionPoolStatsResponse_MaxConnections = 0,
     GetConnectionPoolStatsResponse_WaitCount = 0,
     GetConnectionPoolStatsResponse_WaitDurationMs = 0,
     GetConnectionPoolStatsResponse_MaxIdleClosed = 0,
     GetConnectionPoolStatsResponse_MaxLifetimeClosed = 0\<rparr>"

definition get_GetConnectionPoolStatsResponse :: "pb_GetConnectionPoolStatsResponse option \<Rightarrow> pb_GetConnectionPoolStatsResponse" where
  "get_GetConnectionPoolStatsResponse x = (case x of None \<Rightarrow> zero_GetConnectionPoolStatsResponse | Some m \<Rightarrow> m)"

end
