(* ===== verification/GrpcHealth.thy ===== *)
theory GrpcHealth
  imports Health GoRuntime ProtoHealth ProtoDatabase
begin

text \<open>
  The gRPC services for health and databases (\<open>internal/grpc/health_service.go\<close>,
  \<open>database_service.go\<close>): they call the checkers and convert the results to messages.  A method
  returns its response or an error, and the new world.
\<close>

text \<open>\<open>Duration.Seconds\<close>, in float64, and its truncation to \<open>int64\<close>.\<close>

definition Seconds :: "duration \<Rightarrow> rat" where
  "Seconds d = (let sec = go_div d Second; nsec = d - sec * Second
     in f64_rat (of_int (f64 sec) + f64_rat (of_int nsec / 1000000000)))"

definition int64_of_rat :: "rat \<Rightarrow> int" where
  "int64_of_rat r = int_of_f64 (if 0 \<le> r then \<lfloor>r\<rfloor> else \<lceil>r\<rceil>)"

subsection \<open>The health service\<close>

record 'rd HealthServiceServer =
  hss_checker :: "'rd HealthChecker"
  hss_dbChecker :: "'rd DatabaseChecker"

definition NewHealthServiceServer :: "'rd HealthChecker \<Rightarrow> 'rd DatabaseChecker \<Rightarrow> 'rd HealthServiceServer" where
  "NewHealthServiceServer checker dbChecker = \<lparr>hss_checker = checker, hss_dbChecker = dbChecker\<rparr>"

definition convertHealthStatus :: "string \<Rightarrow> HealthStatus" where
  "convertHealthStatus status =
     (if status = ''healthy'' then HEALTH_STATUS_HEALTHY
      else if status = ''degraded'' then HEALTH_STATUS_DEGRADED
      else if status = ''unhealthy'' then HEALTH_STATUS_UNHEALTHY
      else HEALTH_STATUS_UNSPECIFIED)"

definition hs_Check :: "'db sql_ops \<Rightarrow> 'rd HealthServiceServer \<Rightarrow> pb_HealthCheckRequest \<Rightarrow>
    ('l, 'rd, 'db, 'z) hworld_scheme \<Rightarrow> pb_HealthCheckResponse result \<times> ('l, 'rd, 'db, 'z) hworld_scheme" where
  "hs_Check S s req w =
     (let (h, w1) = health_Check S (hss_checker s) w;
          resp = zero_HealthCheckResponse\<lparr>HealthCheckResponse_Status := convertHealthStatus (svh_Status h),
            HealthCheckResponse_Message := [], HealthCheckResponse_Timestamp := Some (svh_Timestamp h),
            HealthCheckResponse_UptimeSeconds := int64_of_rat (Seconds (svh_Uptime h))\<rparr>;
          resp1 = (case svh_Database h ''postgres'' of
            Some (PgHealth pg) \<Rightarrow> resp\<lparr>HealthCheckResponse_Postgresql := Some
              \<lparr>DatabaseHealth_Status = convertHealthStatus (pgh_Status pg), DatabaseHealth_Name = ''postgresql'',
               DatabaseHealth_ResponseTimeMs = Milliseconds (pgh_ResponseTime pg), DatabaseHealth_Error = pgh_Error pg\<rparr>\<rparr>
          | _ \<Rightarrow> resp);
          resp2 = (case svh_Database h ''redis'' of
            Some (RdHealth rd) \<Rightarrow> resp1\<lparr>HealthCheckResponse_Redis := Some
              \<lparr>DatabaseHealth_Status = convertHealthStatus (rdh_Status rd), DatabaseHealth_Name = ''redis'',
               DatabaseHealth_ResponseTimeMs = Milliseconds (rdh_ResponseTime rd), DatabaseHealth_Error = rdh_Error rd\<rparr>\<rparr>
          | _ \<Rightarrow> resp1)
      in (Inr resp2, w1))"

definition hs_Liveness :: "'rd HealthServiceServer \<Rightarrow> pb_LivenessRequest \<Rightarrow> 'z world_scheme \<Rightarrow>
    pb_LivenessResponse result \<times> 'z world_scheme" where
  "hs_Liveness s req w = (let alive = Liveness (hss_checker s); (now, w1) = time_Now w in
     (Inr \<lparr>LivenessResponse_Alive = alive, LivenessResponse_Timestamp = Some now\<rparr>, w1))"

definition hs_Readiness :: "'db sql_ops \<Rightarrow> 'rd HealthServiceServer \<Rightarrow> pb_ReadinessRequest \<Rightarrow>
    ('l, 'rd, 'db, 'z) hworld_scheme \<Rightarrow> pb_ReadinessResponse result \<times> ('l, 'rd, 'db, 'z) hworld_scheme" where
  "hs_Readiness S s req w =
     (let (ready, w1) = Readiness S (hss_checker s) w;
          message = (if \<not> ready then ''Service not ready - database unavailable'' else []);
          (now, w2) = time_Now w1
      in (Inr \<lparr>ReadinessResponse_Ready = ready, ReadinessResponse_Message = message,
               ReadinessResponse_Timestamp = Some now\<rparr>, w2))"

definition hs_CheckPostgreSQL :: "'db sql_ops \<Rightarrow> 'rd HealthServiceServer \<Rightarrow> pb_PostgreSQLHealthRequest \<Rightarrow>
    ('l, 'rd, 'db, 'z) hworld_scheme \<Rightarrow> pb_PostgreSQLHealthResponse result \<times> ('l, 'rd, 'db, 'z) hworld_scheme" where
  "hs_CheckPostgreSQL S s req w = (let (h, w1) = CheckPostgreSQL S (hss_dbChecker s) w in
     (Inr \<lparr>PostgreSQLHealthResponse_Status = convertHealthStatus (pgh_Status h),
        PostgreSQLHealthResponse_Version = pgh_Version h,
        PostgreSQLHealthResponse_ActiveConnections = int32 (pgh_Connections h),
        PostgreSQLHealthResponse_MaxConnections = int32 (pgh_MaxConnections h),
        PostgreSQLHealthResponse_DatabaseSizeBytes = 0,
        PostgreSQLHealthResponse_ResponseTimeMs = Milliseconds (pgh_ResponseTime h),
        PostgreSQLHealthResponse_Error = pgh_Error h\<rparr>, w1))"

definition hs_CheckRedis :: "'rd HealthServiceServer \<Rightarrow> pb_RedisHealthRequest \<Rightarrow>
    ('l, 'rd, 'z) rworld_scheme \<Rightarrow> pb_RedisHealthResponse result \<times> ('l, 'rd, 'z) rworld_scheme" where
  "hs_CheckRedis s req w = (let (h, w1) = CheckRedis (hss_dbChecker s) w in
     (Inr \<lparr>RedisHealthResponse_Status = convertHealthStatus (rdh_Status h),
        RedisHealthResponse_Version = rdh_Version h,
        RedisHealthResponse_ConnectedClients = int32 (rdh_ConnectedClients h),
        RedisHealthResponse_UsedMemoryBytes = int64 (rdh_UsedMemory h),
        RedisHealthResponse_ResponseTimeMs = Milliseconds (rdh_ResponseTime h),
        RedisHealthResponse_Error = rdh_Error h\<rparr>, w1))"

subsection \<open>The database service\<close>

record 'rd DatabaseServiceServer =
  dss_checker :: "'rd DatabaseChecker"

definition NewDatabaseServiceServer :: "'rd DatabaseChecker \<Rightarrow> 'rd DatabaseServiceServer" where
  "NewDatabaseServiceServer checker = \<lparr>dss_checker = checker\<rparr>"

definition convertToDatabaseStatus :: "string \<Rightarrow> DatabaseStatus" where
  "convertToDatabaseStatus status =
     (if status = ''healthy'' then DATABASE_STATUS_HEALTHY
      else if status = ''degraded'' then DATABASE_STATUS_DEGRADED
      else if status = ''unhealthy'' then DATABASE_STATUS_UNHEALTHY
      else if status = ''unavailable'' then DATABASE_STATUS_UNAVAILABLE
      else DATABASE_STATUS_UNSPECIFIED)"

definition parseDatabaseSize :: "string \<Rightarrow> int" where
  "parseDatabaseSize sizeStr = 0"

definition ds_CheckPostgreSQL :: "'db sql_ops \<Rightarrow> 'rd DatabaseServiceServer \<Rightarrow> pb_CheckPostgreSQLRequest \<Rightarrow>
    ('l, 'rd, 'db, 'z) hworld_scheme \<Rightarrow> pb_CheckPostgreSQLResponse result \<times> ('l, 'rd, 'db, 'z) hworld_scheme" where
  "ds_CheckPostgreSQL S s req w = (let (h, w1) = CheckPostgreSQL S (dss_checker s) w; (now, w2) = time_Now w1 in
     (Inr \<lparr>CheckPostgreSQLResponse_Status = convertToDatabaseStatus (pgh_Status h),
        CheckPostgreSQLResponse_Version = pgh_Version h,
        CheckPostgreSQLResponse_ActiveConnections = int32 (pgh_Connections h),
        CheckPostgreSQLResponse_MaxConnections = int32 (pgh_MaxConnections h),
        CheckPostgreSQLResponse_DatabaseSizeBytes = parseDatabaseSize (pgh_DatabaseSize h),
        CheckPostgreSQLResponse_ResponseTimeMs = Milliseconds (pgh_ResponseTime h),
        CheckPostgreSQLResponse_CheckedAt = Some now,
        CheckPostgreSQLResponse_Error = pgh_Error h\<rparr>, w2))"

definition ds_CheckRedis :: "'rd DatabaseServiceServer \<Rightarrow> pb_CheckRedisRequest \<Rightarrow>
    ('l, 'rd, 'z) rworld_scheme \<Rightarrow> pb_CheckRedisResponse result \<times> ('l, 'rd, 'z) rworld_scheme" where
  "ds_CheckRedis s req w = (let (h, w1) = CheckRedis (dss_checker s) w; (now, w2) = time_Now w1 in
     (Inr \<lparr>CheckRedisResponse_Status = convertToDatabaseStatus (rdh_Status h),
        CheckRedisResponse_Version = rdh_Version h,
        CheckRedisResponse_ConnectedClients = int32 (rdh_ConnectedClients h),
        CheckRedisResponse_UsedMemoryBytes = int64 (rdh_UsedMemory h),
        CheckRedisResponse_MaxMemoryBytes = 0,
        CheckRedisResponse_ResponseTimeMs = Milliseconds (rdh_ResponseTime h),
        CheckRedisResponse_CheckedAt = Some now,
        CheckRedisResponse_Error = rdh_Error h\<rparr>, w2))"

definition ds_GetPostgreSQLStats :: "'db sql_ops \<Rightarrow> 'rd DatabaseServiceServer \<Rightarrow> pb_GetPostgreSQLStatsRequest \<Rightarrow>
    ('l, 'rd, 'db, 'z) hworld_scheme \<Rightarrow> pb_GetPostgreSQLStatsResponse result \<times> ('l, 'rd, 'db, 'z) hworld_scheme" where
  "ds_GetPostgreSQLStats S s req w = (let (h, w1) = CheckPostgreSQL S (dss_checker s) w in
     (Inr (zero_GetPostgreSQLStatsResponse\<lparr>GetPostgreSQLStatsResponse_Version := pgh_Version h,
        GetPostgreSQLStatsResponse_TotalConnections := int32 (pgh_Connections h),
        GetPostgreSQLStatsResponse_ActiveConnections := int32 (pgh_Connections h),
        GetPostgreSQLStatsResponse_IdleConnections := 0,
        GetPostgreSQLStatsResponse_MaxConnections := int32 (pgh_MaxConnections h),
        GetPostgreSQLStatsResponse_DatabaseSizeBytes := parseDatabaseSize (pgh_DatabaseSize h),
        GetPostgreSQLStatsResponse_TableCount := 0,
        GetPostgreSQLStatsResponse_IndexCount := 0,
        GetPostgreSQLStatsResponse_CacheHitRatio := 0\<rparr>), w1))"

definition ds_GetRedisStats :: "'rd DatabaseServiceServer \<Rightarrow> pb_GetRedisStatsRequest \<Rightarrow>
    ('l, 'rd, 'z) rworld_scheme \<Rightarrow> pb_GetRedisStatsResponse result \<times> ('l, 'rd, 'z) rworld_scheme" where
  "ds_GetRedisStats s req w = (let (h, w1) = CheckRedis (dss_checker s) w in
     (Inr (zero_GetRedisStatsResponse\<lparr>GetRedisStatsResponse_Version := rdh_Version h,
        GetRedisStatsResponse_Mode := ''standalone'',
        GetRedisStatsResponse_ConnectedClients := int32 (rdh_ConnectedClients h),
        GetRedisStatsResponse_BlockedClients := 0,
        GetRedisStatsResponse_UsedMemoryBytes := int64 (rdh_UsedMemory h)\<rparr>), w1))"

definition ds_GetConnectionPoolStats :: "'rd DatabaseServiceServer \<Rightarrow> pb_GetConnectionPoolStatsRequest \<Rightarrow>
    pb_GetConnectionPoolStatsResponse result" where
  "ds_GetConnectionPoolStats s req = Inr (zero_GetConnectionPoolStatsResponse
     \<lparr>GetConnectionPoolStatsResponse_PoolName := GetConnectionPoolStatsRequest_PoolName req,
      GetConnectionPoolStatsResponse_TotalConnections := 0, GetConnectionPoolStatsResponse_IdleConnections := 0,
      GetConnectionPoolStatsResponse_ActiveConnections := 0, GetConnectionPoolStatsResponse_MaxConnections := 0\<rparr>)"

end
