(* ===== verification/GrpcProps.thy ===== *)
theory GrpcProps
  imports GrpcWhitelist GrpcHealth
begin

text \<open>
  Properties of the gRPC services for the whitelist, the health and the databases: what a reply says
  about the state behind it.
\<close>

subsection \<open>Whitelist service\<close>

text \<open>The methods that change a list never fail at the level of gRPC.  Their reply tells what
  happened: the flag is set exactly when the manager's operation succeeded, and the text is the
  manager's error otherwise; the manager is left as the operation left it, and so is the world up to
  readings of the clock.\<close>

lemma list_changes_reported:
  "(\<exists>r s'. ws_AddToWhitelist y add s = (Inr r, s')
      \<and> same_wl (snd (AddToWhitelist y (AddToWhitelistRequest_Ip add) (AddToWhitelistRequest_Description add)
          (AddToWhitelistRequest_AddedBy add) (AddToWhitelistRequest_ExpiresAt add) s)) s'
      \<and> (AddToWhitelistResponse_Success r \<longleftrightarrow> fst (AddToWhitelist y (AddToWhitelistRequest_Ip add)
          (AddToWhitelistRequest_Description add) (AddToWhitelistRequest_AddedBy add)
          (AddToWhitelistRequest_ExpiresAt add) s) = None)
      \<and> AddToWhitelistResponse_Message r = (case fst (AddToWhitelist y (AddToWhitelistRequest_Ip add)
          (AddToWhitelistRequest_Description add) (AddToWhitelistRequest_AddedBy add)
          (AddToWhitelistRequest_ExpiresAt add) s) of None \<Rightarrow> ''IP added to whitelist successfully'' | Some e \<Rightarrow> Error e))
   \<and> (\<exists>r s'. ws_RemoveFromWhitelist y rem s = (Inr r, s')
      \<and> same_wl (snd (RemoveFromWhitelist y (RemoveFromWhitelistRequest_Ip rem) ''grpc-api'' s)) s'
      \<and> (RemoveFromWhitelistResponse_Success r \<longleftrightarrow>
          fst (RemoveFromWhitelist y (RemoveFromWhitelistRequest_Ip rem) ''grpc-api'' s) = None)
      \<and> RemoveFromWhitelistResponse_Message r =
          (case fst (RemoveFromWhitelist y (RemoveFromWhitelistRequest_Ip rem) ''grpc-api'' s) of
             None \<Rightarrow> ''IP removed from whitelist successfully'' | Some e \<Rightarrow> Error e))"
  using add_white.report remove_white.report by blast

lemma pb_entry_sel [simp]:
  "IPEntry_Ip (pb_entry a b c d e) = a" "IPEntry_Expired (pb_entry a b c d e) = False"
  "IPEntry_ExpiresAt (pb_entry a b c d e) = e"
  by (simp_all add: pb_entry_def zero_IPEntry_def)

lemma convert_entries_still:
  assumes "\<forall>k. w_clock w k = t"
  shows "map (\<lambda>p. (IPEntry_Ip p, IPEntry_Expired p)) (fst (convert_entries es w))
      = map (\<lambda>e. (ip_IP e, expired_at t e)) es
    \<and> w_clock (snd (convert_entries es w)) = w_clock w"
  using assms
proof (induction es arbitrary: w)
  case (Cons e es)
  have h: "IPEntry_Ip (fst (convertToProtoIPEntry e w)) = ip_IP e
    \<and> IPEntry_Expired (fst (convertToProtoIPEntry e w)) = expired_at t e
    \<and> w_clock (snd (convertToProtoIPEntry e w)) = w_clock w"
    using Cons.prems
    by (simp add: convertToProtoIPEntry_def expired_at_def After_def Before_def time_Now_def Let_def split: option.split)
  with Cons.IH [of "snd (convertToProtoIPEntry e w)"] Cons.prems show ?case
    by (simp add: case_prod_beta Let_def)
qed simp

text \<open>C27 (equivalence).  The listing and the access decision agree: while the clock stands still, an address is
  allowed exactly when it parses, no listed blacklist entry matches it, and some whitelist entry
  that the listing does not show as expired does.\<close>

theorem listing_agrees_with_decision:
  assumes "\<forall>k. w_clock w k = t"
    and "ws_GetWhitelist GetWhitelistRequest (m, w) = (Inr wl, s1)"
    and "ws_GetBlacklist GetBlacklistRequest (m, w) = (Inr bl, s2)"
    and "ws_IsAllowed req (m, w) = (Inr res, s3)"
  shows "IsAllowedResponse_Allowed res \<longleftrightarrow> (\<exists>ip. ParseIP (IsAllowedRequest_Ip req) = Some ip
    \<and> (\<forall>b \<in> set (GetBlacklistResponse_Entries bl). \<not> ipMatches ip (IPEntry_Ip b))
    \<and> (\<exists>e \<in> set (GetWhitelistResponse_Entries wl). \<not> IPEntry_Expired e \<and> ipMatches ip (IPEntry_Ip e)))"
proof -
  have cm: "clock_mono w" using assms(1) by (simp add: clock_mono_def mono_def)
  have rd: "read_clock w = t" "read_clock (snd (IsAllowed m (IsAllowedRequest_Ip req) w)) = t"
    using assms(1) IsAllowed_later [of w m "IsAllowedRequest_Ip req"] by (simp_all add: later_def read_clock_def)
  have res: "IsAllowedResponse_Allowed res = allowed_at t m (IsAllowedRequest_Ip req)"
    using assms(4) IsAllowed_between_readings [OF cm, of m "IsAllowedRequest_Ip req"] rd
    by (auto simp: ws_IsAllowed_def Let_def split: prod.splits)
  have wl: "map (\<lambda>p. (IPEntry_Ip p, IPEntry_Expired p)) (GetWhitelistResponse_Entries wl)
      = map (\<lambda>e. (ip_IP e, expired_at t e)) (wm_whitelist m)"
    using assms(2) convert_entries_still [OF assms(1), of "wm_whitelist m"]
    by (auto simp: ws_GetWhitelist_def GetWhitelist_def Let_def split: prod.splits)
  have bl: "map (\<lambda>p. (IPEntry_Ip p, IPEntry_Expired p)) (GetBlacklistResponse_Entries bl)
      = map (\<lambda>e. (ip_IP e, expired_at t e)) (wm_blacklist m)"
    using assms(3) convert_entries_still [OF assms(1), of "wm_blacklist m"]
    by (auto simp: ws_GetBlacklist_def GetBlacklist_def Let_def split: prod.splits)
  have ws: "(\<exists>e \<in> set (GetWhitelistResponse_Entries wl). \<not> IPEntry_Expired e \<and> ipMatches ip (IPEntry_Ip e))
      \<longleftrightarrow> (\<exists>e \<in> set (wm_whitelist m). \<not> expired_at t e \<and> ipMatches ip (ip_IP e))" for ip
    using arg_cong [OF wl, of "\<lambda>xs. \<exists>p \<in> set xs. \<not> snd p \<and> ipMatches ip (fst p)"] by simp
  have bs: "(\<forall>b \<in> set (GetBlacklistResponse_Entries bl). \<not> ipMatches ip (IPEntry_Ip b))
      \<longleftrightarrow> (\<forall>b \<in> set (wm_blacklist m). \<not> ipMatches ip (ip_IP b))" for ip
    using arg_cong [OF bl, of "\<lambda>xs. \<forall>p \<in> set xs. \<not> ipMatches ip (fst p)"] by simp
  show ?thesis
    unfolding res ws bs by (auto simp: allowed_at_def list_ex_iff split: option.splits)
qed

definition still_world :: aworld where
  "still_world = demo_world\<lparr>w_clock := (\<lambda>_. 10)\<rparr>"

lemma listing_agrees_with_decision_witness:
  "\<exists>res s3. ws_IsAllowed \<lparr>IsAllowedRequest_Ip = ''10.0.0.7''\<rparr>
      (demo_manager [new_entry ''10.0.0.7'' ''d'' ''o'' (Some 4) 0] [], still_world) = (Inr res, s3)
    \<and> \<not> IsAllowedResponse_Allowed res"
proof -
  let ?m = "demo_manager [new_entry ''10.0.0.7'' ''d'' ''o'' (Some 4) 0] []"
  let ?req = "\<lparr>IsAllowedRequest_Ip = ''10.0.0.7''\<rparr>"
  have c: "\<forall>k. w_clock still_world k = 10" by (simp add: still_world_def)
  obtain wl s1 where wl: "ws_GetWhitelist GetWhitelistRequest (?m, still_world) = (Inr wl, s1)"
    and e: "\<forall>e \<in> set (GetWhitelistResponse_Entries wl). IPEntry_Expired e"
    by (simp add: ws_GetWhitelist_def GetWhitelist_def demo_manager_def new_entry_def convertToProtoIPEntry_def
        still_world_def Before_def time_Now_def)
  obtain bl s2 where bl: "ws_GetBlacklist GetBlacklistRequest (?m, still_world) = (Inr bl, s2)"
    by (simp add: ws_GetBlacklist_def case_prod_beta Let_def)
  obtain res s3 where res: "ws_IsAllowed ?req (?m, still_world) = (Inr res, s3)"
    by (simp add: ws_IsAllowed_def case_prod_beta Let_def)
  from listing_agrees_with_decision [OF c wl bl res] e res show ?thesis by blast
qed

subsection \<open>Health and database services\<close>

text \<open>C28 (functional).  The overall status that the health service reports is healthy exactly when PostgreSQL
  answers (the connection, the ping, and the queries for version and connections; the size may be missing)
  and Redis either answers a ping or is not configured at all; otherwise it is degraded, never unhealthy
  or unspecified.  Readiness depends on PostgreSQL alone.\<close>

theorem health_status_exact:
  assumes "hs_Check S s HealthCheckRequest w = (Inr resp, w')"
    and "hs_Readiness S s ReadinessRequest w = (Inr ready, w'')"
  shows "HealthCheckResponse_Status resp =
      (if pg_up S (dbk_postgresURL (hck_dbChecker (hss_checker s))) (hw_db w)
          \<and> redis_up (hck_dbChecker (hss_checker s)) (rw_redis w)
       then HEALTH_STATUS_HEALTHY else HEALTH_STATUS_DEGRADED)
    \<and> (ReadinessResponse_Ready ready \<longleftrightarrow> pg_up S (dbk_postgresURL (hck_dbChecker (hss_checker s))) (hw_db w))"
proof -
  let ?d = "hck_dbChecker (hss_checker s)"
  let ?w2 = "snd (Since (hck_startTime (hss_checker s)) (snd (time_Now w)))"
  have frame: "hw_db ?w2 = hw_db w" "rw_redis ?w2 = rw_redis w"
    by (simp_all add: Since_def case_prod_beta Let_def world_simps)
  have pg: "pgh_Status (fst (CheckPostgreSQL S ?d ?w2)) = ''healthy'' \<longleftrightarrow> pg_up S (dbk_postgresURL ?d) (hw_db w)"
    by (simp add: CheckPostgreSQL_status frame)
  have rd: "rdh_Status (fst (CheckRedis ?d (snd (CheckPostgreSQL S ?d ?w2)))) = ''healthy''
      \<or> rdh_Error (fst (CheckRedis ?d (snd (CheckPostgreSQL S ?d ?w2)))) = ''Redis not configured''
      \<longleftrightarrow> redis_up ?d (rw_redis w)"
    by (simp add: CheckRedis_status CheckPostgreSQL_redis frame)
  have st: "svh_Status (fst (health_Check S (hss_checker s) w)) =
      (if pg_up S (dbk_postgresURL ?d) (hw_db w) \<and> redis_up ?d (rw_redis w) then ''healthy'' else ''degraded'')"
    using pg rd by (auto simp: health_Check_def CheckAll_def case_prod_beta Let_def)
  have "HealthCheckResponse_Status resp = convertHealthStatus (svh_Status (fst (health_Check S (hss_checker s) w)))"
    using assms(1) by (auto simp: hs_Check_def Let_def case_prod_beta split: option.splits db_health.splits)
  moreover have "ReadinessResponse_Ready ready = (pgh_Status (fst (CheckPostgreSQL S ?d w)) = ''healthy'')"
    using assms(2) by (auto simp: hs_Readiness_def Readiness_def Let_def case_prod_beta split: if_splits)
  ultimately show ?thesis
    unfolding st by (simp add: convertHealthStatus_def CheckPostgreSQL_status)
qed

text \<open>A database that answers everything, or that refuses connections.\<close>

definition demo_sql :: "bool sql_ops" where
  "demo_sql = \<lparr>sql_Open = \<lambda>d u b. (None, b), sql_Close = \<lambda>b. b, sql_SetConnMaxLifetime = \<lambda>d b. b,
     sql_SetMaxOpenConns = \<lambda>n b. b,
     sql_PingContext = \<lambda>b. (if b then None else Some (NewErr ''connection refused''), b),
     sql_QueryString = \<lambda>q b. (Inr ''16'', b), sql_QueryInts = \<lambda>q b. (Inr (3, 100), b)\<rparr>"

definition demo_hworld :: "bool \<Rightarrow> (int \<times> int, string \<Rightarrow> int, bool) hworld" where
  "demo_hworld up = \<lparr>w_clock = int, w_tick = 0, w_files = Map.empty, w_faults = [], w_zap = [],
     rw_limiters = [], rw_redis = (\<lambda>_. 0), hw_db = up\<rparr>"

definition demo_health_server :: "(string \<Rightarrow> int) HealthServiceServer" where
  "demo_health_server = (let d = \<lparr>dbk_postgresURL = ''postgres:'', dbk_redisCache = None\<rparr> in
     NewHealthServiceServer \<lparr>hck_dbChecker = d, hck_startTime = 0, hck_version = ''1.0.0''\<rparr> d)"

lemma health_status_exact_witness:
  "\<exists>resp w'. hs_Check demo_sql demo_health_server HealthCheckRequest (demo_hworld False) = (Inr resp, w')
     \<and> HealthCheckResponse_Status resp = HEALTH_STATUS_DEGRADED"
proof -
  obtain resp w' where r: "hs_Check demo_sql demo_health_server HealthCheckRequest (demo_hworld False) = (Inr resp, w')"
    by (simp add: hs_Check_def case_prod_beta Let_def)
  obtain rd w'' where d: "hs_Readiness demo_sql demo_health_server ReadinessRequest (demo_hworld False) = (Inr rd, w'')"
    by (simp add: hs_Readiness_def case_prod_beta Let_def)
  have "\<not> pg_up demo_sql u False" for u by (simp add: pg_up_def demo_sql_def)
  with health_status_exact [OF r d] r show ?thesis by (simp add: demo_hworld_def)
qed

lemma int32_uint_diff:
  fixes a b :: "32 word"
  shows "int32 (uint (a - b)) = int32 (uint a - uint b)"
proof -
  have "uint (a - b) = (uint a - uint b) mod 2 ^ 32" by (simp add: uint_word_ariths)
  then show ?thesis by (simp add: int32_def mod_simps)
qed

text \<open>The number of connected Redis clients is a difference of two pool counters taken in 32
  unsigned bits: when the pool shows more idle than total connections it wraps to a huge number, and
  the 32 signed bits of the reply turn that into the negative difference.  Whenever the counters are
  below two to the 31, the reply carries their exact signed difference.\<close>

lemma connected_clients_wrap:
  assumes "dbk_redisCache (hss_dbChecker s) = Some r" "fst (cache_Ping r (rw_redis w)) = None"
    and "cache_PoolStats r (snd (cache_Ping r (rw_redis w))) = stats"
    and "uint (ps_TotalConns stats) < 2 ^ 31" "uint (ps_IdleConns stats) < 2 ^ 31"
    and "hs_CheckRedis s req w = (Inr resp, w')"
  shows "RedisHealthResponse_ConnectedClients resp = uint (ps_TotalConns stats) - uint (ps_IdleConns stats)
    \<and> rdh_ConnectedClients (fst (CheckRedis (hss_dbChecker s) w)) =
        (uint (ps_TotalConns stats) - uint (ps_IdleConns stats)) mod 2 ^ 32"
proof -
  have c: "rdh_ConnectedClients (fst (CheckRedis (hss_dbChecker s) w)) = uint (ps_TotalConns stats - ps_IdleConns stats)"
    using assms(1-3) by (simp add: CheckRedis_def on_redis_def case_prod_beta Let_def world_simps)
  have "int32 (uint (ps_TotalConns stats) - uint (ps_IdleConns stats))
      = uint (ps_TotalConns stats) - uint (ps_IdleConns stats)"
    using assms(4,5) uint_ge_0 [of "ps_TotalConns stats"] uint_ge_0 [of "ps_IdleConns stats"]
    by (intro int32_id) linarith+
  moreover have "RedisHealthResponse_ConnectedClients resp = int32 (uint (ps_TotalConns stats - ps_IdleConns stats))"
    using assms(6) c by (auto simp: hs_CheckRedis_def case_prod_beta Let_def)
  ultimately have "RedisHealthResponse_ConnectedClients resp = uint (ps_TotalConns stats) - uint (ps_IdleConns stats)"
    by (simp only: int32_uint_diff)
  with c show ?thesis by (simp add: uint_word_ariths(2))
qed

definition idle_redis :: "unit redis_client" where
  "idle_redis = \<lparr>rd_Ping = \<lambda>s. (None, s), rd_Set = \<lambda>k v d s. (None, s), rd_Get = \<lambda>k s. (RNil, s),
     rd_Del = \<lambda>k s. (None, s), rd_Exists = \<lambda>k s. ((0, None), s), rd_Expire = \<lambda>k d s. (None, s),
     rd_Incr = \<lambda>k s. ((1, None), s), rd_IncrBy = \<lambda>k n s. ((n, None), s),
     rd_SetNX = \<lambda>k v d s. ((True, None), s), rd_TTL = \<lambda>k s. ((-1, None), s), rd_Keys = \<lambda>p s. (([], None), s),
     rd_FlushDB = \<lambda>s. (None, s), rd_Close = \<lambda>s. (None, s),
     rd_PoolStats = \<lambda>s. \<lparr>ps_Hits = 0, ps_Misses = 0, ps_Timeouts = 0, ps_TotalConns = 1, ps_IdleConns = 2,
       ps_StaleConns = 0\<rparr>\<rparr>"

lemma connected_clients_wrap_witness:
  "\<exists>resp w'. hs_CheckRedis (NewHealthServiceServer \<lparr>hck_dbChecker = \<lparr>dbk_postgresURL = [], dbk_redisCache = None\<rparr>,
       hck_startTime = 0, hck_version = []\<rparr> \<lparr>dbk_postgresURL = [], dbk_redisCache = Some \<lparr>rch_client = idle_redis\<rparr>\<rparr>)
     \<lparr>RedisHealthRequest_ConnectionName = []\<rparr>
     \<lparr>w_clock = int, w_tick = 0, w_files = Map.empty, w_faults = [], w_zap = [], rw_limiters = [] :: unit list,
      rw_redis = ()\<rparr> = (Inr resp, w') \<and> RedisHealthResponse_ConnectedClients resp = -1"
proof -
  let ?s = "NewHealthServiceServer \<lparr>hck_dbChecker = \<lparr>dbk_postgresURL = [], dbk_redisCache = None\<rparr>,
    hck_startTime = 0, hck_version = []\<rparr> \<lparr>dbk_postgresURL = [], dbk_redisCache = Some \<lparr>rch_client = idle_redis\<rparr>\<rparr>"
  let ?w = "\<lparr>w_clock = int, w_tick = 0, w_files = Map.empty, w_faults = [], w_zap = [], rw_limiters = [] :: unit list,
    rw_redis = ()\<rparr>"
  let ?req = "\<lparr>RedisHealthRequest_ConnectionName = []\<rparr>"
  let ?st = "\<lparr>ps_Hits = 0, ps_Misses = 0, ps_Timeouts = 0, ps_TotalConns = 1, ps_IdleConns = 2, ps_StaleConns = 0\<rparr>"
  have c: "dbk_redisCache (hss_dbChecker ?s) = Some \<lparr>rch_client = idle_redis\<rparr>"
    "fst (cache_Ping \<lparr>rch_client = idle_redis\<rparr> (rw_redis ?w)) = None"
    "cache_PoolStats \<lparr>rch_client = idle_redis\<rparr> (snd (cache_Ping \<lparr>rch_client = idle_redis\<rparr> (rw_redis ?w))) = ?st"
    by (simp_all add: NewHealthServiceServer_def cache_Ping_def cache_PoolStats_def idle_redis_def)
  have b: "uint (ps_TotalConns ?st) < 2 ^ 31" "uint (ps_IdleConns ?st) < 2 ^ 31" by simp_all
  obtain resp w' where r: "hs_CheckRedis ?s ?req ?w = (Inr resp, w')"
    by (simp add: hs_CheckRedis_def case_prod_beta Let_def)
  from connected_clients_wrap [OF c b r] r show ?thesis by simp
qed

end
