(* ===== verification/Docker.thy ===== *)
theory Docker
  imports GoRuntime Config AuditLog
begin

text \<open>
  Package \<open>internal/docker\<close> (manager.go).  The Docker SDK with the daemon behind it is a parameter
  (\<open>docker_ops\<close>), a record of the calls on a daemon state of any type; of the SDK's data types the
  model has the fields that the code reads.  Where Go ranges over a map, the list gives the order of
  one iteration.  Slicing out of range and nil pointers panic.
\<close>

subsection \<open>The SDK's data\<close>

record dk_port =
  dkp_PrivatePort :: int
  dkp_PublicPort :: int
  dkp_Type :: string

record dk_summary =
  dks_ID :: string
  dks_Names :: "string list"
  dks_Image :: string
  dks_State :: string
  dks_Status :: string
  dks_Created :: int
  dks_Ports :: "dk_port list"
  dks_Labels :: "string \<rightharpoonup> string"

text \<open>The bindings of a container port: its number and protocol, and the host ports.\<close>

record dk_binding =
  dkb_Int :: int
  dkb_Proto :: string
  dkb_HostPorts :: "string list"

text \<open>What the SDK reads through pointers may be missing (\<open>None\<close> is nil): of an inspected container the
  embedded base with its state, the configuration and the network settings.\<close>

record dk_base =
  dkj_ID :: string
  dkj_Name :: string
  dkj_Created :: string
  dkj_Status :: "string option"

record dk_inspect =
  dki_Base :: "dk_base option"
  dki_Ports :: "dk_binding list option"
  dki_Config :: "(string \<times> (string \<rightharpoonup> string)) option"

record dk_stats =
  dkt_TotalUsage :: "64 word"
  dkt_PreTotalUsage :: "64 word"
  dkt_SystemUsage :: "64 word"
  dkt_PreSystemUsage :: "64 word"
  dkt_PercpuUsage :: "64 word list"
  dkt_MemUsage :: "64 word"
  dkt_MemLimit :: "64 word"
  dkt_Networks :: "(64 word \<times> 64 word) list"
  dkt_Blkio :: "(string \<times> 64 word) list"

record dk_image =
  dkg_ID :: string
  dkg_RepoTags :: "string list"
  dkg_RepoDigests :: "string list"
  dkg_Created :: int
  dkg_Size :: int
  dkg_VirtualSize :: int
  dkg_Labels :: "string \<rightharpoonup> string"

record dk_network =
  dkn_ID :: string
  dkn_Name :: string
  dkn_Driver :: string
  dkn_Scope :: string
  dkn_Internal :: bool
  dkn_Attachable :: bool
  dkn_Labels :: "string \<rightharpoonup> string"

record dk_volume =
  dkv_Name :: string
  dkv_Driver :: string
  dkv_Mountpoint :: string
  dkv_CreatedAt :: string
  dkv_Scope :: string
  dkv_Labels :: "string \<rightharpoonup> string"

record dk_info =
  dkf_ServerVersion :: string
  dkf_OperatingSystem :: string
  dkf_Architecture :: string
  dkf_Containers :: int
  dkf_ContainersRunning :: int
  dkf_ContainersPaused :: int
  dkf_ContainersStopped :: int
  dkf_Images :: int
  dkf_Driver :: string
  dkf_MemTotal :: int

record dk_logs_options =
  dkl_ShowStdout :: bool
  dkl_ShowStderr :: bool
  dkl_Tail :: string
  dkl_Since :: string
  dkl_Timestamps :: bool

text \<open>Logs and statistics come as streams: what reading (and decoding) one to its end gives.  The volumes
  come as a slice of pointers, any of which may be nil.  The last field is \<open>time.Parse\<close> for RFC 3339, whose text formats are left to the library.\<close>

record 'd docker_ops =
  dk_NewClientWithOpts :: "string \<Rightarrow> string \<Rightarrow> duration \<Rightarrow> go_error option"
  dk_Close :: "'d \<Rightarrow> go_error option \<times> 'd"
  dk_ContainerList :: "bool \<Rightarrow> (string \<times> string) list \<Rightarrow> 'd \<Rightarrow> dk_summary list result \<times> 'd"
  dk_ContainerInspect :: "string \<Rightarrow> 'd \<Rightarrow> dk_inspect result \<times> 'd"
  dk_ContainerStart :: "string \<Rightarrow> 'd \<Rightarrow> go_error option \<times> 'd"
  dk_ContainerStop :: "string \<Rightarrow> int \<Rightarrow> 'd \<Rightarrow> go_error option \<times> 'd"
  dk_ContainerRestart :: "string \<Rightarrow> int \<Rightarrow> 'd \<Rightarrow> go_error option \<times> 'd"
  dk_ContainerLogs :: "string \<Rightarrow> dk_logs_options \<Rightarrow> 'd \<Rightarrow> string result result \<times> 'd"
  dk_ContainerStats :: "string \<Rightarrow> bool \<Rightarrow> 'd \<Rightarrow> dk_stats result result \<times> 'd"
  dk_ImageList :: "bool \<Rightarrow> 'd \<Rightarrow> dk_image list result \<times> 'd"
  dk_Info :: "'d \<Rightarrow> dk_info result \<times> 'd"
  dk_Ping :: "'d \<Rightarrow> go_error option \<times> 'd"
  dk_NetworkList :: "'d \<Rightarrow> dk_network list result \<times> 'd"
  dk_VolumeList :: "'d \<Rightarrow> dk_volume option list result \<times> 'd"
  dk_ParseTime :: "string \<Rightarrow> time option"

subsection \<open>The manager\<close>

record docker_Manager =
  dkm_audit :: "AuditLogger option"

definition docker_NewManager :: "'d docker_ops \<Rightarrow> DockerConfig \<Rightarrow> AuditLogger option \<Rightarrow> docker_Manager result" where
  "docker_NewManager D cfg auditLogger =
     (case dk_NewClientWithOpts D (dc_Host cfg) (dc_Version cfg) (dc_Timeout cfg) of
        Some e \<Rightarrow> Inl (WrapErr ''failed to create Docker client'' e)
      | None \<Rightarrow> Inr \<lparr>dkm_audit = auditLogger\<rparr>)"

definition docker_Close :: "'d docker_ops \<Rightarrow> 'd \<Rightarrow> go_error option \<times> 'd" where
  "docker_Close D d = dk_Close D d"

record PortBinding =
  pbd_PrivatePort :: int
  pbd_PublicPort :: int
  pbd_Type :: string

record ContainerInfo =
  cin_ID :: string
  cin_Name :: string
  cin_Image :: string
  cin_State :: string
  cin_Status :: string
  cin_Created :: int
  cin_Ports :: "PortBinding list"
  cin_Labels :: "string \<rightharpoonup> string"

record ContainerStats =
  cst_ID :: string
  cst_Name :: string
  cst_CPUPercent :: rat
  cst_MemoryUsage :: "64 word"
  cst_MemoryLimit :: "64 word"
  cst_MemoryPercent :: rat
  cst_NetworkRx :: "64 word"
  cst_NetworkTx :: "64 word"
  cst_BlockRead :: "64 word"
  cst_BlockWrite :: "64 word"

text \<open>The body of the loops over the containers of a listing: the name, the ports, then the short ID.\<close>

definition container_info :: "dk_summary \<Rightarrow> ContainerInfo outcome" where
  "container_info c =
     bind_outcome (case dks_Names c of [] \<Rightarrow> Returns [] | n # _ \<Rightarrow> slice_from n 1) (\<lambda>name.
       let ports = map (\<lambda>p. \<lparr>pbd_PrivatePort = dkp_PrivatePort p, pbd_PublicPort = dkp_PublicPort p,
             pbd_Type = dkp_Type p\<rparr>) (dks_Ports c)
       in bind_outcome (slice_to (dks_ID c) 12) (\<lambda>short.
            Returns \<lparr>cin_ID = short, cin_Name = name, cin_Image = dks_Image c, cin_State = dks_State c,
              cin_Status = dks_Status c, cin_Created = dks_Created c, cin_Ports = ports,
              cin_Labels = dks_Labels c\<rparr>))"

definition ListContainers :: "'d docker_ops \<Rightarrow> 'd \<Rightarrow> ContainerInfo list result outcome \<times> 'd" where
  "ListContainers D d = (let (res, d1) = dk_ContainerList D True [] d in
     case res of
       Inl e \<Rightarrow> (Returns (Inl (WrapErr ''failed to list containers'' e)), d1)
     | Inr cs \<Rightarrow> (bind_outcome (map_outcomes container_info cs) (\<lambda>r. Returns (Inr r)), d1))"

text \<open>\<open>fmt.Sscanf(s, "%d", &p)\<close> into a \<open>uint16\<close> that is zero: the leading digits, if they fit.\<close>

definition scan_uint16 :: "string \<Rightarrow> int" where
  "scan_uint16 s = (let t = dropWhile (\<lambda>c. c \<in> {CHR 0x20, CHR 0x09, CHR 0x0B, CHR 0x0C, CHR 0x0D}) s; ds = takeWhile is_digit t in
     if ds = [] then 0
     else case leadingInt 0 ds of Some (v, _) \<Rightarrow> if v < 2 ^ 16 then v else 0 | None \<Rightarrow> 0)"

definition inspect_ports :: "dk_binding list \<Rightarrow> PortBinding list" where
  "inspect_ports ps = concat (map (\<lambda>p. map (\<lambda>h.
     \<lparr>pbd_PrivatePort = uint16 (dkb_Int p), pbd_PublicPort = (if h \<noteq> [] then scan_uint16 h else 0),
      pbd_Type = dkb_Proto p\<rparr>) (dkb_HostPorts p)) ps)"

definition nil_panic :: string where
  "nil_panic = ''runtime error: invalid memory address or nil pointer dereference''"

definition deref :: "'a option \<Rightarrow> 'a outcome" where
  "deref x = (case x of None \<Rightarrow> Panics nil_panic | Some v \<Rightarrow> Returns v)"

definition GetContainer :: "'d docker_ops \<Rightarrow> string \<Rightarrow> 'd \<Rightarrow> ContainerInfo result outcome \<times> 'd" where
  "GetContainer D nameOrID d = (let (res, d1) = dk_ContainerInspect D nameOrID d in
     case res of
       Inl e \<Rightarrow> (Returns (Inl (WrapErr ''failed to inspect container'' e)), d1)
     | Inr inspect \<Rightarrow>
         (bind_outcome (deref (dki_Ports inspect)) (\<lambda>ps.
          bind_outcome (deref (dki_Base inspect)) (\<lambda>base.
            let ports = inspect_ports ps;
                createdUnix = (case dk_ParseTime D (dkj_Created base) of Some t \<Rightarrow> Unix t | None \<Rightarrow> 0)
            in bind_outcome (slice_to (dkj_ID base) 12) (\<lambda>short.
               bind_outcome (slice_from (dkj_Name base) 1) (\<lambda>name.
               bind_outcome (deref (dki_Config inspect)) (\<lambda>(img, labels).
               bind_outcome (deref (dkj_Status base)) (\<lambda>status.
                 Returns (Inr \<lparr>cin_ID = short, cin_Name = name, cin_Image = img, cin_State = status,
                   cin_Status = status, cin_Created = createdUnix, cin_Ports = ports, cin_Labels = labels\<rparr>))))))), d1))"

type_synonym ('d, 'z) docker_state = "'d \<times> 'z aworld_scheme"

text \<open>The audit entry of the three operations that change a container.\<close>

definition audit_container :: "docker_Manager \<Rightarrow> string \<Rightarrow> string \<Rightarrow> 'z aworld_scheme \<Rightarrow> 'z aworld_scheme" where
  "audit_container m action nameOrID w = (case dkm_audit m of
     None \<Rightarrow> w
   | Some a \<Rightarrow> (let (now, w1) = time_Now w in
       LogEvent a (zero_event\<lparr>ev_Timestamp := now, ev_Action := action, ev_Actor := ''gateway'',
         ev_Resource := nameOrID, ev_Success := True\<rparr>) w1))"

definition StartContainer :: "'d docker_ops \<Rightarrow> docker_Manager \<Rightarrow> string \<Rightarrow> ('d, 'z) docker_state \<Rightarrow>
    go_error option \<times> ('d, 'z) docker_state" where
  "StartContainer D m nameOrID st = (case st of (d, w) \<Rightarrow>
     (let (err, d1) = dk_ContainerStart D nameOrID d in
      case err of
        Some e \<Rightarrow> (Some (WrapErr ''failed to start container'' e), d1, w)
      | None \<Rightarrow> (None, d1, audit_container m ''docker_container_start'' nameOrID w)))"

definition StopContainer :: "'d docker_ops \<Rightarrow> docker_Manager \<Rightarrow> string \<Rightarrow> int \<Rightarrow> ('d, 'z) docker_state \<Rightarrow>
    go_error option \<times> ('d, 'z) docker_state" where
  "StopContainer D m nameOrID timeout st = (case st of (d, w) \<Rightarrow>
     (let stopTimeout = timeout; (err, d1) = dk_ContainerStop D nameOrID stopTimeout d in
      case err of
        Some e \<Rightarrow> (Some (WrapErr ''failed to stop container'' e), d1, w)
      | None \<Rightarrow> (None, d1, audit_container m ''docker_container_stop'' nameOrID w)))"

definition RestartContainer :: "'d docker_ops \<Rightarrow> docker_Manager \<Rightarrow> string \<Rightarrow> int \<Rightarrow> ('d, 'z) docker_state \<Rightarrow>
    go_error option \<times> ('d, 'z) docker_state" where
  "RestartContainer D m nameOrID timeout st = (case st of (d, w) \<Rightarrow>
     (let restartTimeout = timeout; (err, d1) = dk_ContainerRestart D nameOrID restartTimeout d in
      case err of
        Some e \<Rightarrow> (Some (WrapErr ''failed to restart container'' e), d1, w)
      | None \<Rightarrow> (None, d1, audit_container m ''docker_container_restart'' nameOrID w)))"

definition logs_options :: "string \<Rightarrow> string \<Rightarrow> dk_logs_options" where
  "logs_options tail since =
     (let options = \<lparr>dkl_ShowStdout = True, dkl_ShowStderr = True, dkl_Tail = tail, dkl_Since = [], dkl_Timestamps = True\<rparr>
      in if since \<noteq> [] then options\<lparr>dkl_Since := since\<rparr> else options)"

definition GetContainerLogs :: "'d docker_ops \<Rightarrow> string \<Rightarrow> string \<Rightarrow> string \<Rightarrow> 'd \<Rightarrow> string result \<times> 'd" where
  "GetContainerLogs D nameOrID tail since d =
     (let (res, d1) = dk_ContainerLogs D nameOrID (logs_options tail since) d in
      case res of
        Inl e \<Rightarrow> (Inl (WrapErr ''failed to get container logs'' e), d1)
      | Inr (Inl e) \<Rightarrow> (Inl (WrapErr ''failed to read logs'' e), d1)
      | Inr (Inr logBytes) \<Rightarrow> (Inr logBytes, d1))"

text \<open>The percentages, in float64, from counters of 64 unsigned bits that wrap around.\<close>

definition f64_of_u64 :: "64 word \<Rightarrow> rat" where
  "f64_of_u64 n = of_int (f64 (uint n))"

definition cpu_percent :: "dk_stats \<Rightarrow> rat" where
  "cpu_percent s = (if dkt_PreSystemUsage s \<noteq> 0 then
     let cpuDelta = f64_of_u64 (dkt_TotalUsage s - dkt_PreTotalUsage s);
         systemDelta = f64_of_u64 (dkt_SystemUsage s - dkt_PreSystemUsage s)
     in if systemDelta > 0
        then f64_rat (f64_rat (f64_rat (cpuDelta / systemDelta) * of_nat (length (dkt_PercpuUsage s))) * 100)
        else 0
   else 0)"

definition mem_percent :: "dk_stats \<Rightarrow> rat" where
  "mem_percent s = (if dkt_MemLimit s > 0
     then f64_rat (f64_rat (f64_of_u64 (dkt_MemUsage s) / f64_of_u64 (dkt_MemLimit s)) * 100) else 0)"

definition sum_networks :: "(64 word \<times> 64 word) list \<Rightarrow> 64 word \<times> 64 word" where
  "sum_networks ns = fold (\<lambda>(rx, tx) (a, b). (a + rx, b + tx)) ns (0, 0)"

definition sum_blkio :: "(string \<times> 64 word) list \<Rightarrow> 64 word \<times> 64 word" where
  "sum_blkio xs = fold (\<lambda>(op, v) (a, b). if op = ''read'' then (a + v, b)
     else if op = ''write'' then (a, b + v) else (a, b)) xs (0, 0)"

definition GetContainerStats :: "'d docker_ops \<Rightarrow> string \<Rightarrow> 'd \<Rightarrow> ContainerStats result outcome \<times> 'd" where
  "GetContainerStats D nameOrID d =
     (let (res, d1) = dk_ContainerStats D nameOrID False d in
      case res of
        Inl e \<Rightarrow> (Returns (Inl (WrapErr ''failed to get container stats'' e)), d1)
      | Inr (Inl e) \<Rightarrow> (Returns (Inl (WrapErr ''failed to decode stats'' e)), d1)
      | Inr (Inr s) \<Rightarrow>
          (let cpuPercent = cpu_percent s; memPercent = mem_percent s;
               (networkRx, networkTx) = sum_networks (dkt_Networks s);
               (blockRead, blockWrite) = sum_blkio (dkt_Blkio s);
               (ins, d2) = dk_ContainerInspect D nameOrID d1
           in case ins of
                Inl e \<Rightarrow> (Returns (Inl (WrapErr ''failed to inspect container'' e)), d2)
              | Inr inspect \<Rightarrow>
                  (bind_outcome (slice_to nameOrID 12) (\<lambda>short.
                   bind_outcome (deref (dki_Base inspect)) (\<lambda>base.
                   bind_outcome (slice_from (dkj_Name base) 1) (\<lambda>name.
                     Returns (Inr \<lparr>cst_ID = short, cst_Name = name, cst_CPUPercent = cpuPercent,
                       cst_MemoryUsage = dkt_MemUsage s, cst_MemoryLimit = dkt_MemLimit s,
                       cst_MemoryPercent = memPercent, cst_NetworkRx = networkRx, cst_NetworkTx = networkTx,
                       cst_BlockRead = blockRead, cst_BlockWrite = blockWrite\<rparr>)))), d2)))"

definition ListImages :: "'d docker_ops \<Rightarrow> 'd \<Rightarrow> dk_image list result \<times> 'd" where
  "ListImages D d = (let (res, d1) = dk_ImageList D True d in
     case res of Inl e \<Rightarrow> (Inl (WrapErr ''failed to list images'' e), d1) | Inr images \<Rightarrow> (Inr images, d1))"

definition GetSystemInfo :: "'d docker_ops \<Rightarrow> 'd \<Rightarrow> dk_info result \<times> 'd" where
  "GetSystemInfo D d = (let (res, d1) = dk_Info D d in
     case res of Inl e \<Rightarrow> (Inl (WrapErr ''failed to get system info'' e), d1) | Inr info \<Rightarrow> (Inr info, d1))"

definition docker_Ping :: "'d docker_ops \<Rightarrow> 'd \<Rightarrow> go_error option \<times> 'd" where
  "docker_Ping D d = dk_Ping D d"

definition ListNetworks :: "'d docker_ops \<Rightarrow> 'd \<Rightarrow> dk_network list result \<times> 'd" where
  "ListNetworks D d = (let (res, d1) = dk_NetworkList D d in
     case res of Inl e \<Rightarrow> (Inl (WrapErr ''failed to list networks'' e), d1) | Inr networks \<Rightarrow> (Inr networks, d1))"

definition ListVolumes :: "'d docker_ops \<Rightarrow> 'd \<Rightarrow> dk_volume option list result \<times> 'd" where
  "ListVolumes D d = (let (res, d1) = dk_VolumeList D d in
     case res of Inl e \<Rightarrow> (Inl (WrapErr ''failed to list volumes'' e), d1) | Inr volumes \<Rightarrow> (Inr volumes, d1))"

definition GetAquatiqServices :: "'d docker_ops \<Rightarrow> 'd \<Rightarrow> ContainerInfo list result outcome \<times> 'd" where
  "GetAquatiqServices D d = (let (res, d1) = dk_ContainerList D True [(''name'', ''aquatiq-'')] d in
     case res of
       Inl e \<Rightarrow> (Returns (Inl (WrapErr ''failed to list Aquatiq services'' e)), d1)
     | Inr cs \<Rightarrow> (bind_outcome (map_outcomes container_info cs) (\<lambda>r. Returns (Inr r)), d1))"

end
