(* ===== verification/ProtoDocker.thy ===== *)
theory ProtoDocker
  imports Complex_Main Prelude
begin

text \<open>
  The messages of \<open>api/proto/docker/v1\<close> (docker.pb.go) as the generated Go code has them: a record per
  message without its bookkeeping fields, its zero value (\<open>Reset\<close>), and the view its getters take of a
  pointer: the getter of a field \<open>F\<close> is the selector of \<open>F\<close> after \<open>get_\<close>, so that a nil message shows
  zero values.  A timestamp message is kept as the instant it encodes.  A \<open>double\<close> is a rational.
\<close>

subsection \<open>The messages\<close>

record pb_ListContainersRequest =
  ListContainersRequest_All :: bool
  ListContainersRequest_Filters :: "string \<rightharpoonup> string"

definition zero_ListContainersRequest :: pb_ListContainersRequest where
  "zero_ListContainersRequest = \<lparr>ListContainersRequest_All = False, ListContainersRequest_Filters = Map.empty\<rparr>"

definition get_ListContainersRequest :: "pb_ListContainersRequest option \<Rightarrow> pb_ListContainersRequest" where
  "get_ListContainersRequest x = (case x of None \<Rightarrow> zero_ListContainersRequest | Some m \<Rightarrow> m)"

record pb_PortBinding =
  PortBinding_PrivatePort :: int
  PortBinding_PublicPort :: int
  PortBinding_Type :: string
  PortBinding_Ip :: string

definition zero_PortBinding :: pb_PortBinding where
  "zero_PortBinding = \<lparr>PortBinding_PrivatePort = 0, PortBinding_PublicPort = 0, PortBinding_Type = [],
     PortBinding_Ip = []\<rparr>"

definition get_PortBinding :: "pb_PortBinding option \<Rightarrow> pb_PortBinding" where
  "get_PortBinding x = (case x of None \<Rightarrow> zero_PortBinding | Some m \<Rightarrow> m)"

record pb_ContainerInfo =
  ContainerInfo_Id :: string
  ContainerInfo_Names :: "string list"
  ContainerInfo_Image :: string
  ContainerInfo_ImageId :: string
  ContainerInfo_Command :: string
  ContainerInfo_Created :: "time option"
  ContainerInfo_State :: string
  ContainerInfo_Status :: string
  ContainerInfo_Ports :: "pb_PortBinding list"
  ContainerInfo_Labels :: "string \<rightharpoonup> string"
  ContainerInfo_SizeRw :: int
  ContainerInfo_SizeRootFs :: int

definition zero_ContainerInfo :: pb_ContainerInfo where
  "zero_ContainerInfo = \<lparr>ContainerInfo_Id = [], ContainerInfo_Names = [], ContainerInfo_Image = [],
     ContainerInfo_ImageId = [], ContainerInfo_Command = [], ContainerInfo_Created = None,
     ContainerInfo_State = [], ContainerInfo_Status = [], ContainerInfo_Ports = [],
     ContainerInfo_Labels = Map.empty, ContainerInfo_SizeRw = 0, ContainerInfo_SizeRootFs = 0\<rparr>"

definition get_ContainerInfo :: "pb_ContainerInfo option \<Rightarrow> pb_ContainerInfo" where
  "get_ContainerInfo x = (case x of None \<Rightarrow> zero_ContainerInfo | Some m \<Rightarrow> m)"

record pb_ListContainersResponse =
  ListContainersResponse_Containers :: "pb_ContainerInfo list"

definition zero_ListContainersResponse :: pb_ListContainersResponse where
  "zero_ListContainersResponse = \<lparr>ListContainersResponse_Containers = []\<rparr>"

definition get_ListContainersResponse :: "pb_ListContainersResponse option \<Rightarrow> pb_ListContainersResponse" where
  "get_ListContainersResponse x = (case x of None \<Rightarrow> zero_ListContainersResponse | Some m \<Rightarrow> m)"

record pb_GetContainerRequest =
  GetContainerRequest_ContainerId :: string

definition zero_GetContainerRequest :: pb_GetContainerRequest where
  "zero_GetContainerRequest = \<lparr>GetContainerRequest_ContainerId = []\<rparr>"

definition get_GetContainerRequest :: "pb_GetContainerRequest option \<Rightarrow> pb_GetContainerRequest" where
  "get_GetContainerRequest x = (case x of None \<Rightarrow> zero_GetContainerRequest | Some m \<Rightarrow> m)"

record pb_GetContainerResponse =
  GetContainerResponse_Container :: "pb_ContainerInfo option"

definition zero_GetContainerResponse :: pb_GetContainerResponse where
  "zero_GetContainerResponse = \<lparr>GetContainerResponse_Container = None\<rparr>"

definition get_GetContainerResponse :: "pb_GetContainerResponse option \<Rightarrow> pb_GetContainerResponse" where
  "get_GetContainerResponse x = (case x of None \<Rightarrow> zero_GetContainerResponse | Some m \<Rightarrow> m)"

record pb_StartContainerRequest =
  StartContainerRequest_ContainerId :: string

definition zero_StartContainerRequest :: pb_StartContainerRequest where
  "zero_StartContainerRequest = \<lparr>StartContainerRequest_ContainerId = []\<rparr>"

definition get_StartContainerRequest :: "pb_StartContainerRequest option \<Rightarrow> pb_StartContainerRequest" where
  "get_StartContainerRequest x = (case x of None \<Rightarrow> zero_StartContainerRequest | Some m \<Rightarrow> m)"

record pb_StartContainerResponse =
  StartContainerResponse_Success :: bool
  StartContainerResponse_Message :: string

definition zero_StartContainerResponse :: pb_StartContainerResponse where
  "zero_StartContainerResponse = \<lparr>StartContainerResponse_Success = False, StartContainerResponse_Message = []\<rparr>"

definition get_StartContainerResponse :: "pb_StartContainerResponse option \<Rightarrow> pb_StartContainerResponse" where
  "get_StartContainerResponse x = (case x of None \<Rightarrow> zero_StartContainerResponse | Some m \<Rightarrow> m)"

record pb_StopContainerRequest =
  StopContainerRequest_ContainerId :: string
  StopContainerRequest_TimeoutSeconds :: int

definition zero_StopContainerRequest :: pb_StopContainerRequest where
  "zero_StopContainerRequest = \<lparr>StopContainerRequest_ContainerId = [], StopContainerRequest_TimeoutSeconds = 0\<rparr>"

definition get_StopContainerRequest :: "pb_StopContainerRequest option \<Rightarrow> pb_StopContainerRequest" where
  "get_StopContainerRequest x = (case x of None \<Rightarrow> zero_StopContainerRequest | Some m \<Rightarrow> m)"

record pb_StopContainerResponse =
  StopContainerResponse_Success :: bool
  StopContainerResponse_Message :: string

definition zero_StopContainerResponse :: pb_StopContainerResponse where
  "zero_StopContainerResponse = \<lparr>StopContainerResponse_Success = False, StopContainerResponse_Message = []\<rparr>"

definition get_StopContainerResponse :: "pb_StopContainerResponse option \<Rightarrow> pb_StopContainerResponse" where
  "get_StopContainerResponse x = (case x of None \<Rightarrow> zero_StopContainerResponse | Some m \<Rightarrow> m)"

record pb_RestartContainerRequest =
  RestartContainerRequest_ContainerId :: string
  RestartContainerRequest_TimeoutSeconds :: int

definition zero_RestartContainerRequest :: pb_RestartContainerRequest where
  "zero_RestartContainerRequest = \<lparr>RestartContainerRequest_ContainerId = [], RestartContainerRequest_TimeoutSeconds = 0\<rparr>"

definition get_RestartContainerRequest :: "pb_RestartContainerRequest option \<Rightarrow> pb_RestartContainerRequest" where
  "get_RestartContainerRequest x = (case x of None \<Rightarrow> zero_RestartContainerRequest | Some m \<Rightarrow> m)"

record pb_RestartContainerResponse =
  RestartContainerResponse_Success :: bool
  RestartContainerResponse_Message :: string

definition zero_RestartContainerResponse :: pb_RestartContainerResponse where
  "zero_RestartContainerResponse = \<lparr>RestartContainerResponse_Success = False, RestartContainerResponse_Message = []\<rparr>"

definition get_RestartContainerResponse :: "pb_RestartContainerResponse option \<Rightarrow> pb_RestartContainerResponse" where
  "get_RestartContainerResponse x = (case x of None \<Rightarrow> zero_RestartContainerResponse | Some m \<Rightarrow> m)"

record pb_GetContainerLogsRequest =
  GetContainerLogsRequest_ContainerId :: string
  GetContainerLogsRequest_Tail :: int
  GetContainerLogsRequest_SinceUnix :: int
  GetContainerLogsRequest_Follow :: bool

definition zero_GetContainerLogsRequest :: pb_GetContainerLogsRequest where
  "zero_GetContainerLogsRequest = \<lparr>GetContainerLogsRequest_ContainerId = [], GetContainerLogsRequest_Tail = 0,
     GetContainerLogsRequest_SinceUnix = 0, GetContainerLogsRequest_Follow = False\<rparr>"

definition get_GetContainerLogsRequest :: "pb_GetContainerLogsRequest option \<Rightarrow> pb_GetContainerLogsRequest" where
  "get_GetContainerLogsRequest x = (case x of None \<Rightarrow> zero_GetContainerLogsRequest | Some m \<Rightarrow> m)"

record pb_GetContainerLogsResponse =
  GetContainerLogsResponse_Logs :: string

definition zero_GetContainerLogsResponse :: pb_GetContainerLogsResponse where
  "zero_GetContainerLogsResponse = \<lparr>GetContainerLogsResponse_Logs = []\<rparr>"

definition get_GetContainerLogsResponse :: "pb_GetContainerLogsResponse option \<Rightarrow> pb_GetContainerLogsResponse" where
  "get_GetContainerLogsResponse x = (case x of None \<Rightarrow> zero_GetContainerLogsResponse | Some m \<Rightarrow> m)"

record pb_GetContainerStatsRequest =
  GetContainerStatsRequest_ContainerId :: string

definition zero_GetContainerStatsRequest :: pb_GetContainerStatsRequest where
  "zero_GetContainerStatsRequest = \<lparr>GetContainerStatsRequest_ContainerId = []\<rparr>"

definition get_GetContainerStatsRequest :: "pb_GetContainerStatsRequest option \<Rightarrow> pb_GetContainerStatsRequest" where
  "get_GetContainerStatsRequest x = (case x of None \<Rightarrow> zero_GetContainerStatsRequest | Some m \<Rightarrow> m)"

record pb_ContainerStats =
  ContainerStats_ContainerId :: string
  ContainerStats_Name :: string
  ContainerStats_CpuPercentage :: rat
  ContainerStats_MemoryUsage :: int
  ContainerStats_MemoryLimit :: int
  ContainerStats_MemoryPercentage :: rat
  ContainerStats_NetworkRx :: int
  ContainerStats_NetworkTx :: int
  ContainerStats_BlockRead :: int
  ContainerStats_BlockWrite :: int
  ContainerStats_Pids :: int

definition zero_ContainerStats :: pb_ContainerStats where
  "zero_ContainerStats = \<lparr>ContainerStats_ContainerId = [], ContainerStats_Name = [],
     ContainerStats_CpuPercentage = 0, ContainerStats_MemoryUsage = 0,
     ContainerStats_MemoryLimit = 0, ContainerStats_MemoryPercentage = 0,
     ContainerStats_NetworkRx = 0, ContainerStats_NetworkTx = 0, ContainerStats_BlockRead = 0,
     ContainerStats_BlockWrite = 0, ContainerStats_Pids = 0\<rparr>"

definition get_ContainerStats :: "pb_ContainerStats option \<Rightarrow> pb_ContainerStats" where
  "get_ContainerStats x = (case x of None \<Rightarrow> zero_ContainerStats | Some m \<Rightarrow> m)"

record pb_GetContainerStatsResponse =
  GetContainerStatsResponse_Stats :: "pb_ContainerStats option"

definition zero_GetContainerStatsResponse :: pb_GetContainerStatsResponse where
  "zero_GetContainerStatsResponse = \<lparr>GetContainerStatsResponse_Stats = None\<rparr>"

definition get_GetContainerStatsResponse :: "pb_GetContainerStatsResponse option \<Rightarrow> pb_GetContainerStatsResponse" where
  "get_GetContainerStatsResponse x = (case x of None \<Rightarrow> zero_GetContainerStatsResponse | Some m \<Rightarrow> m)"

record pb_ListImagesRequest =
  ListImagesRequest_All :: bool

definition zero_ListImagesRequest :: pb_ListImagesRequest where
  "zero_ListImagesRequest = \<lparr>ListImagesRequest_All = False\<rparr>"

definition get_ListImagesRequest :: "pb_ListImagesRequest option \<Rightarrow> pb_ListImagesRequest" where
  "get_ListImagesRequest x = (case x of None \<Rightarrow> zero_ListImagesRequest | Some m \<Rightarrow> m)"

record pb_ImageInfo =
  ImageInfo_Id :: string
  ImageInfo_RepoTags :: "string list"
  ImageInfo_RepoDigests :: "string list"
  ImageInfo_Created :: "time option"
  ImageInfo_Size :: int
  ImageInfo_VirtualSize :: int
  ImageInfo_Labels :: "string \<rightharpoonup> string"

definition zero_ImageInfo :: pb_ImageInfo where
  "zero_ImageInfo = \<lparr>ImageInfo_Id = [], ImageInfo_RepoTags = [], ImageInfo_RepoDigests = [],
     ImageInfo_Created = None, ImageInfo_Size = 0, ImageInfo_VirtualSize = 0,
     ImageInfo_Labels = Map.empty\<rparr>"

definition get_ImageInfo :: "pb_ImageInfo option \<Rightarrow> pb_ImageInfo" where
  "get_ImageInfo x = (case x of None \<Rightarrow> zero_ImageInfo | Some m \<Rightarrow> m)"

record pb_ListImagesResponse =
  ListImagesResponse_Images :: "pb_ImageInfo list"

definition zero_ListImagesResponse :: pb_ListImagesResponse where
  "zero_ListImagesResponse = \<lparr>ListImagesResponse_Images = []\<rparr>"

definition get_ListImagesResponse :: "pb_ListImagesResponse option \<Rightarrow> pb_ListImagesResponse" where
  "get_ListImagesResponse x = (case x of None \<Rightarrow> zero_ListImagesResponse | Some m \<Rightarrow> m)"

record pb_ListNetworksRequest =
  ListNetworksRequest_Filters :: "string \<rightharpoonup> string"

definition zero_ListNetworksRequest :: pb_ListNetworksRequest where
  "zero_ListNetworksRequest = \<lparr>ListNetworksRequest_Filters = Map.empty\<rparr>"

definition get_ListNetworksRequest :: "pb_ListNetworksRequest option \<Rightarrow> pb_ListNetworksRequest" where
  "get_ListNetworksRequest x = (case x of None \<Rightarrow> zero_ListNetworksRequest | Some m \<Rightarrow> m)"

record pb_NetworkInfo =
  NetworkInfo_Id :: string
  NetworkInfo_Name :: string
  NetworkInfo_Driver :: string
  NetworkInfo_Scope :: string
  NetworkInfo_Internal :: bool
  NetworkInfo_Attachable :: bool
  NetworkInfo_Labels :: "string \<rightharpoonup> string"

definition zero_NetworkInfo :: pb_NetworkInfo where
  "zero_NetworkInfo = \<lparr>NetworkInfo_Id = [], NetworkInfo_Name = [], NetworkInfo_Driver = [],
     NetworkInfo_Scope = [], NetworkInfo_Internal = False, NetworkInfo_Attachable = False,
     NetworkInfo_Labels = Map.empty\<rparr>"

definition get_NetworkInfo :: "pb_NetworkInfo option \<Rightarrow> pb_NetworkInfo" where
  "get_NetworkInfo x = (case x of None \<Rightarrow> zero_NetworkInfo | Some m \<Rightarrow> m)"

record pb_ListNetworksResponse =
  ListNetworksResponse_Networks :: "pb_NetworkInfo list"

definition zero_ListNetworksResponse :: pb_ListNetworksResponse where
  "zero_ListNetworksResponse = \<lparr>ListNetworksResponse_Networks = []\<rparr>"

definition get_ListNetworksResponse :: "pb_ListNetworksResponse option \<Rightarrow> pb_ListNetworksResponse" where
  "get_ListNetworksResponse x = (case x of None \<Rightarrow> zero_ListNetworksResponse | Some m \<Rightarrow> m)"

record pb_ListVolumesRequest =
  ListVolumesRequest_Filters :: "string \<rightharpoonup> string"

definition zero_ListVolumesRequest :: pb_ListVolumesRequest where
  "zero_ListVolumesRequest = \<lparr>ListVolumesRequest_Filters = Map.empty\<rparr>"

definition get_ListVolumesRequest :: "pb_ListVolumesRequest option \<Rightarrow> pb_ListVolumesRequest" where
  "get_ListVolumesRequest x = (case x of None \<Rightarrow> zero_ListVolumesRequest | Some m \<Rightarrow> m)"

record pb_VolumeInfo =
  VolumeInfo_Name :: string
  VolumeInfo_Driver :: string
  VolumeInfo_Mountpoint :: string
  VolumeInfo_Created :: "time option"
  VolumeInfo_Scope :: string
  VolumeInfo_Labels :: "string \<rightharpoonup> string"

definition zero_VolumeInfo :: pb_VolumeInfo where
  "zero_VolumeInfo = \<lparr>VolumeInfo_Name = [], VolumeInfo_Driver = [], VolumeInfo_Mountpoint = [],
     VolumeInfo_Created = None, VolumeInfo_Scope = [], VolumeInfo_Labels = Map.empty\<rparr>"

definition get_VolumeInfo :: "pb_VolumeInfo option \<Rightarrow> pb_VolumeInfo" where
  "get_VolumeInfo x = (case x of None \<Rightarrow> zero_VolumeInfo | Some m \<Rightarrow> m)"

record pb_ListVolumesResponse =
  ListVolumesResponse_Volumes :: "pb_VolumeInfo list"

definition zero_ListVolumesResponse :: pb_ListVolumesResponse where
  "zero_ListVolumesResponse = \<lparr>ListVolumesResponse_Volumes = []\<rparr>"

definition get_ListVolumesResponse :: "pb_ListVolumesResponse option \<Rightarrow> pb_ListVolumesResponse" where
  "get_ListVolumesResponse x = (case x of None \<Rightarrow> zero_ListVolumesResponse | Some m \<Rightarrow> m)"

datatype pb_GetSystemInfoRequest = GetSystemInfoRequest

record pb_GetSystemInfoResponse =
  GetSystemInfoResponse_Version :: string
  GetSystemInfoResponse_ApiVersion :: string
  GetSystemInfoResponse_Os :: string
  GetSystemInfoResponse_Architecture :: string
  GetSystemInfoResponse_Containers :: int
  GetSystemInfoResponse_ContainersRunning :: int
  GetSystemInfoResponse_ContainersPaused :: int
  GetSystemInfoResponse_ContainersStopped :: int
  GetSystemInfoResponse_Images :: int
  GetSystemInfoResponse_Driver :: string
  GetSystemInfoResponse_MemoryTotal :: int

definition zero_GetSystemInfoResponse :: pb_GetSystemInfoResponse where
  "zero_GetSystemInfoResponse = \<lparr>GetSystemInfoResponse_Version = [], GetSystemInfoResponse_ApiVersion = [],
     GetSystemInfoResponse_Os = [], GetSystemInfoResponse_Architecture = [],
     GetSystemInfoResponse_Containers = 0, GetSystemInfoResponse_ContainersRunning = 0,
     GetSystemInfoResponse_ContainersPaused = 0, GetSystemInfoResponse_ContainersStopped = 0,
     GetSystemInfoResponse_Images = 0, GetSystemInfoResponse_Driver = [],
     GetSystemInfoResponse_MemoryTotal = 0\<rparr>"

definition get_GetSystemInfoResponse :: "pb_GetSystemInfoResponse option \<Rightarrow> pb_GetSystemInfoResponse" where
  "get_GetSystemInfoResponse x = (case x of None \<Rightarrow> zero_GetSystemInfoResponse | Some m \<Rightarrow> m)"

datatype pb_GetAquatiqServicesRequest = GetAquatiqServicesRequest

record pb_GetAquatiqServicesResponse =
  GetAquatiqServicesResponse_Services :: "pb_ContainerInfo list"

definition zero_GetAquatiqServicesResponse :: pb_GetAquatiqServicesResponse where
  "zero_GetAquatiqServicesResponse = \<lparr>GetAquatiqServicesResponse_Services = []\<rparr>"

definition get_GetAquatiqServicesResponse :: "pb_GetAquatiqServicesResponse option \<Rightarrow> pb_GetAquatiqServicesResponse" where
  "get_GetAquatiqServicesResponse x = (case x of None \<Rightarrow> zero_GetAquatiqServicesResponse | Some m \<Rightarrow> m)"

end
