(* ===== verification/GrpcDocker.thy ===== *)
theory GrpcDocker
  imports Docker GrpcReport ProtoDocker
begin

text \<open>
  The gRPC service of Docker (\<open>internal/grpc/docker_service.go\<close>).  A method takes the request and the
  state of the daemon (with the world where it logs) and gives a response or an error; the methods
  that convert names and identifiers or follow pointers of the SDK may panic.
\<close>

record DockerServiceServer =
  dsv_manager :: docker_Manager

definition NewDockerServiceServer :: "docker_Manager \<Rightarrow> DockerServiceServer" where
  "NewDockerServiceServer manager = \<lparr>dsv_manager = manager\<rparr>"

text \<open>\<open>time.Unix(s, 0)\<close>, and the zero time, which \<open>time.Parse\<close> returns with an error.\<close>

definition time_Unix :: "int \<Rightarrow> time" where
  "time_Unix s = s * Second"

definition zero_time :: time where
  "zero_time = -62135596800 * Second"

definition convertToProtoContainerInfo :: "ContainerInfo \<Rightarrow> pb_ContainerInfo" where
  "convertToProtoContainerInfo c =
     (let ports = map (\<lambda>p. \<lparr>PortBinding_PrivatePort = int32 (pbd_PrivatePort p),
            PortBinding_PublicPort = int32 (pbd_PublicPort p), PortBinding_Type = pbd_Type p, PortBinding_Ip = []\<rparr>)
            (cin_Ports c);
          created = time_Unix (cin_Created c)
      in zero_ContainerInfo\<lparr>ContainerInfo_Id := cin_ID c, ContainerInfo_Names := [cin_Name c],
           ContainerInfo_Image := cin_Image c, ContainerInfo_ImageId := [], ContainerInfo_Command := [],
           ContainerInfo_Created := Some created, ContainerInfo_State := cin_State c,
           ContainerInfo_Status := cin_Status c, ContainerInfo_Ports := ports,
           ContainerInfo_Labels := cin_Labels c\<rparr>)"

definition convertToProtoContainerStats :: "ContainerStats \<Rightarrow> pb_ContainerStats" where
  "convertToProtoContainerStats s = \<lparr>ContainerStats_ContainerId = cst_ID s, ContainerStats_Name = cst_Name s,
     ContainerStats_CpuPercentage = cst_CPUPercent s, ContainerStats_MemoryUsage = int64 (uint (cst_MemoryUsage s)),
     ContainerStats_MemoryLimit = int64 (uint (cst_MemoryLimit s)), ContainerStats_MemoryPercentage = cst_MemoryPercent s,
     ContainerStats_NetworkRx = int64 (uint (cst_NetworkRx s)), ContainerStats_NetworkTx = int64 (uint (cst_NetworkTx s)),
     ContainerStats_BlockRead = int64 (uint (cst_BlockRead s)), ContainerStats_BlockWrite = int64 (uint (cst_BlockWrite s)),
     ContainerStats_Pids = 0\<rparr>"

definition ds_ListContainers :: "'d docker_ops \<Rightarrow> pb_ListContainersRequest \<Rightarrow> 'd \<Rightarrow>
    pb_ListContainersResponse result outcome \<times> 'd" where
  "ds_ListContainers D req d = (let (out, d1) = ListContainers D d in
     (bind_outcome out (\<lambda>res. Returns (case res of Inl e \<Rightarrow> Inl e
        | Inr cs \<Rightarrow> Inr \<lparr>ListContainersResponse_Containers = map convertToProtoContainerInfo cs\<rparr>)), d1))"

definition ds_GetContainer :: "'d docker_ops \<Rightarrow> pb_GetContainerRequest \<Rightarrow> 'd \<Rightarrow>
    pb_GetContainerResponse result outcome \<times> 'd" where
  "ds_GetContainer D req d = (let (out, d1) = GetContainer D (GetContainerRequest_ContainerId req) d in
     (bind_outcome out (\<lambda>res. Returns (case res of Inl e \<Rightarrow> Inl e
        | Inr c \<Rightarrow> Inr \<lparr>GetContainerResponse_Container = Some (convertToProtoContainerInfo c)\<rparr>)), d1))"

definition ds_StartContainer :: "'d docker_ops \<Rightarrow> DockerServiceServer \<Rightarrow> pb_StartContainerRequest \<Rightarrow>
    ('d, 'z) docker_state \<Rightarrow> pb_StartContainerResponse result \<times> ('d, 'z) docker_state" where
  "ds_StartContainer D s req st =
     (let (err, st1) = StartContainer D (dsv_manager s) (StartContainerRequest_ContainerId req) st in
      case err of
        Some e \<Rightarrow> (Inr \<lparr>StartContainerResponse_Success = False, StartContainerResponse_Message = Error e\<rparr>, st1)
      | None \<Rightarrow> (Inr \<lparr>StartContainerResponse_Success = True, StartContainerResponse_Message =
          ''Container '' @ StartContainerRequest_ContainerId req @ '' started successfully''\<rparr>, st1))"

definition ds_StopContainer :: "'d docker_ops \<Rightarrow> DockerServiceServer \<Rightarrow> pb_StopContainerRequest \<Rightarrow>
    ('d, 'z) docker_state \<Rightarrow> pb_StopContainerResponse result \<times> ('d, 'z) docker_state" where
  "ds_StopContainer D s req st =
     (let timeout0 = StopContainerRequest_TimeoutSeconds req; timeout = (if timeout0 = 0 then 10 else timeout0);
          (err, st1) = StopContainer D (dsv_manager s) (StopContainerRequest_ContainerId req) timeout st
      in case err of
        Some e \<Rightarrow> (Inr \<lparr>StopContainerResponse_Success = False, StopContainerResponse_Message = Error e\<rparr>, st1)
      | None \<Rightarrow> (Inr \<lparr>StopContainerResponse_Success = True, StopContainerResponse_Message =
          ''Container '' @ StopContainerRequest_ContainerId req @ '' stopped successfully''\<rparr>, st1))"

definition ds_RestartContainer :: "'d docker_ops \<Rightarrow> DockerServiceServer \<Rightarrow> pb_RestartContainerRequest \<Rightarrow>
    ('d, 'z) docker_state \<Rightarrow> pb_RestartContainerResponse result \<times> ('d, 'z) docker_state" where
  "ds_RestartContainer D s req st =
     (let timeout0 = RestartContainerRequest_TimeoutSeconds req; timeout = (if timeout0 = 0 then 10 else timeout0);
          (err, st1) = RestartContainer D (dsv_manager s) (RestartContainerRequest_ContainerId req) timeout st
      in case err of
        Some e \<Rightarrow> (Inr \<lparr>RestartContainerResponse_Success = False, RestartContainerResponse_Message = Error e\<rparr>, st1)
      | None \<Rightarrow> (Inr \<lparr>RestartContainerResponse_Success = True, RestartContainerResponse_Message =
          ''Container '' @ RestartContainerRequest_ContainerId req @ '' restarted successfully''\<rparr>, st1))"

definition ds_GetContainerLogs :: "'d docker_ops \<Rightarrow> pb_GetContainerLogsRequest \<Rightarrow> 'd \<Rightarrow>
    pb_GetContainerLogsResponse result \<times> 'd" where
  "ds_GetContainerLogs D req d =
     (let tail = fmt_d (GetContainerLogsRequest_Tail req); since = fmt_d (GetContainerLogsRequest_SinceUnix req);
          (res, d1) = GetContainerLogs D (GetContainerLogsRequest_ContainerId req) tail since d
      in case res of Inl e \<Rightarrow> (Inl e, d1) | Inr logs \<Rightarrow> (Inr \<lparr>GetContainerLogsResponse_Logs = logs\<rparr>, d1))"

definition ds_GetContainerStats :: "'d docker_ops \<Rightarrow> pb_GetContainerStatsRequest \<Rightarrow> 'd \<Rightarrow>
    pb_GetContainerStatsResponse result outcome \<times> 'd" where
  "ds_GetContainerStats D req d = (let (out, d1) = GetContainerStats D (GetContainerStatsRequest_ContainerId req) d in
     (bind_outcome out (\<lambda>res. Returns (case res of Inl e \<Rightarrow> Inl e
        | Inr s \<Rightarrow> Inr \<lparr>GetContainerStatsResponse_Stats = Some (convertToProtoContainerStats s)\<rparr>)), d1))"

definition ds_ListImages :: "'d docker_ops \<Rightarrow> pb_ListImagesRequest \<Rightarrow> 'd \<Rightarrow> pb_ListImagesResponse result \<times> 'd" where
  "ds_ListImages D req d = (let (res, d1) = ListImages D d in
     case res of Inl e \<Rightarrow> (Inl e, d1)
     | Inr images \<Rightarrow> (Inr \<lparr>ListImagesResponse_Images = map (\<lambda>img. \<lparr>ImageInfo_Id = dkg_ID img,
         ImageInfo_RepoTags = dkg_RepoTags img, ImageInfo_RepoDigests = dkg_RepoDigests img,
         ImageInfo_Created = Some (time_Unix (dkg_Created img)), ImageInfo_Size = dkg_Size img,
         ImageInfo_VirtualSize = dkg_VirtualSize img, ImageInfo_Labels = dkg_Labels img\<rparr>) images\<rparr>, d1))"

definition ds_ListNetworks :: "'d docker_ops \<Rightarrow> pb_ListNetworksRequest \<Rightarrow> 'd \<Rightarrow> pb_ListNetworksResponse result \<times> 'd" where
  "ds_ListNetworks D req d = (let (res, d1) = ListNetworks D d in
     case res of Inl e \<Rightarrow> (Inl e, d1)
     | Inr networks \<Rightarrow> (Inr \<lparr>ListNetworksResponse_Networks = map (\<lambda>net. \<lparr>NetworkInfo_Id = dkn_ID net,
         NetworkInfo_Name = dkn_Name net, NetworkInfo_Driver = dkn_Driver net, NetworkInfo_Scope = dkn_Scope net,
         NetworkInfo_Internal = dkn_Internal net, NetworkInfo_Attachable = dkn_Attachable net,
         NetworkInfo_Labels = dkn_Labels net\<rparr>) networks\<rparr>, d1))"

text \<open>The body of the loop over the volumes, which follows every pointer of the slice.\<close>

definition volume_info :: "'d docker_ops \<Rightarrow> dk_volume option \<Rightarrow> pb_VolumeInfo outcome" where
  "volume_info D p = bind_outcome (deref p) (\<lambda>vol.
     let created = (case dk_ParseTime D (dkv_CreatedAt vol) of Some t \<Rightarrow> t | None \<Rightarrow> zero_time) in
     Returns \<lparr>VolumeInfo_Name = dkv_Name vol, VolumeInfo_Driver = dkv_Driver vol, VolumeInfo_Mountpoint = dkv_Mountpoint vol,
       VolumeInfo_Created = Some created, VolumeInfo_Scope = dkv_Scope vol, VolumeInfo_Labels = dkv_Labels vol\<rparr>)"

definition ds_ListVolumes :: "'d docker_ops \<Rightarrow> pb_ListVolumesRequest \<Rightarrow> 'd \<Rightarrow>
    pb_ListVolumesResponse result outcome \<times> 'd" where
  "ds_ListVolumes D req d = (let (res, d1) = ListVolumes D d in
     case res of
       Inl e \<Rightarrow> (Returns (Inl e), d1)
     | Inr volumes \<Rightarrow> (bind_outcome (map_outcomes (volume_info D) volumes)
         (\<lambda>r. Returns (Inr \<lparr>ListVolumesResponse_Volumes = r\<rparr>)), d1))"

definition ds_GetSystemInfo :: "'d docker_ops \<Rightarrow> pb_GetSystemInfoRequest \<Rightarrow> 'd \<Rightarrow>
    pb_GetSystemInfoResponse result \<times> 'd" where
  "ds_GetSystemInfo D req d = (let (res, d1) = GetSystemInfo D d in
     case res of Inl e \<Rightarrow> (Inl e, d1)
     | Inr info \<Rightarrow> (Inr \<lparr>GetSystemInfoResponse_Version = dkf_ServerVersion info, GetSystemInfoResponse_ApiVersion = [],
         GetSystemInfoResponse_Os = dkf_OperatingSystem info, GetSystemInfoResponse_Architecture = dkf_Architecture info,
         GetSystemInfoResponse_Containers = int32 (dkf_Containers info),
         GetSystemInfoResponse_ContainersRunning = int32 (dkf_ContainersRunning info),
         GetSystemInfoResponse_ContainersPaused = int32 (dkf_ContainersPaused info),
         GetSystemInfoResponse_ContainersStopped = int32 (dkf_ContainersStopped info),
         GetSystemInfoResponse_Images = int32 (dkf_Images info), GetSystemInfoResponse_Driver = dkf_Driver info,
         GetSystemInfoResponse_MemoryTotal = dkf_MemTotal info\<rparr>, d1))"

definition ds_GetAquatiqServices :: "'d docker_ops \<Rightarrow> pb_GetAquatiqServicesRequest \<Rightarrow> 'd \<Rightarrow>
    pb_GetAquatiqServicesResponse result outcome \<times> 'd" where
  "ds_GetAquatiqServices D req d = (let (out, d1) = GetAquatiqServices D d in
     (bind_outcome out (\<lambda>res. Returns (case res of Inl e \<Rightarrow> Inl e
        | Inr cs \<Rightarrow> Inr \<lparr>GetAquatiqServicesResponse_Services = map convertToProtoContainerInfo cs\<rparr>)), d1))"

subsection \<open>Reports\<close>

definition effective_timeout :: "int \<Rightarrow> int" where
  "effective_timeout t = (if t = 0 then 10 else t)"

interpretation start: reporting
  "StartContainer D (dsv_manager s) (StartContainerRequest_ContainerId req)" "ds_StartContainer D s req"
  StartContainerResponse_Success StartContainerResponse_Message
  "''Container '' @ StartContainerRequest_ContainerId req @ '' started successfully''" "(=)" for D s req
  by unfold_locales (simp_all add: ds_StartContainer_def Let_def case_prod_beta split: option.split)

interpretation stop: reporting
  "StopContainer D (dsv_manager s) (StopContainerRequest_ContainerId req)
     (effective_timeout (StopContainerRequest_TimeoutSeconds req))" "ds_StopContainer D s req"
  StopContainerResponse_Success StopContainerResponse_Message
  "''Container '' @ StopContainerRequest_ContainerId req @ '' stopped successfully''" "(=)" for D s req
  by unfold_locales
     (simp_all add: ds_StopContainer_def effective_timeout_def Let_def case_prod_beta split: option.split)

interpretation restart: reporting
  "RestartContainer D (dsv_manager s) (RestartContainerRequest_ContainerId req)
     (effective_timeout (RestartContainerRequest_TimeoutSeconds req))" "ds_RestartContainer D s req"
  RestartContainerResponse_Success RestartContainerResponse_Message
  "''Container '' @ RestartContainerRequest_ContainerId req @ '' restarted successfully''" "(=)" for D s req
  by unfold_locales
     (simp_all add: ds_RestartContainer_def effective_timeout_def Let_def case_prod_beta split: option.split)

end
