(* ===== verification/DockerProps.thy ===== *)
theory DockerProps
  imports GrpcDocker "HOL-Library.Multiset"
begin

text \<open>
  Properties of \<open>internal/docker\<close> and its gRPC service: which answers of the daemon make the gateway
  panic, what the statistics sum up, what is audited and what the replies report.
\<close>

subsection \<open>Listings\<close>

definition well_formed :: "dk_summary \<Rightarrow> bool" where
  "well_formed c \<longleftrightarrow> 12 \<le> length (dks_ID c) \<and> (case dks_Names c of [] \<Rightarrow> True | n # _ \<Rightarrow> n \<noteq> [])"

definition short_name :: "dk_summary \<Rightarrow> string" where
  "short_name c = (case dks_Names c of [] \<Rightarrow> [] | n # _ \<Rightarrow> drop 1 n)"

lemma container_info_eq:
  "container_info c = (if well_formed c
    then Returns \<lparr>cin_ID = take 12 (dks_ID c), cin_Name = short_name c, cin_Image = dks_Image c,
      cin_State = dks_State c, cin_Status = dks_Status c, cin_Created = dks_Created c,
      cin_Ports = map (\<lambda>p. \<lparr>pbd_PrivatePort = dkp_PrivatePort p, pbd_PublicPort = dkp_PublicPort p,
        pbd_Type = dkp_Type p\<rparr>) (dks_Ports c), cin_Labels = dks_Labels c\<rparr>
    else container_info c)"
  by (auto simp: container_info_def well_formed_def short_name_def slice_to_def slice_from_def Let_def Suc_le_eq
      split: list.splits)

lemma container_info_panics: "\<not> well_formed c \<Longrightarrow> \<exists>m. container_info c = Panics m"
  by (auto simp: container_info_def well_formed_def slice_to_def slice_from_def Let_def Suc_le_eq
      split: list.splits if_splits)

lemma map_outcomes_panics: "x \<in> set xs \<Longrightarrow> f x = Panics m \<Longrightarrow> \<exists>m'. map_outcomes f xs = Panics m'"
  by (induction xs) (auto split: outcome.splits)

text \<open>C29 (error).  Listing the containers either gives one record per container, in order, with the first twelve
  bytes of its identifier and its name without the leading slash, or it panics; it panics exactly
  when the daemon reports an identifier of fewer than twelve bytes or an empty first name.\<close>

theorem list_containers_exact:
  assumes "dk_ContainerList D True [] d = (Inr cs, d1)"
  shows "if \<forall>c \<in> set cs. well_formed c
    then \<exists>infos. ListContainers D d = (Returns (Inr infos), d1)
      \<and> map (\<lambda>i. (cin_ID i, cin_Name i, cin_State i)) infos
        = map (\<lambda>c. (take 12 (dks_ID c), short_name c, dks_State c)) cs
    else \<exists>m. ListContainers D d = (Panics m, d1)"
proof (cases "\<forall>c \<in> set cs. well_formed c")
  case True
  define g where "g c = \<lparr>cin_ID = take 12 (dks_ID c), cin_Name = short_name c, cin_Image = dks_Image c,
      cin_State = dks_State c, cin_Status = dks_Status c, cin_Created = dks_Created c,
      cin_Ports = map (\<lambda>p. \<lparr>pbd_PrivatePort = dkp_PrivatePort p, pbd_PublicPort = dkp_PublicPort p,
        pbd_Type = dkp_Type p\<rparr>) (dks_Ports c), cin_Labels = dks_Labels c\<rparr>" for c
  have "\<forall>c \<in> set cs. container_info c = Returns (g c)"
  proof
    fix c assume "c \<in> set cs"
    with True have "well_formed c" by blast
    then show "container_info c = Returns (g c)" using container_info_eq [of c] by (simp add: g_def)
  qed
  from map_outcomes_total [OF this] have "ListContainers D d = (Returns (Inr (map g cs)), d1)"
    by (simp add: ListContainers_def assms)
  moreover have "map (\<lambda>i. (cin_ID i, cin_Name i, cin_State i)) (map g cs)
      = map (\<lambda>c. (take 12 (dks_ID c), short_name c, dks_State c)) cs" by (simp add: g_def)
  ultimately show ?thesis using True by auto
next
  case False
  then obtain c where "c \<in> set cs" "\<not> well_formed c" by blast
  with container_info_panics map_outcomes_panics obtain m where "map_outcomes container_info cs = Panics m" by meson
  then have "ListContainers D d = (Panics m, d1)" by (simp add: ListContainers_def assms)
  with False show ?thesis by auto
qed

definition demo_summary :: "string \<Rightarrow> dk_summary" where
  "demo_summary i = \<lparr>dks_ID = i, dks_Names = [''/redis''], dks_Image = ''redis:7'', dks_State = ''running'',
     dks_Status = ''Up'', dks_Created = 0, dks_Ports = [], dks_Labels = Map.empty\<rparr>"

definition demo_stats :: dk_stats where
  "demo_stats = \<lparr>dkt_TotalUsage = 300, dkt_PreTotalUsage = 100, dkt_SystemUsage = 2000, dkt_PreSystemUsage = 1000,
     dkt_PercpuUsage = [0, 0], dkt_MemUsage = 50, dkt_MemLimit = 200, dkt_Networks = [(1, 2), (3, 4)],
     dkt_Blkio = [(''read'', 7), (''write'', 8), (''sync'', 9)]\<rparr>"

text \<open>A daemon with one container; its state records the calls that name it.\<close>

definition demo_docker :: "bool \<Rightarrow> string \<Rightarrow> (string \<times> int) list docker_ops" where
  "demo_docker up i = \<lparr>dk_NewClientWithOpts = \<lambda>h v t. None, dk_Close = \<lambda>d. (None, d),
     dk_ContainerList = \<lambda>all fs d. (Inr [demo_summary i], d),
     dk_ContainerInspect = \<lambda>n d. (Inr \<lparr>dki_Base = Some \<lparr>dkj_ID = i, dkj_Name = ''/redis'', dkj_Created = [],
         dkj_Status = Some ''running''\<rparr>, dki_Ports = Some [], dki_Config = Some (''redis:7'', Map.empty)\<rparr>, d),
     dk_ContainerStart = \<lambda>n d. (if up then None else Some (NewErr ''daemon down''), d @ [(n, 0)]),
     dk_ContainerStop = \<lambda>n t d. (if up then None else Some (NewErr ''daemon down''), d @ [(n, t)]),
     dk_ContainerRestart = \<lambda>n t d. (if up then None else Some (NewErr ''daemon down''), d @ [(n, t)]),
     dk_ContainerLogs = \<lambda>n opt d. (Inr (Inr (dkl_Tail opt @ '' '' @ dkl_Since opt)), d),
     dk_ContainerStats = \<lambda>n s d. (Inr (Inr demo_stats), d), dk_ImageList = \<lambda>all d. (Inr [], d),
     dk_Info = \<lambda>d. (Inl (NewErr ''no info''), d), dk_Ping = \<lambda>d. (None, d), dk_NetworkList = \<lambda>d. (Inr [], d),
     dk_VolumeList = \<lambda>d. (Inr [], d), dk_ParseTime = \<lambda>s. None\<rparr>"

lemma list_containers_exact_witness:
  "(\<exists>infos. ListContainers (demo_docker True ''0123456789abcdef'') [] = (Returns (Inr infos), [])
      \<and> map cin_ID infos = [''0123456789ab''])
   \<and> (\<exists>m. ListContainers (demo_docker True ''0123'') [] = (Panics m, []))"
proof -
  have l: "dk_ContainerList (demo_docker True i) True [] [] = (Inr [demo_summary i], [])" for i
    by (simp add: demo_docker_def)
  from list_containers_exact [OF l, of "''0123456789abcdef''"] list_containers_exact [OF l, of "''0123''"]
  show ?thesis by (auto simp: well_formed_def demo_summary_def)
qed

text \<open>Statistics of a container asked for by a name of fewer than twelve bytes crash the gateway:
  every other operation accepts such a name, but the method cuts twelve bytes off the name that it
  was given instead of the identifier that the daemon reported.\<close>

lemma stats_by_short_name_panic:
  assumes "dk_ContainerStats D (GetContainerStatsRequest_ContainerId req) False d = (Inr (Inr s), d1)"
    and "dk_ContainerInspect D (GetContainerStatsRequest_ContainerId req) d1 = (Inr ins, d2)"
    and "length (GetContainerStatsRequest_ContainerId req) < 12"
  shows "\<exists>m. ds_GetContainerStats D req d = (Panics m, d2)"
  using assms by (simp add: ds_GetContainerStats_def GetContainerStats_def slice_to_def case_prod_beta Let_def)

lemma stats_by_short_name_panic_witness:
  "\<exists>m. ds_GetContainerStats (demo_docker True ''0123456789abcdef'') \<lparr>GetContainerStatsRequest_ContainerId = ''redis''\<rparr> []
     = (Panics m, [])"
proof -
  let ?D = "demo_docker True ''0123456789abcdef''"
  let ?req = "\<lparr>GetContainerStatsRequest_ContainerId = ''redis''\<rparr>"
  have s: "dk_ContainerStats ?D (GetContainerStatsRequest_ContainerId ?req) False [] = (Inr (Inr demo_stats), [])"
    by (simp add: demo_docker_def)
  obtain ins where i: "dk_ContainerInspect ?D (GetContainerStatsRequest_ContainerId ?req) [] = (Inr ins, [])"
    by (simp add: demo_docker_def)
  show ?thesis using stats_by_short_name_panic [OF s i] by simp
qed

subsection \<open>Statistics\<close>

lemma sum_networks_from:
  "fold (\<lambda>(rx, tx) (a, b). (a + rx, b + tx)) ns (a0, b0)
     = (a0 + sum_list (map fst ns), b0 + sum_list (map snd ns))" for a0 b0 :: "64 word"
  by (induction ns arbitrary: a0 b0) (simp_all add: case_prod_beta ac_simps)

lemma uint_sum_list: "uint (sum_list xs) = (\<Sum>x\<leftarrow>xs. uint x) mod 2 ^ 64" for xs :: "64 word list"
proof (induction xs)
  case (Cons x xs)
  have "uint (x + sum_list xs) = (uint x + uint (sum_list xs)) mod 2 ^ 64" by (simp add: uint_word_ariths)
  with Cons show ?case by (simp add: mod_simps)
qed simp

lemma int64_wrap: "2 ^ 63 \<le> n \<Longrightarrow> n < 2 ^ 64 \<Longrightarrow> int64 n = n - 2 ^ 64"
proof -
  assume n: "2 ^ 63 \<le> n" "n < 2 ^ 64"
  have "(n + 2 ^ 63) mod 2 ^ 64 = (n - 2 ^ 63 + 2 ^ 64) mod 2 ^ 64" by (simp add: add.commute)
  also have "\<dots> = n - 2 ^ 63" unfolding mod_add_self2 using n by (intro mod_pos_pos_trivial) simp_all
  finally show ?thesis by (simp add: int64_def)
qed

text \<open>The network totals of the statistics are the sums over all interfaces modulo two to the 64,
  in whichever order the map of interfaces is ranged over, and the reply shows them as signed
  numbers: the exact totals below two to the 63, negative ones above.\<close>

lemma network_totals:
  assumes "GetContainerStats D name d = (Returns (Inr st), d2)"
    and "dk_ContainerStats D name False d = (Inr (Inr s), d1)"
    and "mset (dkt_Networks s) = mset ns"
  shows "uint (cst_NetworkRx st) = (\<Sum>n\<leftarrow>ns. uint (fst n)) mod 2 ^ 64
    \<and> uint (cst_NetworkTx st) = (\<Sum>n\<leftarrow>ns. uint (snd n)) mod 2 ^ 64
    \<and> ((\<Sum>n\<leftarrow>ns. uint (fst n)) < 2 ^ 63 \<longrightarrow>
        ContainerStats_NetworkRx (convertToProtoContainerStats st) = (\<Sum>n\<leftarrow>ns. uint (fst n)))
    \<and> (2 ^ 63 \<le> uint (cst_NetworkRx st) \<longrightarrow> ContainerStats_NetworkRx (convertToProtoContainerStats st) < 0)"
proof -
  obtain r d3 where r: "dk_ContainerInspect D name d1 = (r, d3)" by fastforce
  obtain ins where i: "dk_ContainerInspect D name d1 = (Inr ins, d3)"
    using assms(1,2) r by (cases r) (auto simp: GetContainerStats_def case_prod_beta Let_def)
  have st: "cst_NetworkRx st = fst (sum_networks (dkt_Networks s))" "cst_NetworkTx st = snd (sum_networks (dkt_Networks s))"
    using assms(1) by (auto simp: GetContainerStats_def assms(2) i case_prod_beta Let_def slice_to_def slice_from_def
        deref_def split: if_splits option.splits)
  have perm: "(\<Sum>n\<leftarrow>dkt_Networks s. f n) = (\<Sum>n\<leftarrow>ns. f n)" for f :: "64 word \<times> 64 word \<Rightarrow> int"
    using arg_cong [OF assms(3), of "\<lambda>m. \<Sum>n\<in>#m. f n"] by (simp flip: sum_mset_sum_list)
  have rx: "uint (cst_NetworkRx st) = (\<Sum>n\<leftarrow>ns. uint (fst n)) mod 2 ^ 64"
    and tx: "uint (cst_NetworkTx st) = (\<Sum>n\<leftarrow>ns. uint (snd n)) mod 2 ^ 64"
    unfolding st sum_networks_def sum_networks_from
    by (simp_all add: uint_sum_list comp_def perm)
  have nonneg: "0 \<le> (\<Sum>n\<leftarrow>ns. uint (fst n))" by (rule sum_list_nonneg) auto
  have pb: "ContainerStats_NetworkRx (convertToProtoContainerStats st) = int64 (uint (cst_NetworkRx st))"
    by (simp add: convertToProtoContainerStats_def)
  have "ContainerStats_NetworkRx (convertToProtoContainerStats st) = (\<Sum>n\<leftarrow>ns. uint (fst n))"
    if "(\<Sum>n\<leftarrow>ns. uint (fst n)) < 2 ^ 63"
  proof -
    have "(\<Sum>n\<leftarrow>ns. uint (fst n)) mod 2 ^ 64 = (\<Sum>n\<leftarrow>ns. uint (fst n))" using that nonneg by simp
    with that nonneg show ?thesis unfolding pb rx by (simp add: int64_id)
  qed
  moreover have "ContainerStats_NetworkRx (convertToProtoContainerStats st) < 0" if "2 ^ 63 \<le> uint (cst_NetworkRx st)"
  proof -
    have "uint (cst_NetworkRx st) < 2 ^ 64" using uint_lt2p [of "cst_NetworkRx st"] by simp
    with that have "int64 (uint (cst_NetworkRx st)) = uint (cst_NetworkRx st) - 2 ^ 64"
      by (rule int64_wrap)
    with \<open>uint (cst_NetworkRx st) < 2 ^ 64\<close> show ?thesis unfolding pb by simp
  qed
  ultimately show ?thesis using rx tx by blast
qed


lemma network_totals_witness:
  "\<exists>st d2. GetContainerStats (demo_docker True ''0123456789abcdef'') ''0123456789abcdef'' [] = (Returns (Inr st), d2)
     \<and> uint (cst_NetworkRx st) = 4 \<and> ContainerStats_NetworkRx (convertToProtoContainerStats st) = 4"
proof -
  let ?D = "demo_docker True ''0123456789abcdef''"
  obtain st d2 where g: "GetContainerStats ?D ''0123456789abcdef'' [] = (Returns (Inr st), d2)"
    by (simp add: GetContainerStats_def demo_docker_def demo_stats_def slice_to_def slice_from_def deref_def sum_networks_def
        sum_blkio_def)
  have s: "dk_ContainerStats ?D ''0123456789abcdef'' False [] = (Inr (Inr demo_stats), [])"
    by (simp add: demo_docker_def)
  have m: "mset (dkt_Networks demo_stats) = mset [(3, 4), (1, 2)]" by (simp add: demo_stats_def)
  from network_totals [OF g s m] g show ?thesis by simp
qed

subsection \<open>Changes and logs\<close>

text \<open>How a change of a container is reported: \<open>dres\<close> is the daemon's verdict and state, \<open>rres\<close> the reply.\<close>

definition change_reported :: "AuditLogger \<Rightarrow> string \<Rightarrow> string \<Rightarrow> string \<Rightarrow> go_error option \<times> 'd \<Rightarrow> 'z aworld_scheme \<Rightarrow>
    'r result \<times> ('d, 'z) docker_state \<Rightarrow> ('r \<Rightarrow> bool) \<Rightarrow> ('r \<Rightarrow> string) \<Rightarrow> bool" where
  "change_reported a act n failed dres w rres ok msg \<longleftrightarrow> (\<exists>r. fst rres = Inr r \<and> fst (snd rres) = snd dres \<and>
     (case fst dres of
        None \<Rightarrow> ok r \<and> (\<exists>ev. w_zap (snd (snd rres)) = w_zap w @ [audit_call a ev] \<and> ev_Action ev = act
          \<and> ev_Resource ev = n \<and> ev_Success ev)
      | Some e \<Rightarrow> \<not> ok r \<and> msg r = failed @ '': '' @ Error e \<and> snd (snd rres) = w))"

lemma audit_container_zap:
  assumes "dkm_audit m = Some a"
  shows "\<exists>ev. w_zap (audit_container m act n w) = w_zap w @ [audit_call a ev]
      \<and> ev_Action ev = act \<and> ev_Resource ev = n \<and> ev_Success ev"
  using assms by (auto simp: audit_container_def case_prod_beta Let_def world_simps mask_event_def intro!: exI)

text \<open>The reports of the service, read on an operation that runs on the daemon and audits success.\<close>

lemma change_reportedI:
  assumes "op (d, w) = (case dres of (Some e, d1) \<Rightarrow> (Some (WrapErr failed e), d1, w)
      | (None, d1) \<Rightarrow> (None, d1, audit_container m act n w))"
    and "dkm_audit m = Some a"
    and "\<exists>r s'. rres = (Inr r, s') \<and> snd (op (d, w)) = s' \<and> (ok r \<longleftrightarrow> fst (op (d, w)) = None)
      \<and> msg r = (case fst (op (d, w)) of None \<Rightarrow> good | Some e \<Rightarrow> Error e)"
  shows "change_reported a act n failed dres w rres ok msg"
  using assms(1,3) audit_container_zap [OF assms(2), of act n w]
  by (cases dres; cases "fst dres") (auto simp: change_reported_def)

text \<open>Starting, stopping and restarting through gRPC never fails at the level of gRPC: the flag and
  the text of the reply tell the daemon's verdict.  A timeout of zero is sent to the daemon as ten
  seconds, any other one as it is.  The audit log gets one entry for a change that the daemon
  accepted and none for one that it refused.\<close>

lemma container_changes_reported:
  assumes "dkm_audit (dsv_manager s) = Some a"
  shows "change_reported a ''docker_container_start'' (StartContainerRequest_ContainerId start_req)
      ''failed to start container'' (dk_ContainerStart D (StartContainerRequest_ContainerId start_req) d) w
      (ds_StartContainer D s start_req (d, w)) StartContainerResponse_Success StartContainerResponse_Message
    \<and> change_reported a ''docker_container_stop'' (StopContainerRequest_ContainerId stop_req)
      ''failed to stop container'' (dk_ContainerStop D (StopContainerRequest_ContainerId stop_req)
        (if StopContainerRequest_TimeoutSeconds stop_req = 0 then 10 else StopContainerRequest_TimeoutSeconds stop_req) d) w
      (ds_StopContainer D s stop_req (d, w)) StopContainerResponse_Success StopContainerResponse_Message
    \<and> change_reported a ''docker_container_restart'' (RestartContainerRequest_ContainerId restart_req)
      ''failed to restart container'' (dk_ContainerRestart D (RestartContainerRequest_ContainerId restart_req)
        (if RestartContainerRequest_TimeoutSeconds restart_req = 0 then 10
         else RestartContainerRequest_TimeoutSeconds restart_req) d) w
      (ds_RestartContainer D s restart_req (d, w)) RestartContainerResponse_Success RestartContainerResponse_Message"
proof (intro conjI)
  show "change_reported a ''docker_container_start'' (StartContainerRequest_ContainerId start_req)
      ''failed to start container'' (dk_ContainerStart D (StartContainerRequest_ContainerId start_req) d) w
      (ds_StartContainer D s start_req (d, w)) StartContainerResponse_Success StartContainerResponse_Message"
    by (rule change_reportedI [OF _ assms start.report])
       (auto simp: StartContainer_def Let_def split: prod.split option.split)
  show "change_reported a ''docker_container_stop'' (StopContainerRequest_ContainerId stop_req)
      ''failed to stop container'' (dk_ContainerStop D (StopContainerRequest_ContainerId stop_req)
        (if StopContainerRequest_TimeoutSeconds stop_req = 0 then 10 else StopContainerRequest_TimeoutSeconds stop_req) d) w
      (ds_StopContainer D s stop_req (d, w)) StopContainerResponse_Success StopContainerResponse_Message"
    by (rule change_reportedI [OF _ assms stop.report])
       (auto simp: StopContainer_def effective_timeout_def Let_def split: prod.split option.split)
  show "change_reported a ''docker_container_restart'' (RestartContainerRequest_ContainerId restart_req)
      ''failed to restart container'' (dk_ContainerRestart D (RestartContainerRequest_ContainerId restart_req)
        (if RestartContainerRequest_TimeoutSeconds restart_req = 0 then 10
         else RestartContainerRequest_TimeoutSeconds restart_req) d) w
      (ds_RestartContainer D s restart_req (d, w)) RestartContainerResponse_Success RestartContainerResponse_Message"
    by (rule change_reportedI [OF _ assms restart.report])
       (auto simp: RestartContainer_def effective_timeout_def Let_def split: prod.split option.split)
qed

lemma container_changes_reported_witness:
  "\<exists>r w'. ds_StopContainer (demo_docker True ''0123456789abcdef'') \<lparr>dsv_manager = \<lparr>dkm_audit = Some \<lparr>al_logger = 0\<rparr>\<rparr>\<rparr>
      \<lparr>StopContainerRequest_ContainerId = ''redis'', StopContainerRequest_TimeoutSeconds = 0\<rparr> ([], demo_world)
    = (Inr r, [(''redis'', 10)], w') \<and> StopContainerResponse_Success r"
proof -
  let ?s = "\<lparr>dsv_manager = \<lparr>dkm_audit = Some \<lparr>al_logger = 0\<rparr>\<rparr>\<rparr>"
  let ?D = "demo_docker True ''0123456789abcdef''"
  let ?req = "\<lparr>StopContainerRequest_ContainerId = ''redis'', StopContainerRequest_TimeoutSeconds = 0\<rparr>"
  have a: "dkm_audit (dsv_manager ?s) = Some \<lparr>al_logger = 0\<rparr>" by simp
  have "change_reported \<lparr>al_logger = 0\<rparr> ''docker_container_stop'' ''redis'' ''failed to stop container''
      (dk_ContainerStop ?D ''redis'' 10 []) demo_world (ds_StopContainer ?D ?s ?req ([], demo_world))
      StopContainerResponse_Success StopContainerResponse_Message"
    using container_changes_reported [OF a, of "\<lparr>StartContainerRequest_ContainerId = ''redis''\<rparr>" ?D "[]" demo_world ?req
        "\<lparr>RestartContainerRequest_ContainerId = ''redis'', RestartContainerRequest_TimeoutSeconds = 0\<rparr>"] by simp
  then show ?thesis
    by (cases "ds_StopContainer ?D ?s ?req ([], demo_world)") (auto simp: change_reported_def demo_docker_def)
qed

text \<open>A request for logs that leaves its fields at their defaults asks the daemon for a tail of
  \<open>0\<close> lines since time \<open>0\<close>, both set explicitly; the message definition promises all lines for zero.
  In general the daemon gets the two numbers of the request in decimal.\<close>

lemma default_log_request_asks_for_no_lines:
  "ds_GetContainerLogs D req d =
    (let (res, d1) = dk_ContainerLogs D (GetContainerLogsRequest_ContainerId req)
        \<lparr>dkl_ShowStdout = True, dkl_ShowStderr = True, dkl_Tail = fmt_d (GetContainerLogsRequest_Tail req),
         dkl_Since = fmt_d (GetContainerLogsRequest_SinceUnix req), dkl_Timestamps = True\<rparr> d
     in case res of
          Inr (Inr logs) \<Rightarrow> (Inr \<lparr>GetContainerLogsResponse_Logs = logs\<rparr>, d1)
        | Inr (Inl e) \<Rightarrow> (Inl (WrapErr ''failed to read logs'' e), d1)
        | Inl e \<Rightarrow> (Inl (WrapErr ''failed to get container logs'' e), d1))
   \<and> fmt_d (GetContainerLogsRequest_Tail (get_GetContainerLogsRequest None)) = ''0''"
proof -
  have "fmt_d n \<noteq> []" for n by (simp add: fmt_d_def)
  then show ?thesis
    by (auto simp: ds_GetContainerLogs_def GetContainerLogs_def logs_options_def case_prod_beta Let_def
        get_GetContainerLogsRequest_def zero_GetContainerLogsRequest_def fmt_d_def digit_def split: sum.split)
qed

end
