(* ===== verification/Gateway.thy ===== *)
theory Gateway
  imports GrpcWhitelist GrpcHealth GrpcDocker Config
begin

text \<open>
  The program (\<open>cmd/gateway/main.go\<close>): start-up with its fallbacks, the HTTP routes behind the rate
  limiter, the gRPC services that get registered, and what ends the process.  The libraries enter as
  a record \<open>gw_env\<close>.  The chi router is a parameter in two places: \<open>stack\<close> is the chain of its own
  middlewares in front of the limiter, \<open>not_found\<close> its answer where no route fits.  What the program
  prints is left out.
\<close>

record ('l, 'rd, 'db, 'd) gworld = "('l, 'rd, 'db) hworld" +
  gw_docker :: 'd

record ('l, 'rd, 'd) gw_env =
  env_zap_Build :: "zap_config \<Rightarrow> zap_logger result"
  env_viper :: viper_ops
  env_redis_NewClient :: "redis_options \<Rightarrow> 'rd redis_client"
  env_rate :: "'l rate_ops"
  env_docker :: "'d docker_ops"
  env_yaml :: yaml_ops
  env_Listen :: "string \<Rightarrow> go_error option"
  env_LoadTLS :: "string \<Rightarrow> string \<Rightarrow> go_error option"

subsection \<open>The fallback configuration\<close>

definition zero_config :: Config where
  "zero_config = \<lparr>
     cfg_Server = \<lparr>sc_Host = [], sc_Port = 0, sc_GRPCPort = 0, sc_ReadTimeout = 0, sc_WriteTimeout = 0,
       sc_ShutdownTimeout = 0, sc_APIKey = []\<rparr>,
     cfg_GRPC = \<lparr>gc_Host = [], gc_Port = 0, gc_TLS = \<lparr>gt_Enabled = False, gt_CertFile = [], gt_KeyFile = [], gt_CAFile = []\<rparr>\<rparr>,
     cfg_Redis = \<lparr>rc_Enabled = False, rc_Host = [], rc_Port = 0, rc_Password = [], rc_DB = 0,
       rc_TLS = \<lparr>tls_Enabled = False, tls_InsecureSkipVerify = False, tls_MinVersion = 0\<rparr>, rc_PoolSize = 0, rc_Timeout = 0\<rparr>,
     cfg_RateLimit = \<lparr>rl_GlobalRPS = 0, rl_AdminRPS = 0, rl_BurstSize = 0, rl_Distributed = False\<rparr>,
     cfg_CircuitBreaker = \<lparr>cbc_MaxRequests = 0, cbc_Interval = 0, cbc_Timeout = 0, cbc_FailureThreshold = 0\<rparr>,
     cfg_Docker = \<lparr>dc_Host = [], dc_Version = [], dc_Timeout = 0\<rparr>,
     cfg_Auth = \<lparr>ac_TokenRefreshInterval = 0, ac_TokenEncryptionKey = []\<rparr>,
     cfg_Integrations = \<lparr>
       ic_SuperOffice = \<lparr>so_BaseURL = [], so_ClientID = [], so_ClientSecret = [], so_TenantID = [], so_Timeout = 0, so_RetryMax = 0\<rparr>,
       ic_Visma = \<lparr>vc_BaseURL = [], vc_ClientID = [], vc_ClientSecret = [], vc_CompanyID = [], vc_Timeout = 0, vc_RetryMax = 0\<rparr>\<rparr>,
     cfg_Logging = \<lparr>lc_Level = [], lc_Format = [], lc_OutputPath = []\<rparr>,
     cfg_Whitelist = \<lparr>wcf_TraefikConfigPath = []\<rparr>,
     cfg_Database = \<lparr>dbc_PostgresURL = []\<rparr>\<rparr>"

definition getDefaultConfig :: Config where
  "getDefaultConfig = zero_config\<lparr>cfg_Server := \<lparr>sc_Host = ''0.0.0.0'', sc_Port = 7500, sc_GRPCPort = 0,
     sc_ReadTimeout = 30 * Second, sc_WriteTimeout = 30 * Second, sc_ShutdownTimeout = 30 * Second,
     sc_APIKey = ''test-api-key''\<rparr>\<rparr>"

subsection \<open>Start-up\<close>

record 'rd gateway =
  gwy_cfg :: Config
  gwy_audit :: AuditLogger
  gwy_redis :: "'rd RedisCache option"
  gwy_limiter :: "'rd Limiter"
  gwy_docker :: "docker_Manager option"
  gwy_whitelist :: "wl_Manager option"
  gwy_dbChecker :: "'rd DatabaseChecker"
  gwy_health :: "'rd HealthChecker"

datatype 'a startup = Started 'a | Exited int

definition load_config :: "('l, 'rd, 'd) gw_env \<Rightarrow> Config" where
  "load_config E = (case Load (env_viper E) of Inl e \<Rightarrow> getDefaultConfig | Inr cfg \<Rightarrow> cfg)"

definition connect_redis :: "('l, 'rd, 'd) gw_env \<Rightarrow> Config \<Rightarrow> ('l, 'rd, 'z) rworld_scheme \<Rightarrow>
    'rd RedisCache option \<times> ('l, 'rd, 'z) rworld_scheme" where
  "connect_redis E cfg w = (if rc_Enabled (cfg_Redis cfg)
     then let (res, w1) = on_redis (NewRedisCache (env_redis_NewClient E) (cfg_Redis cfg)) w in
       (case res of Inl e \<Rightarrow> None | Inr c \<Rightarrow> Some c, w1)
     else (None, w))"

text \<open>The components, once the audit logger is there.\<close>

definition init_components :: "('l, 'rd, 'd) gw_env \<Rightarrow> AuditLogger \<Rightarrow> ('l, 'rd, 'db, 'z) hworld_scheme \<Rightarrow>
    'rd gateway \<times> ('l, 'rd, 'db, 'z) hworld_scheme" where
  "init_components E auditLogger w =
     (let cfg = load_config E;
          (redisCache, w1) = connect_redis E cfg w;
          rl = cfg_RateLimit cfg;
          (rateLimiter, w2) = limiter_New (env_rate E) \<lparr>lmc_GlobalRPS = rl_GlobalRPS rl, lmc_AdminRPS = rl_AdminRPS rl,
             lmc_BurstSize = rl_BurstSize rl, lmc_Distributed = rl_Distributed rl \<and> redisCache \<noteq> None,
             lmc_Cache = redisCache, lmc_AuditLogger = Some auditLogger\<rparr> w1;
          dockerManager = (case docker_NewManager (env_docker E) (cfg_Docker cfg) (Some auditLogger) of
             Inl e \<Rightarrow> None | Inr m \<Rightarrow> Some m);
          (wres, w3) = wl_NewManager (env_yaml E)
             \<lparr>wc_TraefikConfigPath = wcf_TraefikConfigPath (cfg_Whitelist cfg), wc_AuditLogger = Some auditLogger\<rparr> w2;
          whitelistManager = (case wres of Inl e \<Rightarrow> None | Inr m \<Rightarrow> Some m);
          dbChecker = NewDatabaseChecker \<lparr>hlc_PostgresURL = dbc_PostgresURL (cfg_Database cfg), hlc_RedisCache = redisCache\<rparr>;
          (healthChecker, w4) = NewHealthChecker dbChecker ''1.0.0'' w3
      in (\<lparr>gwy_cfg = cfg, gwy_audit = auditLogger, gwy_redis = redisCache, gwy_limiter = rateLimiter,
           gwy_docker = dockerManager, gwy_whitelist = whitelistManager, gwy_dbChecker = dbChecker,
           gwy_health = healthChecker\<rparr>, w4))"

definition grpc_addr :: "Config \<Rightarrow> string" where
  "grpc_addr cfg = sc_Host (cfg_Server cfg) @ '':'' @ fmt_d (sc_GRPCPort (cfg_Server cfg))"

definition gw_start :: "('l, 'rd, 'd) gw_env \<Rightarrow> ('l, 'rd, 'db, 'z) hworld_scheme \<Rightarrow>
    'rd gateway startup \<times> ('l, 'rd, 'db, 'z) hworld_scheme" where
  "gw_start E w = (case NewAuditLogger (env_zap_Build E) ''info'' of
     Inl e \<Rightarrow> (Exited 1, w)
   | Inr auditLogger \<Rightarrow>
       (let (g, w1) = init_components E auditLogger w; cfg = gwy_cfg g; tls = gc_TLS (cfg_GRPC cfg) in
        case env_Listen E (grpc_addr cfg) of
          Some e \<Rightarrow> (Exited 1, w1)
        | None \<Rightarrow> if gt_Enabled tls \<and> env_LoadTLS E (gt_CertFile tls) (gt_KeyFile tls) \<noteq> None
            then (Exited 1, w1) else (Started g, w1)))"

text \<open>The gateway's own gRPC services that are registered, by name, in order; reflection comes on top.\<close>

definition registered :: "'rd gateway \<Rightarrow> string list" where
  "registered g = [''aquatiq.gateway.health.v1.HealthService'']
     @ (if gwy_docker g \<noteq> None then [''aquatiq.gateway.docker.v1.DockerService''] else [])
     @ (if gwy_whitelist g \<noteq> None then [''aquatiq.gateway.whitelist.v1.WhitelistService''] else [])
     @ [''aquatiq.gateway.database.v1.DatabaseService'']"

subsection \<open>Routes\<close>

text \<open>Maps are encoded with their keys in order.\<close>

definition health_handler :: "(time \<Rightarrow> string) \<Rightarrow> 'rd gateway \<Rightarrow> ('l, 'rd, 'z) rworld_scheme handler" where
  "health_handler fmt g r rs w =
     (let (now, w1) = time_Now w;
          (redis, w2) = (case gwy_redis g of
            None \<Rightarrow> (JStr ''not_configured'', w1)
          | Some c \<Rightarrow> (let (err, w2) = on_redis (cache_Ping c) w1 in
              case err of
                Some e \<Rightarrow> (JObj [(''error'', JStr (Error e)), (''status'', JStr ''disconnected'')], w2)
              | None \<Rightarrow> (let stats = cache_PoolStats c (rw_redis w2) in
                  (JObj [(''connections'', JInt (uint (ps_TotalConns stats))), (''hits'', JInt (uint (ps_Hits stats))),
                     (''idle'', JInt (uint (ps_IdleConns stats))), (''misses'', JInt (uint (ps_Misses stats))),
                     (''status'', JStr ''connected'')], w2))))
      in (Write (JsonLine (JObj [(''redis'', redis), (''status'', JStr ''healthy''), (''timestamp'', JStr (fmt now))]))
            (Header_Set ''Content-Type'' ''application/json'' rs), w2))"

definition rate_limiter_handler :: "'l rate_ops \<Rightarrow> 'rd gateway \<Rightarrow> ('l, 'rd, 'z) rworld_scheme handler" where
  "rate_limiter_handler R g r rs w = (let stats = limiter_GetStats R (gwy_limiter g) w in
     (Write (JsonLine (JObj [(''global_limit'', JInt (st_GlobalLimit stats)), (''admin_limit'', JInt (st_AdminLimit stats)),
        (''distributed'', JBool (st_Distributed stats)), (''backend'', JStr (st_Backend stats))]))
        (Header_Set ''Content-Type'' ''application/json'' rs), w))"

definition cache_stats_handler :: "'rd gateway \<Rightarrow> ('l, 'rd, 'z) rworld_scheme handler" where
  "cache_stats_handler g r rs w = (case gwy_redis g of
     None \<Rightarrow> (Write (JsonLine (JObj [(''error'', JStr ''Redis cache not configured'')]))
        (WriteHeader StatusServiceUnavailable rs), w)
   | Some c \<Rightarrow> (let stats = cache_PoolStats c (rw_redis w) in
       (Write (JsonLine (JObj [(''hits'', JInt (uint (ps_Hits stats))), (''idle_conns'', JInt (uint (ps_IdleConns stats))),
          (''misses'', JInt (uint (ps_Misses stats))), (''stale_conns'', JInt (uint (ps_StaleConns stats))),
          (''timeouts'', JInt (uint (ps_Timeouts stats))), (''total_conns'', JInt (uint (ps_TotalConns stats)))]))
        (Header_Set ''Content-Type'' ''application/json'' rs), w)))"

definition gw_routes :: "'l rate_ops \<Rightarrow> (time \<Rightarrow> string) \<Rightarrow> ('l, 'rd, 'z) rworld_scheme handler \<Rightarrow> 'rd gateway \<Rightarrow>
    ('l, 'rd, 'z) rworld_scheme handler" where
  "gw_routes R fmt not_found g r rs w =
     (if r_method r = ''GET'' \<and> r_path r = ''/health'' then health_handler fmt g r rs w
      else if r_method r = ''GET'' \<and> r_path r = ''/rate-limiter'' then
        limiter_Middleware R (gwy_limiter g) ''admin'' (rate_limiter_handler R g) r rs w
      else if r_method r = ''GET'' \<and> r_path r = ''/cache/stats'' then
        limiter_Middleware R (gwy_limiter g) ''admin'' (cache_stats_handler g) r rs w
      else not_found r rs w)"

definition gw_handler :: "'l rate_ops \<Rightarrow> (time \<Rightarrow> string) \<Rightarrow>
    (('l, 'rd, 'z) rworld_scheme handler \<Rightarrow> ('l, 'rd, 'z) rworld_scheme handler) \<Rightarrow>
    ('l, 'rd, 'z) rworld_scheme handler \<Rightarrow> 'rd gateway \<Rightarrow> ('l, 'rd, 'z) rworld_scheme handler" where
  "gw_handler R fmt stack not_found g =
     stack (limiter_Middleware R (gwy_limiter g) ''global'' (gw_routes R fmt not_found g))"

text \<open>The HTTP server that serves these routes.\<close>

record 's http_Server =
  hsv_Addr :: string
  hsv_Handler :: "'s handler"
  hsv_ReadTimeout :: duration
  hsv_WriteTimeout :: duration

definition rest_server :: "'l rate_ops \<Rightarrow> (time \<Rightarrow> string) \<Rightarrow>
    (('l, 'rd, 'z) rworld_scheme handler \<Rightarrow> ('l, 'rd, 'z) rworld_scheme handler) \<Rightarrow>
    ('l, 'rd, 'z) rworld_scheme handler \<Rightarrow> 'rd gateway \<Rightarrow> ('l, 'rd, 'z) rworld_scheme http_Server" where
  "rest_server R fmt stack not_found g = (let cfg = gwy_cfg g; restAddr = GetServerAddr (cfg_Server cfg) in
     \<lparr>hsv_Addr = restAddr, hsv_Handler = gw_handler R fmt stack not_found g,
      hsv_ReadTimeout = sc_ReadTimeout (cfg_Server cfg), hsv_WriteTimeout = sc_WriteTimeout (cfg_Server cfg)\<rparr>)"

lemma rest_server_handler [simp]: "hsv_Handler (rest_server R fmt stack not_found g) = gw_handler R fmt stack not_found g"
  by (simp add: rest_server_def Let_def)

subsection \<open>The end of the process\<close>

text \<open>
  A server that fails ends the process with status 1 and without clean-up.  A signal stops the HTTP
  server, within the configured time, and the gRPC server; then the log is flushed, and once more by
  the deferred calls, after the connections to Docker and Redis are closed.
\<close>

datatype gw_event = RestServeFailed go_error | GrpcServeFailed go_error | GotSignal

definition gw_shutdown :: "('l, 'rd, 'd) gw_env \<Rightarrow> 'rd gateway \<Rightarrow> ('l, 'rd, 'db, 'd, 'z) gworld_scheme \<Rightarrow>
    ('l, 'rd, 'db, 'd, 'z) gworld_scheme" where
  "gw_shutdown E g w =
     (let w1 = Sync (gwy_audit g) w;
          w2 = (if gwy_docker g \<noteq> None then w1\<lparr>gw_docker := snd (docker_Close (env_docker E) (gw_docker w1))\<rparr> else w1);
          w3 = (case gwy_redis g of None \<Rightarrow> w2 | Some c \<Rightarrow> snd (on_redis (cache_Close c) w2))
      in Sync (gwy_audit g) w3)"

definition gw_finish :: "('l, 'rd, 'd) gw_env \<Rightarrow> 'rd gateway \<Rightarrow> gw_event \<Rightarrow> ('l, 'rd, 'db, 'd, 'z) gworld_scheme \<Rightarrow>
    int \<times> ('l, 'rd, 'db, 'd, 'z) gworld_scheme" where
  "gw_finish E g ev w = (case ev of
     RestServeFailed e \<Rightarrow> (1, w)
   | GrpcServeFailed e \<Rightarrow> (1, w)
   | GotSignal \<Rightarrow> (0, gw_shutdown E g w))"

end
