(* ===== verification/GatewayProps.thy ===== *)
theory GatewayProps
  imports Gateway RateLimitProps DockerProps GrpcProps
begin

text \<open>
  Properties of the program as a whole: what start-up depends on, which limits stand in front of the
  routes, and what the fallback configuration means for the service.
\<close>

subsection \<open>Configuration\<close>

text \<open>Loading gives a configuration only if it passes validation: a port between 1 and 65535, an
  API key, a Redis host, a positive global rate and a Docker host; an error in reading, decoding or
  validating is reported with its cause.  The defaults are all set, once each, before that.\<close>

lemma load_gives_valid_config:
  "(\<forall>c. Load v = Inr c \<longleftrightarrow> viper_Unmarshal v viper_calls = Inr c
      \<and> (\<forall>e. viper_ReadInConfig v viper_calls \<noteq> Some (ConfigError e)) \<and> valid_config c)
   \<and> (\<forall>e. Load v = Inl e \<longrightarrow> (\<exists>m e'. e = WrapErr m e'
      \<and> m \<in> {''failed to read config'', ''failed to unmarshal config'', ''invalid configuration''}))
   \<and> distinct (map fst setDefaults) \<and> (\<forall>k d. (k, d) \<in> set setDefaults \<longleftrightarrow> SetDefault k d \<in> set viper_calls)"
  by (auto simp: Load_def validate_iff setDefaults_distinct viper_calls_defaults
      split: option.splits viper_error.splits sum.splits) (metis validate_iff option.distinct(1))+

subsection \<open>Start-up\<close>

lemma init_components_sel:
  fixes E :: "('l, 'rd, 'd) gw_env" and w :: "('l, 'rd, 'db, 'z) hworld_scheme" and a :: AuditLogger
  defines "g \<equiv> fst (init_components E a w)"
  shows "gwy_cfg g = load_config E" "gwy_audit g = a"
    "gwy_docker g = (case docker_NewManager (env_docker E) (cfg_Docker (load_config E)) (Some a) of
       Inl e \<Rightarrow> None | Inr m \<Rightarrow> Some m)"
    "gwy_redis g = fst (connect_redis E (load_config E) w)"
  by (simp_all add: g_def init_components_def case_prod_beta Let_def)

text \<open>C30 (liveness).  Start-up, up to the point where both servers serve, goes through whatever happens to the optional parts: it fails only when the audit logger
  cannot be built, the gRPC port cannot be opened or configured TLS files cannot be loaded.  The
  health and database services are then always registered, Docker exactly when its client could be
  made, and Redis is in use only if it is enabled and answered.\<close>

theorem startup_degrades_gracefully:
  fixes E :: "('l, 'rd, 'd) gw_env" and w :: "('l, 'rd, 'db, 'z) hworld_scheme"
  defines "cfg \<equiv> load_config E"
  shows "(fst (gw_start E w) = Exited 1 \<longleftrightarrow>
      (\<exists>e. env_zap_Build E (zap_config_of ''info'') = Inl e) \<or> env_Listen E (grpc_addr cfg) \<noteq> None
      \<or> gt_Enabled (gc_TLS (cfg_GRPC cfg))
        \<and> env_LoadTLS E (gt_CertFile (gc_TLS (cfg_GRPC cfg))) (gt_KeyFile (gc_TLS (cfg_GRPC cfg))) \<noteq> None)
    \<and> (\<forall>g. fst (gw_start E w) = Started g \<longrightarrow>
        {''aquatiq.gateway.health.v1.HealthService'', ''aquatiq.gateway.database.v1.DatabaseService''} \<subseteq> set (registered g)
        \<and> (''aquatiq.gateway.docker.v1.DockerService'' \<in> set (registered g) \<longleftrightarrow>
            dk_NewClientWithOpts (env_docker E) (dc_Host (cfg_Docker cfg)) (dc_Version (cfg_Docker cfg))
              (dc_Timeout (cfg_Docker cfg)) = None)
        \<and> (gwy_redis g \<noteq> None \<longrightarrow> rc_Enabled (cfg_Redis cfg)
            \<and> fst (rd_Ping (env_redis_NewClient E (redis_options_of (cfg_Redis cfg))) (rw_redis w)) = None))"
proof (cases "env_zap_Build E (zap_config_of ''info'')")
  case (Inl e)
  then show ?thesis by (simp add: gw_start_def NewAuditLogger_def)
next
  case (Inr l)
  define g where "g = fst (init_components E \<lparr>al_logger = l\<rparr> w)"
  have sel: "gwy_cfg g = cfg" "gwy_docker g = (case docker_NewManager (env_docker E) (cfg_Docker cfg)
      (Some \<lparr>al_logger = l\<rparr>) of Inl e \<Rightarrow> None | Inr m \<Rightarrow> Some m)" "gwy_redis g = fst (connect_redis E cfg w)"
    unfolding g_def cfg_def by (rule init_components_sel)+
  have start: "fst (gw_start E w) = (if env_Listen E (grpc_addr cfg) \<noteq> None
      \<or> gt_Enabled (gc_TLS (cfg_GRPC cfg))
        \<and> env_LoadTLS E (gt_CertFile (gc_TLS (cfg_GRPC cfg))) (gt_KeyFile (gc_TLS (cfg_GRPC cfg))) \<noteq> None
      then Exited 1 else Started g)"
    using sel(1) by (simp add: gw_start_def NewAuditLogger_def Inr case_prod_beta Let_def g_def split: option.split)
  have docker: "gwy_docker g \<noteq> None \<longleftrightarrow> dk_NewClientWithOpts (env_docker E) (dc_Host (cfg_Docker cfg))
      (dc_Version (cfg_Docker cfg)) (dc_Timeout (cfg_Docker cfg)) = None"
    by (simp add: sel(2) docker_NewManager_def split: option.split)
  have redis: "gwy_redis g \<noteq> None \<longrightarrow> rc_Enabled (cfg_Redis cfg)
      \<and> fst (rd_Ping (env_redis_NewClient E (redis_options_of (cfg_Redis cfg))) (rw_redis w)) = None"
    by (auto simp: sel(3) connect_redis_def on_redis_def NewRedisCache_def case_prod_beta Let_def
        split: if_splits sum.splits option.splits)
  have reg: "''aquatiq.gateway.docker.v1.DockerService'' \<in> set (registered g) \<longleftrightarrow> gwy_docker g \<noteq> None"
    "{''aquatiq.gateway.health.v1.HealthService'', ''aquatiq.gateway.database.v1.DatabaseService''} \<subseteq> set (registered g)"
    by (simp_all add: registered_def)
  show ?thesis unfolding start using Inr reg docker redis by auto
qed

text \<open>Libraries for concrete runs: no configuration can be read, the gRPC port is free or taken.\<close>

definition demo_env :: "bool \<Rightarrow> (int \<times> int, string \<Rightarrow> int, (string \<times> int) list) gw_env" where
  "demo_env free = \<lparr>env_zap_Build = \<lambda>c. Inr 0,
     env_viper = \<lparr>viper_ReadInConfig = \<lambda>cs. Some (ConfigError (NewErr ''bad yaml'')),
       viper_Unmarshal = \<lambda>cs. Inl (NewErr ''unread'')\<rparr>,
     env_redis_NewClient = \<lambda>opt. count_redis, env_rate = demo_rate, env_docker = demo_docker True [],
     env_yaml = \<lparr>yaml_Marshal = \<lambda>c. Inl (NewErr ''none''), yaml_Unmarshal = \<lambda>s. Inl (NewErr ''none''), time_Format = \<lambda>_. []\<rparr>,
     env_Listen = \<lambda>a. if free then None else Some (NewErr ''address in use''), env_LoadTLS = \<lambda>c k. None\<rparr>"

lemma demo_env_sel:
  "load_config (demo_env b) = getDefaultConfig" "env_rate (demo_env b) = demo_rate"
  "env_zap_Build (demo_env b) c = Inr 0" "env_Listen (demo_env b) a = (if b then None else Some (NewErr ''address in use''))"
  "gt_Enabled (gc_TLS (cfg_GRPC getDefaultConfig)) = False"
  "dk_NewClientWithOpts (env_docker (demo_env b)) h v t = None"
  by (simp_all add: demo_env_def load_config_def Load_def getDefaultConfig_def zero_config_def demo_docker_def)

lemma startup_degrades_gracefully_witness:
  "fst (gw_start (demo_env False) (demo_hworld False)) = Exited 1
   \<and> (\<exists>g. fst (gw_start (demo_env True) (demo_hworld False)) = Started g
      \<and> ''aquatiq.gateway.docker.v1.DockerService'' \<in> set (registered g))"
proof (rule conjI)
  show "fst (gw_start (demo_env False) (demo_hworld False)) = Exited 1"
    using startup_degrades_gracefully [of "demo_env False" "demo_hworld False"] by (simp add: demo_env_sel)
next
  have no: "fst (gw_start (demo_env True) (demo_hworld False)) \<noteq> Exited 1"
    using startup_degrades_gracefully [of "demo_env True" "demo_hworld False"] by (simp add: demo_env_sel)
  then obtain g where "fst (gw_start (demo_env True) (demo_hworld False)) = Started g"
    by (auto simp: gw_start_def case_prod_beta Let_def split: sum.splits option.splits if_splits)
  with startup_degrades_gracefully [of "demo_env True" "demo_hworld False"]
  show "\<exists>g. fst (gw_start (demo_env True) (demo_hworld False)) = Started g
      \<and> ''aquatiq.gateway.docker.v1.DockerService'' \<in> set (registered g)" by (simp add: demo_env_sel)
qed

subsection \<open>The limits in front of the routes\<close>

interpretation both_tiers: two_gates "limiter_Middleware R l ''global''" "limiter_Middleware R l ''admin''"
  "limiter_enter R l ''global''" "limiter_enter R l ''admin''" "limiter_reject R l ''global''"
  "limiter_reject R l ''admin''" StatusTooManyRequests StatusTooManyRequests for R l ..

lemma limiter_enter_iff: "limiter_enter R l tier r rs w \<noteq> None \<longleftrightarrow> fst (allow_tier R tier l w)"
  by (simp add: limiter_enter_def case_prod_beta Let_def)

lemma limiter_enter_state: "limiter_enter R l tier r rs w = Some (r1, rs1, w1) \<Longrightarrow>
    r1 = r \<and> w1 = snd (allow_tier R tier l w) \<and> rs_sent rs1 = rs_sent rs"
  by (auto simp: limiter_enter_def case_prod_beta Let_def split: if_splits)

lemma limiter_enter_ok:
  assumes "fst (allow_tier R tier l w)" "rs_sent rs = None"
  shows "\<exists>rs1. limiter_enter R l tier r rs w = Some (r, rs1, snd (allow_tier R tier l w)) \<and> rs_sent rs1 = None"
proof (cases "limiter_enter R l tier r rs w")
  case None
  with assms(1) limiter_enter_iff show ?thesis by blast
next
  case (Some x)
  obtain r1 rs1 w1 where x: "x = (r1, rs1, w1)" by (cases x) blast
  from limiter_enter_state [OF Some [unfolded x]] assms(2) show ?thesis by (simp add: Some x)
qed

lemma admin_handler_status:
  assumes "rs_sent rs = None"
  shows "rs_status (fst (rate_limiter_handler R g r rs w)) = Some StatusOK"
    "rs_status (fst (cache_stats_handler g r rs w)) =
       Some (if gwy_redis g = None then StatusServiceUnavailable else StatusOK)"
  using assms
  by (simp_all add: rate_limiter_handler_def cache_stats_handler_def Write_def WriteHeader_def Header_Set_def rs_status_def
      Let_def split: option.split)

lemma admin_entry:
  assumes "r_method r = ''GET''" "r_path r = ''/rate-limiter'' \<or> r_path r = ''/cache/stats''"
  shows "gw_handler R fmt (\<lambda>h. h) not_found g r rs w = limiter_Middleware R (gwy_limiter g) ''global''
    (limiter_Middleware R (gwy_limiter g) ''admin''
      (if r_path r = ''/rate-limiter'' then rate_limiter_handler R g else cache_stats_handler g)) r rs w"
proof (cases "limiter_enter R (gwy_limiter g) ''global'' r rs w")
  case None
  then show ?thesis by (simp add: gw_handler_def tier_gate.rejected)
next
  case (Some x)
  then obtain rs1 w1 where e: "limiter_enter R (gwy_limiter g) ''global'' r rs w = Some (r, rs1, w1)"
    using limiter_enter_state [of R "gwy_limiter g" "''global''" r rs w] by (cases x) auto
  show ?thesis
    using assms by (auto simp: gw_handler_def tier_gate.entered [OF e] gw_routes_def)
qed

lemma behind_both_limits:
  assumes "rs_sent rs = None" "res = limiter_Middleware R l ''global'' (limiter_Middleware R l ''admin'' h) r rs w"
  shows "let w1 = snd (allow_tier R ''global'' l w) in
    if fst (allow_tier R ''global'' l w) \<and> fst (allow_tier R ''admin'' l w1)
    then \<exists>rs2. rs_sent rs2 = None \<and> res = h r rs2 (snd (allow_tier R ''admin'' l w1))
    else rs_status (fst res) = Some StatusTooManyRequests"
proof (cases "fst (allow_tier R ''global'' l w)")
  case False
  then have "limiter_enter R l ''global'' r rs w = None" using limiter_enter_iff by blast
  from tier_gate.rejected_code [OF this assms(1)] False show ?thesis by (simp add: Let_def assms(2))
next
  case True
  define w1 where "w1 = snd (allow_tier R ''global'' l w)"
  from True obtain rs1 where e: "limiter_enter R l ''global'' r rs w = Some (r, rs1, w1)" and open1: "rs_sent rs1 = None"
    using limiter_enter_ok [of R "''global''" l w rs r] assms(1) unfolding w1_def by blast
  show ?thesis
  proof (cases "fst (allow_tier R ''admin'' l w1)")
    case False
    then have "limiter_enter R l ''admin'' r rs1 w1 = None" using limiter_enter_iff by blast
    from tier_gate.rejected_code [OF this open1] False show ?thesis
      by (simp add: Let_def assms(2) tier_gate.entered [OF e] flip: w1_def)
  next
    case ok: True
    then obtain rs2 where e2: "limiter_enter R l ''admin'' r rs1 w1 = Some (r, rs2, snd (allow_tier R ''admin'' l w1))"
      and "rs_sent rs2 = None"
      using limiter_enter_ok [of R "''admin''" l w1 rs1 r] open1 by blast
    with True ok show ?thesis
      by (auto simp: Let_def assms(2) tier_gate.entered [OF e] tier_gate.entered [OF e2] simp flip: w1_def)
  qed
qed

lemma admin_handler_state:
  "snd (rate_limiter_handler R g r rs w) = w" "snd (cache_stats_handler g r rs w) = w"
  by (simp_all add: rate_limiter_handler_def cache_stats_handler_def Let_def split: option.split)

text \<open>C15 (safety).  The admin routes stand behind both limits: a request for the limiter statistics or the cache
  statistics is answered by its handler exactly when the global limiter and then the admin limiter
  allow it, and with a 429 otherwise; the global token is spent before the admin limiter is asked.\<close>

theorem admin_routes_need_both_limits:
  fixes g :: "'rd gateway" and w :: "('l, 'rd, 'z) rworld_scheme"
  assumes "rs_sent rs = None" "r_method r = ''GET''" "r_path r = ''/rate-limiter'' \<or> r_path r = ''/cache/stats''"
  shows "let l = gwy_limiter g; w1 = snd (allow_tier R ''global'' l w);
      res = gw_handler R fmt (\<lambda>h. h) not_found g r rs w
    in if fst (allow_tier R ''global'' l w) \<and> fst (allow_tier R ''admin'' l w1)
       then rs_status (fst res) = Some (if r_path r = ''/cache/stats'' \<and> gwy_redis g = None
          then StatusServiceUnavailable else StatusOK)
        \<and> snd res = snd (allow_tier R ''admin'' l w1)
       else rs_status (fst res) = Some StatusTooManyRequests"
  using behind_both_limits [OF assms(1) admin_entry [OF assms(2,3), where R = R and fmt = fmt
    and not_found = not_found and g = g and rs = rs and w = w]] assms(3)
  by (auto simp: Let_def admin_handler_status admin_handler_state split: if_splits)

definition demo_gateway :: "nat \<Rightarrow> (string \<Rightarrow> int) gateway" where
  "demo_gateway g = \<lparr>gwy_cfg = getDefaultConfig, gwy_audit = \<lparr>al_logger = 0\<rparr>, gwy_redis = None,
     gwy_limiter = \<lparr>lim_globalLimiter = g, lim_adminLimiter = 1, lim_cache = None, lim_audit = None,
       lim_distributed = False\<rparr>,
     gwy_docker = None, gwy_whitelist = None, gwy_dbChecker = \<lparr>dbk_postgresURL = [], dbk_redisCache = None\<rparr>,
     gwy_health = \<lparr>hck_dbChecker = \<lparr>dbk_postgresURL = [], dbk_redisCache = None\<rparr>, hck_startTime = 0, hck_version = []\<rparr>\<rparr>"

definition get_request :: "string \<Rightarrow> request" where
  "get_request p = (demo_request ''10.2.2.2'')\<lparr>r_path := p\<rparr>"

lemma admin_routes_need_both_limits_witness:
  "rs_status (fst (gw_handler demo_rate (\<lambda>_. []) (\<lambda>h. h) (\<lambda>r rs w. (rs, w)) (demo_gateway 0)
     (get_request ''/cache/stats'') new_response (demo_rworld [(5, 3), (5, 2)]))) = Some StatusServiceUnavailable
   \<and> rs_status (fst (gw_handler demo_rate (\<lambda>_. []) (\<lambda>h. h) (\<lambda>r rs w. (rs, w)) (demo_gateway 0)
     (get_request ''/cache/stats'') new_response (demo_rworld [(5, 3), (5, 0)]))) = Some StatusTooManyRequests"
proof -
  let ?r = "get_request ''/cache/stats''"
  have o: "rs_sent new_response = None" by (simp add: new_response_def)
  have m: "r_method ?r = ''GET''" "r_path ?r = ''/rate-limiter'' \<or> r_path ?r = ''/cache/stats''" "r_path ?r = ''/cache/stats''"
    by (simp_all add: get_request_def demo_request_def)
  have t: "fst (allow_tier demo_rate ''global'' (gwy_limiter (demo_gateway 0)) (demo_rworld [(5, 3), b]))"
    "fst (allow_tier demo_rate ''admin'' (gwy_limiter (demo_gateway 0))
       (snd (allow_tier demo_rate ''global'' (gwy_limiter (demo_gateway 0)) (demo_rworld [(5, 3), b])))) \<longleftrightarrow> 0 < snd b" for b
    by (cases b; simp add: allow_tier_def AllowGlobal_def AllowAdmin_def demo_gateway_def limiter_Allow_unfold
        demo_rworld_def demo_rate_def time_Now_def)+
  have n: "gwy_redis (demo_gateway 0) = None" by (simp add: demo_gateway_def)
  show ?thesis
    using admin_routes_need_both_limits [OF o m(1,2), where R = demo_rate and g = "demo_gateway 0" and w = "demo_rworld [(5, 3), (5, 2)]"
        and fmt = "\<lambda>_. []" and not_found = "\<lambda>r rs w. (rs, w)"]
      admin_routes_need_both_limits [OF o m(1,2), where R = demo_rate and g = "demo_gateway 0" and w = "demo_rworld [(5, 3), (5, 0)]"
        and fmt = "\<lambda>_. []" and not_found = "\<lambda>r rs w. (rs, w)"]
    by (simp add: Let_def t n m(3))
qed

subsection \<open>The fallback\<close>

text \<open>Requests served one after the other.\<close>

fun serve_all :: "'s handler \<Rightarrow> request list \<Rightarrow> 's \<Rightarrow> response list" where
  "serve_all h [] s = []"
| "serve_all h (r # reqs) s = (let (rs, s1) = h r new_response s in rs # serve_all h reqs s1)"

text \<open>What the rate library documents for a bucket of size zero: it never gives a token.\<close>

definition dry_bucket :: "'l rate_ops \<Rightarrow> ('l \<Rightarrow> bool) \<Rightarrow> bool" where
  "dry_bucket R dry \<longleftrightarrow> dry (rt_NewLimiter R 0 0) \<and> (\<forall>t b. dry b \<longrightarrow> \<not> fst (rt_Allow R t b) \<and> dry (snd (rt_Allow R t b)))"

lemma dry_gateway_denies:
  assumes "dry_bucket R dry" "\<not> lim_distributed (gwy_limiter g)"
    and "lim_globalLimiter (gwy_limiter g) < length (rw_limiters w)"
    and "dry (rw_limiters w ! lim_globalLimiter (gwy_limiter g))"
  shows "\<forall>rs \<in> set (serve_all (gw_handler R fmt (\<lambda>h. h) not_found g) reqs w). rs_status rs = Some StatusTooManyRequests"
  using assms(3,4)
proof (induction reqs arbitrary: w)
  case Nil
  then show ?case by simp
next
  case (Cons r reqs)
  let ?l = "gwy_limiter g" and ?p = "lim_globalLimiter (gwy_limiter g)"
  let ?h = "gw_handler R fmt (\<lambda>h. h) not_found g"
  have al: "allow_tier R ''global'' ?l w = limiter_Allow R ?p w"
    using assms(2) by (simp add: allow_tier_def AllowGlobal_def)
  have "\<not> fst (allow_tier R ''global'' ?l w)"
    using assms(1) Cons.prems by (simp add: al limiter_Allow_unfold dry_bucket_def)
  then have none: "limiter_enter R ?l ''global'' r new_response w = None" using limiter_enter_iff by blast
  have o: "rs_sent new_response = None" by (simp add: new_response_def)
  have st: "rs_status (fst (?h r new_response w)) = Some StatusTooManyRequests"
    unfolding gw_handler_def by (rule tier_gate.rejected_code [OF none o])
  have w1: "rw_limiters (snd (?h r new_response w)) =
      (rw_limiters w)[?p := snd (rt_Allow R (w_clock w (w_tick w)) (rw_limiters w ! ?p))]"
    by (simp add: gw_handler_def tier_gate.rejected [OF none] limiter_reject_def al Let_def world_simps)
  have "?p < length (rw_limiters (snd (?h r new_response w)))" "dry (rw_limiters (snd (?h r new_response w)) ! ?p)"
    using Cons.prems assms(1) by (simp_all add: w1 dry_bucket_def)
  from Cons.IH [OF this] st show ?case by (simp add: case_prod_beta Let_def)
qed

lemma os_ReadFile_limiters: "rw_limiters (snd (os_ReadFile p w)) = rw_limiters w"
proof -
  have "rw_limiters (snd (next_fault w)) = rw_limiters w" by (simp add: next_fault_def split: list.split)
  then show ?thesis
    by (auto simp: os_ReadFile_def case_prod_beta Let_def split: fs_fault.split option.split)
qed

lemma load_entries_limiters: "rw_limiters (snd (load_entries ips w)) = rw_limiters w"
  by (induction ips arbitrary: w) (simp_all add: case_prod_beta Let_def world_simps)

lemma NewManager_limiters: "rw_limiters (snd (wl_NewManager y c w)) = rw_limiters w"
  by (auto simp: wl_NewManager_def loadFromTraefikConfig_def case_prod_beta Let_def load_entries_limiters
      os_ReadFile_limiters split: read_result.split sum.split option.split)

text \<open>C31 (error).  When the configuration cannot be loaded the gateway goes on with its fallback configuration, and
  that one serves nothing: it does not pass the validation of the package itself, and since its
  rates and its burst are zero, every HTTP request is answered 429, health checks included.\<close>

theorem fallback_configuration_serves_nothing:
  fixes E :: "('l, 'rd, 'd) gw_env" and w :: "('l, 'rd, 'db, 'z) hworld_scheme"
  assumes "Load (env_viper E) = Inl e" "gw_start E w = (Started g, w1)" "dry_bucket (env_rate E) dry"
  shows "validate (gwy_cfg g) \<noteq> None
    \<and> (\<forall>rs \<in> set (serve_all (gw_handler (env_rate E) fmt (\<lambda>h. h) not_found g) reqs w1).
        rs_status rs = Some StatusTooManyRequests)"
proof -
  have lc: "load_config E = getDefaultConfig" using assms(1) by (simp add: load_config_def)
  obtain a where g: "(g, w1) = init_components E a w"
    using assms(2) by (auto simp: gw_start_def case_prod_beta Let_def split: sum.splits option.splits if_splits)
  have cfg: "gwy_cfg g = getDefaultConfig"
    using init_components_sel(1) [of E a w] g lc by (metis fst_conv)
  have parts: "connect_redis E getDefaultConfig w = (None, w)"
    by (simp add: connect_redis_def getDefaultConfig_def zero_config_def)
  define lc0 where "lc0 = \<lparr>lmc_GlobalRPS = 0, lmc_AdminRPS = 0, lmc_BurstSize = 0, lmc_Distributed = False,
    lmc_Cache = (None :: 'rd RedisCache option), lmc_AuditLogger = Some a\<rparr>"
  have zero: "cfg_RateLimit getDefaultConfig = \<lparr>rl_GlobalRPS = 0, rl_AdminRPS = 0, rl_BurstSize = 0, rl_Distributed = False\<rparr>"
    by (simp add: getDefaultConfig_def zero_config_def)
  have lim: "gwy_limiter g = fst (limiter_New (env_rate E) lc0 w)"
    using arg_cong [OF g, of "\<lambda>p. gwy_limiter (fst p)"]
    by (simp add: init_components_def lc parts zero lc0_def case_prod_beta Let_def)
  have heap: "rw_limiters w1 = rw_limiters (snd (limiter_New (env_rate E) lc0 w))"
    using arg_cong [OF g, of "\<lambda>p. rw_limiters (snd p)"]
    by (simp add: init_components_def lc parts zero lc0_def case_prod_beta Let_def NewHealthChecker_def world_simps NewManager_limiters)
  have "\<not> lim_distributed (gwy_limiter g)" "lim_globalLimiter (gwy_limiter g) < length (rw_limiters w1)"
    "dry (rw_limiters w1 ! lim_globalLimiter (gwy_limiter g))"
    using assms(3) unfolding lim heap
    by (simp_all add: limiter_New_def lc0_def alloc_limiter_def f64_id dry_bucket_def nth_append case_prod_beta Let_def)
  from dry_gateway_denies [OF assms(3) this] cfg show ?thesis
    by (simp add: validate_def getDefaultConfig_def zero_config_def)
qed

definition dry_demo :: "int \<times> int \<Rightarrow> bool" where
  "dry_demo b \<longleftrightarrow> snd b \<le> 0"

lemma fallback_configuration_serves_nothing_witness:
  "\<exists>g w1. gw_start (demo_env True) (demo_hworld True) = (Started g, w1)
     \<and> validate (gwy_cfg g) \<noteq> None
     \<and> map rs_status (serve_all (gw_handler demo_rate (\<lambda>_. []) (\<lambda>h. h) (\<lambda>r rs w. (rs, w)) g)
          [get_request ''/health'', get_request ''/health''] w1)
        = [Some StatusTooManyRequests, Some StatusTooManyRequests]"
proof -
  have e: "Load (env_viper (demo_env True)) = Inl (WrapErr ''failed to read config'' (NewErr ''bad yaml''))"
    by (simp add: demo_env_def Load_def)
  have d: "dry_bucket (env_rate (demo_env True)) dry_demo"
    by (auto simp: dry_bucket_def demo_env_def demo_rate_def dry_demo_def)
  obtain g w1 where s: "gw_start (demo_env True) (demo_hworld True) = (Started g, w1)"
    using init_components_sel(1) [of "demo_env True" "\<lparr>al_logger = 0\<rparr>" "demo_hworld True"]
    by (auto simp: gw_start_def NewAuditLogger_def demo_env_sel case_prod_beta Let_def)
  from fallback_configuration_serves_nothing [OF e s d, where reqs = "[get_request ''/health'', get_request ''/health'']"
      and fmt = "\<lambda>_. []" and not_found = "\<lambda>r rs w. (rs, w)"] s
  have "validate (gwy_cfg g) \<noteq> None"
    "\<forall>rs \<in> set (serve_all (gw_handler demo_rate (\<lambda>_. []) (\<lambda>h. h) (\<lambda>r rs w. (rs, w)) g)
       [get_request ''/health'', get_request ''/health''] w1). rs_status rs = Some StatusTooManyRequests"
    unfolding demo_env_sel(2) by blast+
  with s show ?thesis by (simp add: case_prod_beta Let_def)
qed

end
