(* ===== verification/GrpcServer.thy ===== *)
theory GrpcServer
  imports Gateway
begin

text \<open>
  The generated transport (\<open>api/proto/*/v1/*_grpc.pb.go\<close>): the four service descriptors, the methods that
  a service offers, their handlers, the client stubs, the servers that implement nothing, and
  the server that \<open>main\<close> puts together from the handlers.  The wire format is that of the protobuf library: a handler
  gets the message that the library decoded, or its error.  A handler that panics ends the process, since nothing recovers it.
\<close>

record service_desc =
  ServiceName :: string
  Methods :: "string list"

subsection \<open>Handlers and stubs\<close>

definition FullMethodName :: "service_desc \<Rightarrow> string \<Rightarrow> string" where
  "FullMethodName sd m = ''/'' @ ServiceName sd @ ''/'' @ m"

text \<open>
  All handlers have the same body: a message that cannot be decoded is answered with the error; without an interceptor the
  method of the server is called, otherwise the interceptor gets the full name, the message and the method.
\<close>

type_synonym ('q, 'o, 's) interceptor = "string \<Rightarrow> 'q \<Rightarrow> ('q \<Rightarrow> 's \<Rightarrow> 'o \<times> 's) \<Rightarrow> 's \<Rightarrow> 'o \<times> 's"

definition unary_handler :: "(go_error \<Rightarrow> 'o) \<Rightarrow> string \<Rightarrow> ('q \<Rightarrow> 's \<Rightarrow> 'o \<times> 's) \<Rightarrow> 'q result \<Rightarrow>
    ('q, 'o, 's) interceptor option \<Rightarrow> 's \<Rightarrow> 'o \<times> 's" where
  "unary_handler failed full_method srv decoded interceptor s = (case decoded of
     Inl err \<Rightarrow> (failed err, s)
   | Inr req \<Rightarrow> (case interceptor of
       None \<Rightarrow> srv req s
     | Some i \<Rightarrow> i full_method req srv s))"

text \<open>All stubs as well: the library's \<open>Invoke\<close>, over the state \<open>n\<close> of the connection, fills the answer or fails.\<close>

definition client_stub :: "(string \<Rightarrow> 'q \<Rightarrow> 'n \<Rightarrow> 'r result \<times> 'n) \<Rightarrow> string \<Rightarrow> 'q \<Rightarrow> 'n \<Rightarrow> 'r result \<times> 'n" where
  "client_stub Invoke full_method req n = (let (out, n1) = Invoke full_method req n in
     case out of Inl err \<Rightarrow> (Inl err, n1) | Inr out \<Rightarrow> (Inr out, n1))"

text \<open>A method of a server that implements nothing; \<open>status.Errorf\<close> is the library's.\<close>

definition unimplemented :: "(string \<Rightarrow> string \<Rightarrow> go_error) \<Rightarrow> string \<Rightarrow> 'r result" where
  "unimplemented Errorf m = Inl (Errorf ''Unimplemented'' (''method '' @ m @ '' not implemented''))"

lemma unary_handler_plain: "unary_handler failed full_method srv (Inr req) None s = srv req s"
  by (simp add: unary_handler_def)

subsection \<open>The whitelist service\<close>

definition WhitelistService_ServiceDesc :: service_desc where
  "WhitelistService_ServiceDesc = \<lparr>ServiceName = ''aquatiq.gateway.whitelist.v1.WhitelistService'',
     Methods = [''AddToWhitelist'',
       ''RemoveFromWhitelist'',
       ''GetWhitelist'',
       ''AddToBlacklist'',
       ''RemoveFromBlacklist'',
       ''GetBlacklist'',
       ''IsAllowed'',
       ''CleanupExpired'']\<rparr>"

datatype whitelist_rpc =
    AddToWhitelistCall pb_AddToWhitelistRequest
  | RemoveFromWhitelistCall pb_RemoveFromWhitelistRequest
  | GetWhitelistCall pb_GetWhitelistRequest
  | AddToBlacklistCall pb_AddToBlacklistRequest
  | RemoveFromBlacklistCall pb_RemoveFromBlacklistRequest
  | GetBlacklistCall pb_GetBlacklistRequest
  | IsAllowedCall pb_IsAllowedRequest
  | CleanupExpiredCall pb_CleanupExpiredRequest

datatype whitelist_reply =
    AddToWhitelistReply pb_AddToWhitelistResponse
  | RemoveFromWhitelistReply pb_RemoveFromWhitelistResponse
  | GetWhitelistReply pb_GetWhitelistResponse
  | AddToBlacklistReply pb_AddToBlacklistResponse
  | RemoveFromBlacklistReply pb_RemoveFromBlacklistResponse
  | GetBlacklistReply pb_GetBlacklistResponse
  | IsAllowedReply pb_IsAllowedResponse
  | CleanupExpiredReply pb_CleanupExpiredResponse

fun whitelist_method :: "whitelist_rpc \<Rightarrow> string" where
  "whitelist_method (AddToWhitelistCall req) = ''AddToWhitelist''"
| "whitelist_method (RemoveFromWhitelistCall req) = ''RemoveFromWhitelist''"
| "whitelist_method (GetWhitelistCall req) = ''GetWhitelist''"
| "whitelist_method (AddToBlacklistCall req) = ''AddToBlacklist''"
| "whitelist_method (RemoveFromBlacklistCall req) = ''RemoveFromBlacklist''"
| "whitelist_method (GetBlacklistCall req) = ''GetBlacklist''"
| "whitelist_method (IsAllowedCall req) = ''IsAllowed''"
| "whitelist_method (CleanupExpiredCall req) = ''CleanupExpired''"

fun serve_whitelist :: "yaml_ops \<Rightarrow> whitelist_rpc \<Rightarrow> 'z wl_state \<Rightarrow> whitelist_reply result \<times> 'z wl_state" where
  "serve_whitelist y (AddToWhitelistCall req) s = apfst (map_sum id AddToWhitelistReply) (ws_AddToWhitelist y req s)"
| "serve_whitelist y (RemoveFromWhitelistCall req) s = apfst (map_sum id RemoveFromWhitelistReply) (ws_RemoveFromWhitelist y req s)"
| "serve_whitelist y (GetWhitelistCall req) s = apfst (map_sum id GetWhitelistReply) (ws_GetWhitelist req s)"
| "serve_whitelist y (AddToBlacklistCall req) s = apfst (map_sum id AddToBlacklistReply) (ws_AddToBlacklist req s)"
| "serve_whitelist y (RemoveFromBlacklistCall req) s = apfst (map_sum id RemoveFromBlacklistReply) (ws_RemoveFromBlacklist req s)"
| "serve_whitelist y (GetBlacklistCall req) s = apfst (map_sum id GetBlacklistReply) (ws_GetBlacklist req s)"
| "serve_whitelist y (IsAllowedCall req) s = apfst (map_sum id IsAllowedReply) (ws_IsAllowed req s)"
| "serve_whitelist y (CleanupExpiredCall req) s = apfst (map_sum id CleanupExpiredReply) (ws_CleanupExpired y req s)"

definition whitelist_rpc_handler :: "yaml_ops \<Rightarrow> string \<Rightarrow> whitelist_rpc result \<Rightarrow>
    (whitelist_rpc, whitelist_reply result, 'z wl_state) interceptor option \<Rightarrow> 'z wl_state \<Rightarrow> whitelist_reply result \<times> 'z wl_state" where
  "whitelist_rpc_handler y m decoded interceptor s =
     unary_handler Inl (FullMethodName WhitelistService_ServiceDesc m) (serve_whitelist y) decoded interceptor s"

lemma whitelist_rpc_plain [simp]: "whitelist_rpc_handler y m (Inr q) None s = serve_whitelist y q s"
  by (simp add: whitelist_rpc_handler_def unary_handler_plain)

definition whitelist_client :: "(string \<Rightarrow> whitelist_rpc \<Rightarrow> 'n \<Rightarrow> whitelist_reply result \<times> 'n) \<Rightarrow> whitelist_rpc \<Rightarrow> 'n \<Rightarrow>
    whitelist_reply result \<times> 'n" where
  "whitelist_client Invoke q = client_stub Invoke (FullMethodName WhitelistService_ServiceDesc (whitelist_method q)) q"

definition unimplemented_whitelist :: "(string \<Rightarrow> string \<Rightarrow> go_error) \<Rightarrow> whitelist_rpc \<Rightarrow> whitelist_reply result" where
  "unimplemented_whitelist Errorf q = unimplemented Errorf (whitelist_method q)"

subsection \<open>The health service\<close>

definition HealthService_ServiceDesc :: service_desc where
  "HealthService_ServiceDesc = \<lparr>ServiceName = ''aquatiq.gateway.health.v1.HealthService'',
     Methods = [''Check'',
       ''Liveness'',
       ''Readiness'',
       ''CheckPostgreSQL'',
       ''CheckRedis'']\<rparr>"

datatype health_rpc =
    HealthCheckCall pb_HealthCheckRequest
  | HealthLivenessCall pb_LivenessRequest
  | HealthReadinessCall pb_ReadinessRequest
  | HealthCheckPostgreSQLCall pb_PostgreSQLHealthRequest
  | HealthCheckRedisCall pb_RedisHealthRequest

datatype health_reply =
    HealthCheckReply pb_HealthCheckResponse
  | HealthLivenessReply pb_LivenessResponse
  | HealthReadinessReply pb_ReadinessResponse
  | HealthCheckPostgreSQLReply pb_PostgreSQLHealthResponse
  | HealthCheckRedisReply pb_RedisHealthResponse

fun health_method :: "health_rpc \<Rightarrow> string" where
  "health_method (HealthCheckCall req) = ''Check''"
| "health_method (HealthLivenessCall req) = ''Liveness''"
| "health_method (HealthReadinessCall req) = ''Readiness''"
| "health_method (HealthCheckPostgreSQLCall req) = ''CheckPostgreSQL''"
| "health_method (HealthCheckRedisCall req) = ''CheckRedis''"

fun serve_health :: "'db sql_ops \<Rightarrow> 'rd HealthServiceServer \<Rightarrow> health_rpc \<Rightarrow>
    ('l, 'rd, 'db, 'z) hworld_scheme \<Rightarrow> health_reply result \<times> ('l, 'rd, 'db, 'z) hworld_scheme" where
  "serve_health S sv (HealthCheckCall req) w = apfst (map_sum id HealthCheckReply) (hs_Check S sv req w)"
| "serve_health S sv (HealthLivenessCall req) w = apfst (map_sum id HealthLivenessReply) (hs_Liveness sv req w)"
| "serve_health S sv (HealthReadinessCall req) w = apfst (map_sum id HealthReadinessReply) (hs_Readiness S sv req w)"
| "serve_health S sv (HealthCheckPostgreSQLCall req) w = apfst (map_sum id HealthCheckPostgreSQLReply) (hs_CheckPostgreSQL S sv req w)"
| "serve_health S sv (HealthCheckRedisCall req) w = apfst (map_sum id HealthCheckRedisReply) (hs_CheckRedis sv req w)"

definition health_rpc_handler :: "'db sql_ops \<Rightarrow> 'rd HealthServiceServer \<Rightarrow> string \<Rightarrow> health_rpc result \<Rightarrow>
    (health_rpc, health_reply result, ('l, 'rd, 'db, 'z) hworld_scheme) interceptor option \<Rightarrow> ('l, 'rd, 'db, 'z) hworld_scheme \<Rightarrow> health_reply result \<times> ('l, 'rd, 'db, 'z) hworld_scheme" where
  "health_rpc_handler S sv m decoded interceptor s =
     unary_handler Inl (FullMethodName HealthService_ServiceDesc m) (serve_health S sv) decoded interceptor s"

lemma health_rpc_plain [simp]: "health_rpc_handler S sv m (Inr q) None s = serve_health S sv q s"
  by (simp add: health_rpc_handler_def unary_handler_plain)

definition health_client :: "(string \<Rightarrow> health_rpc \<Rightarrow> 'n \<Rightarrow> health_reply result \<times> 'n) \<Rightarrow> health_rpc \<Rightarrow> 'n \<Rightarrow>
    health_reply result \<times> 'n" where
  "health_client Invoke q = client_stub Invoke (FullMethodName HealthService_ServiceDesc (health_method q)) q"

definition unimplemented_health :: "(string \<Rightarrow> string \<Rightarrow> go_error) \<Rightarrow> health_rpc \<Rightarrow> health_reply result" where
  "unimplemented_health Errorf q = unimplemented Errorf (health_method q)"

subsection \<open>The database service\<close>

definition DatabaseService_ServiceDesc :: service_desc where
  "DatabaseService_ServiceDesc = \<lparr>ServiceName = ''aquatiq.gateway.database.v1.DatabaseService'',
     Methods = [''CheckPostgreSQL'',
       ''CheckRedis'',
       ''GetPostgreSQLStats'',
       ''GetRedisStats'',
       ''GetConnectionPoolStats'']\<rparr>"

datatype database_rpc =
    DatabaseCheckPostgreSQLCall pb_CheckPostgreSQLRequest
  | DatabaseCheckRedisCall pb_CheckRedisRequest
  | DatabaseGetPostgreSQLStatsCall pb_GetPostgreSQLStatsRequest
  | DatabaseGetRedisStatsCall pb_GetRedisStatsRequest
  | DatabaseGetConnectionPoolStatsCall pb_GetConnectionPoolStatsRequest

datatype database_reply =
    DatabaseCheckPostgreSQLReply pb_CheckPostgreSQLResponse
  | DatabaseCheckRedisReply pb_CheckRedisResponse
  | DatabaseGetPostgreSQLStatsReply pb_GetPostgreSQLStatsResponse
  | DatabaseGetRedisStatsReply pb_GetRedisStatsResponse
  | DatabaseGetConnectionPoolStatsReply pb_GetConnectionPoolStatsResponse

fun database_method :: "database_rpc \<Rightarrow> string" where
  "database_method (DatabaseCheckPostgreSQLCall req) = ''CheckPostgreSQL''"
| "database_method (DatabaseCheckRedisCall req) = ''CheckRedis''"
| "database_method (DatabaseGetPostgreSQLStatsCall req) = ''GetPostgreSQLStats''"
| "database_method (DatabaseGetRedisStatsCall req) = ''GetRedisStats''"
| "database_method (DatabaseGetConnectionPoolStatsCall req) = ''GetConnectionPoolStats''"

fun serve_database :: "'db sql_ops \<Rightarrow> 'rd DatabaseServiceServer \<Rightarrow> database_rpc \<Rightarrow>
    ('l, 'rd, 'db, 'z) hworld_scheme \<Rightarrow> database_reply result \<times> ('l, 'rd, 'db, 'z) hworld_scheme" where
  "serve_database S sv (DatabaseCheckPostgreSQLCall req) w = apfst (map_sum id DatabaseCheckPostgreSQLReply) (ds_CheckPostgreSQL S sv req w)"
| "serve_database S sv (DatabaseCheckRedisCall req) w = apfst (map_sum id DatabaseCheckRedisReply) (ds_CheckRedis sv req w)"
| "serve_database S sv (DatabaseGetPostgreSQLStatsCall req) w = apfst (map_sum id DatabaseGetPostgreSQLStatsReply) (ds_GetPostgreSQLStats S sv req w)"
| "serve_database S sv (DatabaseGetRedisStatsCall req) w = apfst (map_sum id DatabaseGetRedisStatsReply) (ds_GetRedisStats sv req w)"
| "serve_database S sv (DatabaseGetConnectionPoolStatsCall req) w = apfst (map_sum id DatabaseGetConnectionPoolStatsReply) (ds_GetConnectionPoolStats sv req, w)"

definition database_rpc_handler :: "'db sql_ops \<Rightarrow> 'rd DatabaseServiceServer \<Rightarrow> string \<Rightarrow> database_rpc result \<Rightarrow>
    (database_rpc, database_reply result, ('l, 'rd, 'db, 'z) hworld_scheme) interceptor option \<Rightarrow> ('l, 'rd, 'db, 'z) hworld_scheme \<Rightarrow> database_reply result \<times> ('l, 'rd, 'db, 'z) hworld_scheme" where
  "database_rpc_handler S sv m decoded interceptor s =
     unary_handler Inl (FullMethodName DatabaseService_ServiceDesc m) (serve_database S sv) decoded interceptor s"

lemma database_rpc_plain [simp]: "database_rpc_handler S sv m (Inr q) None s = serve_database S sv q s"
  by (simp add: database_rpc_handler_def unary_handler_plain)

definition database_client :: "(string \<Rightarrow> database_rpc \<Rightarrow> 'n \<Rightarrow> database_reply result \<times> 'n) \<Rightarrow> database_rpc \<Rightarrow> 'n \<Rightarrow>
    database_reply result \<times> 'n" where
  "database_client Invoke q = client_stub Invoke (FullMethodName DatabaseService_ServiceDesc (database_method q)) q"

definition unimplemented_database :: "(string \<Rightarrow> string \<Rightarrow> go_error) \<Rightarrow> database_rpc \<Rightarrow> database_reply result" where
  "unimplemented_database Errorf q = unimplemented Errorf (database_method q)"

subsection \<open>The docker service\<close>

definition DockerService_ServiceDesc :: service_desc where
  "DockerService_ServiceDesc = \<lparr>ServiceName = ''aquatiq.gateway.docker.v1.DockerService'',
     Methods = [''ListContainers'',
       ''GetContainer'',
       ''StartContainer'',
       ''StopContainer'',
       ''RestartContainer'',
       ''GetContainerLogs'',
       ''GetContainerStats'',
       ''ListImages'',
       ''ListNetworks'',
       ''ListVolumes'',
       ''GetSystemInfo'',
       ''GetAquatiqServices'']\<rparr>"

datatype docker_rpc =
    ListContainersCall pb_ListContainersRequest
  | GetContainerCall pb_GetContainerRequest
  | StartContainerCall pb_StartContainerRequest
  | StopContainerCall pb_StopContainerRequest
  | RestartContainerCall pb_RestartContainerRequest
  | GetContainerLogsCall pb_GetContainerLogsRequest
  | GetContainerStatsCall pb_GetContainerStatsRequest
  | ListImagesCall pb_ListImagesRequest
  | ListNetworksCall pb_ListNetworksRequest
  | ListVolumesCall pb_ListVolumesRequest
  | GetSystemInfoCall pb_GetSystemInfoRequest
  | GetAquatiqServicesCall pb_GetAquatiqServicesRequest

datatype docker_reply =
    ListContainersReply pb_ListContainersResponse
  | GetContainerReply pb_GetContainerResponse
  | StartContainerReply pb_StartContainerResponse
  | StopContainerReply pb_StopContainerResponse
  | RestartContainerReply pb_RestartContainerResponse
  | GetContainerLogsReply pb_GetContainerLogsResponse
  | GetContainerStatsReply pb_GetContainerStatsResponse
  | ListImagesReply pb_ListImagesResponse
  | ListNetworksReply pb_ListNetworksResponse
  | ListVolumesReply pb_ListVolumesResponse
  | GetSystemInfoReply pb_GetSystemInfoResponse
  | GetAquatiqServicesReply pb_GetAquatiqServicesResponse

fun docker_method :: "docker_rpc \<Rightarrow> string" where
  "docker_method (ListContainersCall req) = ''ListContainers''"
| "docker_method (GetContainerCall req) = ''GetContainer''"
| "docker_method (StartContainerCall req) = ''StartContainer''"
| "docker_method (StopContainerCall req) = ''StopContainer''"
| "docker_method (RestartContainerCall req) = ''RestartContainer''"
| "docker_method (GetContainerLogsCall req) = ''GetContainerLogs''"
| "docker_method (GetContainerStatsCall req) = ''GetContainerStats''"
| "docker_method (ListImagesCall req) = ''ListImages''"
| "docker_method (ListNetworksCall req) = ''ListNetworks''"
| "docker_method (ListVolumesCall req) = ''ListVolumes''"
| "docker_method (GetSystemInfoCall req) = ''GetSystemInfo''"
| "docker_method (GetAquatiqServicesCall req) = ''GetAquatiqServices''"

text \<open>Methods that only read leave the world alone; five of them may panic.\<close>

definition docker_read :: "('d \<Rightarrow> 'r outcome \<times> 'd) \<Rightarrow> ('d, 'z) docker_state \<Rightarrow> 'r outcome \<times> ('d, 'z) docker_state" where
  "docker_read f st = (case st of (d, w) \<Rightarrow> (let (r, d1) = f d in (r, d1, w)))"

fun serve_docker :: "'d docker_ops \<Rightarrow> DockerServiceServer \<Rightarrow> docker_rpc \<Rightarrow>
    ('d, 'z) docker_state \<Rightarrow> docker_reply result outcome \<times> ('d, 'z) docker_state" where
  "serve_docker D sv (ListContainersCall req) st =
     apfst (map_outcome (map_sum id ListContainersReply)) (docker_read (ds_ListContainers D req) st)"
| "serve_docker D sv (GetContainerCall req) st =
     apfst (map_outcome (map_sum id GetContainerReply)) (docker_read (ds_GetContainer D req) st)"
| "serve_docker D sv (StartContainerCall req) st =
     apfst (Returns \<circ> map_sum id StartContainerReply) (ds_StartContainer D sv req st)"
| "serve_docker D sv (StopContainerCall req) st =
     apfst (Returns \<circ> map_sum id StopContainerReply) (ds_StopContainer D sv req st)"
| "serve_docker D sv (RestartContainerCall req) st =
     apfst (Returns \<circ> map_sum id RestartContainerReply) (ds_RestartContainer D sv req st)"
| "serve_docker D sv (GetContainerLogsCall req) st =
     apfst (map_outcome (map_sum id GetContainerLogsReply)) (docker_read (apfst Returns \<circ> ds_GetContainerLogs D req) st)"
| "serve_docker D sv (GetContainerStatsCall req) st =
     apfst (map_outcome (map_sum id GetContainerStatsReply)) (docker_read (ds_GetContainerStats D req) st)"
| "serve_docker D sv (ListImagesCall req) st =
     apfst (map_outcome (map_sum id ListImagesReply)) (docker_read (apfst Returns \<circ> ds_ListImages D req) st)"
| "serve_docker D sv (ListNetworksCall req) st =
     apfst (map_outcome (map_sum id ListNetworksReply)) (docker_read (apfst Returns \<circ> ds_ListNetworks D req) st)"
| "serve_docker D sv (ListVolumesCall req) st =
     apfst (map_outcome (map_sum id ListVolumesReply)) (docker_read (ds_ListVolumes D req) st)"
| "serve_docker D sv (GetSystemInfoCall req) st =
     apfst (map_outcome (map_sum id GetSystemInfoReply)) (docker_read (apfst Returns \<circ> ds_GetSystemInfo D req) st)"
| "serve_docker D sv (GetAquatiqServicesCall req) st =
     apfst (map_outcome (map_sum id GetAquatiqServicesReply)) (docker_read (ds_GetAquatiqServices D req) st)"

definition docker_rpc_handler :: "'d docker_ops \<Rightarrow> DockerServiceServer \<Rightarrow> string \<Rightarrow> docker_rpc result \<Rightarrow>
    (docker_rpc, docker_reply result outcome, ('d, 'z) docker_state) interceptor option \<Rightarrow> ('d, 'z) docker_state \<Rightarrow> docker_reply result outcome \<times> ('d, 'z) docker_state" where
  "docker_rpc_handler D sv m decoded interceptor s =
     unary_handler (Returns \<circ> Inl) (FullMethodName DockerService_ServiceDesc m) (serve_docker D sv) decoded interceptor s"

lemma docker_rpc_plain [simp]: "docker_rpc_handler D sv m (Inr q) None s = serve_docker D sv q s"
  by (simp add: docker_rpc_handler_def unary_handler_plain)

definition docker_client :: "(string \<Rightarrow> docker_rpc \<Rightarrow> 'n \<Rightarrow> docker_reply result \<times> 'n) \<Rightarrow> docker_rpc \<Rightarrow> 'n \<Rightarrow>
    docker_reply result \<times> 'n" where
  "docker_client Invoke q = client_stub Invoke (FullMethodName DockerService_ServiceDesc (docker_method q)) q"

definition unimplemented_docker :: "(string \<Rightarrow> string \<Rightarrow> go_error) \<Rightarrow> docker_rpc \<Rightarrow> docker_reply result" where
  "unimplemented_docker Errorf q = unimplemented Errorf (docker_method q)"

subsection \<open>The server\<close>

datatype rpc = WhitelistCall whitelist_rpc | HealthCall health_rpc | DatabaseCall database_rpc | DockerCall docker_rpc

datatype reply = WhitelistReply whitelist_reply | HealthReply health_reply | DatabaseReply database_reply
  | DockerReply docker_reply

fun rpc_service :: "rpc \<Rightarrow> service_desc" where
  "rpc_service (WhitelistCall q) = WhitelistService_ServiceDesc"
| "rpc_service (HealthCall q) = HealthService_ServiceDesc"
| "rpc_service (DatabaseCall q) = DatabaseService_ServiceDesc"
| "rpc_service (DockerCall q) = DockerService_ServiceDesc"

fun rpc_method :: "rpc \<Rightarrow> string" where
  "rpc_method (WhitelistCall q) = whitelist_method q"
| "rpc_method (HealthCall q) = health_method q"
| "rpc_method (DatabaseCall q) = database_method q"
| "rpc_method (DockerCall q) = docker_method q"

text \<open>
  What a call gets: the answer of the server library for a service that is not registered, or what
  the handler returns, for a message that was decoded; the gateway installs no interceptor.  The state
  of the running gateway is the whitelist manager, which the service holds by reference, and the
  world; the rest of the gateway does not change.
\<close>

datatype served = Unimplemented | Served "reply result outcome"

type_synonym ('l, 'rd, 'db, 'd, 'z) gw_state = "wl_Manager option \<times> ('l, 'rd, 'db, 'd, 'z) gworld_scheme"

definition gw_dispatch :: "('l, 'rd, 'd) gw_env \<Rightarrow> 'db sql_ops \<Rightarrow> 'rd gateway \<Rightarrow> rpc \<Rightarrow>
    ('l, 'rd, 'db, 'd, 'z) gw_state \<Rightarrow> reply result outcome \<times> ('l, 'rd, 'db, 'd, 'z) gw_state" where
  "gw_dispatch E S g c st = (case st of (mo, w) \<Rightarrow>
     (case c of
        WhitelistCall q \<Rightarrow> (case mo of
          None \<Rightarrow> (Panics nil_panic, st)
        | Some m \<Rightarrow> (let (r, m1, w1) = whitelist_rpc_handler (env_yaml E) (whitelist_method q) (Inr q) None
              (wss_manager (NewWhitelistServiceServer m), w)
            in (Returns (map_sum id WhitelistReply r), Some m1, w1)))
      | HealthCall q \<Rightarrow> (let (r, w1) = health_rpc_handler S (NewHealthServiceServer (gwy_health g) (gwy_dbChecker g))
              (health_method q) (Inr q) None w
            in (Returns (map_sum id HealthReply r), mo, w1))
      | DatabaseCall q \<Rightarrow> (let (r, w1) = database_rpc_handler S (NewDatabaseServiceServer (gwy_dbChecker g))
              (database_method q) (Inr q) None w
            in (Returns (map_sum id DatabaseReply r), mo, w1))
      | DockerCall q \<Rightarrow> (case gwy_docker g of
          None \<Rightarrow> (Panics nil_panic, st)
        | Some dm \<Rightarrow> (let (out, d1, w1) = docker_rpc_handler (env_docker E) (NewDockerServiceServer dm)
              (docker_method q) (Inr q) None (gw_docker w, w)
            in (map_outcome (map_sum id DockerReply) out, mo, w1\<lparr>gw_docker := d1\<rparr>)))))"

definition gw_serve :: "('l, 'rd, 'd) gw_env \<Rightarrow> 'db sql_ops \<Rightarrow> 'rd gateway \<Rightarrow> rpc \<Rightarrow>
    ('l, 'rd, 'db, 'd, 'z) gw_state \<Rightarrow> served \<times> ('l, 'rd, 'db, 'd, 'z) gw_state" where
  "gw_serve E S g c st = (if ServiceName (rpc_service c) \<in> set (registered g)
     then apfst Served (gw_dispatch E S g c st) else (Unimplemented, st))"

lemmas service_descs = WhitelistService_ServiceDesc_def HealthService_ServiceDesc_def DatabaseService_ServiceDesc_def
  DockerService_ServiceDesc_def

lemma registered_iff:
  "ServiceName (rpc_service c) \<in> set (registered g) \<longleftrightarrow> (case c of
     WhitelistCall q \<Rightarrow> gwy_whitelist g \<noteq> None | DockerCall q \<Rightarrow> gwy_docker g \<noteq> None | _ \<Rightarrow> True)"
  by (cases c) (simp_all add: registered_def service_descs)

lemma rpc_method_described: "rpc_method c \<in> set (Methods (rpc_service c))"
proof (cases c)
  case (WhitelistCall q)
  then show ?thesis by (cases q) (simp_all add: service_descs)
next
  case (HealthCall q)
  then show ?thesis by (cases q) (simp_all add: service_descs)
next
  case (DatabaseCall q)
  then show ?thesis by (cases q) (simp_all add: service_descs)
next
  case (DockerCall q)
  then show ?thesis by (cases q) (simp_all add: service_descs)
qed

end
