(* ===== verification/Frames.thy ===== *)
theory Frames
  imports GrpcServer GatewayProps
begin

text \<open>
  What the operations of the gateway leave alone.  A frame is a reflexive and transitive relation on
  worlds that respects the few things the code does to one: reading the clock, writing a log line,
  storing a bucket, and the state of Redis, the databases and the Docker daemon.  Every operation of
  the gateway but the three that write Traefik's file then respects it, and all do when writing a file
  does.  The relations that the properties of the running gateway need are instances.
\<close>

lemmas whitelist_methods = ws_AddToWhitelist_def ws_RemoveFromWhitelist_def ws_GetWhitelist_def ws_AddToBlacklist_def
  ws_RemoveFromBlacklist_def ws_GetBlacklist_def ws_IsAllowed_def ws_CleanupExpired_def

text \<open>The methods that write the file.\<close>

fun writes_file :: "rpc \<Rightarrow> bool" where
  "writes_file (WhitelistCall (AddToWhitelistCall q)) = True"
| "writes_file (WhitelistCall (RemoveFromWhitelistCall q)) = True"
| "writes_file (WhitelistCall (CleanupExpiredCall q)) = True"
| "writes_file c = False"

text \<open>
  The middlewares of chi in front of the limiter may change request and response; they hand over to
  the next handler and do not touch the state of the gateway.
\<close>

definition passes_on :: "('s handler \<Rightarrow> 's handler) \<Rightarrow> bool" where
  "passes_on stack \<longleftrightarrow> (\<forall>h r rs s. \<exists>r' rs'. snd (stack h r rs s) = snd (h r' rs' s))"

definition stateless :: "'s handler \<Rightarrow> bool" where
  "stateless h \<longleftrightarrow> (\<forall>r rs s. snd (h r rs s) = s)"

lemma docker_read_world: "snd (snd (docker_read f (d, w))) = w"
  by (simp add: docker_read_def Let_def case_prod_beta)

subsection \<open>Frames\<close>

locale world_frame =
  fixes F :: "('l, 'rd, 'db, 'd, 'z) gworld_scheme \<Rightarrow> ('l, 'rd, 'db, 'd, 'z) gworld_scheme \<Rightarrow> bool"
  assumes same [simp, intro]: "F w w"
    and trans: "F u v \<Longrightarrow> F v w \<Longrightarrow> F u w"
    and Now: "F w (snd (time_Now w))"
    and log: "F w (LogEvent a e w)"
    and bucket: "F w (w\<lparr>rw_limiters := (rw_limiters w)[p := b]\<rparr>)"
    and redis: "F w (w\<lparr>rw_redis := s\<rparr>)"
    and db: "F w (w\<lparr>hw_db := x\<rparr>)"
    and daemon: "F w (w\<lparr>gw_docker := d\<rparr>)"
begin

lemma after_Now: "F u v \<Longrightarrow> F u (snd (time_Now v))"
  by (rule trans [OF _ Now])

lemma after_log: "F u v \<Longrightarrow> F u (LogEvent a e v)"
  by (rule trans [OF _ log])

lemma after_db: "F u v \<Longrightarrow> F u (v\<lparr>hw_db := x\<rparr>)"
  by (rule trans [OF _ db])

lemma after_redis: "F u v \<Longrightarrow> F u (v\<lparr>rw_redis := s\<rparr>)"
  by (rule trans [OF _ redis])

lemma after_daemon: "F u v \<Longrightarrow> F u (v\<lparr>gw_docker := d\<rparr>)"
  by (rule trans [OF _ daemon])

lemma after_on_db: "F u v \<Longrightarrow> F u (snd (on_db f v))"
  by (simp add: on_db_def case_prod_beta Let_def after_db)

lemma after_on_redis: "F u v \<Longrightarrow> F u (snd (on_redis f v))"
  by (simp add: on_redis_def case_prod_beta Let_def after_redis)

lemmas steps = after_Now after_log after_db after_redis after_daemon after_on_db after_on_redis

text \<open>The whitelist.\<close>

lemma expired_now: "F w (snd (expired_now e w))"
  by (simp add: expired_now_eq Now)

lemma source_range: "F w (snd (source_range es w))"
proof (induction es arbitrary: w)
  case (Cons e es)
  show ?case using trans [OF expired_now Cons.IH] by (simp add: Let_def case_prod_beta)
qed simp

lemma allowed_loop: "F w (snd (allowed_loop ip es w))"
proof (induction es arbitrary: w)
  case (Cons e es)
  show ?case unfolding allowed_loop_Cons using trans [OF expired_now Cons.IH] expired_now by simp
qed simp

lemma IsAllowed: "F w (snd (IsAllowed m ip w))"
  by (simp add: IsAllowed_def allowed_loop split: option.split)

lemma audit_action: "F w (audit_action m a b c d w)"
  by (simp add: audit_action_def Let_def case_prod_beta steps split: option.split)

lemma AddToBlacklist: "F w (snd (snd (AddToBlacklist ip d who (m, w))))"
  by (simp add: AddToBlacklist_unfold Let_def trans [OF Now audit_action] split: option.split)

lemma RemoveFromBlacklist: "F w (snd (snd (RemoveFromBlacklist ip who (m, w))))"
  by (simp add: RemoveFromBlacklist_unfold Let_def audit_action)

lemma cleanup_loop: "F w (snd (snd (cleanup_loop m now es w)))"
proof (induction es arbitrary: w)
  case (Cons e es)
  then show ?case using trans [OF log Cons.IH]
    by (auto simp: Let_def case_prod_beta split: option.split)
qed simp

lemma convert_entries: "F w (snd (convert_entries es w))"
proof (induction es arbitrary: w)
  case (Cons e es)
  have "F w (snd (convertToProtoIPEntry e w))"
    by (simp add: convertToProtoIPEntry_def Let_def case_prod_beta steps split: option.split)
  from trans [OF this Cons.IH] show ?case by (simp add: Let_def case_prod_beta)
qed simp

lemma serve_whitelist:
  "\<not> writes_file (WhitelistCall q) \<Longrightarrow> F w (snd (snd (serve_whitelist y q (m, w))))"
  by (cases q) (simp_all add: whitelist_methods Let_def case_prod_beta AddToBlacklist RemoveFromBlacklist IsAllowed
      convert_entries steps split: option.split)

text \<open>Databases and health.\<close>

lemma pg_fail: "F u w \<Longrightarrow> F u (snd (pg_fail what e st h w))"
  by (simp add: pg_fail_def Since_def case_prod_beta Let_def steps)

lemma CheckPostgreSQL: "F w (snd (CheckPostgreSQL S d w))"
  by (simp add: CheckPostgreSQL_def pg_checks_def Since_def case_prod_beta Let_def steps pg_fail
      split: option.split sum.split)

lemma CheckRedis: "F w (snd (CheckRedis d w))"
  by (simp add: CheckRedis_def Since_def case_prod_beta Let_def steps split: option.split)

lemma health_Check: "F w (snd (health_Check S h w))"
  by (simp add: health_Check_def CheckAll_def Since_def case_prod_beta Let_def steps
      trans [OF trans [OF _ CheckPostgreSQL] CheckRedis])

lemma Readiness: "F w (snd (Readiness S h w))"
  by (simp add: Readiness_def Let_def case_prod_beta CheckPostgreSQL)

lemma serve_health: "F w (snd (serve_health S sv q w))"
  by (cases q) (simp_all add: hs_Check_def hs_Liveness_def hs_Readiness_def hs_CheckPostgreSQL_def hs_CheckRedis_def
      Let_def case_prod_beta health_Check CheckPostgreSQL CheckRedis Readiness steps)

lemma serve_database: "F w (snd (serve_database S sv q w))"
  by (cases q) (simp_all add: ds_CheckPostgreSQL_def ds_CheckRedis_def ds_GetPostgreSQLStats_def ds_GetRedisStats_def
      Let_def case_prod_beta CheckPostgreSQL CheckRedis steps)

text \<open>Docker.\<close>

lemma audit_container: "F w (audit_container m a n w)"
  by (simp add: audit_container_def Let_def case_prod_beta steps split: option.split)

lemma container_changes:
  "F w (snd (snd (StartContainer D m n (d, w))))" "F w (snd (snd (StopContainer D m n t (d, w))))"
  "F w (snd (snd (RestartContainer D m n t (d, w))))"
  by (simp_all add: StartContainer_def StopContainer_def RestartContainer_def Let_def case_prod_beta audit_container
      split: option.split)

lemma serve_docker: "F w (snd (snd (serve_docker D sv q (d, w))))"
  by (cases q) (simp_all add: docker_read_world ds_StartContainer_def ds_StopContainer_def ds_RestartContainer_def
      Let_def case_prod_beta container_changes split: option.split)

lemma serve_other:
  assumes "\<not> writes_file c"
  shows "F w (snd (snd (gw_serve E S g c (mo, w))))"
  using assms
  by (cases c) (auto simp: gw_serve_def gw_dispatch_def Let_def case_prod_beta serve_whitelist serve_health
      serve_database intro!: after_daemon serve_docker split: option.split)

text \<open>HTTP requests.\<close>

lemma limiter_Allow: "F u w \<Longrightarrow> F u (snd (limiter_Allow R p w))"
  using trans [OF after_Now bucket] by (simp add: limiter_Allow_def Let_def case_prod_beta)

lemma allow_tier: "F w (snd (allow_tier R tier l w))"
proof -
  have "F w (snd (allowDistributed R l c tier n w))" for c tier n
    by (simp add: allowDistributed_def Let_def case_prod_beta steps limiter_Allow split: option.split)
  then show ?thesis
    by (simp add: allow_tier_def AllowAdmin_def AllowGlobal_def limiter_Allow split: bool.split option.split)
qed

lemma audit_limit: "F w (audit_limit a r tier w)"
  by (simp add: audit_limit_def LogRateLimitExceeded_def Let_def case_prod_beta steps split: option.split)

lemma limiter_Middleware:
  assumes "\<And>rs w. F w (snd (h r rs w))"
  shows "F w (snd (limiter_Middleware R l tier h r rs w))"
proof (cases "limiter_enter R l tier r rs w")
  case None
  then show ?thesis
    using trans [OF allow_tier audit_limit] by (simp add: tier_gate.rejected limiter_reject_def Let_def)
next
  case (Some x)
  obtain r1 rs1 w1 where x: "x = (r1, rs1, w1)" by (cases x) blast
  from limiter_enter_state [OF Some [unfolded x]]
  have "r1 = r" "w1 = snd (allow_tier R tier l w)" by simp_all
  with tier_gate.entered [OF Some [unfolded x]] assms trans [OF allow_tier] show ?thesis by metis
qed

lemma health_handler: "F w (snd (health_handler fmt g r rs w))"
  by (simp add: health_handler_def Let_def case_prod_beta steps split: option.split)

lemma gw_routes:
  assumes "stateless not_found"
  shows "F w (snd (gw_routes R fmt not_found g r rs w))"
proof -
  have "snd (not_found r rs w) = w" using assms by (simp add: stateless_def)
  moreover have "F w (snd (limiter_Middleware R (gwy_limiter g) ''admin'' (rate_limiter_handler R g) r rs w))"
    "F w (snd (limiter_Middleware R (gwy_limiter g) ''admin'' (cache_stats_handler g) r rs w))"
    by (rule limiter_Middleware, simp add: admin_handler_state)+
  ultimately show ?thesis by (simp add: gw_routes_def health_handler)
qed

lemma gw_handler:
  assumes "passes_on stack" "stateless not_found"
  shows "F w (snd (gw_handler R fmt stack not_found g r rs w))"
proof -
  let ?h = "limiter_Middleware R (gwy_limiter g) ''global'' (gw_routes R fmt not_found g)"
  obtain r1 rs1 where "snd (stack ?h r rs w) = snd (?h r1 rs1 w)"
    using assms(1) unfolding passes_on_def by blast
  moreover have "F w (snd (?h r1 rs1 w))"
    by (rule limiter_Middleware) (rule gw_routes [OF assms(2)])
  ultimately show ?thesis by (simp add: gw_handler_def)
qed

end

text \<open>A frame that also respects the writing of files holds for every call.\<close>

locale writing_frame = world_frame F
  for F :: "('l, 'rd, 'db, 'd, 'z) gworld_scheme \<Rightarrow> ('l, 'rd, 'db, 'd, 'z) gworld_scheme \<Rightarrow> bool" +
  assumes written: "F w (snd (os_WriteFile p t w))"
begin

lemma update: "F u w \<Longrightarrow> F u (snd (updateTraefikConfig y m w))"
  using trans [OF _ source_range] trans [OF _ written]
  by (simp add: updateTraefikConfig_def Let_def case_prod_beta after_Now split: sum.split option.split)

lemma AddToWhitelist: "F w (snd (snd (AddToWhitelist y ip d who ex (m, w))))"
  using trans [OF update audit_action]
  by (simp add: AddToWhitelist_unfold Let_def update Now split: option.split)

lemma RemoveFromWhitelist: "F w (snd (snd (RemoveFromWhitelist y ip who (m, w))))"
  using trans [OF update audit_action]
  by (simp add: RemoveFromWhitelist_unfold Let_def update split: option.split)

lemma CleanupExpired: "F w (snd (snd (CleanupExpired y (m, w))))"
  using trans [OF Now cleanup_loop] by (simp add: CleanupExpired_def Let_def case_prod_beta update)

lemma serve: "F w (snd (snd (gw_serve E S g c (mo, w))))"
proof (cases "writes_file c")
  case True
  then obtain q where c: "c = WhitelistCall q" by (cases c) auto
  have "F w (snd (snd (serve_whitelist y q (m, w))))" for y m
    using True c by (cases q) (simp_all add: whitelist_methods Let_def case_prod_beta AddToWhitelist
        RemoveFromWhitelist CleanupExpired steps split: option.split)
  then show ?thesis
    by (simp add: c gw_serve_def gw_dispatch_def Let_def case_prod_beta split: option.split)
qed (rule serve_other)

end

subsection \<open>Buckets and log\<close>

text \<open>The heap keeps its buckets (their contents may change), the log is only extended, by masked entries.\<close>

definition log_line :: "zap_call \<Rightarrow> bool" where
  "log_line c \<longleftrightarrow> (\<exists>a e. c = audit_call a e \<and> is_masked (ev_IPAddress e))"

definition grows :: "('l, 'rd, 'z) rworld_scheme \<Rightarrow> ('l, 'rd, 'z) rworld_scheme \<Rightarrow> bool" where
  "grows w w1 \<longleftrightarrow> length (rw_limiters w1) = length (rw_limiters w) \<and> (\<exists>cs. w_zap w1 = w_zap w @ cs \<and> (\<forall>c \<in> set cs. log_line c))"

lemma growsI: "rw_limiters w1 = rw_limiters w \<Longrightarrow> w_zap w1 = w_zap w \<Longrightarrow> grows w w1"
  by (simp add: grows_def)

lemma grows_trans [trans]: "grows u v \<Longrightarrow> grows v w \<Longrightarrow> grows u w"
  unfolding grows_def by (elim conjE exE, intro conjI) (simp, metis append.assoc Un_iff set_append)

lemma os_WriteFile_limiters: "rw_limiters (snd (os_WriteFile p d w)) = rw_limiters w"
proof -
  have "rw_limiters (snd (next_fault w)) = rw_limiters w" by (simp add: next_fault_def split: list.split)
  then show ?thesis
    by (auto simp: os_WriteFile_def case_prod_beta Let_def split: fs_fault.split option.split)
qed

lemma log_line_audit [simp]: "log_line (audit_call a (mask_event e))"
  unfolding log_line_def
  by (rule exI [of _ a], rule exI [of _ "mask_event e"]) (simp add: mask_event_def)

interpretation grow: writing_frame grows
  by unfold_locales
    (auto intro: grows_trans simp: grows_def LogEvent_eq zap_emit_def world_simps os_WriteFile_limiters)

subsection \<open>Files and clock\<close>

text \<open>Files and pending faults stay, the clock goes on.\<close>

definition files_kept :: "'z world_scheme \<Rightarrow> 'z world_scheme \<Rightarrow> bool" where
  "files_kept w w1 \<longleftrightarrow> w_files w1 = w_files w \<and> w_faults w1 = w_faults w \<and> later w w1"

interpretation files: world_frame files_kept
  by unfold_locales (auto simp: files_kept_def later_def world_simps LogEvent_eq zap_emit_def)

text \<open>The clock goes on, whatever is written.\<close>

interpretation clock: writing_frame "later :: ('l, 'rd, 'db, 'd, 'z) gworld_scheme \<Rightarrow> _"
  by unfold_locales (auto simp: later_def world_simps LogEvent_eq zap_emit_def)

end
