(* ===== verification/System.thy ===== *)
theory System
  imports Frames
begin

text \<open>
  The running gateway as one state machine: gRPC calls, HTTP requests and what the rest of the world
  does, in any order.  A call is a single step although the server handles calls in parallel: every
  operation of the whitelist manager runs under its mutex, the buckets lock themselves, and the other
  services keep no state of their own.  The one operation that is not atomic, the counter of the
  limiters in Redis, has its own theory, LimiterThreads.
\<close>

subsection \<open>Steps\<close>

datatype 'st process = Up 'st | Crashed string 'st | Ended int 'st

text \<open>What a step shows to the outside.\<close>

datatype happening = Called rpc served | Requested request response | Outside | Finishing gw_event

inductive gw_step :: "('l, 'rd, 'd) gw_env \<Rightarrow> 'db sql_ops \<Rightarrow> (time \<Rightarrow> string) \<Rightarrow>
    (('l, 'rd, 'db, 'd, 'z) gworld_scheme handler \<Rightarrow> ('l, 'rd, 'db, 'd, 'z) gworld_scheme handler) \<Rightarrow>
    ('l, 'rd, 'db, 'd, 'z) gworld_scheme handler \<Rightarrow> 'rd gateway \<Rightarrow>
    ('l, 'rd, 'db, 'd, 'z) gw_state process \<Rightarrow> happening \<Rightarrow> ('l, 'rd, 'db, 'd, 'z) gw_state process \<Rightarrow> bool"
  for E S fmt stack not_found g where
  call: "gw_serve E S g c st = (served, st1) \<Longrightarrow> \<forall>m. served \<noteq> Served (Panics m) \<Longrightarrow>
    gw_step E S fmt stack not_found g (Up st) (Called c served) (Up st1)"
| crash: "gw_serve E S g c st = (Served (Panics m), st1) \<Longrightarrow>
    gw_step E S fmt stack not_found g (Up st) (Called c (Served (Panics m))) (Crashed m st1)"
| http: "hsv_Handler (rest_server (env_rate E) fmt stack not_found g) r new_response w = (rs, w1) \<Longrightarrow>
    gw_step E S fmt stack not_found g (Up (mo, w)) (Requested r rs) (Up (mo, w1))"
| environment: "rw_limiters w1 = rw_limiters w \<Longrightarrow> w_zap w1 = w_zap w \<Longrightarrow>
    gw_step E S fmt stack not_found g (Up (mo, w)) Outside (Up (mo, w1))"
| finish: "gw_finish E g ev w = (n, w1) \<Longrightarrow>
    gw_step E S fmt stack not_found g (Up (mo, w)) (Finishing ev) (Ended n (mo, w1))"

inductive gw_run :: "('l, 'rd, 'd) gw_env \<Rightarrow> 'db sql_ops \<Rightarrow> (time \<Rightarrow> string) \<Rightarrow>
    (('l, 'rd, 'db, 'd, 'z) gworld_scheme handler \<Rightarrow> ('l, 'rd, 'db, 'd, 'z) gworld_scheme handler) \<Rightarrow>
    ('l, 'rd, 'db, 'd, 'z) gworld_scheme handler \<Rightarrow> 'rd gateway \<Rightarrow>
    ('l, 'rd, 'db, 'd, 'z) gw_state process \<Rightarrow> happening list \<Rightarrow> ('l, 'rd, 'db, 'd, 'z) gw_state process \<Rightarrow> bool"
  for E S fmt stack not_found g where
  stop: "gw_run E S fmt stack not_found g p [] p"
| go: "gw_step E S fmt stack not_found g p h p1 \<Longrightarrow> gw_run E S fmt stack not_found g p1 hs p2 \<Longrightarrow>
    gw_run E S fmt stack not_found g p (h # hs) p2"

inductive_cases gw_step_Up_raw: "gw_step E S fmt stack not_found g (Up (mo, w)) h (Up (mo1, w1))"
lemmas gw_step_UpE = gw_step_Up_raw [unfolded rest_server_handler]
inductive_cases gw_run_ConsE: "gw_run E S fmt stack not_found g p (h # hs) p2"
inductive_simps gw_step_Crashed: "gw_step E S fmt stack not_found g p h (Crashed m st)"
inductive_simps gw_step_Ended: "gw_step E S fmt stack not_found g p h (Ended n (mo, w))"
inductive_simps gw_step_from_Crashed: "gw_step E S fmt stack not_found g (Crashed m st) h p"
inductive_simps gw_step_from_Ended: "gw_step E S fmt stack not_found g (Ended n st) h p"
inductive_simps gw_run_Nil: "gw_run E S fmt stack not_found g p [] p2"

text \<open>The states that a gateway started in the world \<open>w0\<close> can come to.\<close>

definition gw_reachable :: "('l, 'rd, 'd) gw_env \<Rightarrow> 'db sql_ops \<Rightarrow> (time \<Rightarrow> string) \<Rightarrow>
    (('l, 'rd, 'db, 'd, 'z) gworld_scheme handler \<Rightarrow> ('l, 'rd, 'db, 'd, 'z) gworld_scheme handler) \<Rightarrow>
    ('l, 'rd, 'db, 'd, 'z) gworld_scheme handler \<Rightarrow> ('l, 'rd, 'db, 'd, 'z) gworld_scheme \<Rightarrow>
    'rd gateway \<Rightarrow> ('l, 'rd, 'db, 'd, 'z) gw_state process \<Rightarrow> bool" where
  "gw_reachable E S fmt stack not_found w0 g p \<longleftrightarrow> (\<exists>w1 hs. gw_start E w0 = (Started g, w1)
     \<and> gw_run E S fmt stack not_found g (Up (gwy_whitelist g, w1)) hs p)"

text \<open>A step between running states respects every frame that its calls and its outside events respect.\<close>

lemma gw_step_frame:
  assumes "gw_step E S fmt stack not_found g (Up (mo, w)) h (Up (mo1, w1))"
    and "\<And>c served. h = Called c served \<Longrightarrow> F w (snd (snd (gw_serve E S g c (mo, w))))"
    and "\<And>r. F w (snd (gw_handler (env_rate E) fmt stack not_found g r new_response w))"
    and "h = Outside \<Longrightarrow> rw_limiters w1 = rw_limiters w \<Longrightarrow> w_zap w1 = w_zap w \<Longrightarrow> F w w1"
  shows "F w w1"
proof -
  from assms(1) consider c served where "h = Called c served" "gw_serve E S g c (mo, w) = (served, mo1, w1)"
    | r rs where "gw_handler (env_rate E) fmt stack not_found g r new_response w = (rs, w1)"
    | "h = Outside" "rw_limiters w1 = rw_limiters w" "w_zap w1 = w_zap w"
    by (cases rule: gw_step_UpE) blast+
  then show ?thesis using assms(2-4) by cases (metis snd_conv)+
qed

end
