(* ===== verification/SystemProps.thy ===== *)
theory SystemProps
  imports System
begin

text \<open>
  Properties of the running gateway: what stays true of its state whatever calls, requests and
  outside events come in, how it refines the two sets of addresses, and which calls end it.
\<close>

subsection \<open>The state\<close>

text \<open>What start-up leaves: the manager, the two buckets and their pointers.\<close>

definition gw_typed :: "'rd gateway \<Rightarrow> ('l, 'rd, 'db, 'd, 'z) gw_state \<Rightarrow> bool" where
  "gw_typed g st \<longleftrightarrow> (case st of (mo, w) \<Rightarrow>
     (case mo of
        None \<Rightarrow> gwy_whitelist g = None
      | Some m \<Rightarrow> gwy_whitelist g \<noteq> None \<and> bl.wf (m, w)
          \<and> wm_traefikConfigPath m = wcf_TraefikConfigPath (cfg_Whitelist (gwy_cfg g)) \<and> wm_audit m = Some (gwy_audit g))
     \<and> lim_globalLimiter (gwy_limiter g) < lim_adminLimiter (gwy_limiter g)
     \<and> lim_adminLimiter (gwy_limiter g) < length (rw_limiters w))"

lemma bl_wf_world: "bl.wf (m, w) = bl.wf (m, w')"
  by (simp add: bl.wf_def)

lemma start_typed:
  fixes E :: "('l, 'rd, 'd) gw_env" and w :: "('l, 'rd, 'db, 'd, 'z) gworld_scheme"
  assumes "gw_start E w = (Started g, w1)"
  shows "gw_typed g (gwy_whitelist g, w1)"
proof -
  obtain a where g: "(g, w1) = init_components E a w"
    using assms by (auto simp: gw_start_def case_prod_beta Let_def split: sum.splits option.splits if_splits)
  define cfg where "cfg = load_config E"
  define rl where "rl = cfg_RateLimit cfg"
  define rd where "rd = connect_redis E cfg w"
  define lc where "lc = \<lparr>lmc_GlobalRPS = rl_GlobalRPS rl, lmc_AdminRPS = rl_AdminRPS rl,
    lmc_BurstSize = rl_BurstSize rl, lmc_Distributed = rl_Distributed rl \<and> fst rd \<noteq> None,
    lmc_Cache = fst rd, lmc_AuditLogger = Some a\<rparr>"
  define ln where "ln = limiter_New (env_rate E) lc (snd rd)"
  define nm where "nm = wl_NewManager (env_yaml E)
    \<lparr>wc_TraefikConfigPath = wcf_TraefikConfigPath (cfg_Whitelist cfg), wc_AuditLogger = Some a\<rparr> (snd ln)"
  have parts: "gwy_cfg g = cfg" "gwy_audit g = a" "gwy_limiter g = fst ln"
    "gwy_whitelist g = (case fst nm of Inl e \<Rightarrow> None | Inr m \<Rightarrow> Some m)"
    "rw_limiters w1 = rw_limiters (snd ln)"
    using arg_cong [OF g, of "\<lambda>p. gwy_cfg (fst p)"] arg_cong [OF g, of "\<lambda>p. gwy_audit (fst p)"]
      arg_cong [OF g, of "\<lambda>p. gwy_limiter (fst p)"] arg_cong [OF g, of "\<lambda>p. gwy_whitelist (fst p)"]
      arg_cong [OF g, of "\<lambda>p. rw_limiters (snd p)"]
    by (simp_all add: init_components_def case_prod_beta Let_def NewHealthChecker_def world_simps NewManager_limiters
        cfg_def rl_def rd_def lc_def ln_def nm_def)
  have ptr: "lim_globalLimiter (fst ln) < lim_adminLimiter (fst ln)" "lim_adminLimiter (fst ln) < length (rw_limiters (snd ln))"
    by (simp_all add: ln_def limiter_New_def alloc_limiter_def Let_def case_prod_beta)
  show ?thesis
  proof (cases "fst nm")
    case (Inl e)
    then show ?thesis using ptr by (simp add: gw_typed_def parts)
  next
    case (Inr m)
    then have "wl_NewManager (env_yaml E) \<lparr>wc_TraefikConfigPath = wcf_TraefikConfigPath (cfg_Whitelist cfg),
        wc_AuditLogger = Some a\<rparr> (snd ln) = (Inr m, snd nm)"
      by (simp add: nm_def prod_eq_iff)
    from NewManager_start [OF this] ptr show ?thesis by (simp add: gw_typed_def parts Inr bl.wf_def)
  qed
qed

subsection \<open>What a call does to the manager\<close>

text \<open>The operation of the manager behind a method; the other methods only look.\<close>

fun wl_op_of :: "whitelist_rpc \<Rightarrow> 'z wl_op" where
  "wl_op_of (AddToWhitelistCall q) = AddW (AddToWhitelistRequest_Ip q) (AddToWhitelistRequest_Description q)
     (AddToWhitelistRequest_AddedBy q) (AddToWhitelistRequest_ExpiresAt q)"
| "wl_op_of (RemoveFromWhitelistCall q) = RemW (RemoveFromWhitelistRequest_Ip q) ''grpc-api''"
| "wl_op_of (AddToBlacklistCall q) = AddB (AddToBlacklistRequest_Ip q) (AddToBlacklistRequest_Description q)
     (AddToBlacklistRequest_AddedBy q)"
| "wl_op_of (RemoveFromBlacklistCall q) = RemB (RemoveFromBlacklistRequest_Ip q) ''grpc-api''"
| "wl_op_of (CleanupExpiredCall q) = Cleanup"
| "wl_op_of q = Env id"

fun changes_lists :: "whitelist_rpc \<Rightarrow> bool" where
  "changes_lists (AddToWhitelistCall q) = True"
| "changes_lists (RemoveFromWhitelistCall q) = True"
| "changes_lists (AddToBlacklistCall q) = True"
| "changes_lists (RemoveFromBlacklistCall q) = True"
| "changes_lists (CleanupExpiredCall q) = True"
| "changes_lists q = False"

lemma wl_op_of_RemB: "wl_op_of q = RemB ip who \<longleftrightarrow>
    (\<exists>r. q = RemoveFromBlacklistCall r \<and> RemoveFromBlacklistRequest_Ip r = ip \<and> who = ''grpc-api'')"
  by (cases q) auto

lemma serve_whitelist_manager: "fst (snd (serve_whitelist y q s)) = fst (wl_exec y (wl_op_of q) s)"
  by (cases q) (simp_all add: whitelist_methods Let_def case_prod_beta split: option.split)

lemma wl_op_of_reads: "\<not> changes_lists q \<Longrightarrow> wl_exec y (wl_op_of q) s = s"
  by (cases q) simp_all

lemma gw_serve_whitelist:
  "gw_serve E S g (WhitelistCall q) (mo, w) = (if gwy_whitelist g = None then (Unimplemented, mo, w)
     else case mo of None \<Rightarrow> (Served (Panics nil_panic), None, w)
       | Some m \<Rightarrow> (let (r, m1, w1) = serve_whitelist (env_yaml E) q (m, w)
           in (Served (Returns (map_sum id WhitelistReply r)), Some m1, w1)))"
  unfolding gw_serve_def registered_iff by (simp add: gw_dispatch_def Let_def case_prod_beta split: option.split)

text \<open>Any step between running states either keeps the manager or is one list-changing call.\<close>

lemma gw_step_manager:
  assumes "gw_step E S fmt stack not_found g (Up (mo, w)) h (Up (mo1, w1))"
  shows "mo1 = mo \<or> (\<exists>m q served. h = Called (WhitelistCall q) served \<and> changes_lists q \<and> mo = Some m
      \<and> mo1 = Some (fst (wl_exec (env_yaml E) (wl_op_of q) (m, w))))"
proof -
  from assms consider (same) "mo1 = mo"
    | (call) c served where "h = Called c served" "gw_serve E S g c (mo, w) = (served, mo1, w1)"
    by (cases rule: gw_step_UpE) blast+
  then show ?thesis
  proof cases
    case (call c served)
    show ?thesis
    proof (cases "\<exists>q. c = WhitelistCall q")
      case False
      then have "fst (snd (gw_serve E S g c (mo, w))) = mo"
        by (cases c) (simp_all add: gw_serve_def gw_dispatch_def Let_def case_prod_beta split: option.split)
      with call show ?thesis by simp
    next
      case True
      then obtain q where c: "c = WhitelistCall q" by blast
      show ?thesis
      proof (cases "gwy_whitelist g = None \<or> mo = None")
        case True
        with call show ?thesis by (auto simp: c gw_serve_whitelist split: if_splits)
      next
        case False
        then obtain m where m: "mo = Some m" "gwy_whitelist g \<noteq> None" by blast
        have new: "mo1 = Some (fst (wl_exec (env_yaml E) (wl_op_of q) (m, w)))"
          using call m by (auto simp: c gw_serve_whitelist Let_def case_prod_beta simp flip: serve_whitelist_manager)
        show ?thesis
        proof (cases "changes_lists q")
          case False
          with new m show ?thesis by (simp add: wl_op_of_reads)
        next
          case True
          with new m call c show ?thesis by blast
        qed
      qed
    qed
  qed simp
qed

lemma gw_step_grows:
  assumes "gw_step E S fmt stack not_found g (Up (mo, w)) h (Up (mo1, w1))" "passes_on stack" "stateless not_found"
  shows "grows w w1"
  by (rule gw_step_frame [where F = grows, OF assms(1) grow.serve grow.gw_handler [OF assms(2,3)] growsI])

lemma gw_step_typed:
  assumes "gw_step E S fmt stack not_found g (Up (mo, w)) h (Up (mo1, w1))" "passes_on stack" "stateless not_found"
    and "gw_typed g (mo, w)"
  shows "gw_typed g (mo1, w1)"
proof -
  have len: "length (rw_limiters w1) = length (rw_limiters w)"
    using gw_step_grows [OF assms(1-3)] by (simp add: grows_def)
  from gw_step_manager [OF assms(1)] show ?thesis
  proof (elim disjE exE conjE)
    assume "mo1 = mo"
    with assms(4) len bl_wf_world show ?thesis by (auto simp: gw_typed_def split: option.splits)
  next
    fix m q served
    assume m: "mo = Some m" "mo1 = Some (fst (wl_exec (env_yaml E) (wl_op_of q) (m, w)))"
    obtain m1 v where op: "wl_exec (env_yaml E) (wl_op_of q) (m, w) = (m1, v)" by (metis prod.collapse)
    from wl_step_wf [OF wl_exec_step, of "(m, w)" "env_yaml E" "wl_op_of q"]
      wl_step_frame [OF wl_exec_step, of "env_yaml E" "wl_op_of q" "(m, w)"] assms(4) len m
    show ?thesis by (auto simp: gw_typed_def op bl_wf_world [of m1 v w1])
  qed
qed

text \<open>Nothing happens after the end, so a running gateway was running all the time.\<close>

lemma gw_run_exited:
  assumes "gw_run E S fmt stack not_found g p hs p1" "(\<exists>m st. p = Crashed m st) \<or> (\<exists>n st. p = Ended n st)"
  shows "hs = [] \<and> p1 = p"
proof (cases hs)
  case Nil
  with assms(1) show ?thesis by (simp add: gw_run_Nil)
next
  case (Cons h hs')
  with assms(1) obtain p2 where "gw_step E S fmt stack not_found g p h p2" by (auto elim: gw_run_ConsE)
  with assms(2) show ?thesis by (auto simp: gw_step_from_Crashed gw_step_from_Ended)
qed

lemma gw_run_stepE:
  assumes "gw_run E S fmt stack not_found g (Up (mo, w)) (h # hs) (Up st)"
  obtains mo1 w1 where "gw_step E S fmt stack not_found g (Up (mo, w)) h (Up (mo1, w1))"
    "gw_run E S fmt stack not_found g (Up (mo1, w1)) hs (Up st)"
proof -
  from assms obtain p1 where p: "gw_step E S fmt stack not_found g (Up (mo, w)) h p1"
    "gw_run E S fmt stack not_found g p1 hs (Up st)" by (rule gw_run_ConsE)
  have "p1 \<noteq> Crashed m st1" "p1 \<noteq> Ended n st1" for m n st1
    using gw_run_exited [OF p(2)] by auto
  with p that show thesis by (metis process.exhaust prod.collapse)
qed

lemma gw_run_typed:
  assumes "passes_on stack" "stateless not_found"
  shows "gw_run E S fmt stack not_found g (Up (mo, w)) hs (Up st) \<Longrightarrow> gw_typed g (mo, w) \<Longrightarrow>
    gw_typed g st \<and> grows w (snd st)"
proof (induction hs arbitrary: mo w)
  case (Cons h hs)
  from Cons.prems(1) obtain mo1 w1 where s: "gw_step E S fmt stack not_found g (Up (mo, w)) h (Up (mo1, w1))"
    "gw_run E S fmt stack not_found g (Up (mo1, w1)) hs (Up st)" by (rule gw_run_stepE)
  from Cons.IH [OF s(2) gw_step_typed [OF s(1) assms Cons.prems(2)]] gw_step_grows [OF s(1) assms] grows_trans
  show ?case by blast
qed (auto simp: gw_run_Nil)

lemma reachable_typed:
  fixes E :: "('l, 'rd, 'd) gw_env" and w0 :: "('l, 'rd, 'db, 'd, 'z) gworld_scheme"
  assumes "gw_reachable E S fmt stack not_found w0 g (Up (mo, w))" "passes_on stack" "stateless not_found"
  shows "gw_typed g (mo, w) \<and> grows (snd (gw_start E w0)) w"
proof -
  from assms(1) obtain w1 hs where r: "gw_start E w0 = (Started g, w1)"
    "gw_run E S fmt stack not_found g (Up (gwy_whitelist g, w1)) hs (Up (mo, w))"
    unfolding gw_reachable_def by blast
  from gw_run_typed [OF assms(2,3) r(2) start_typed [OF r(1)]] r(1) show ?thesis by simp
qed

text \<open>C12 (type).  The state of the running gateway keeps its shape whatever happens, in any order: calls, HTTP
  requests, and what the outside does to files, Redis, the daemon and the clock.  A whitelist manager is there exactly
  when start-up made one, its blacklist has distinct valid addresses, its path and logger are the
  configured ones; the pointers of the two limiters are different and in range; the audit log is
  only ever extended, by entries with a masked address.\<close>

theorem running_gateway_well_typed:
  fixes E :: "('l, 'rd, 'd) gw_env" and w0 :: "('l, 'rd, 'db, 'd, 'z) gworld_scheme"
  assumes "gw_reachable E S fmt stack not_found w0 g (Up (mo, w))" "passes_on stack" "stateless not_found"
  shows "(mo = None \<longleftrightarrow> gwy_whitelist g = None)
    \<and> (\<forall>m. mo = Some m \<longrightarrow> distinct (map ip_IP (wm_blacklist m)) \<and> (\<forall>e \<in> set (wm_blacklist m). validateIPOrCIDR (ip_IP e) = None)
        \<and> wm_traefikConfigPath m = wcf_TraefikConfigPath (cfg_Whitelist (gwy_cfg g)) \<and> wm_audit m = Some (gwy_audit g))
    \<and> lim_globalLimiter (gwy_limiter g) \<noteq> lim_adminLimiter (gwy_limiter g)
    \<and> lim_globalLimiter (gwy_limiter g) < length (rw_limiters w) \<and> lim_adminLimiter (gwy_limiter g) < length (rw_limiters w)
    \<and> (\<exists>cs. w_zap w = w_zap (snd (gw_start E w0)) @ cs \<and> (\<forall>c \<in> set cs. log_line c))"
proof -
  from reachable_typed [OF assms] show ?thesis
    by (auto simp: gw_typed_def grows_def bl.wf_def split: option.splits)
qed

subsection \<open>Refinement\<close>

text \<open>A gateway without a whitelist manager lists nobody.\<close>

definition gw_abs :: "('l, 'rd, 'db, 'd, 'z) gw_state \<Rightarrow> access" where
  "gw_abs st = (case st of (None, w) \<Rightarrow> ({}, {}) | (Some m, w) \<Rightarrow> wl_abs (m, w))"

lemma gw_abs_world: "gw_abs (mo, w) = gw_abs (mo, w')"
  by (simp add: gw_abs_def wl_abs_def wl.ips_def bl.ips_def split: option.split)

text \<open>C3 (refinement).  Seen through its two sets of addresses the whole gateway does, at every step, what the
  abstract machine may do (add one valid address, drop one, drop expired ones, or nothing), and only
  the five list-changing methods of the whitelist service change the manager at all: no HTTP request,
  no other call and nothing outside does.\<close>

theorem gateway_refines_access_sets:
  assumes "gw_step E S fmt stack not_found g (Up st) h (Up st1)"
  shows "access_step (gw_abs st) (gw_abs st1)
    \<and> (fst st1 \<noteq> fst st \<longrightarrow> (\<exists>q served. changes_lists q \<and> h = Called (WhitelistCall q) served))"
proof -
  obtain mo w mo1 w1 where st: "st = (mo, w)" "st1 = (mo1, w1)" by (metis prod.collapse)
  from gw_step_manager [OF assms [unfolded st]] show ?thesis
  proof (elim disjE exE conjE)
    assume "mo1 = mo"
    with gw_abs_world [of mo w1 w] access_stutter show ?thesis by (metis st fst_conv prod.collapse)
  next
    fix m q served
    assume m: "mo = Some m" "mo1 = Some (fst (wl_exec (env_yaml E) (wl_op_of q) (m, w)))"
      and q: "changes_lists q" "h = Called (WhitelistCall q) served"
    have "gw_abs st1 = wl_abs (wl_exec (env_yaml E) (wl_op_of q) (m, w))"
      by (simp add: st m gw_abs_def wl_abs_def wl.ips_def bl.ips_def)
    with wl_step_refines [OF wl_exec_step, of "(m, w)" "env_yaml E" "wl_op_of q"] m q st show ?thesis
      by (auto simp: gw_abs_def)
  qed
qed

subsection \<open>What ends the process\<close>

definition inspect_ok :: "dk_inspect \<Rightarrow> bool" where
  "inspect_ok i \<longleftrightarrow> dki_Ports i \<noteq> None \<and> dki_Config i \<noteq> None
     \<and> (\<exists>b. dki_Base i = Some b \<and> 12 \<le> length (dkj_ID b) \<and> dkj_Name b \<noteq> [] \<and> dkj_Status b \<noteq> None)"

text \<open>The answers of the daemon that a method of the docker service cannot digest.\<close>

fun docker_crash :: "'d docker_ops \<Rightarrow> docker_rpc \<Rightarrow> 'd \<Rightarrow> bool" where
  "docker_crash D (ListContainersCall q) d = (case fst (dk_ContainerList D True [] d) of
     Inl e \<Rightarrow> False | Inr cs \<Rightarrow> \<not> list_all well_formed cs)"
| "docker_crash D (GetAquatiqServicesCall q) d = (case fst (dk_ContainerList D True [(''name'', ''aquatiq-'')] d) of
     Inl e \<Rightarrow> False | Inr cs \<Rightarrow> \<not> list_all well_formed cs)"
| "docker_crash D (GetContainerCall q) d = (case fst (dk_ContainerInspect D (GetContainerRequest_ContainerId q) d) of
     Inl e \<Rightarrow> False | Inr i \<Rightarrow> \<not> inspect_ok i)"
| "docker_crash D (GetContainerStatsCall q) d =
     (let n = GetContainerStatsRequest_ContainerId q; (res, d1) = dk_ContainerStats D n False d in
      case res of
        Inr (Inr s) \<Rightarrow> (case fst (dk_ContainerInspect D n d1) of
          Inl e \<Rightarrow> False | Inr i \<Rightarrow> length n < 12 \<or> (\<forall>b. dki_Base i = Some b \<longrightarrow> dkj_Name b = []))
      | _ \<Rightarrow> False)"
| "docker_crash D (ListVolumesCall q) d = (case fst (dk_VolumeList D d) of
     Inl e \<Rightarrow> False | Inr vs \<Rightarrow> None \<in> set vs)"
| "docker_crash D q d = False"

definition panics :: "'a outcome \<Rightarrow> bool" where
  "panics x \<longleftrightarrow> (case x of Panics m \<Rightarrow> True | Returns y \<Rightarrow> False)"

lemma panics_simps [simp]: "panics (Panics m)" "\<not> panics (Returns y)"
  by (simp_all add: panics_def)

lemma panics_bind: "panics (bind_outcome x f) \<longleftrightarrow> panics x \<or> (\<exists>y. x = Returns y \<and> panics (f y))"
  by (cases x) simp_all

lemma panics_map [simp]: "panics (map_outcome f x) = panics x"
  by (cases x) simp_all

lemma panics_iff: "panics x \<longleftrightarrow> (\<exists>m. x = Panics m)"
  by (cases x) simp_all

lemma panics_map_outcomes: "panics (map_outcomes f xs) \<longleftrightarrow> (\<exists>x \<in> set xs. panics (f x))"
  by (induction xs) (auto split: outcome.split)

lemma panics_container_info: "panics (container_info c) \<longleftrightarrow> \<not> well_formed c"
proof (cases "well_formed c")
  case True
  with container_info_eq [of c] show ?thesis by simp
next
  case False
  with container_info_panics show ?thesis by (auto simp: panics_iff)
qed

lemma panics_slices: "panics (slice_to s n) \<longleftrightarrow> length s < n" "panics (slice_from s n) \<longleftrightarrow> length s < n"
  "panics (deref x) \<longleftrightarrow> x = None"
  by (simp_all add: slice_to_def slice_from_def deref_def split: option.split)

lemma panics_volume_info: "panics (volume_info D p) \<longleftrightarrow> p = None"
  by (simp add: volume_info_def panics_bind panics_slices Let_def)

lemma serve_docker_panics: "panics (fst (serve_docker D sv q (d, w))) \<longleftrightarrow> docker_crash D q d"
proof (cases q)
  case (ListContainersCall req)
  then show ?thesis
    by (auto simp: docker_read_def ds_ListContainers_def ListContainers_def Let_def case_prod_beta panics_bind
        panics_map_outcomes panics_container_info list_all_iff split: sum.split)
next
  case (GetAquatiqServicesCall req)
  then show ?thesis
    by (auto simp: docker_read_def ds_GetAquatiqServices_def GetAquatiqServices_def Let_def case_prod_beta panics_bind
        panics_map_outcomes panics_container_info list_all_iff split: sum.split)
next
  case (GetContainerCall req)
  then show ?thesis
    by (auto simp: docker_read_def ds_GetContainer_def GetContainer_def Let_def case_prod_beta inspect_ok_def
        slice_to_def slice_from_def deref_def Suc_le_eq split: sum.split option.split)
next
  case (GetContainerStatsCall req)
  then show ?thesis
    by (auto simp: docker_read_def ds_GetContainerStats_def GetContainerStats_def Let_def case_prod_beta
        slice_to_def slice_from_def deref_def Suc_le_eq split: sum.split option.split)
next
  case (ListVolumesCall req)
  then show ?thesis
    by (auto simp: docker_read_def ds_ListVolumes_def ListVolumes_def Let_def case_prod_beta panics_bind
        panics_map_outcomes panics_volume_info split: sum.split)
qed (simp_all add: docker_read_def case_prod_beta)

lemma gw_serve_docker:
  "gw_serve E S g (DockerCall q) (mo, w) = (case gwy_docker g of None \<Rightarrow> (Unimplemented, mo, w)
     | Some dm \<Rightarrow> (let (out, d1, w1) = serve_docker (env_docker E) (NewDockerServiceServer dm) q (gw_docker w, w)
         in (Served (map_outcome (map_sum id DockerReply) out), mo, w1\<lparr>gw_docker := d1\<rparr>)))"
  unfolding gw_serve_def registered_iff by (simp add: gw_dispatch_def Let_def case_prod_beta split: option.split)

lemma gw_serve_crash:
  assumes "mo = None \<longrightarrow> gwy_whitelist g = None"
  shows "(\<exists>m. fst (gw_serve E S g c (mo, w)) = Served (Panics m)) \<longleftrightarrow>
    (\<exists>q. c = DockerCall q \<and> gwy_docker g \<noteq> None \<and> docker_crash (env_docker E) q (gw_docker w))"
proof (cases c)
  case (WhitelistCall q)
  with assms show ?thesis by (simp add: gw_serve_whitelist Let_def case_prod_beta split: option.split)
next
  case (HealthCall q)
  then show ?thesis by (simp add: gw_serve_def gw_dispatch_def Let_def case_prod_beta)
next
  case (DatabaseCall q)
  then show ?thesis by (simp add: gw_serve_def gw_dispatch_def Let_def case_prod_beta)
next
  case (DockerCall q)
  show ?thesis
  proof (cases "gwy_docker g")
    case None
    with DockerCall show ?thesis by (simp add: gw_serve_docker)
  next
    case (Some dm)
    with DockerCall serve_docker_panics [of "env_docker E" "NewDockerServiceServer dm" q "gw_docker w" w]
    show ?thesis by (simp add: gw_serve_docker Let_def case_prod_beta flip: panics_iff)
  qed
qed

text \<open>C11 (error).  No call panics except into the docker service, and there exactly on the answers of the
  daemon that it cannot digest: a listed container with a short identifier or an empty name, an
  inspected one with a part missing or malformed, statistics asked for by a name of fewer than
  twelve bytes or of a container without a name, and a listed volume that is nil.
  Such a call, by any client, ends the whole gateway: nothing recovers the panic.\<close>

theorem crashes_exactly_on_docker_answers:
  fixes E :: "('l, 'rd, 'd) gw_env" and w0 :: "('l, 'rd, 'db, 'd, 'z) gworld_scheme"
  assumes "gw_reachable E S fmt stack not_found w0 g (Up (mo, w))" "passes_on stack" "stateless not_found"
  shows "((\<exists>h m st. gw_step E S fmt stack not_found g (Up (mo, w)) h (Crashed m st))
      \<longleftrightarrow> gwy_docker g \<noteq> None \<and> (\<exists>q. docker_crash (env_docker E) q (gw_docker w)))
    \<and> (\<forall>c. (\<exists>m st. gw_step E S fmt stack not_found g (Up (mo, w)) (Called c (Served (Panics m))) (Crashed m st))
      \<longleftrightarrow> (\<exists>q. c = DockerCall q \<and> gwy_docker g \<noteq> None \<and> docker_crash (env_docker E) q (gw_docker w)))"
proof -
  have "mo = None \<longrightarrow> gwy_whitelist g = None"
    using reachable_typed [OF assms] by (auto simp: gw_typed_def split: option.splits)
  note crash = gw_serve_crash [OF this, of E S _ w]
  have ex_fst: "(\<exists>st. x = (y, st)) \<longleftrightarrow> fst x = y" for x :: "served \<times> ('l, 'rd, 'db, 'd, 'z) gw_state" and y
    by (cases x) simp
  have one: "gw_step E S fmt stack not_found g (Up (mo, w)) h (Crashed m st)
      \<longleftrightarrow> (\<exists>c. h = Called c (Served (Panics m)) \<and> gw_serve E S g c (mo, w) = (Served (Panics m), st))" for h m st
    unfolding gw_step_Crashed by auto
  have step1: "(\<exists>m st. gw_step E S fmt stack not_found g (Up (mo, w)) (Called c (Served (Panics m))) (Crashed m st))
      \<longleftrightarrow> (\<exists>m. \<exists>st. gw_serve E S g c (mo, w) = (Served (Panics m), st))" for c
    unfolding one by (auto simp del: split_paired_Ex)
  have step2: "(\<exists>h m st. gw_step E S fmt stack not_found g (Up (mo, w)) h (Crashed m st))
      \<longleftrightarrow> (\<exists>c m. \<exists>st. gw_serve E S g c (mo, w) = (Served (Panics m), st))"
    unfolding one by blast
  note step = step1 [unfolded ex_fst] step2 [unfolded ex_fst]
  show ?thesis unfolding step crash by blast
qed

subsection \<open>Blocked addresses\<close>

text \<open>Every step but an unblocking call keeps an address blocked.\<close>

lemma gw_step_keeps_block:
  assumes "gw_step E S fmt stack not_found g (Up (Some m, w)) h (Up (mo1, w1))" "ip \<in> ip_IP ` set (wm_blacklist m)"
    and "\<forall>q served. h = Called (WhitelistCall (RemoveFromBlacklistCall q)) served \<longrightarrow> RemoveFromBlacklistRequest_Ip q \<noteq> ip"
  shows "\<exists>m1. mo1 = Some m1 \<and> ip \<in> ip_IP ` set (wm_blacklist m1)"
  using gw_step_manager [OF assms(1)]
proof (elim disjE exE conjE)
  fix m' q served
  assume h: "h = Called (WhitelistCall q) served" "Some m = Some m'"
    and new: "mo1 = Some (fst (wl_exec (env_yaml E) (wl_op_of q) (m', w)))"
  have "ip \<in> bl.ips (wl_exec (env_yaml E) (wl_op_of q) (m, w))"
    using assms(2,3) h by (intro wl_exec_keeps_block) (auto simp: bl.ips_def wl_op_of_RemB)
  with h new show ?thesis by (simp add: bl.ips_def)
qed (use assms(2) in simp)

lemma blocked_denied:
  assumes "ip \<in> ip_IP ` set (wm_blacklist m)" "CHR ''/'' \<notin> set ip"
  shows "\<not> fst (IsAllowed m ip w)"
proof (cases "ParseIP ip")
  case None
  then show ?thesis by (simp add: IsAllowed_def)
next
  case (Some p)
  from assms(1) obtain e where e: "e \<in> set (wm_blacklist m)" "ip_IP e = ip" by auto
  have "IsAllowed m ip w = (False, w)"
    using ipMatches_self [OF Some assms(2)] e(2) by (intro blacklist_dominates [OF Some e(1)]) simp
  then show ?thesis by simp
qed

text \<open>C2 (safety).  An address that is blocked stays denied for every client of the gateway: through any run of
  calls, HTTP requests and outside events in which no call takes it off the blacklist, each call of
  \<open>IsAllowed\<close> for it is answered no, whatever the other clients add to the whitelist meanwhile.\<close>

theorem blocked_address_denied_to_every_client:
  assumes "gw_run E S fmt stack not_found g (Up (Some m, w)) hs p" "gwy_whitelist g \<noteq> None"
    and "ip \<in> ip_IP ` set (wm_blacklist m)" "CHR ''/'' \<notin> set ip"
    and "\<forall>q served. Called (WhitelistCall (RemoveFromBlacklistCall q)) served \<in> set hs \<longrightarrow>
      RemoveFromBlacklistRequest_Ip q \<noteq> ip"
    and "Called (WhitelistCall (IsAllowedCall a)) served \<in> set hs" "IsAllowedRequest_Ip a = ip"
  shows "\<exists>resp. served = Served (Returns (Inr (WhitelistReply (IsAllowedReply resp)))) \<and> \<not> IsAllowedResponse_Allowed resp"
  using assms(1,3,5,6)
proof (induction hs arbitrary: m w)
  case (Cons h hs)
  from Cons.prems(1) obtain p1 where s: "gw_step E S fmt stack not_found g (Up (Some m, w)) h p1"
    "gw_run E S fmt stack not_found g p1 hs p" by (rule gw_run_ConsE)
  show ?case
  proof (cases "h = Called (WhitelistCall (IsAllowedCall a)) served")
    case True
    then have "fst (gw_serve E S g (WhitelistCall (IsAllowedCall a)) (Some m, w)) = served"
      using s(1) by (auto elim!: gw_step.cases)
    moreover have "\<not> fst (IsAllowed m ip w)" by (rule blocked_denied [OF Cons.prems(2) assms(4)])
    ultimately show ?thesis using assms(2,7)
      by (auto simp: gw_serve_whitelist ws_IsAllowed_def Let_def case_prod_beta)
  next
    case False
    with Cons.prems(4) have later: "Called (WhitelistCall (IsAllowedCall a)) served \<in> set hs" by simp
    then obtain mo1 w1 where up: "p1 = Up (mo1, w1)"
      using gw_run_exited [OF s(2)] by (cases p1) auto
    from gw_step_keeps_block [OF s(1) [unfolded up] Cons.prems(2)] Cons.prems(3)
    obtain m1 where "mo1 = Some m1" "ip \<in> ip_IP ` set (wm_blacklist m1)" by auto
    with Cons.IH [of m1 w1] s(2) up later Cons.prems(3) show ?thesis by auto
  qed
qed simp

subsection \<open>The log of a run\<close>

fun process_world :: "('l, 'rd, 'db, 'd, 'z) gw_state process \<Rightarrow> ('l, 'rd, 'db, 'd, 'z) gworld_scheme" where
  "process_world (Up st) = snd st"
| "process_world (Crashed m st) = snd st"
| "process_world (Ended n st) = snd st"

definition signalled :: "happening list \<Rightarrow> bool" where
  "signalled hs \<longleftrightarrow> hs \<noteq> [] \<and> last hs = Finishing GotSignal"

lemma os_ReadFile_zap: "w_zap (snd (os_ReadFile p w)) = w_zap w"
proof -
  have "w_zap (snd (next_fault w)) = w_zap w" by (simp add: next_fault_def split: list.split)
  then show ?thesis
    by (auto simp: os_ReadFile_def case_prod_beta Let_def split: fs_fault.split option.split)
qed

lemma load_entries_zap: "w_zap (snd (load_entries ips w)) = w_zap w"
  by (induction ips arbitrary: w) (simp_all add: case_prod_beta Let_def world_simps)

lemma NewManager_zap: "w_zap (snd (wl_NewManager y c w)) = w_zap w"
  by (auto simp: wl_NewManager_def loadFromTraefikConfig_def case_prod_beta Let_def load_entries_zap os_ReadFile_zap
      split: read_result.split sum.split option.split)

lemma limiter_New_zap: "w_zap (snd (limiter_New R c w)) = w_zap w"
  by (simp add: limiter_New_def alloc_limiter_def case_prod_beta Let_def)

lemma on_redis_frame: "w_zap (snd (on_redis f w)) = w_zap w" "rw_limiters (snd (on_redis f w)) = rw_limiters w"
  by (simp_all add: on_redis_def case_prod_beta Let_def)

lemma connect_redis_zap: "w_zap (snd (connect_redis E c w)) = w_zap w"
  by (simp add: connect_redis_def case_prod_beta Let_def on_redis_frame)

lemma start_zap: "w_zap (snd (gw_start E w)) = w_zap w"
proof -
  have "w_zap (snd (init_components E a w)) = w_zap w" for a
    by (simp add: init_components_def case_prod_beta Let_def NewManager_zap NewHealthChecker_def world_simps
        connect_redis_zap limiter_New_zap)
  then show ?thesis
    by (simp add: gw_start_def case_prod_beta Let_def split: sum.split option.split)
qed

lemma shutdown_zap: "w_zap (gw_shutdown E g w) = w_zap w @ replicate 2 (ZSync (al_logger (gwy_audit g)))"
  by (simp add: gw_shutdown_def Sync_def zap_emit_def Let_def on_redis_frame numeral_2_eq_2 split: option.split)

lemma run_zap:
  assumes "passes_on stack" "stateless not_found"
  shows "gw_run E S fmt stack not_found g (Up (mo, w)) hs p \<Longrightarrow>
    (\<exists>cs. w_zap (process_world p) = w_zap w @ cs @ (if signalled hs then replicate 2 (ZSync (al_logger (gwy_audit g))) else [])
       \<and> (\<forall>c \<in> set cs. log_line c))
    \<and> ((\<exists>st. p = Ended 0 st) \<longleftrightarrow> signalled hs)"
proof (induction hs arbitrary: mo w)
  case Nil
  then show ?case by (auto simp: gw_run_Nil signalled_def intro!: exI [of _ "[]"])
next
  case (Cons h hs)
  from Cons.prems obtain p1 where s: "gw_step E S fmt stack not_found g (Up (mo, w)) h p1"
    "gw_run E S fmt stack not_found g p1 hs p" by (rule gw_run_ConsE)
  show ?case
  proof (cases p1)
    case (Up st)
    obtain mo1 w1 where st: "st = (mo1, w1)" by (metis prod.collapse)
    have sig: "signalled (h # hs) \<longleftrightarrow> signalled hs"
      using s(1) by (auto simp: signalled_def Up elim!: gw_step.cases)
    obtain cs where cs: "w_zap w1 = w_zap w @ cs" "\<forall>c \<in> set cs. log_line c"
      using gw_step_grows [OF s(1) [unfolded Up st] assms] by (auto simp: grows_def)
    obtain ds where "w_zap (process_world p) = w_zap w1 @ ds
        @ (if signalled hs then replicate 2 (ZSync (al_logger (gwy_audit g))) else [])"
      "\<forall>c \<in> set ds. log_line c" and "(\<exists>st. p = Ended 0 st) \<longleftrightarrow> signalled hs"
      using Cons.IH [OF s(2) [unfolded Up st]] by blast
    then show ?thesis unfolding sig using cs by (auto intro!: exI [of _ "cs @ ds"])
  next
    case (Crashed m st)
    with gw_run_exited [OF s(2)] have exit: "hs = []" "p = Crashed m st" by auto
    from s(1) Crashed obtain c where c: "h = Called c (Served (Panics m))" "snd (gw_serve E S g c (mo, w)) = st"
      by (auto simp: gw_step_Crashed)
    then have "\<not> signalled [h]" by (simp add: signalled_def)
    with grow.serve [of w E S g c mo] c(2) show ?thesis by (auto simp: exit grows_def)
  next
    case (Ended n st)
    with gw_run_exited [OF s(2)] have exit: "hs = []" "p = Ended n st" by auto
    obtain mo1 w1 where st: "st = (mo1, w1)" by (metis prod.collapse)
    from s(1) Ended st obtain ev where ev: "h = Finishing ev" "gw_finish E g ev w = (n, w1)"
      by (auto simp: gw_step_Ended)
    then show ?thesis
      by (cases ev) (auto simp: gw_finish_def exit st signalled_def shutdown_zap)
  qed
qed

text \<open>C13 (safety).  What a run of the process writes to its log, start to end: masked audit entries, and then, exactly
  when a signal ended it, two flushes and exit status 0.  When a server fails or a call panics, the
  process ends with its log unflushed.\<close>

theorem log_of_a_run:
  fixes E :: "('l, 'rd, 'd) gw_env" and w0 :: "('l, 'rd, 'db, 'd, 'z) gworld_scheme"
  assumes "gw_start E w0 = (Started g, w1)" "gw_run E S fmt stack not_found g (Up (gwy_whitelist g, w1)) hs p"
    and "passes_on stack" "stateless not_found"
  shows "(\<exists>cs. w_zap (process_world p)
        = w_zap w0 @ cs @ (if signalled hs then replicate 2 (ZSync (al_logger (gwy_audit g))) else [])
       \<and> (\<forall>c \<in> set cs. log_line c))
    \<and> ((\<exists>st. p = Ended 0 st) \<longleftrightarrow> signalled hs)"
  using run_zap [OF assms(3,4,2)] start_zap [of E w0] assms(1) by simp

subsection \<open>Runs\<close>

definition demo_gworld :: "(int \<times> int, string \<Rightarrow> int, bool, (string \<times> int) list) gworld" where
  "demo_gworld = \<lparr>w_clock = int, w_tick = 0, w_files = Map.empty, w_faults = [], w_zap = [],
     rw_limiters = [], rw_redis = (\<lambda>_. 0), hw_db = True, gw_docker = []\<rparr>"

lemma demo_stack: "passes_on (\<lambda>h. h)" "stateless (\<lambda>r rs w. (rs, w))"
  by (auto simp: passes_on_def stateless_def)

lemma demo_started:
  obtains g w1 where "gw_start (demo_env True) demo_gworld = (Started g, w1)" "gwy_docker g \<noteq> None"
proof -
  have no: "fst (gw_start (demo_env True) demo_gworld) = Started (fst (init_components (demo_env True) \<lparr>al_logger = 0\<rparr> demo_gworld))"
    using init_components_sel(1) [of "demo_env True" "\<lparr>al_logger = 0\<rparr>" demo_gworld]
    by (simp add: gw_start_def NewAuditLogger_def demo_env_sel case_prod_beta Let_def)
  have "gwy_docker (fst (init_components (demo_env True) \<lparr>al_logger = 0\<rparr> demo_gworld)) \<noteq> None"
    unfolding init_components_sel(3) by (simp add: docker_NewManager_def demo_env_sel)
  with no that show thesis by (metis prod.collapse)
qed

lemma running_gateway_well_typed_witness:
  "\<exists>g rs w2. gw_reachable (demo_env True) demo_sql (\<lambda>_. []) (\<lambda>h. h) (\<lambda>r rs w. (rs, w)) demo_gworld g
      (Up (gwy_whitelist g, w2)) \<and> lim_adminLimiter (gwy_limiter g) < length (rw_limiters w2)"
proof -
  obtain g w1 where start: "gw_start (demo_env True) demo_gworld = (Started g, w1)" by (rule demo_started)
  obtain rs w2 where served: "hsv_Handler (rest_server (env_rate (demo_env True)) (\<lambda>_. []) (\<lambda>h. h) (\<lambda>r rs w. (rs, w)) g)
      (get_request ''/health'') new_response w1 = (rs, w2)" by (metis prod.collapse)
  from start gw_run.go [OF gw_step.http [OF served] gw_run.stop]
  have "gw_reachable (demo_env True) demo_sql (\<lambda>_. []) (\<lambda>h. h) (\<lambda>r rs w. (rs, w)) demo_gworld g (Up (gwy_whitelist g, w2))"
    unfolding gw_reachable_def by blast
  with running_gateway_well_typed [OF this demo_stack] show ?thesis by blast
qed

text \<open>A gateway with an empty manager, or one that blocks an address.\<close>

definition demo_listing :: "IPEntry list \<Rightarrow> (string \<Rightarrow> int) gateway" where
  "demo_listing b = (demo_gateway 0)\<lparr>gwy_whitelist := Some (demo_manager [] b)\<rparr>"

lemma demo_call:
  "gw_step (demo_env True) demo_sql (\<lambda>_. []) (\<lambda>h. h) (\<lambda>r rs w. (rs, w)) (demo_listing b) (Up (Some m, w))
     (Called (WhitelistCall q) (fst (gw_serve (demo_env True) demo_sql (demo_listing b) (WhitelistCall q) (Some m, w))))
     (Up (snd (gw_serve (demo_env True) demo_sql (demo_listing b) (WhitelistCall q) (Some m, w))))"
  by (rule gw_step.call) (simp_all add: demo_listing_def gw_serve_whitelist Let_def case_prod_beta)

lemma gateway_refines_access_sets_witness:
  "\<exists>h st1. gw_step (demo_env True) demo_sql (\<lambda>_. []) (\<lambda>h. h) (\<lambda>r rs w. (rs, w)) (demo_listing [])
       (Up (Some (demo_manager [] []), demo_gworld)) h (Up st1)
     \<and> access_step ({}, {}) (gw_abs st1) \<and> fst st1 \<noteq> Some (demo_manager [] [])"
proof -
  let ?q = "AddToBlacklistCall (zero_AddToBlacklistRequest\<lparr>AddToBlacklistRequest_Ip := ''10.0.0.7''\<rparr>)"
  let ?st = "(Some (demo_manager [] []), demo_gworld)"
  let ?st1 = "snd (gw_serve (demo_env True) demo_sql (demo_listing []) (WhitelistCall ?q) ?st)"
  have new: "fst ?st1 \<noteq> Some (demo_manager [] [])"
    by (simp add: gw_serve_whitelist whitelist_methods AddToBlacklist_unfold demo_valid listed_def demo_listing_def
        demo_manager_def Let_def case_prod_beta)
  have "gw_abs ?st = ({}, {})"
    by (simp add: gw_abs_def wl_abs_def wl.ips_def bl.ips_def demo_manager_def)
  with gateway_refines_access_sets [OF demo_call [of "[]" "demo_manager [] []" demo_gworld ?q]]
  have "access_step ({}, {}) (gw_abs ?st1)" by simp
  with demo_call new show ?thesis by blast
qed

lemma crashes_exactly_on_docker_answers_witness:
  "\<exists>g mo w h m st. gw_reachable (demo_env True) demo_sql (\<lambda>_. []) (\<lambda>h. h) (\<lambda>r rs w. (rs, w)) demo_gworld g (Up (mo, w))
     \<and> gw_step (demo_env True) demo_sql (\<lambda>_. []) (\<lambda>h. h) (\<lambda>r rs w. (rs, w)) g (Up (mo, w)) h (Crashed m st)"
proof -
  obtain g w1 where start: "gw_start (demo_env True) demo_gworld = (Started g, w1)" "gwy_docker g \<noteq> None" by (rule demo_started)
  have run: "gw_reachable (demo_env True) demo_sql (\<lambda>_. []) (\<lambda>h. h) (\<lambda>r rs w. (rs, w)) demo_gworld g (Up (gwy_whitelist g, w1))"
    using start(1) gw_run.stop unfolding gw_reachable_def by blast
  have "docker_crash (env_docker (demo_env True)) (GetContainerStatsCall \<lparr>GetContainerStatsRequest_ContainerId = ''redis''\<rparr>)
      (gw_docker w1)"
    by (simp add: demo_env_def demo_docker_def)
  with start(2) have dead: "gwy_docker g \<noteq> None \<and> (\<exists>q. docker_crash (env_docker (demo_env True)) q (gw_docker w1))" by blast
  from iffD2 [OF conjunct1 [OF crashes_exactly_on_docker_answers [OF run demo_stack]] dead]
  obtain h m st where "gw_step (demo_env True) demo_sql (\<lambda>_. []) (\<lambda>h. h) (\<lambda>r rs w. (rs, w)) g
      (Up (gwy_whitelist g, w1)) h (Crashed m st)" by (elim exE)
  with run show ?thesis by (intro exI conjI)
qed

lemma blocked_address_denied_to_every_client_witness:
  "\<exists>resp. fst (gw_serve (demo_env True) demo_sql (demo_listing [new_entry ''10.0.0.7'' [] [] None 0])
       (WhitelistCall (IsAllowedCall \<lparr>IsAllowedRequest_Ip = ''10.0.0.7''\<rparr>))
       (Some (demo_manager [] [new_entry ''10.0.0.7'' [] [] None 0]), demo_gworld))
     = Served (Returns (Inr (WhitelistReply (IsAllowedReply resp)))) \<and> \<not> IsAllowedResponse_Allowed resp"
proof -
  let ?b = "[new_entry ''10.0.0.7'' [] [] None 0]"
  note run = gw_run.go [OF demo_call gw_run.stop, of ?b "demo_manager [] ?b" demo_gworld
      "IsAllowedCall \<lparr>IsAllowedRequest_Ip = ''10.0.0.7''\<rparr>"]
  show ?thesis
    by (rule blocked_address_denied_to_every_client [OF run, where ip = "''10.0.0.7''"
        and a = "\<lparr>IsAllowedRequest_Ip = ''10.0.0.7''\<rparr>"])
       (simp_all add: demo_listing_def demo_manager_def new_entry_def)
qed

lemma log_of_a_run_witness:
  "\<exists>g w1 st cs. gw_start (demo_env True) demo_gworld = (Started g, w1)
     \<and> gw_run (demo_env True) demo_sql (\<lambda>_. []) (\<lambda>h. h) (\<lambda>r rs w. (rs, w)) g (Up (gwy_whitelist g, w1))
         [Finishing GotSignal] (Ended 0 st)
     \<and> w_zap (snd st) = cs @ replicate 2 (ZSync (al_logger (gwy_audit g)))"
proof -
  obtain g w1 where start: "gw_start (demo_env True) demo_gworld = (Started g, w1)" by (rule demo_started)
  have "gw_finish (demo_env True) g GotSignal w1 = (0, gw_shutdown (demo_env True) g w1)" by (simp add: gw_finish_def)
  from gw_run.go [OF gw_step.finish [OF this] gw_run.stop]
  have run: "gw_run (demo_env True) demo_sql (\<lambda>_. []) (\<lambda>h. h) (\<lambda>r rs w. (rs, w)) g (Up (gwy_whitelist g, w1))
      [Finishing GotSignal] (Ended 0 (gwy_whitelist g, gw_shutdown (demo_env True) g w1))" .
  from log_of_a_run [OF start run demo_stack] have "\<exists>cs. w_zap (gw_shutdown (demo_env True) g w1)
      = cs @ replicate 2 (ZSync (al_logger (gwy_audit g)))"
    by (auto simp: signalled_def demo_gworld_def)
  then obtain cs where log: "w_zap (snd (gwy_whitelist g, gw_shutdown (demo_env True) g w1))
      = cs @ replicate 2 (ZSync (al_logger (gwy_audit g)))" by auto
  show ?thesis by (intro exI conjI) (rule start, rule run, rule log)
qed

end
