(* ===== verification/FileList.thy ===== *)
theory FileList
  imports SystemProps
begin

text \<open>
  The list in the file.  The whitelist manager writes its entries, as the source ranges of a Traefik
  middleware, to the file of its configuration (\<open>whitelist.traefikconfigpath\<close>), and starts from what
  that file lists.  This theory relates the list in the file to the state of the manager, through whole
  runs of the gateway.  It speaks of the gateway's own file only: what a proxy does with it, and whether
  the one of the deployment reads it at all, is outside the model.
\<close>

subsection \<open>The list in the file\<close>

text \<open>The source ranges that YAML reads from the file; none when the file or the middleware is missing.\<close>

definition file_list :: "yaml_ops \<Rightarrow> string \<Rightarrow> 'z world_scheme \<Rightarrow> string list" where
  "file_list y path w = (case w_files w path of
     None \<Rightarrow> []
   | Some d \<Rightarrow> (case yaml_Unmarshal y d of
       Inl e \<Rightarrow> []
     | Inr c \<Rightarrow> (case td_Middlewares c middleware_name of None \<Rightarrow> [] | Some r \<Rightarrow> r)))"

lemma file_list_shows: "yaml_ok y \<Longrightarrow> file_shows y path r w \<Longrightarrow> file_list y path w = r"
  by (auto simp: file_shows_def file_list_def yaml_ok_def whitelist_config_def)

lemma file_list_cong: "w_files w1 path = w_files w path \<Longrightarrow> file_list y path w1 = file_list y path w"
  by (simp add: file_list_def)

subsection \<open>The invariant\<close>

text \<open>A YAML library that renders every list and reads back what it rendered.\<close>

definition yaml_total :: "yaml_ops \<Rightarrow> bool" where
  "yaml_total y \<longleftrightarrow> yaml_ok y \<and> (\<forall>r. \<exists>d. yaml_Marshal y (whitelist_config r) = Inr d)"

definition tracks :: "yaml_ops \<Rightarrow> wl_Manager \<Rightarrow> 'z world_scheme \<Rightarrow> bool" where
  "tracks y m w \<longleftrightarrow> clock_mono w \<and> w_faults w = []
     \<and> live_ips (read_clock w) (wm_whitelist m) \<subseteq> set (file_list y (wm_traefikConfigPath m) w)
     \<and> set (file_list y (wm_traefikConfigPath m) w) \<subseteq> ip_IP ` set (wm_whitelist m)"

text \<open>It lasts while neither the file nor the whitelist changes: entries may only expire.\<close>

lemma tracks_later:
  assumes "tracks y m w" "w_files w1 (wm_traefikConfigPath m) = w_files w (wm_traefikConfigPath m)" "w_faults w1 = []"
    "later w w1" "wm_whitelist m1 = wm_whitelist m" "wm_traefikConfigPath m1 = wm_traefikConfigPath m"
  shows "tracks y m1 w1"
proof -
  have "live_ips (read_clock w1) (wm_whitelist m) \<subseteq> live_ips (read_clock w) (wm_whitelist m)"
    by (rule live_ips_antimono [OF later_read [OF _ assms(4)]]) (use assms(1) in \<open>simp add: tracks_def\<close>)
  with assms later_clock_mono [OF _ assms(4)] file_list_cong [OF assms(2), of y] show ?thesis
    by (auto simp: tracks_def)
qed

lemma tracks_kept: "tracks y m w \<Longrightarrow> files_kept w w1 \<Longrightarrow> tracks y m w1"
  by (rule tracks_later) (auto simp: files_kept_def tracks_def)

text \<open>Writing the file establishes it.\<close>

lemma update_tracks:
  assumes "yaml_total y" "clock_mono w" "w_faults w = []"
  shows "fst (updateTraefikConfig y m w) = None \<and> tracks y m (snd (updateTraefikConfig y m w))"
proof -
  obtain err w1 where u: "updateTraefikConfig y m w = (err, w1)" by (metis prod.collapse)
  have n: "err = None" "w_faults w1 = []"
    using update_no_faults [OF assms(3), of y m] assms(1) by (simp_all add: u yaml_total_def)
  obtain r where r: "file_shows y (wm_traefikConfigPath m) r w1" "live_ips (read_clock w1) (wm_whitelist m) \<subseteq> set r"
    "set r \<subseteq> live_ips (read_clock w) (wm_whitelist m)"
    using update_ok [OF u [unfolded n(1)] assms(2)] by blast
  have "clock_mono w1" using later_clock_mono [OF assms(2) update_later [of w y m]] by (simp add: u)
  with r n file_list_shows [OF _ r(1)] assms(1) show ?thesis
    by (auto simp: u tracks_def yaml_total_def live_ips_def)
qed

lemma Now_calm: "clock_mono w \<Longrightarrow> clock_mono (snd (time_Now w))" "w_faults (snd (time_Now w)) = w_faults w"
  by (simp_all add: clock_mono_def time_Now_def)

lemma AddToWhitelist_tracks:
  fixes w :: "('l, 'rd, 'db, 'd, 'z) gworld_scheme"
  assumes "yaml_total y" "tracks y m w" "AddToWhitelist y ip d who ex (m, w) = (err, m1, w1)"
  shows "tracks y m1 w1"
proof (cases "validateIPOrCIDR ip = None \<and> \<not> listed ip (wm_whitelist m)")
  case False
  with assms(2,3) show ?thesis by (auto simp: AddToWhitelist_unfold split: option.splits)
next
  case True
  have c: "clock_mono (snd (time_Now w))" "w_faults (snd (time_Now w)) = []"
    using assms(2) by (simp_all add: tracks_def Now_calm)
  let ?m1 = "m\<lparr>wm_whitelist := wm_whitelist m @ [new_entry ip d who ex (read_clock w)]\<rparr>"
  from update_tracks [OF assms(1) c, of ?m1] True assms(3)
  have "m1 = ?m1" "w1 = audit_action ?m1 ''whitelist_add'' who ip [(''description'', d)]
      (snd (updateTraefikConfig y ?m1 (snd (time_Now w))))"
    by (auto simp: AddToWhitelist_unfold Let_def)
  with update_tracks [OF assms(1) c, of ?m1] tracks_kept files.audit_action show ?thesis by blast
qed

lemma RemoveFromWhitelist_tracks:
  fixes w :: "('l, 'rd, 'db, 'd, 'z) gworld_scheme"
  assumes "yaml_total y" "tracks y m w" "RemoveFromWhitelist y ip who (m, w) = (err, m1, w1)"
  shows "tracks y m1 w1"
proof (cases "listed ip (wm_whitelist m)")
  case False
  with assms(2,3) show ?thesis by (auto simp: RemoveFromWhitelist_unfold)
next
  case True
  have c: "clock_mono w" "w_faults w = []" using assms(2) by (simp_all add: tracks_def)
  let ?m1 = "m\<lparr>wm_whitelist := filter (\<lambda>e. ip_IP e \<noteq> ip) (wm_whitelist m)\<rparr>"
  from update_tracks [OF assms(1) c, of ?m1] True assms(3)
  have "m1 = ?m1" "w1 = audit_action ?m1 ''whitelist_remove'' who ip [] (snd (updateTraefikConfig y ?m1 w))"
    by (auto simp: RemoveFromWhitelist_unfold Let_def)
  with update_tracks [OF assms(1) c, of ?m1] tracks_kept files.audit_action show ?thesis by blast
qed

lemma CleanupExpired_tracks:
  fixes w :: "('l, 'rd, 'db, 'd, 'z) gworld_scheme"
  assumes "yaml_total y" "tracks y m w" "CleanupExpired y (m, w) = (n, m1, w1)"
  shows "tracks y m1 w1"
proof -
  let ?c = "cleanup_loop m (read_clock w) (wm_whitelist m) (snd (time_Now w))"
  let ?v = "snd (snd ?c)" and ?m1 = "m\<lparr>wm_whitelist := fst ?c\<rparr>"
  have k: "files_kept w ?v" by (rule files.trans [OF files.Now files.cleanup_loop])
  then have v: "tracks y m ?v" by (rule tracks_kept [OF assms(2)])
  then have "clock_mono ?v" "w_faults ?v = []" by (simp_all add: tracks_def)
  from update_tracks [OF assms(1) this, of ?m1] v assms(3) show ?thesis
    by (auto simp: CleanupExpired_unfold Let_def split: if_splits)
qed

lemma serve_whitelist_tracks:
  fixes w :: "('l, 'rd, 'db, 'd, 'z) gworld_scheme"
  assumes "yaml_total y" "tracks y m w" "serve_whitelist y q (m, w) = (r, m1, w1)"
  shows "tracks y m1 w1"
proof (cases "writes_file (WhitelistCall q)")
  case False
  have m1: "m1 = fst (wl_exec y (wl_op_of q) (m, w))"
    using arg_cong [OF assms(3), of "\<lambda>x. fst (snd x)"] by (simp add: serve_whitelist_manager)
  have "wm_whitelist m1 = wm_whitelist m \<and> wm_traefikConfigPath m1 = wm_traefikConfigPath m"
    unfolding m1 using False
    by (cases q) (auto simp: AddToBlacklist_unfold RemoveFromBlacklist_unfold Let_def split: option.split)
  moreover have "files_kept w w1"
    using files.serve_whitelist [OF False, of w y m] by (simp add: assms(3))
  ultimately show ?thesis using tracks_later [OF assms(2), of w1 m1] assms(2)
    by (auto simp: files_kept_def tracks_def)
next
  case True
  have after: "tracks y m1 v" if "tracks y m1 u" "v = u \<or> v = snd (time_Now u)" for u v
    :: "('l, 'rd, 'db, 'd, 'z) gworld_scheme"
    using that tracks_kept files.Now by blast
  show ?thesis
  proof (cases q)
    case (AddToWhitelistCall req)
    obtain err m2 w2 where op: "AddToWhitelist y (AddToWhitelistRequest_Ip req) (AddToWhitelistRequest_Description req)
        (AddToWhitelistRequest_AddedBy req) (AddToWhitelistRequest_ExpiresAt req) (m, w) = (err, m2, w2)"
      by (metis prod.collapse)
    have "m1 = m2" "w1 = w2 \<or> w1 = snd (time_Now w2)"
      using assms(3) by (auto simp: AddToWhitelistCall ws_AddToWhitelist_def op Let_def case_prod_beta split: option.splits)
    with AddToWhitelist_tracks [OF assms(1,2) op] after show ?thesis by blast
  next
    case (RemoveFromWhitelistCall req)
    obtain err m2 w2 where op: "RemoveFromWhitelist y (RemoveFromWhitelistRequest_Ip req) ''grpc-api'' (m, w) = (err, m2, w2)"
      by (metis prod.collapse)
    have "m1 = m2" "w1 = w2"
      using assms(3) by (auto simp: RemoveFromWhitelistCall ws_RemoveFromWhitelist_def op Let_def split: option.splits)
    with RemoveFromWhitelist_tracks [OF assms(1,2) op] show ?thesis by simp
  next
    case (CleanupExpiredCall req)
    obtain n m2 w2 where op: "CleanupExpired y (m, w) = (n, m2, w2)" by (metis prod.collapse)
    have "m1 = m2" "w1 = w2"
      using assms(3) by (auto simp: CleanupExpiredCall ws_CleanupExpired_def op Let_def)
    with CleanupExpired_tracks [OF assms(1,2) op] show ?thesis by simp
  qed (use True in simp_all)
qed


subsection \<open>From the start of the gateway\<close>

lemma load_entries_kept:
  fixes w :: "('l, 'rd, 'db, 'd, 'z) gworld_scheme"
  shows "files_kept w (snd (load_entries ips w))"
proof (induction ips arbitrary: w)
  case (Cons ip ips)
  from files.trans [OF files.Now Cons.IH] show ?case by (simp add: case_prod_beta Let_def)
qed simp

lemma live_ips_all: "\<forall>e \<in> set es. ip_ExpiresAt e = None \<Longrightarrow> live_ips t es = ip_IP ` set es"
  by (auto simp: live_ips_def expired_at_def)

lemma os_ReadFile_calm: "w_faults w = [] \<Longrightarrow> os_ReadFile p w = (case w_files w p of None \<Rightarrow> NotExist | Some d \<Rightarrow> ReadOk d, w)"
  by (simp add: os_ReadFile_def next_fault_def split: option.split)

text \<open>The manager starts with what the file lists.\<close>

lemma NewManager_tracks:
  fixes w :: "('l, 'rd, 'db, 'd, 'z) gworld_scheme"
  assumes "wl_NewManager y cfg w = (Inr m, w1)" "clock_mono w" "w_faults w = []"
  shows "tracks y m w1"
proof (cases "w_files w (wc_TraefikConfigPath cfg)")
  case None
  with assms show ?thesis
    by (auto simp: wl_NewManager_def loadFromTraefikConfig_def os_ReadFile_calm tracks_def file_list_def)
next
  case (Some d)
  show ?thesis
  proof (cases "yaml_Unmarshal y d")
    case (Inl e)
    with Some assms show ?thesis by (simp add: wl_NewManager_def loadFromTraefikConfig_def os_ReadFile_calm Let_def)
  next
    case (Inr c)
    show ?thesis
    proof (cases "td_Middlewares c middleware_name")
      case None
      with Some Inr assms show ?thesis
        by (auto simp: wl_NewManager_def loadFromTraefikConfig_def os_ReadFile_calm Let_def tracks_def file_list_def)
    next
      case (Some r)
      with \<open>w_files w _ = Some d\<close> Inr assms(1,3)
      have m: "wm_whitelist m = fst (load_entries r w)" "wm_traefikConfigPath m = wc_TraefikConfigPath cfg"
        "w1 = snd (load_entries r w)"
        by (auto simp: wl_NewManager_def loadFromTraefikConfig_def os_ReadFile_calm Let_def case_prod_beta)
      note spec = load_entries_spec [OF prod.collapse [symmetric], of r w] load_entries_kept [of w r]
      have k: "files_kept w w1" and ips: "ip_IP ` set (wm_whitelist m) = set r"
        using spec m by (simp_all flip: set_map)
      have "file_list y (wm_traefikConfigPath m) w1 = r"
        using k Some \<open>w_files w _ = Some d\<close> Inr by (simp add: file_list_def m(2) files_kept_def)
      with k ips spec live_ips_all [of "wm_whitelist m"] assms(2,3) later_clock_mono [OF assms(2)] m(1) show ?thesis
        by (simp add: tracks_def files_kept_def)
    qed
  qed
qed

lemma start_tracks:
  fixes E :: "('l, 'rd, 'd) gw_env" and w :: "('l, 'rd, 'db, 'd, 'z) gworld_scheme"
  assumes "gw_start E w = (Started g, w1)" "gwy_whitelist g = Some m" "clock_mono w" "w_faults w = []"
  shows "tracks (env_yaml E) m w1"
proof -
  obtain a where g: "init_components E a w = (g, w1)"
    using assms(1) by (auto simp: gw_start_def case_prod_beta Let_def split: sum.splits option.splits if_splits)
  define cfg where "cfg = load_config E"
  define rl where "rl = cfg_RateLimit cfg"
  define rd where "rd = connect_redis E cfg w"
  define ln where "ln = limiter_New (env_rate E) \<lparr>lmc_GlobalRPS = rl_GlobalRPS rl, lmc_AdminRPS = rl_AdminRPS rl,
    lmc_BurstSize = rl_BurstSize rl, lmc_Distributed = rl_Distributed rl \<and> fst rd \<noteq> None,
    lmc_Cache = fst rd, lmc_AuditLogger = Some a\<rparr> (snd rd)"
  define nm where "nm = wl_NewManager (env_yaml E)
    \<lparr>wc_TraefikConfigPath = wcf_TraefikConfigPath (cfg_Whitelist cfg), wc_AuditLogger = Some a\<rparr> (snd ln)"
  have k: "w_files (snd ln) = w_files w" "w_faults (snd ln) = w_faults w" "w_clock (snd ln) = w_clock w"
    by (simp_all add: ln_def rd_def limiter_New_def alloc_limiter_def connect_redis_def on_redis_def Let_def case_prod_beta)
  have "gwy_whitelist g = (case fst nm of Inl e \<Rightarrow> None | Inr m \<Rightarrow> Some m)" "w1 = snd (time_Now (snd nm))"
    using arg_cong [OF g, of "\<lambda>p. gwy_whitelist (fst p)"] arg_cong [OF g, of snd]
    by (simp_all add: init_components_def case_prod_beta Let_def NewHealthChecker_def cfg_def rl_def rd_def ln_def nm_def)
  with assms(2) have nm: "nm = (Inr m, snd nm)" "w1 = snd (time_Now (snd nm))"
    by (simp_all add: prod_eq_iff split: sum.splits)
  have "clock_mono (snd ln)" "w_faults (snd ln) = []" using assms(3,4) k by (simp_all add: clock_mono_def)
  from NewManager_tracks [OF nm(1) [unfolded nm_def] this] have "tracks (env_yaml E) m (snd nm)" by (simp add: nm_def)
  with nm(2) tracks_kept files.Now show ?thesis by blast
qed


subsection \<open>Runs in which nobody else writes the file\<close>

text \<open>What may happen outside: no fault of the file system, the file is left alone, time passes.\<close>

definition spares :: "string \<Rightarrow> 'z world_scheme \<Rightarrow> 'z world_scheme \<Rightarrow> bool" where
  "spares path w w1 \<longleftrightarrow> w_files w1 path = w_files w path \<and> w_faults w1 = [] \<and> later w w1"

abbreviation gw_path :: "'rd gateway \<Rightarrow> string" where
  "gw_path g \<equiv> wcf_TraefikConfigPath (cfg_Whitelist (gwy_cfg g))"

inductive calm_run :: "('l, 'rd, 'd) gw_env \<Rightarrow> 'db sql_ops \<Rightarrow> (time \<Rightarrow> string) \<Rightarrow>
    (('l, 'rd, 'db, 'd, 'z) gworld_scheme handler \<Rightarrow> ('l, 'rd, 'db, 'd, 'z) gworld_scheme handler) \<Rightarrow>
    ('l, 'rd, 'db, 'd, 'z) gworld_scheme handler \<Rightarrow> 'rd gateway \<Rightarrow>
    ('l, 'rd, 'db, 'd, 'z) gw_state \<Rightarrow> happening list \<Rightarrow> ('l, 'rd, 'db, 'd, 'z) gw_state \<Rightarrow> bool"
  for E S fmt stack not_found g where
  calm_stop: "calm_run E S fmt stack not_found g st [] st"
| calm_go: "gw_step E S fmt stack not_found g (Up st) h (Up st1) \<Longrightarrow>
    h = Outside \<longrightarrow> spares (gw_path g) (snd st) (snd st1) \<Longrightarrow>
    calm_run E S fmt stack not_found g st1 hs st2 \<Longrightarrow> calm_run E S fmt stack not_found g st (h # hs) st2"

lemma calm_run_is_run:
  "calm_run E S fmt stack not_found g st hs st1 \<Longrightarrow> gw_run E S fmt stack not_found g (Up st) hs (Up st1)"
  by (induction rule: calm_run.induct) (auto intro: gw_run.intros)

lemma gw_step_tracks:
  fixes w :: "('l, 'rd, 'db, 'd, 'z) gworld_scheme"
  assumes "gw_step E S fmt stack not_found g (Up (Some m, w)) h (Up (mo1, w1))"
    and calm: "h = Outside \<longrightarrow> spares (gw_path g) w w1" "passes_on stack" "stateless not_found"
    and "yaml_total (env_yaml E)" "gw_typed g (Some m, w)" "tracks (env_yaml E) m w"
  shows "\<exists>m1. mo1 = Some m1 \<and> tracks (env_yaml E) m1 w1"
proof -
  have g: "gwy_whitelist g \<noteq> None" "wm_traefikConfigPath m = gw_path g"
    using assms(6) by (simp_all add: gw_typed_def)
  from assms(1) consider c served where "gw_serve E S g c (Some m, w) = (served, mo1, w1)"
    | r rs where "gw_handler (env_rate E) fmt stack not_found g r new_response w = (rs, w1)" "mo1 = Some m"
    | "h = Outside" "mo1 = Some m"
    by (cases rule: gw_step_UpE) blast+
  then show ?thesis
  proof cases
    case (1 c served)
    show ?thesis
    proof (cases "\<exists>q. c = WhitelistCall q")
      case True
      then obtain q where c: "c = WhitelistCall q" by blast
      obtain r m1 v where s: "serve_whitelist (env_yaml E) q (m, w) = (r, m1, v)" by (metis prod.collapse)
      from 1 g(1) have "mo1 = Some m1" "w1 = v" by (simp_all add: c gw_serve_whitelist s)
      with serve_whitelist_tracks [OF assms(5,7) s] show ?thesis by simp
    next
      case False
      then have "\<not> writes_file c" "fst (snd (gw_serve E S g c (Some m, w))) = Some m"
        by (cases c; simp add: gw_serve_def gw_dispatch_def Let_def case_prod_beta split: option.split)+
      with files.serve_other [of c w E S g "Some m"] 1 tracks_kept [OF assms(7)] show ?thesis by simp
    qed
  next
    case (2 r rs)
    with files.gw_handler [OF calm(2,3), of w "env_rate E" fmt g r new_response] tracks_kept [OF assms(7)]
    show ?thesis by simp
  next
    case 3
    with calm(1) g(2) tracks_later [OF assms(7), of w1 m] show ?thesis by (simp add: spares_def)
  qed
qed

lemma calm_run_tracks:
  fixes st :: "('l, 'rd, 'db, 'd, 'z) gw_state"
  assumes "calm_run E S fmt stack not_found g st hs st1" "passes_on stack" "stateless not_found" "yaml_total (env_yaml E)"
  shows "st = (Some m, w) \<Longrightarrow> gw_typed g (Some m, w) \<Longrightarrow> tracks (env_yaml E) m w \<Longrightarrow>
    \<exists>m1. fst st1 = Some m1 \<and> tracks (env_yaml E) m1 (snd st1)"
  using assms(1)
proof (induction arbitrary: m w)
  case (calm_go st h sx hs st2)
  obtain mo1 w1 where x: "sx = (mo1, w1)" by (metis prod.collapse)
  from calm_go.hyps(1,2) have s: "gw_step E S fmt stack not_found g (Up (Some m, w)) h (Up (mo1, w1))"
    "h = Outside \<longrightarrow> spares (gw_path g) w w1" by (simp_all add: calm_go.prems(1) x)
  from gw_step_tracks [OF s assms(2-4) calm_go.prems(2,3)] obtain m1 where "mo1 = Some m1" "tracks (env_yaml E) m1 w1"
    by blast
  with calm_go.IH [of m1 w1] gw_step_typed [OF s(1) assms(2,3) calm_go.prems(2)] show ?case by (simp add: x)
qed simp

text \<open>Where the list in the file and the decisions of the gateway can differ.\<close>

lemma tracks_decisions:
  assumes "tracks y m w" "path = wm_traefikConfigPath m"
  shows "live_ips (read_clock w) (wm_whitelist m) \<subseteq> set (file_list y path w)
    \<and> set (file_list y path w) \<subseteq> ip_IP ` set (wm_whitelist m)
    \<and> (allowed_at (read_clock w) m ip \<longrightarrow>
       (\<exists>p. ParseIP ip = Some p \<and> list_ex (ipMatches p) (file_list y path w)))
    \<and> (\<forall>p. ParseIP ip = Some p \<and> list_ex (ipMatches p) (file_list y path w)
         \<and> \<not> allowed_at (read_clock w) m ip \<longrightarrow>
       list_ex (\<lambda>e. ipMatches p (ip_IP e)) (wm_blacklist m)
       \<or> list_ex (\<lambda>e. expired_at (read_clock w) e \<and> ipMatches p (ip_IP e)) (wm_whitelist m))"
  using assms(1) unfolding assms(2)
  by (fastforce simp: tracks_def allowed_at_def list_ex_iff live_ips_def split: option.splits)

text \<open>C6 (invariant).  The list in the file follows the whitelist of the gateway.  Started with any file,
  and through any run of calls, HTTP requests and outside events in which the file system works and
  nobody else writes the file, the source ranges in the file hold every entry of the whitelist that has
  not expired, and no address without an entry.  So every address that the gateway allows matches a
  range of the file, by the gateway's own matching; and an address that matches a range of the file and
  that the gateway does not allow matches a blocked entry, which the file never takes into account, or a
  whitelist entry that has expired since the last write.\<close>

theorem file_list_tracks_whitelist:
  fixes E :: "('l, 'rd, 'd) gw_env" and w0 :: "('l, 'rd, 'db, 'd, 'z) gworld_scheme"
  assumes "gw_start E w0 = (Started g, w1)" "calm_run E S fmt stack not_found g (gwy_whitelist g, w1) hs (Some m, w)"
    and "clock_mono w0" "w_faults w0 = []" "yaml_total (env_yaml E)" "passes_on stack" "stateless not_found"
  shows "live_ips (read_clock w) (wm_whitelist m) \<subseteq> set (file_list (env_yaml E) (gw_path g) w)
    \<and> set (file_list (env_yaml E) (gw_path g) w) \<subseteq> ip_IP ` set (wm_whitelist m)
    \<and> (allowed_at (read_clock w) m ip \<longrightarrow>
       (\<exists>p. ParseIP ip = Some p \<and> list_ex (ipMatches p) (file_list (env_yaml E) (gw_path g) w)))
    \<and> (\<forall>p. ParseIP ip = Some p \<and> list_ex (ipMatches p) (file_list (env_yaml E) (gw_path g) w)
         \<and> \<not> allowed_at (read_clock w) m ip \<longrightarrow>
       list_ex (\<lambda>e. ipMatches p (ip_IP e)) (wm_blacklist m)
       \<or> list_ex (\<lambda>e. expired_at (read_clock w) e \<and> ipMatches p (ip_IP e)) (wm_whitelist m))"
proof -
  note typed = start_typed [OF assms(1)]
  from gw_run_typed [OF assms(6,7) calm_run_is_run [OF assms(2)] typed]
  have last: "gw_typed g (Some m, w)" ..
  then obtain m0 where m0: "gwy_whitelist g = Some m0" by (auto simp: gw_typed_def)
  from calm_run_tracks [OF assms(2,6,7,5), of m0 w1] start_tracks [OF assms(1) m0 assms(3,4)] typed
  have "tracks (env_yaml E) m w" by (simp add: m0)
  then show ?thesis by (rule tracks_decisions) (use last in \<open>simp add: gw_typed_def\<close>)
qed


subsection \<open>Blocking\<close>

lemma gw_step_keeps_file:
  fixes w :: "('l, 'rd, 'db, 'd, 'z) gworld_scheme"
  assumes "gw_step E S fmt stack not_found g (Up (mo, w)) h (Up (mo1, w1))" "passes_on stack" "stateless not_found"
    and "\<forall>c served. h = Called c served \<longrightarrow> \<not> writes_file c" "h = Outside \<longrightarrow> spares path w w1"
  shows "w_files w1 path = w_files w path"
proof (rule gw_step_frame [where F = "\<lambda>w w1. w_files w1 path = w_files w path", OF assms(1)])
  have kept: "files_kept w v \<Longrightarrow> w_files v path = w_files w path" for v by (simp add: files_kept_def)
  show "w_files (snd (snd (gw_serve E S g c (mo, w)))) path = w_files w path" if "h = Called c served" for c served
    by (rule kept, rule files.serve_other) (use that assms(4) in blast)
  show "w_files (snd (gw_handler (env_rate E) fmt stack not_found g r new_response w)) path = w_files w path" for r
    by (rule kept) (rule files.gw_handler [OF assms(2,3)])
qed (use assms(5) in \<open>simp add: spares_def\<close>)

lemma calm_run_keeps_file:
  assumes "calm_run E S fmt stack not_found g st hs st1" "passes_on stack" "stateless not_found"
  shows "\<forall>c served. Called c served \<in> set hs \<longrightarrow> \<not> writes_file c \<Longrightarrow>
    w_files (snd st1) (gw_path g) = w_files (snd st) (gw_path g)"
  using assms(1)
proof induction
  case (calm_go st h sx hs st2)
  from calm_go.hyps(1) have "gw_step E S fmt stack not_found g (Up (fst st, snd st)) h (Up (fst sx, snd sx))" by simp
  then have "w_files (snd sx) (gw_path g) = w_files (snd st) (gw_path g)"
    by (rule gw_step_keeps_file [OF _ assms(2,3) _ calm_go.hyps(2)]) (use calm_go.prems in auto)
  with calm_go.IH calm_go.prems show ?case by auto
qed simp

lemma AddToBlacklist_blocks: "validateIPOrCIDR ip = None \<Longrightarrow> ip \<in> bl.ips (snd (AddToBlacklist ip d who s))"
  by (cases s) (auto simp: AddToBlacklist_unfold Let_def bl.ips_def listed_def new_entry_def)

lemma gw_step_blocks:
  assumes "gw_step E S fmt stack not_found g (Up (Some m, w)) (Called (WhitelistCall (AddToBlacklistCall q)) served) (Up (mo1, w1))"
    and "gwy_whitelist g \<noteq> None" "validateIPOrCIDR (AddToBlacklistRequest_Ip q) = None"
  shows "\<exists>m1. mo1 = Some m1 \<and> AddToBlacklistRequest_Ip q \<in> ip_IP ` set (wm_blacklist m1)"
proof -
  from assms(1) have "gw_serve E S g (WhitelistCall (AddToBlacklistCall q)) (Some m, w) = (served, mo1, w1)"
    by (cases rule: gw_step_UpE) blast+
  then have "mo1 = Some (fst (snd (serve_whitelist (env_yaml E) (AddToBlacklistCall q) (m, w))))"
    using assms(2) by (auto simp: gw_serve_whitelist Let_def case_prod_beta)
  then have "mo1 = Some (fst (snd (AddToBlacklist (AddToBlacklistRequest_Ip q) (AddToBlacklistRequest_Description q)
      (AddToBlacklistRequest_AddedBy q) (m, w))))"
    by (simp add: serve_whitelist_manager del: serve_whitelist.simps)
  with AddToBlacklist_blocks [OF assms(3), of _ _ "(m, w)"] show ?thesis by (auto simp: bl.ips_def)
qed

lemma gw_step_manager_stays:
  assumes "gw_step E S fmt stack not_found g (Up (Some m, w)) h (Up (mo1, w1))"
  shows "\<exists>m1. mo1 = Some m1"
  using gw_step_manager [OF assms] by auto

lemma calm_run_blocks:
  assumes "calm_run E S fmt stack not_found g st hs st1" "gwy_whitelist g \<noteq> None" "validateIPOrCIDR (AddToBlacklistRequest_Ip q) = None"
  shows "st = (Some m, w) \<Longrightarrow>
    AddToBlacklistRequest_Ip q \<in> ip_IP ` set (wm_blacklist m) \<or> Called (WhitelistCall (AddToBlacklistCall q)) served \<in> set hs \<Longrightarrow>
    \<forall>r served. Called (WhitelistCall (RemoveFromBlacklistCall r)) served \<in> set hs \<longrightarrow>
      RemoveFromBlacklistRequest_Ip r \<noteq> AddToBlacklistRequest_Ip q \<Longrightarrow>
    \<exists>m1. fst st1 = Some m1 \<and> AddToBlacklistRequest_Ip q \<in> ip_IP ` set (wm_blacklist m1)"
  using assms(1)
proof (induction arbitrary: m w)
  case (calm_go st h sx hs st2)
  obtain mo1 w1 where x: "sx = (mo1, w1)" by (metis prod.collapse)
  from calm_go.hyps(1) have s: "gw_step E S fmt stack not_found g (Up (Some m, w)) h (Up (mo1, w1))"
    by (simp add: calm_go.prems(1) x)
  obtain m1 where m1: "mo1 = Some m1" using gw_step_manager_stays [OF s] by blast
  have "AddToBlacklistRequest_Ip q \<in> ip_IP ` set (wm_blacklist m1) \<or> Called (WhitelistCall (AddToBlacklistCall q)) served \<in> set hs"
  proof (cases "h = Called (WhitelistCall (AddToBlacklistCall q)) served")
    case True
    with gw_step_blocks [OF s [unfolded True] assms(2,3)] m1 show ?thesis by simp
  next
    case False
    with calm_go.prems(2) gw_step_keeps_block [OF s] calm_go.prems(3) m1 show ?thesis by auto
  qed
  from calm_go.IH [OF _ this] m1 x calm_go.prems(3) show ?case by auto
qed simp

text \<open>C16 (safety).  Blocking an address does not reach the file.  A call that puts a plain address on the
  blacklist makes the gateway deny it from then on, but as long as no call changes or cleans up the
  whitelist, the list of source ranges that the gateway's file gives to a proxy stays as it was: an
  address that matches one of them still does, at every moment, however long it has been blocked.\<close>

theorem blocking_does_not_reach_the_file:
  fixes w :: "('l, 'rd, 'db, 'd, 'z) gworld_scheme"
  assumes "calm_run E S fmt stack not_found g (Some m, w) hs (mo1, w1)" "passes_on stack" "stateless not_found"
    and "gwy_whitelist g \<noteq> None" "validateIPOrCIDR ip = None" "CHR ''/'' \<notin> set ip"
    and "Called (WhitelistCall (AddToBlacklistCall q)) served \<in> set hs" "AddToBlacklistRequest_Ip q = ip"
    and "\<forall>c served. Called c served \<in> set hs \<longrightarrow> \<not> writes_file c"
    and "\<forall>r served. Called (WhitelistCall (RemoveFromBlacklistCall r)) served \<in> set hs \<longrightarrow>
      RemoveFromBlacklistRequest_Ip r \<noteq> ip"
  shows "file_list (env_yaml E) (gw_path g) w1 = file_list (env_yaml E) (gw_path g) w
    \<and> (\<exists>m1. mo1 = Some m1 \<and> \<not> fst (IsAllowed m1 ip w1))"
  using calm_run_keeps_file [OF assms(1-3,9)] calm_run_blocks [OF assms(1,4), of q m w served]
    blocked_denied [OF _ assms(6)] assms(5,7,8,10)
  by (auto simp: file_list_def)


subsection \<open>Runs\<close>

definition calm_env :: "(int \<times> int, string \<Rightarrow> int, (string \<times> int) list) gw_env" where
  "calm_env = (demo_env True)\<lparr>env_yaml := demo_yaml\<rparr>"

lemma calm_env_yaml: "env_yaml calm_env = demo_yaml" "yaml_total demo_yaml"
  using demo_yaml_ok demo_marshal by (simp_all add: calm_env_def yaml_total_def)

lemma calm_env_call:
  assumes "gwy_whitelist g \<noteq> None"
  shows "gw_step calm_env demo_sql (\<lambda>_. []) (\<lambda>h. h) (\<lambda>r rs w. (rs, w)) g (Up (Some m, w))
     (Called (WhitelistCall q) (fst (gw_serve calm_env demo_sql g (WhitelistCall q) (Some m, w))))
     (Up (snd (gw_serve calm_env demo_sql g (WhitelistCall q) (Some m, w))))"
  by (rule gw_step.call) (use assms in \<open>simp_all add: gw_serve_whitelist Let_def case_prod_beta\<close>)

lemma calm_call:
  assumes "gwy_whitelist g \<noteq> None"
  shows "calm_run calm_env demo_sql (\<lambda>_. []) (\<lambda>h. h) (\<lambda>r rs w. (rs, w)) g (Some m, w)
     [Called (WhitelistCall q) (fst (gw_serve calm_env demo_sql g (WhitelistCall q) (Some m, w)))]
     (snd (gw_serve calm_env demo_sql g (WhitelistCall q) (Some m, w)))"
  by (rule calm_run.calm_go [OF calm_env_call [OF assms] _ calm_run.calm_stop]) simp

lemma demo_parse: "\<exists>p. ParseIP ''10.0.0.7'' = Some p"
  by (simp add: ParseIP_def ParseAddr_def parseIPv4Fields_def digit_val_def Let_def)

lemma calm_started:
  obtains g m w1 where "gw_start calm_env demo_gworld = (Started g, w1)" "gwy_whitelist g = Some m"
    "wm_whitelist m = []" "wm_blacklist m = []"
proof -
  have init: "gw_start calm_env demo_gworld = (let (g, w1) = init_components calm_env \<lparr>al_logger = 0\<rparr> demo_gworld
      in (Started g, w1))"
    using init_components_sel(1) [of calm_env "\<lparr>al_logger = 0\<rparr>" demo_gworld]
    by (simp add: gw_start_def NewAuditLogger_def calm_env_def demo_env_def load_config_def Load_def case_prod_beta
        Let_def getDefaultConfig_def zero_config_def)
  have "\<exists>m. gwy_whitelist (fst (init_components calm_env \<lparr>al_logger = 0\<rparr> demo_gworld)) = Some m
      \<and> wm_whitelist m = [] \<and> wm_blacklist m = []"
    by (simp add: init_components_def calm_env_def demo_env_def load_config_def Load_def case_prod_beta Let_def
        getDefaultConfig_def zero_config_def connect_redis_def limiter_New_def alloc_limiter_def wl_NewManager_def
        loadFromTraefikConfig_def os_ReadFile_def next_fault_def demo_gworld_def)
  with init that show thesis by (simp add: case_prod_beta) (metis prod.collapse)
qed

lemma file_list_tracks_whitelist_witness:
  "\<exists>g w1 served m w. gw_start calm_env demo_gworld = (Started g, w1)
     \<and> calm_run calm_env demo_sql (\<lambda>_. []) (\<lambda>h. h) (\<lambda>r rs w. (rs, w)) g (gwy_whitelist g, w1)
         [Called (WhitelistCall (AddToWhitelistCall (zero_AddToWhitelistRequest\<lparr>AddToWhitelistRequest_Ip := ''10.0.0.7''\<rparr>))) served]
         (Some m, w)
     \<and> (\<exists>p. ParseIP ''10.0.0.7'' = Some p \<and> list_ex (ipMatches p) (file_list demo_yaml (gw_path g) w))"
proof -
  let ?q = "AddToWhitelistCall (zero_AddToWhitelistRequest\<lparr>AddToWhitelistRequest_Ip := ''10.0.0.7''\<rparr>)"
  obtain g m w1 where start: "gw_start calm_env demo_gworld = (Started g, w1)" "gwy_whitelist g = Some m"
    "wm_whitelist m = []" "wm_blacklist m = []" by (rule calm_started)
  let ?fin = "snd (gw_serve calm_env demo_sql g (WhitelistCall ?q) (Some m, w1))"
  have calm: "clock_mono demo_gworld" "w_faults demo_gworld = []"
    by (simp_all add: demo_gworld_def clock_mono_def mono_def)
  from start_tracks [OF start(1,2) calm] have w1: "w_faults (snd (time_Now w1)) = []"
    by (simp add: tracks_def Now_calm)
  let ?m1 = "m\<lparr>wm_whitelist := [new_entry ''10.0.0.7'' [] [] None (read_clock w1)]\<rparr>"
  have "fst (updateTraefikConfig demo_yaml ?m1 (snd (time_Now w1))) = None"
    using update_no_faults [OF w1 demo_marshal, of ?m1] by simp
  then have m1: "fst ?fin = Some ?m1"
    by (simp add: gw_serve_whitelist start serve_whitelist_manager calm_env_yaml AddToWhitelist_unfold demo_valid
        listed_def Let_def case_prod_beta zero_AddToWhitelistRequest_def del: serve_whitelist.simps)
  have run: "calm_run calm_env demo_sql (\<lambda>_. []) (\<lambda>h. h) (\<lambda>r rs w. (rs, w)) g (gwy_whitelist g, w1)
      [Called (WhitelistCall ?q) (fst (gw_serve calm_env demo_sql g (WhitelistCall ?q) (Some m, w1)))] (Some ?m1, snd ?fin)"
    using calm_call [of g m w1 ?q] start(2) m1 by (metis option.distinct(1) prod.collapse)
  obtain p where "ParseIP ''10.0.0.7'' = Some p" using demo_parse by blast
  then have "allowed_at (read_clock (snd ?fin)) ?m1 ''10.0.0.7''"
    using ipMatches_self [of "''10.0.0.7''" p] by (simp add: allowed_at_def start(4) new_entry_def expired_at_def)
  with file_list_tracks_whitelist [OF start(1) run calm _ demo_stack, of "''10.0.0.7''"]
  have "\<exists>p. ParseIP ''10.0.0.7'' = Some p \<and> list_ex (ipMatches p) (file_list demo_yaml (gw_path g) (snd ?fin))"
    by (simp add: calm_env_yaml)
  from conjI [OF start(1) conjI [OF run this]] show ?thesis by (intro exI)
qed

lemma blocking_does_not_reach_the_file_witness:
  "\<exists>g (w :: (int \<times> int, string \<Rightarrow> int, bool, (string \<times> int) list) gworld) served m1 w1. calm_run calm_env demo_sql (\<lambda>_. []) (\<lambda>h. h) (\<lambda>r rs w. (rs, w)) g (Some (demo_manager [] []), w)
       [Called (WhitelistCall (AddToBlacklistCall (zero_AddToBlacklistRequest\<lparr>AddToBlacklistRequest_Ip := ''10.0.0.7''\<rparr>))) served]
       (Some m1, w1)
     \<and> file_list demo_yaml (gw_path g) w1 = [''10.0.0.7''] \<and> \<not> fst (IsAllowed m1 ''10.0.0.7'' w1)"
proof -
  let ?q = "AddToBlacklistCall (zero_AddToBlacklistRequest\<lparr>AddToBlacklistRequest_Ip := ''10.0.0.7''\<rparr>)"
  let ?g = "demo_listing []" and ?m = "demo_manager [] []"
  obtain d where d: "yaml_Marshal demo_yaml (whitelist_config [''10.0.0.7'']) = Inr d" using demo_marshal by blast
  let ?w = "demo_gworld\<lparr>w_files := [gw_path (demo_listing []) \<mapsto> config_header demo_yaml 0 @ d]\<rparr>"
  let ?fin = "snd (gw_serve calm_env demo_sql ?g (WhitelistCall ?q) (Some ?m, ?w))"
  obtain mo1 w1 where e: "?fin = (mo1, w1)" by (metis prod.collapse)
  have g: "gwy_whitelist ?g \<noteq> None" by (simp add: demo_listing_def)
  have "file_list demo_yaml (gw_path ?g) ?w = [''10.0.0.7'']"
    by (rule file_list_shows [OF demo_yaml_ok]) (use d in \<open>auto simp: file_shows_def\<close>)
  moreover
  from blocking_does_not_reach_the_file [OF calm_call [OF g, of ?m ?w ?q, unfolded e] demo_stack g demo_valid,
      of "zero_AddToBlacklistRequest\<lparr>AddToBlacklistRequest_Ip := ''10.0.0.7''\<rparr>"]
  obtain m1 where m1: "mo1 = Some m1" and "file_list demo_yaml (gw_path ?g) w1 = file_list demo_yaml (gw_path ?g) ?w"
    "\<not> fst (IsAllowed m1 ''10.0.0.7'' w1)"
    by (auto simp: calm_env_yaml)
  ultimately have "file_list demo_yaml (gw_path ?g) w1 = [''10.0.0.7'']" "\<not> fst (IsAllowed m1 ''10.0.0.7'' w1)"
    by simp_all
  with calm_call [OF g, of ?m ?w ?q, unfolded e m1] show ?thesis by (intro exI conjI)
qed

end
