(* ===== verification/QueryCacheRuns.thy ===== *)
theory QueryCacheRuns
  imports CacheProps
begin

text \<open>
  The query cache in use: callers that ask, background stores that run whenever the scheduler lets
  them, invalidations, entries that expire, and a server that may fail at any command, in any order.
  What an answer can be, and what an invalidation achieves, is stated over the runs of this system.
\<close>

subsection \<open>A server that may fail\<close>

text \<open>
  What the code relies on of a Redis server of which any command may fail.  \<open>holds\<close> is the content of
  the server: a reading answers with the content or fails; a SET leaves the old value, the new one
  or (it may be evicted) nothing; a DEL that succeeds leaves nothing; and no command adds to another key.
\<close>

definition shrinks :: "'a option \<Rightarrow> 'a option \<Rightarrow> bool" where
  "shrinks x y \<longleftrightarrow> y = None \<or> y = x"

definition redis_honest :: "('rd \<Rightarrow> string \<rightharpoonup> string) \<Rightarrow> 'rd redis_client \<Rightarrow> bool" where
  "redis_honest holds c \<longleftrightarrow>
     (\<forall>k d s. fst (rd_Get c k s) = RBytes d \<longrightarrow> holds s k = Some d)
   \<and> (\<forall>k k' s. shrinks (holds s k') (holds (snd (rd_Get c k s)) k'))
   \<and> (\<forall>k k' v d s. shrinks (holds s k') (holds (snd (rd_Set c k v d s)) k')
        \<or> k' = k \<and> holds (snd (rd_Set c k v d s)) k' = Some v)
   \<and> (\<forall>k k' s. shrinks (holds s k') (holds (snd (rd_Del c k s)) k'))
   \<and> (\<forall>k s. fst (rd_Del c k s) = None \<longrightarrow> holds (snd (rd_Del c k s)) k = None)"

lemma map_redis_honest: "redis_honest (\<lambda>s. s) map_redis"
  by (auto simp: redis_honest_def map_redis_def shrinks_def split: option.splits)

lemma honest_Get: "redis_honest holds c \<Longrightarrow> fst (rd_Get c k s) = RBytes d \<Longrightarrow> holds s k = Some d"
  unfolding redis_honest_def by (drule conjunct1) blast

lemma honest_Get_frame: "redis_honest holds c \<Longrightarrow> shrinks (holds s k') (holds (snd (rd_Get c k s)) k')"
  unfolding redis_honest_def by (drule conjunct2, drule conjunct1) blast

lemma honest_Set: "redis_honest holds c \<Longrightarrow> shrinks (holds s k') (holds (snd (rd_Set c k v d s)) k')
    \<or> k' = k \<and> holds (snd (rd_Set c k v d s)) k' = Some v"
  unfolding redis_honest_def by (drule conjunct2, drule conjunct2, drule conjunct1) blast

lemma honest_Del: "redis_honest holds c \<Longrightarrow> shrinks (holds s k') (holds (snd (rd_Del c k s)) k')"
  unfolding redis_honest_def by (drule conjunct2, drule conjunct2, drule conjunct2, drule conjunct1) blast

lemma honest_Del_ok: "redis_honest holds c \<Longrightarrow> fst (rd_Del c k s) = None \<Longrightarrow> holds (snd (rd_Del c k s)) k = None"
  unfolding redis_honest_def by (drule conjunct2, drule conjunct2, drule conjunct2, drule conjunct2) blast

text \<open>
  What a value becomes in the cache: the package \<open>encoding/json\<close> renders it and reads the text back into an
  empty interface.  Nothing is assumed of the library here; a value need not come back as it was (an
  \<open>int\<close> comes back as a \<open>float64\<close>, a struct as a map), and what cannot be rendered is never stored.
\<close>

definition json_image :: "'v codec \<Rightarrow> 'v \<Rightarrow> 'v option" where
  "json_image j v = (case js_Marshal j v of
     Inl e \<Rightarrow> None
   | Inr data \<Rightarrow> (case js_Unmarshal j data of Inl e \<Rightarrow> None | Inr v' \<Rightarrow> Some v'))"

subsection \<open>Steps\<close>

text \<open>
  The state: the server, the database of the query functions, and the stores that are under way.
  An answer shows the query, what the caller got, and what his function returned, if it was called.
\<close>

type_synonym 'v cache_store = "string \<times> 'v option \<times> duration"

type_synonym ('rd, 'db, 'v) cache_state = "'rd \<times> 'db \<times> 'v cache_store list"

datatype 'v cache_event = Asked string "'v option result" "'v option result option" | Background

definition answered_by_cache :: "(string \<Rightarrow> string) \<Rightarrow> 'v option codec \<Rightarrow> 'rd QueryCache \<Rightarrow> string \<Rightarrow> 'rd \<Rightarrow> bool" where
  "answered_by_cache sha j qc q s = (case fst (qc_Get sha j qc q s) of (hit, v, err) \<Rightarrow> hit \<and> v \<noteq> None)"

inductive cache_step :: "(string \<Rightarrow> string) \<Rightarrow> 'v option codec \<Rightarrow> ('rd \<Rightarrow> string \<rightharpoonup> string) \<Rightarrow> 'rd QueryCache \<Rightarrow>
    ('rd, 'db, 'v) cache_state \<Rightarrow> 'v cache_event \<Rightarrow> ('rd, 'db, 'v) cache_state \<Rightarrow> bool" for sha j holds qc where
  ask: "CacheWrapper sha j qc q ttl fn (s, db) = (res, (s1, db1), out, job) \<Longrightarrow>
    cache_step sha j holds qc (s, db, jobs)
      (Asked q res (if answered_by_cache sha j qc q s then None else Some (fst (fn db))))
      (s1, db1, case job of None \<Rightarrow> jobs | Some b \<Rightarrow> jobs @ [b])"
| store: "cache_job sha j qc b s = (out, s1) \<Longrightarrow>
    cache_step sha j holds qc (s, db, jobs @ b # jobs') Background (s1, db, jobs @ jobs')"
| invalidate: "Invalidate sha qc q s = (err, s1) \<Longrightarrow>
    cache_step sha j holds qc (s, db, jobs) Background (s1, db, jobs)"
| environment: "\<forall>q. shrinks (holds s (generateKey sha qc q)) (holds s1 (generateKey sha qc q)) \<Longrightarrow>
    cache_step sha j holds qc (s, db, jobs) Background (s1, db1, jobs)"

inductive cache_run :: "(string \<Rightarrow> string) \<Rightarrow> 'v option codec \<Rightarrow> ('rd \<Rightarrow> string \<rightharpoonup> string) \<Rightarrow> 'rd QueryCache \<Rightarrow>
    ('rd, 'db, 'v) cache_state \<Rightarrow> 'v cache_event list \<Rightarrow> ('rd, 'db, 'v) cache_state \<Rightarrow> bool" for sha j holds qc where
  cr_stop: "cache_run sha j holds qc st [] st"
| cr_go: "cache_step sha j holds qc st e st1 \<Longrightarrow> cache_run sha j holds qc st1 es st2 \<Longrightarrow>
    cache_run sha j holds qc st (e # es) st2"

inductive_cases cache_run_ConsE: "cache_run sha j holds qc st (e # es) st2"
inductive_simps cache_run_Nil: "cache_run sha j holds qc st [] st2"

text \<open>The value that an event computes for a query, as the cache will show it; the queries that are asked.\<close>

fun computes :: "'v option codec \<Rightarrow> 'v cache_event \<Rightarrow> (string \<times> 'v option) set" where
  "computes j (Asked q res (Some (Inr u))) = {(q', v). q' = q \<and> json_image j u = Some v}"
| "computes j e = {}"

fun asks :: "'v cache_event \<Rightarrow> string set" where
  "asks (Asked q res c) = {q}"
| "asks Background = {}"

subsection \<open>Where cached values come from\<close>

text \<open>The values that the server holds for a query, or will hold when a store that is under way has run.\<close>

definition cached_values :: "'v option codec \<Rightarrow> string option \<Rightarrow> 'v option set" where
  "cached_values j x = (case x of None \<Rightarrow> {} | Some d \<Rightarrow> (case js_Unmarshal j d of Inl e \<Rightarrow> {} | Inr v \<Rightarrow> {v}))"

definition origins :: "(string \<Rightarrow> string) \<Rightarrow> 'v option codec \<Rightarrow> ('rd \<Rightarrow> string \<rightharpoonup> string) \<Rightarrow> 'rd QueryCache \<Rightarrow>
    ('rd, 'db, 'v) cache_state \<Rightarrow> (string \<times> 'v option) set" where
  "origins sha j holds qc st = (case st of (s, db, jobs) \<Rightarrow>
     {(q, v). v \<in> cached_values j (holds s (generateKey sha qc q))}
     \<union> {(q, v). \<exists>u ttl. (q, u, ttl) \<in> set jobs \<and> json_image j u = Some v})"

definition pending :: "('rd, 'db, 'v) cache_state \<Rightarrow> string set" where
  "pending st = (case st of (s, db, jobs) \<Rightarrow> fst ` set jobs)"

lemma cached_values_shrinks: "shrinks x y \<Longrightarrow> cached_values j y \<subseteq> cached_values j x"
  by (auto simp: shrinks_def cached_values_def)

lemma origins_shrinks:
  assumes "\<forall>q. shrinks (holds s (generateKey sha qc q)) (holds s1 (generateKey sha qc q))" "set jobs1 \<subseteq> set jobs"
  shows "origins sha j holds qc (s1, db1, jobs1) \<subseteq> origins sha j holds qc (s, db, jobs)"
proof -
  have "cached_values j (holds s1 (generateKey sha qc q)) \<subseteq> cached_values j (holds s (generateKey sha qc q))" for q
    by (rule cached_values_shrinks) (rule spec [OF assms(1)])
  then have "{(q, v). v \<in> cached_values j (holds s1 (generateKey sha qc q))}
      \<subseteq> {(q, v). v \<in> cached_values j (holds s (generateKey sha qc q))}" by blast
  then show ?thesis unfolding origins_def prod.case by (rule Un_mono) (use assms(2) in blast)
qed

lemma Get_frame:
  assumes "redis_honest holds (rch_client r)" "qc_redis qc = Some r"
  shows "shrinks (holds s k) (holds (snd (qc_Get sha j qc q s)) k)"
  using honest_Get_frame [OF assms(1), of s k "generateKey sha qc q"] assms(2)
  by (simp add: qc_Get_def cache_Get_def Let_def case_prod_beta split: redis_reply.split sum.split)

lemma Get_value:
  assumes "redis_honest holds (rch_client r)" "qc_redis qc = Some r" "fst (qc_Get sha j qc q s) = (True, v, None)"
  shows "v \<in> cached_values j (holds s (generateKey sha qc q))"
proof -
  from assms(2,3) obtain d where "fst (rd_Get (rch_client r) (generateKey sha qc q) s) = RBytes d" "js_Unmarshal j d = Inr v"
    by (auto simp: qc_Get_def cache_Get_def Let_def case_prod_beta split: redis_reply.splits sum.splits)
  with honest_Get [OF assms(1) this(1)] show ?thesis by (simp add: cached_values_def)
qed

lemma wrapper_cases:
  assumes "CacheWrapper sha j qc q ttl fn (s, db) = (res, (s1, db1), out, job)"
  shows "s1 = snd (qc_Get sha j qc q s)
    \<and> (if answered_by_cache sha j qc q s
       then job = None \<and> (\<exists>v. res = Inr v \<and> fst (snd (fst (qc_Get sha j qc q s))) = v \<and> fst (fst (qc_Get sha j qc q s)))
       else res = fst (fn db) \<and> job = (case res of Inl e \<Rightarrow> None | Inr v \<Rightarrow> Some (q, v, ttl)))"
  using assms
  by (auto simp: CacheWrapper_def answered_by_cache_def Let_def split: prod.splits if_splits sum.splits)

lemma Get_hit: "fst (fst (qc_Get sha j qc q s)) \<Longrightarrow> snd (snd (fst (qc_Get sha j qc q s))) = None"
  by (auto simp: qc_Get_def Let_def case_prod_beta split: option.splits sum.splits)

subsection \<open>One step\<close>

lemma job_values:
  assumes "redis_honest holds (rch_client r)" "qc_redis qc = Some r"
    and "cache_job sha j qc (q, v, ttl) s = (out, s1)"
  shows "shrinks (holds s k) (holds s1 k)
    \<or> k = generateKey sha qc q \<and> cached_values j (holds s1 k) = set_option (json_image j v)"
proof (cases "js_Marshal j v")
  case (Inl e)
  with assms(2,3) have "s1 = s"
    by (auto simp: cache_job_def qc_Set_def cache_Set_def Let_def split: prod.splits)
  then show ?thesis by (simp add: shrinks_def)
next
  case (Inr d)
  define ttl' where "ttl' = (if 0 < ttl then ttl else qc_defaultTTL qc)"
  have "s1 = snd (rd_Set (rch_client r) (generateKey sha qc q) d ttl' s)"
    using Inr assms(2,3) by (auto simp: ttl'_def cache_job_def qc_Set_def cache_Set_def Let_def split: prod.splits)
  with honest_Set [OF assms(1), of s k "generateKey sha qc q" d ttl'] Inr show ?thesis
    by (auto simp: cached_values_def json_image_def split: sum.split)
qed

lemma job_origins:
  assumes "redis_honest holds (rch_client r)" "qc_redis qc = Some r" "inj_on sha Q"
    and "cache_job sha j qc b s = (out, s1)" "pending (s, db, jobs @ b # jobs') \<subseteq> Q"
  shows "origins sha j holds qc (s1, db, jobs @ jobs') \<inter> Q \<times> UNIV \<subseteq> origins sha j holds qc (s, db, jobs @ b # jobs')"
proof
  fix x assume x: "x \<in> origins sha j holds qc (s1, db, jobs @ jobs') \<inter> Q \<times> UNIV"
  obtain q v where qv: "x = (q, v)" by (cases x) blast
  obtain q' u ttl where b: "b = (q', u, ttl)" by (cases b) blast
  have in_Q: "q \<in> Q" "q' \<in> Q" using x assms(5) by (auto simp: qv b pending_def)
  from x consider "v \<in> cached_values j (holds s1 (generateKey sha qc q))"
    | "\<exists>u ttl. (q, u, ttl) \<in> set (jobs @ jobs') \<and> json_image j u = Some v"
    unfolding origins_def qv by blast
  then show "x \<in> origins sha j holds qc (s, db, jobs @ b # jobs')"
  proof cases
    case 1
    from job_values [OF assms(1,2) assms(4) [unfolded b], of "generateKey sha qc q"] show ?thesis
    proof (elim disjE conjE)
      assume "shrinks (holds s (generateKey sha qc q)) (holds s1 (generateKey sha qc q))"
      with 1 cached_values_shrinks show ?thesis by (auto simp: origins_def qv)
    next
      assume "generateKey sha qc q = generateKey sha qc q'"
        "cached_values j (holds s1 (generateKey sha qc q)) = set_option (json_image j u)"
      with 1 in_Q assms(3) have "json_image j u = Some v" "q = q'" by (auto simp: generateKey_eq inj_on_def)
      then show ?thesis by (auto simp: origins_def qv b)
    qed
  next
    case 2
    then show ?thesis by (auto simp: origins_def qv)
  qed
qed

lemma ask_step:
  assumes "redis_honest holds (rch_client r)" "qc_redis qc = Some r"
    and "CacheWrapper sha j qc q ttl fn (s, db) = (res, (s1, db1), out, job)"
  defines "c \<equiv> if answered_by_cache sha j qc q s then None else Some (fst (fn db))"
  shows "res = Inr v \<Longrightarrow> c = Some (Inr v) \<or> c = None \<and> (q, v) \<in> origins sha j holds qc (s, db, jobs)"
    and "origins sha j holds qc (s1, db1, case job of None \<Rightarrow> jobs | Some b \<Rightarrow> jobs @ [b])
      \<subseteq> origins sha j holds qc (s, db, jobs) \<union> computes j (Asked q res c)"
    and "pending (s1, db1, case job of None \<Rightarrow> jobs | Some b \<Rightarrow> jobs @ [b]) \<subseteq> insert q (pending (s, db, jobs))"
proof -
  note w = wrapper_cases [OF assms(3)]
  show "c = Some (Inr v) \<or> c = None \<and> (q, v) \<in> origins sha j holds qc (s, db, jobs)" if "res = Inr v"
  proof (cases "answered_by_cache sha j qc q s")
    case False
    with w that show ?thesis by (simp add: c_def)
  next
    case True
    with w that have "fst (snd (fst (qc_Get sha j qc q s))) = v" "fst (fst (qc_Get sha j qc q s))" by auto
    with Get_hit [of sha j qc q s] have "fst (qc_Get sha j qc q s) = (True, v, None)" by (simp add: prod_eq_iff)
    from Get_value [OF assms(1,2) this] True show ?thesis by (simp add: c_def origins_def)
  qed
  have "\<forall>q'. shrinks (holds s (generateKey sha qc q')) (holds s1 (generateKey sha qc q'))"
    using Get_frame [OF assms(1,2)] w by blast
  from origins_shrinks [OF this, of jobs jobs j db1 db]
  have base: "origins sha j holds qc (s1, db1, jobs) \<subseteq> origins sha j holds qc (s, db, jobs)" by simp
  have app: "origins sha j holds qc (s1, db1, jobs @ [(q, u, ttl)])
      = {(q', v). q' = q \<and> json_image j u = Some v} \<union> origins sha j holds qc (s1, db1, jobs)" for u
    by (auto simp: origins_def)
  show "origins sha j holds qc (s1, db1, case job of None \<Rightarrow> jobs | Some b \<Rightarrow> jobs @ [b])
      \<subseteq> origins sha j holds qc (s, db, jobs) \<union> computes j (Asked q res c)"
  proof (cases job)
    case None
    with base show ?thesis by auto
  next
    case (Some b)
    with w obtain v where "b = (q, v, ttl)" "c = Some (Inr v)"
      by (auto simp: c_def split: if_splits sum.splits)
    with base Some app show ?thesis by auto
  qed
  show "pending (s1, db1, case job of None \<Rightarrow> jobs | Some b \<Rightarrow> jobs @ [b]) \<subseteq> insert q (pending (s, db, jobs))"
    using w by (auto simp: pending_def split: if_splits option.splits sum.splits)
qed

lemma Invalidate_frame:
  assumes "redis_honest holds (rch_client r)" "qc_redis qc = Some r" "Invalidate sha qc q s = (err, s1)"
  shows "shrinks (holds s k) (holds s1 k)" "err = None \<Longrightarrow> holds s1 (generateKey sha qc q) = None"
  using assms(3) honest_Del [OF assms(1), of s k "generateKey sha qc q"]
    honest_Del_ok [OF assms(1), of "generateKey sha qc q" s]
  by (auto simp: Invalidate_def cache_Delete_def assms(2))

subsection \<open>Runs\<close>

lemma cache_step_origins:
  assumes "redis_honest holds (rch_client r)" "qc_redis qc = Some r" "inj_on sha Q"
    and "cache_step sha j holds qc st e st1" "asks e \<subseteq> Q" "pending st \<subseteq> Q"
  shows "origins sha j holds qc st1 \<inter> Q \<times> UNIV \<subseteq> origins sha j holds qc st \<union> computes j e \<and> pending st1 \<subseteq> Q"
  using assms(4-6)
proof (induction rule: cache_step.induct)
  case (ask q ttl fn s db res s1 db1 out job jobs)
  from ask_step(2,3) [OF assms(1,2) ask.hyps, where jobs = jobs] ask.prems show ?case by auto
next
  case (store b s out s1 db jobs jobs')
  from job_origins [OF assms(1-3) store.hyps store.prems(2)] store.prems(2) show ?case
    by (auto simp: pending_def)
next
  case (invalidate q s err s1 db jobs)
  have "\<forall>q'. shrinks (holds s (generateKey sha qc q')) (holds s1 (generateKey sha qc q'))"
    using Invalidate_frame(1) [OF assms(1,2) invalidate.hyps] by blast
  from origins_shrinks [OF this, of jobs jobs j db db] invalidate.prems show ?case by (auto simp: pending_def)
next
  case (environment s s1 db jobs db1)
  from origins_shrinks [OF environment.hyps, of jobs jobs j db1 db] environment.prems show ?case
    by (auto simp: pending_def)
qed

lemma cache_step_answer:
  assumes "redis_honest holds (rch_client r)" "qc_redis qc = Some r" "cache_step sha j holds qc st e st1"
  shows "e = Asked q (Inr v) c \<Longrightarrow> c = Some (Inr v) \<or> c = None \<and> (q, v) \<in> origins sha j holds qc st"
    and "(q, v) \<in> computes j e \<Longrightarrow> \<exists>u. e = Asked q (Inr u) (Some (Inr u)) \<and> json_image j u = Some v"
  using assms(3)
proof (induction rule: cache_step.induct)
  case (ask q' ttl fn s db res s1 db1 out job jobs)
  {
    case 1
    with ask_step(1) [OF assms(1,2) ask.hyps, of v] show ?case by auto
  next
    case 2
    with wrapper_cases [OF ask.hyps] show ?case by (cases "fst (fn db)") (auto split: if_splits)
  }
qed simp_all

text \<open>The values that a caller may get without a call of his function.\<close>

lemma cache_run_answers:
  assumes "redis_honest holds (rch_client r)" "qc_redis qc = Some r" "inj_on sha Q"
  shows "cache_run sha j holds qc st es st1 \<Longrightarrow> es = es1 @ Asked q (Inr v) c # es2 \<Longrightarrow>
    (\<Union>e \<in> set es. asks e) \<subseteq> Q \<Longrightarrow> pending st \<subseteq> Q \<Longrightarrow>
    c = Some (Inr v) \<or> c = None \<and> ((\<exists>u. Asked q (Inr u) (Some (Inr u)) \<in> set es1 \<and> json_image j u = Some v)
      \<or> (q, v) \<in> origins sha j holds qc st)"
proof (induction arbitrary: es1 rule: cache_run.induct)
  case (cr_go st e stx es st2)
  show ?case
  proof (cases es1)
    case Nil
    with cr_go.prems(1) cache_step_answer(1) [OF assms(1,2) cr_go.hyps(1)] show ?thesis by auto
  next
    case (Cons e' es1')
    then have e: "e' = e" "es = es1' @ Asked q (Inr v) c # es2" using cr_go.prems(1) by simp_all
    from cache_step_origins [OF assms cr_go.hyps(1)] cr_go.prems(2,3)
    have o: "origins sha j holds qc stx \<inter> Q \<times> UNIV \<subseteq> origins sha j holds qc st \<union> computes j e" "pending stx \<subseteq> Q"
      by simp_all
    have "q \<in> Q" using cr_go.prems(2) e(2) by auto
    with cr_go.IH [OF e(2) _ o(2)] cr_go.prems(2) o(1) cache_step_answer(2) [OF assms(1,2) cr_go.hyps(1), of q v]
    show ?thesis by (simp add: Cons e(1)) blast
  qed
qed simp

text \<open>C10 (safety).  The cache never invents or mixes up an answer.  Through any run of callers, background stores,
  invalidations, expiring entries and failing commands of the server, in any order, a value that a
  caller gets for a query is either what the query function returned in this very call, or the JSON
  image (rendered and read back, which may change its type) of what the function returned for that very
  query in an earlier call of the run, or of what was cached or under way to the cache when the run
  began.  (The digests of the queries that occur must differ.)\<close>

theorem cached_answers_were_computed:
  assumes "redis_honest holds (rch_client r)" "qc_redis qc = Some r"
    and "cache_run sha j holds qc st (es1 @ Asked q (Inr v) c # es2) st1"
    and "inj_on sha ((\<Union>e \<in> set (es1 @ Asked q (Inr v) c # es2). asks e) \<union> pending st)"
  shows "c = Some (Inr v)
    \<or> c = None \<and> ((\<exists>u. Asked q (Inr u) (Some (Inr u)) \<in> set es1 \<and> json_image j u = Some v)
      \<or> (q, v) \<in> origins sha j holds qc st)"
  using cache_run_answers [OF assms(1,2,4,3) refl] by blast


subsection \<open>Concrete runs\<close>

text \<open>Numbers through JSON: whatever type a number had in Go, it is read back as a \<open>float64\<close>.\<close>

datatype demo_any = AnyInt int | AnyFloat int

definition number_codec :: "demo_any option codec" where
  "number_codec = \<lparr>
     js_Marshal = (\<lambda>v. case v of None \<Rightarrow> Inr ''null'' | Some (AnyInt n) \<Rightarrow> Inr (fmt_d n) | Some (AnyFloat n) \<Rightarrow> Inr (fmt_d n)),
     js_Unmarshal = (\<lambda>d. if d = ''null'' then Inr None else if d = ''7'' then Inr (Some (AnyFloat 7))
       else Inl (NewErr ''unexpected text''))\<rparr>"

lemma number_codec_7: "js_Marshal number_codec (Some (AnyInt 7)) = Inr ''7''"
  "js_Unmarshal number_codec ''7'' = Inr (Some (AnyFloat 7))"
  "json_image number_codec (Some (AnyInt 7)) = Some (Some (AnyFloat 7))"
  by (simp_all add: number_codec_def json_image_def fmt_d_def digit_def)

lemma demo_qc_redis: "qc_redis (demo_qc p) = Some \<lparr>rch_client = map_redis\<rparr>"
  by (simp add: demo_qc_def NewQueryCache_def Let_def)

lemma demo_honest: "redis_honest (\<lambda>s. s) (rch_client \<lparr>rch_client = map_redis\<rparr>)"
  by (simp add: map_redis_honest)

text \<open>A miss runs the function and leaves a store; once it has run, the next caller hits.\<close>

lemma demo_ask:
  assumes "s (generateKey sha (demo_qc p) q) = None"
  shows "cache_step sha j (\<lambda>s. s) (demo_qc p) (s, db, jobs) (Asked q (Inr v) (Some (Inr v))) (s, db, jobs @ [(q, v, 0)])"
proof -
  have g: "qc_Get sha j (demo_qc p) q s = ((False, None, None), s)"
    by (simp add: qc_Get_def demo_qc_redis cache_Get_def map_redis_def assms)
  have "CacheWrapper sha j (demo_qc p) q 0 (\<lambda>db. (Inr v, db)) (s, db) = (Inr v, (s, db), [], Some (q, v, 0))"
    by (simp add: CacheWrapper_def g)
  from cache_step.ask [OF this, of "\<lambda>s. s" jobs] show ?thesis by (simp add: answered_by_cache_def g)
qed

lemma demo_store:
  assumes "js_Marshal j v = Inr d"
  shows "cache_step sha j (\<lambda>s. s) (demo_qc p) (s, db, [(q, v, 0)]) Background
     (s(generateKey sha (demo_qc p) q \<mapsto> d), db, [])"
proof -
  have "cache_job sha j (demo_qc p) (q, v, 0) s = ([], s(generateKey sha (demo_qc p) q \<mapsto> d))"
    by (simp add: cache_job_def qc_Set_def demo_qc_redis cache_Set_def map_redis_def assms)
  from cache_step.store [OF this, where jobs = "[]" and jobs' = "[]" and holds = "\<lambda>s. s"] show ?thesis by simp
qed

lemma demo_hit:
  assumes "s (generateKey sha (demo_qc p) q) = Some d" "js_Unmarshal j d = Inr (Some y)"
  shows "cache_step sha j (\<lambda>s. s) (demo_qc p) (s, db, jobs) (Asked q (Inr (Some y)) None) (s, db, jobs)"
proof -
  have g: "qc_Get sha j (demo_qc p) q s = ((True, Some y, None), s)"
    by (simp add: qc_Get_def demo_qc_redis cache_Get_def map_redis_def assms)
  have "CacheWrapper sha j (demo_qc p) q 0 (\<lambda>db. (Inl (NewErr ''down''), db)) (s, db)
      = (Inr (Some y), (s, db), [], None)"
    by (simp add: CacheWrapper_def g)
  from cache_step.ask [OF this, of "\<lambda>s. s" jobs] show ?thesis by (simp add: answered_by_cache_def g)
qed

lemma demo_run:
  assumes "js_Marshal j v = Inr d" "js_Unmarshal j d = Inr (Some y)"
  shows "cache_run sha j (\<lambda>s. s) (demo_qc p) (Map.empty, db, [])
     ([Asked q (Inr v) (Some (Inr v)), Background] @ Asked q (Inr (Some y)) None # [])
     (Map.empty(generateKey sha (demo_qc p) q \<mapsto> d), db, [])"
proof -
  have 1: "cache_step sha j (\<lambda>s. s) (demo_qc p) (Map.empty, db, []) (Asked q (Inr v) (Some (Inr v))) (Map.empty, db, [(q, v, 0)])"
    using demo_ask [of Map.empty sha p q j db "[]" v] by simp
  have 3: "cache_step sha j (\<lambda>s. s) (demo_qc p) (Map.empty(generateKey sha (demo_qc p) q \<mapsto> d), db, [])
      (Asked q (Inr (Some y)) None) (Map.empty(generateKey sha (demo_qc p) q \<mapsto> d), db, [])"
    by (rule demo_hit [OF _ assms(2)]) simp
  have app: "[a, b] @ c # [] = [a, b, c]" for a b c :: "'v cache_event" by simp
  show ?thesis unfolding app
    by (rule cache_run.cr_go [OF 1 cache_run.cr_go [OF demo_store [OF assms(1)] cache_run.cr_go [OF 3 cache_run.cr_stop]]])
qed

text \<open>The second caller is answered from the cache, with a \<open>float64\<close> where the function returned an \<open>int\<close>.\<close>

lemma cached_answers_were_computed_witness:
  "\<exists>st u. cache_run (\<lambda>q. q) number_codec (\<lambda>s. s) (demo_qc []) (Map.empty, 0 :: nat, [])
      ([Asked ''q'' (Inr (Some (AnyInt 7))) (Some (Inr (Some (AnyInt 7)))), Background]
       @ Asked ''q'' (Inr (Some (AnyFloat 7))) None # []) st
    \<and> Asked ''q'' (Inr u) (Some (Inr u)) \<in> set [Asked ''q'' (Inr (Some (AnyInt 7))) (Some (Inr (Some (AnyInt 7)))), Background]
    \<and> json_image number_codec u = Some (Some (AnyFloat 7)) \<and> u \<noteq> Some (AnyFloat 7)"
proof -
  note run = demo_run [OF number_codec_7(1,2), of "\<lambda>q. q" "[]" "0 :: nat" "''q''"]
  have none: "(''q'', Some (AnyFloat 7)) \<notin> origins (\<lambda>q. q) number_codec (\<lambda>s. s) (demo_qc []) (Map.empty, 0 :: nat, [])"
    by (simp add: origins_def cached_values_def)
  from cached_answers_were_computed [OF demo_honest demo_qc_redis run] none
  obtain u where u: "Asked ''q'' (Inr u) (Some (Inr u))
      \<in> set [Asked ''q'' (Inr (Some (AnyInt 7))) (Some (Inr (Some (AnyInt 7)))), Background]"
    "json_image number_codec u = Some (Some (AnyFloat 7))"
    by (auto simp: inj_on_def)
  from u(1) have "u \<noteq> Some (AnyFloat 7)" by simp
  with run u show ?thesis by blast
qed


end
