(* ===== verification/Threads.thy ===== *)
theory Threads
  imports AuditLog "HOL-Library.Sublist"
begin

text \<open>
  Goroutines that share a value behind a \<open>sync.RWMutex\<close>.  The body of a method is a tree of effects, one
  for each access to the shared value, each reading of the clock, each file written and each record
  logged; \<open>run\<close> carries it out alone.  In a crew the goroutines take their effects in any order that the mutex
  allows.
\<close>

subsection \<open>Code as a tree of effects\<close>

datatype ('m, 'r) prog =
    Return 'r
  | Now "time \<Rightarrow> ('m, 'r) prog"
  | Read "'m \<Rightarrow> ('m, 'r) prog"
  | Assign "'m \<Rightarrow> 'm" "('m, 'r) prog"
  | WriteFile string string "go_error option \<Rightarrow> ('m, 'r) prog"
  | LogTo AuditLogger AuditEvent "('m, 'r) prog"

fun effect :: "('m, 'r) prog \<times> 'm \<times> 'z aworld_scheme \<Rightarrow> ('m, 'r) prog \<times> 'm \<times> 'z aworld_scheme" where
  "effect (Return r, m, w) = (Return r, m, w)"
| "effect (Now k, m, w) = (let (t, w1) = time_Now w in (k t, m, w1))"
| "effect (Read k, m, w) = (k m, m, w)"
| "effect (Assign f p, m, w) = (p, f m, w)"
| "effect (WriteFile path d k, m, w) = (let (err, w1) = os_WriteFile path d w in (k err, m, w1))"
| "effect (LogTo a ev p, m, w) = (p, m, LogEvent a ev w)"

primrec run :: "('m, 'r) prog \<Rightarrow> 'm \<times> 'z aworld_scheme \<Rightarrow> 'r \<times> 'm \<times> 'z aworld_scheme" where
  "run (Return r) = (\<lambda>s. (r, s))"
| "run (Now k) = (\<lambda>(m, w). let (t, w1) = time_Now w in run (k t) (m, w1))"
| "run (Read k) = (\<lambda>(m, w). run (k m) (m, w))"
| "run (Assign f p) = (\<lambda>(m, w). run p (f m, w))"
| "run (WriteFile path d k) = (\<lambda>(m, w). let (err, w1) = os_WriteFile path d w in run (k err) (m, w1))"
| "run (LogTo a ev p) = (\<lambda>(m, w). run p (m, LogEvent a ev w))"

lemma run_effect: "effect (p, s) = (p1, s1) \<Longrightarrow> run p1 s1 = run p s"
  by (cases p; cases s) (auto simp: Let_def split: prod.splits)

text \<open>Code that leaves everything but the clock alone.\<close>

inductive read_only :: "('m, 'r) prog \<Rightarrow> bool" where
  "read_only (Return r)"
| "(\<And>t. read_only (k t)) \<Longrightarrow> read_only (Now k)"
| "(\<And>m. read_only (k m)) \<Longrightarrow> read_only (Read k)"

inductive_simps read_only_simps [simp]:
  "read_only (Return r)" "read_only (Now k)" "read_only (Read k)" "read_only (Assign f p)"
  "read_only (WriteFile path d k)" "read_only (LogTo a ev p)"

subsection \<open>The mutex and the goroutines\<close>

record rw_mutex =
  mu_writer :: bool
  mu_readers :: nat

definition unlocked :: rw_mutex where
  "unlocked = \<lparr>mu_writer = False, mu_readers = 0\<rparr>"

text \<open>\<open>Lock\<close> and \<open>RLock\<close> wait while these do not hold; which of the waiting goroutines goes first is left open.\<close>

definition can_lock :: "bool \<Rightarrow> rw_mutex \<Rightarrow> bool" where
  "can_lock writes mu \<longleftrightarrow> \<not> mu_writer mu \<and> (writes \<longrightarrow> mu_readers mu = 0)"

definition lock :: "bool \<Rightarrow> rw_mutex \<Rightarrow> rw_mutex" where
  "lock writes mu = (if writes then mu\<lparr>mu_writer := True\<rparr> else mu\<lparr>mu_readers := mu_readers mu + 1\<rparr>)"

definition unlock :: "bool \<Rightarrow> rw_mutex \<Rightarrow> rw_mutex" where
  "unlock writes mu = (if writes then mu\<lparr>mu_writer := False\<rparr> else mu\<lparr>mu_readers := mu_readers mu - 1\<rparr>)"

datatype ('m, 'r) phase = Waiting "('m, 'r) prog" | Inside "('m, 'r) prog" | Finished 'r

record ('m, 'r) goroutine =
  go_writes :: bool
  go_phase :: "('m, 'r) phase"

text \<open>Which of the two locks a method takes, and what it does between locking and the deferred unlocking.\<close>

definition spawn :: "bool \<times> ('m, 'r) prog \<Rightarrow> ('m, 'r) goroutine" where
  "spawn x = \<lparr>go_writes = fst x, go_phase = Waiting (snd x)\<rparr>"

type_synonym ('m, 'r, 'z) crew = "('m, 'r) goroutine list \<times> rw_mutex \<times> 'm \<times> 'z aworld_scheme"

text \<open>What happens, with the tick of the clock at which a goroutine got the mutex or gave it back.\<close>

datatype moment = Locked nat nat | Acted nat | Unlocked nat nat | Elsewhere

text \<open>The rest of the process reads the clock and logs meanwhile.\<close>

definition elsewhere :: "'z aworld_scheme \<Rightarrow> 'z aworld_scheme \<Rightarrow> bool" where
  "elsewhere w w1 \<longleftrightarrow> w_clock w1 = w_clock w \<and> w_tick w \<le> w_tick w1 \<and> w_files w1 = w_files w
     \<and> w_faults w1 = w_faults w \<and> prefix (w_zap w) (w_zap w1)"

inductive crew_own :: "('m, 'r, 'z) crew \<Rightarrow> moment \<Rightarrow> ('m, 'r, 'z) crew \<Rightarrow> bool" where
  enter: "i < length ts \<Longrightarrow> go_phase (ts ! i) = Waiting p \<Longrightarrow> can_lock (go_writes (ts ! i)) mu \<Longrightarrow>
    crew_own (ts, mu, m, w) (Locked i (w_tick w))
      (ts[i := (ts ! i)\<lparr>go_phase := Inside p\<rparr>], lock (go_writes (ts ! i)) mu, m, w)"
| act: "i < length ts \<Longrightarrow> go_phase (ts ! i) = Inside p \<Longrightarrow> \<forall>r. p \<noteq> Return r \<Longrightarrow> effect (p, m, w) = (p1, m1, w1) \<Longrightarrow>
    crew_own (ts, mu, m, w) (Acted i) (ts[i := (ts ! i)\<lparr>go_phase := Inside p1\<rparr>], mu, m1, w1)"
| leave: "i < length ts \<Longrightarrow> go_phase (ts ! i) = Inside (Return r) \<Longrightarrow>
    crew_own (ts, mu, m, w) (Unlocked i (w_tick w))
      (ts[i := (ts ! i)\<lparr>go_phase := Finished r\<rparr>], unlock (go_writes (ts ! i)) mu, m, w)"

inductive crew_step :: "('m, 'r, 'z) crew \<Rightarrow> moment \<Rightarrow> ('m, 'r, 'z) crew \<Rightarrow> bool" where
  own: "crew_own c e c1 \<Longrightarrow> crew_step c e c1"
| world: "elsewhere w w1 \<Longrightarrow> crew_step (ts, mu, m, w) Elsewhere (ts, mu, m, w1)"

inductive crew_run :: "('m, 'r, 'z) crew \<Rightarrow> moment list \<Rightarrow> ('m, 'r, 'z) crew \<Rightarrow> bool" where
  rest: "crew_run c [] c"
| on: "crew_run c tr c1 \<Longrightarrow> crew_step c1 e c2 \<Longrightarrow> crew_run c (tr @ [e]) c2"

inductive_cases crew_ownE: "crew_own (ts, mu, m, w) e c1"
inductive_cases crew_stepE: "crew_step (ts, mu, m, w) e c1"

text \<open>The same by computation: the goroutine that the schedule names goes on, if it can.\<close>

fun crew_go :: "nat \<Rightarrow> ('m, 'r, 'z) crew \<Rightarrow> (moment \<times> ('m, 'r, 'z) crew) option" where
  "crew_go i (ts, mu, m, w) = (if i < length ts then (case go_phase (ts ! i) of
       Waiting p \<Rightarrow> if can_lock (go_writes (ts ! i)) mu
         then Some (Locked i (w_tick w), ts[i := (ts ! i)\<lparr>go_phase := Inside p\<rparr>], lock (go_writes (ts ! i)) mu, m, w)
         else None
     | Inside p \<Rightarrow> (case p of
         Return r \<Rightarrow> Some (Unlocked i (w_tick w), ts[i := (ts ! i)\<lparr>go_phase := Finished r\<rparr>], unlock (go_writes (ts ! i)) mu, m, w)
       | _ \<Rightarrow> (let (p1, m1, w1) = effect (p, m, w) in Some (Acted i, ts[i := (ts ! i)\<lparr>go_phase := Inside p1\<rparr>], mu, m1, w1)))
     | Finished r \<Rightarrow> None) else None)"

fun crew_play :: "nat list \<Rightarrow> ('m, 'r, 'z) crew \<Rightarrow> (moment list \<times> ('m, 'r, 'z) crew) option" where
  "crew_play [] c = Some ([], c)"
| "crew_play (i # js) c = (case crew_go i c of None \<Rightarrow> None
     | Some (e, c1) \<Rightarrow> (case crew_play js c1 of None \<Rightarrow> None | Some (tr, c2) \<Rightarrow> Some (e # tr, c2)))"

lemma crew_go_own: "crew_go i c = Some (e, c1) \<Longrightarrow> crew_own c e c1"
  by (cases c) (auto intro: crew_own.intros simp del: effect.simps split: if_splits phase.splits prog.splits prod.splits)

lemma crew_own_go: "crew_own c e c1 \<Longrightarrow> \<exists>i. crew_go i c = Some (e, c1)"
proof (induction rule: crew_own.induct)
  case (enter i ts p mu m w)
  then show ?case by (intro exI [of _ i]) simp
next
  case (act i ts p m w p1 m1 w1 mu)
  then show ?case by (intro exI [of _ i]) (auto simp del: effect.simps split: prog.split)
next
  case (leave i ts r mu m w)
  then show ?case by (intro exI [of _ i]) simp
qed

lemma crew_run_Cons: "crew_run c1 tr c2 \<Longrightarrow> crew_step c e c1 \<Longrightarrow> crew_run c (e # tr) c2"
proof (induction rule: crew_run.induct)
  case (rest c1)
  from crew_run.on [OF crew_run.rest rest] show ?case by simp
next
  case (on c1 tr c2 e1 c3)
  from crew_run.on [OF on.IH [OF on.prems] on.hyps(2)] show ?case by simp
qed

lemma crew_play_run: "crew_play js c = Some (tr, c1) \<Longrightarrow> crew_run c tr c1"
proof (induction js arbitrary: c tr)
  case (Cons i js)
  then obtain e c2 tr2 where go: "crew_go i c = Some (e, c2)" and play: "crew_play js c2 = Some (tr2, c1)" and "tr = e # tr2"
    by (auto split: option.splits simp del: split_paired_Ex split_paired_All)
  with crew_run_Cons [OF Cons.IH [OF play] crew_step.own [OF crew_go_own [OF go]]] show ?case by simp
qed (simp add: crew_run.rest)

text \<open>The goroutines in the order in which they got the mutex.\<close>

fun lock_order :: "moment list \<Rightarrow> nat list" where
  "lock_order [] = []"
| "lock_order (Locked i n # tr) = i # lock_order tr"
| "lock_order (e # tr) = lock_order tr"

lemma lock_order_append [simp]: "lock_order (tr @ tr1) = lock_order tr @ lock_order tr1"
  by (induction tr rule: lock_order.induct) simp_all

subsection \<open>The mutex does its job\<close>

fun code_left :: "('m, 'r) phase \<Rightarrow> ('m, 'r) prog" where
  "code_left (Waiting p) = p"
| "code_left (Inside p) = p"
| "code_left (Finished r) = Return r"

fun waiting :: "('m, 'r) phase \<Rightarrow> bool" where
  "waiting (Waiting p) = True"
| "waiting _ = False"

fun finished :: "('m, 'r) phase \<Rightarrow> bool" where
  "finished (Finished r) = True"
| "finished _ = False"

fun inside :: "('m, 'r) phase \<Rightarrow> bool" where
  "inside (Inside p) = True"
| "inside _ = False"

definition holds :: "bool \<Rightarrow> ('m, 'r) goroutine \<Rightarrow> bool" where
  "holds writes t \<longleftrightarrow> go_writes t = writes \<and> inside (go_phase t)"

definition mutex_ok :: "('m, 'r) goroutine list \<Rightarrow> rw_mutex \<Rightarrow> bool" where
  "mutex_ok ts mu \<longleftrightarrow> length (filter (holds True) ts) = (if mu_writer mu then 1 else 0)
     \<and> length (filter (holds False) ts) = mu_readers mu \<and> (mu_writer mu \<longrightarrow> mu_readers mu = 0)"

lemma count_update:
  "i < length xs \<Longrightarrow> length (filter P (xs[i := x])) + (if P (xs ! i) then 1 else 0)
     = length (filter P xs) + (if P x then 1 else 0)"
proof (induction xs arbitrary: i)
  case (Cons y ys)
  then show ?case by (cases i) auto
qed simp

lemma crew_own_mutex: "crew_own c e c1 \<Longrightarrow> mutex_ok (fst c) (fst (snd c)) \<Longrightarrow> mutex_ok (fst c1) (fst (snd c1))"
proof (induction rule: crew_own.induct)
  case (enter i ts p mu m w)
  with count_update [OF enter(1), of "holds True" "(ts ! i)\<lparr>go_phase := Inside p\<rparr>"]
    count_update [OF enter(1), of "holds False" "(ts ! i)\<lparr>go_phase := Inside p\<rparr>"]
  show ?case by (cases "go_writes (ts ! i)") (auto simp: mutex_ok_def holds_def can_lock_def lock_def split: if_splits)
next
  case (act i ts p m w p1 m1 w1 mu)
  with count_update [OF act(1), of "holds True" "(ts ! i)\<lparr>go_phase := Inside p1\<rparr>"]
    count_update [OF act(1), of "holds False" "(ts ! i)\<lparr>go_phase := Inside p1\<rparr>"]
  show ?case by (auto simp: mutex_ok_def holds_def split: if_splits)
next
  case (leave i ts r mu m w)
  with count_update [OF leave(1), of "holds True" "(ts ! i)\<lparr>go_phase := Finished r\<rparr>"]
    count_update [OF leave(1), of "holds False" "(ts ! i)\<lparr>go_phase := Finished r\<rparr>"]
  show ?case by (cases "go_writes (ts ! i)") (auto simp: mutex_ok_def holds_def unlock_def split: if_splits)
qed

lemma can_lock_alone:
  assumes "mutex_ok ts mu" "can_lock b mu" "i < length ts" "inside (go_phase (ts ! i))"
  shows "\<not> b \<and> \<not> go_writes (ts ! i)"
proof -
  have "filter (holds True) ts = []" "b \<Longrightarrow> filter (holds False) ts = []"
    using assms(1,2) by (auto simp: mutex_ok_def can_lock_def)
  with assms(3,4) show ?thesis by (auto simp: filter_empty_conv holds_def dest: nth_mem)
qed

end
