(* ===== verification/ThreadOrder.thy ===== *)
theory ThreadOrder
  imports Threads
begin

text \<open>
  Whatever way the goroutines of a crew interleave, it amounts to their methods run one after the other in the
  order in which they got the mutex, each on a clock that shows the readings which it got in the run.
\<close>

subsection \<open>A method on its own clock\<close>

text \<open>The world with the readings that one method got: its clock shows \<open>ts\<close>, one after the other.\<close>

definition put_clock :: "(nat \<Rightarrow> time) \<Rightarrow> nat \<Rightarrow> 'z world_scheme \<Rightarrow> 'z world_scheme" where
  "put_clock c n w = w\<lparr>w_clock := c, w_tick := n\<rparr>"

definition with_readings :: "time list \<Rightarrow> 'z world_scheme \<Rightarrow> 'z world_scheme" where
  "with_readings ts w = put_clock (\<lambda>n. if ts = [] then 0 else ts ! min n (length ts - 1)) 0 w"

lemma put_clock_put [simp]: "put_clock c n (put_clock c1 n1 w) = put_clock c n w"
  by (simp add: put_clock_def)

lemma with_readings_put [simp]: "with_readings ts (put_clock c n w) = with_readings ts w"
  by (simp add: with_readings_def)

lemma os_WriteFile_put: "os_WriteFile p d (put_clock c n w) = apsnd (put_clock c n) (os_WriteFile p d w)"
  by (cases "w_faults w") (auto simp: os_WriteFile_def next_fault_def put_clock_def split: fs_fault.split option.split)

lemma LogEvent_put: "LogEvent a ev (put_clock c n w) = put_clock c n (LogEvent a ev w)"
  by (simp add: LogEvent_def zap_emit_def put_clock_def Let_def)

lemma time_Now_put: "time_Now (put_clock c n w) = (c n, put_clock c (Suc n) w)"
  by (simp add: time_Now_def put_clock_def)

text \<open>What a method has done so far, with the readings that it got.\<close>

inductive goes :: "('m, 'r) prog \<times> 'm \<times> 'z aworld_scheme \<Rightarrow> time list \<Rightarrow> ('m, 'r) prog \<times> 'm \<times> 'z aworld_scheme \<Rightarrow> bool"
  for x where
  at_start: "goes x [] x"
| reading: "goes x ts (Now k, s) \<Longrightarrow> goes x (ts @ [t]) (k t, s)"
| other: "goes x ts (p, s) \<Longrightarrow> \<forall>k. p \<noteq> Now k \<Longrightarrow> goes x ts (effect (p, s))"

definition shows_at :: "nat \<Rightarrow> time list \<Rightarrow> (nat \<Rightarrow> time) \<Rightarrow> bool" where
  "shows_at n ts c \<longleftrightarrow> (\<forall>j < length ts. c (n + j) = ts ! j)"

definition on_clock :: "(nat \<Rightarrow> time) \<Rightarrow> nat \<Rightarrow> 'm \<times> 'z world_scheme \<Rightarrow> 'm \<times> 'z world_scheme" where
  "on_clock c n s = apsnd (put_clock c n) s"

lemma run_on_clock:
  assumes "\<forall>k. p \<noteq> Now k"
  shows "run (fst (effect (p, s))) (on_clock c n (snd (effect (p, s)))) = run p (on_clock c n s)"
  using assms
  by (cases p; cases s) (auto simp: on_clock_def os_WriteFile_put LogEvent_put Let_def split: prod.splits)

lemma goes_run:
  "goes x ts y \<Longrightarrow> shows_at n ts c \<Longrightarrow>
    run (fst x) (on_clock c n (snd x)) = run (fst y) (on_clock c (n + length ts) (snd y))"
proof (induction rule: goes.induct)
  case (reading ts k s t)
  then have "c (n + length ts) = t" "shows_at n ts c" by (auto simp: shows_at_def nth_append)
  with reading show ?case by (cases s) (simp add: time_Now_put on_clock_def)
next
  case (other ts p s)
  then show ?case by (simp add: run_on_clock)
qed simp

lemma goes_returns:
  assumes "goes (p0, s0) ts (Return r, s)"
  shows "\<exists>c n. run p0 (apsnd (with_readings ts) s0) = (r, on_clock c n s)"
proof -
  have "shows_at 0 ts (\<lambda>n. if ts = [] then 0 else ts ! min n (length ts - 1))"
    by (auto simp: shows_at_def min_def)
  from goes_run [OF assms this] show ?thesis
    by (cases s0) (auto simp: with_readings_def on_clock_def)
qed

lemma effect_read_only:
  "read_only p \<Longrightarrow> \<forall>k. p \<noteq> Now k \<Longrightarrow> read_only (fst (effect (p, s))) \<and> snd (effect (p, s)) = s"
  by (cases p; cases s) auto

lemma goes_read_only: "goes x ts y \<Longrightarrow> read_only (fst x) \<Longrightarrow> read_only (fst y) \<and> snd y = snd x"
proof (induction rule: goes.induct)
  case (other ts p s)
  then show ?case using effect_read_only [of p s] by simp
qed auto

text \<open>The world as a method sees it: files, faults, and the log with perhaps more in it.\<close>

definition sees :: "'m \<times> 'z aworld_scheme \<Rightarrow> 'm \<times> 'z aworld_scheme \<Rightarrow> bool" where
  "sees s s1 \<longleftrightarrow> fst s1 = fst s \<and> w_files (snd s1) = w_files (snd s) \<and> w_faults (snd s1) = w_faults (snd s)
     \<and> subseq (w_zap (snd s)) (w_zap (snd s1))"

lemma os_WriteFile_sees:
  assumes "w_files v = w_files w" "w_faults v = w_faults w"
  shows "fst (os_WriteFile p d v) = fst (os_WriteFile p d w)"
    "w_files (snd (os_WriteFile p d v)) = w_files (snd (os_WriteFile p d w))"
    "w_faults (snd (os_WriteFile p d v)) = w_faults (snd (os_WriteFile p d w))"
  using assms
  by (cases "w_faults w"; auto simp: os_WriteFile_def next_fault_def split: fs_fault.split option.split)+

lemma effect_sees:
  assumes "sees (m, v) (m, w)" "\<forall>k. p \<noteq> Now k"
  shows "fst (effect (p, m, w)) = fst (effect (p, m, v)) \<and> sees (snd (effect (p, m, v))) (snd (effect (p, m, w)))"
proof (cases p)
  case (WriteFile path d k)
  have "w_files v = w_files w" "w_faults v = w_faults w" "subseq (w_zap v) (w_zap w)"
    using assms(1) by (auto simp: sees_def)
  with os_WriteFile_sees [OF this(1,2), of path d] show ?thesis
    by (simp add: WriteFile sees_def case_prod_beta Let_def world_simps)
qed (use assms in \<open>auto simp: sees_def world_simps intro: list_emb_append_mono\<close>)

lemma effect_now_sees: "sees s (m, w) \<Longrightarrow> effect (Now k, m, w) = (p1, m1, w1) \<Longrightarrow> sees s (m1, w1)"
  by (auto simp: sees_def Let_def world_simps split: prod.splits)
     (auto simp: time_Now_def)

lemma elsewhere_sees: "sees s (m, w) \<Longrightarrow> elsewhere w w1 \<Longrightarrow> sees s (m, w1)"
  by (auto simp: sees_def elsewhere_def prefix_def intro: list_emb_append2 subseq_order.trans)

subsection \<open>One after the other\<close>

text \<open>
  The goroutines \<open>js\<close>, in this order, with the readings \<open>H i\<close>: from \<open>P i\<close>, each goes as far as \<open>C i\<close>.
\<close>

fun chain :: "(nat \<Rightarrow> ('m, 'r) prog) \<Rightarrow> (nat \<Rightarrow> time list) \<Rightarrow> (nat \<Rightarrow> ('m, 'r) prog) \<Rightarrow> nat list \<Rightarrow>
    'm \<times> 'z aworld_scheme \<Rightarrow> 'm \<times> 'z aworld_scheme \<Rightarrow> bool" where
  "chain P H C [] s s1 \<longleftrightarrow> s1 = s"
| "chain P H C (i # js) s s2 \<longleftrightarrow> (\<exists>s1. goes (P i, s) (H i) (C i, s1) \<and> chain P H C js s1 s2)"

lemma chain_append:
  "chain P H C (js @ ks) s s2 \<longleftrightarrow> (\<exists>s1. chain P H C js s s1 \<and> chain P H C ks s1 s2)"
  by (induction js arbitrary: s) auto

lemma chain_cong:
  "\<forall>i \<in> set js. H i = H1 i \<and> C i = C1 i \<Longrightarrow> chain P H C js s s1 \<longleftrightarrow> chain P H1 C1 js s s1"
  by (induction js arbitrary: s) auto

lemma chain_readers:
  "\<forall>i \<in> set js. read_only (P i) \<Longrightarrow> chain P H C js s s1 \<Longrightarrow> s1 = s"
proof (induction js arbitrary: s)
  case (Cons i js)
  then obtain s2 where "goes (P i, s) (H i) (C i, s2)" "chain P H C js s2 s1" by auto
  with goes_read_only Cons show ?case by fastforce
qed simp

text \<open>A goroutine that goes on extends the chain, when only readers got the mutex after it and, if any did, it reads itself.\<close>

lemma chain_extend:
  assumes "chain P H C (xs @ i # ys) s s1" "distinct (xs @ i # ys)"
    and "\<forall>j \<in> set ys. read_only (P j) \<and> read_only (P i)"
    and more: "\<And>x. goes x (H i) (C i, s1) \<Longrightarrow> goes x (H i @ h) (p2, s2)"
  shows "chain P (H(i := H i @ h)) (C(i := p2)) (xs @ i # ys) s s2"
proof -
  from assms(1) obtain a b where xs: "chain P H C xs s a" and i: "goes (P i, a) (H i) (C i, b)"
    and ys: "chain P H C ys b s1" unfolding chain_append by auto
  have b: "s1 = b" using chain_readers [OF _ ys] assms(3) by blast
  have i2: "goes (P i, a) (H i @ h) (p2, s2)" using more [of "(P i, a)"] i b by simp
  have same: "ys \<noteq> [] \<Longrightarrow> s2 = b"
  proof -
    assume "ys \<noteq> []"
    then have "read_only (P i)" using assms(3) by (cases ys) auto
    with goes_read_only [OF i] goes_read_only [OF i2] show "s2 = b" by simp
  qed
  let ?H = "H(i := H i @ h)" and ?C = "C(i := p2)"
  have "chain P ?H ?C xs s a" using xs chain_cong [of xs H ?H C ?C P s a] assms(2) by auto
  moreover have "chain P ?H ?C ys s2 s2"
  proof (cases ys)
    case (Cons y zs)
    then show ?thesis using same ys b chain_cong [of ys H ?H C ?C P b b] assms(2) by auto
  qed simp
  ultimately show ?thesis unfolding chain_append using i2 by (auto simp del: split_paired_Ex)
qed

subsection \<open>Every interleaving is a sequence\<close>

text \<open>Who has got the mutex, and who is still as at the start.\<close>

definition crew_books :: "('m, 'r) goroutine list \<Rightarrow> moment list \<Rightarrow> ('m, 'r) goroutine list \<Rightarrow> bool" where
  "crew_books ts0 tr ts \<longleftrightarrow> length ts = length ts0 \<and> map go_writes ts = map go_writes ts0 \<and> distinct (lock_order tr)
     \<and> (\<forall>i. i \<in> set (lock_order tr) \<longleftrightarrow> i < length ts \<and> \<not> waiting (go_phase (ts ! i)))
     \<and> (\<forall>i < length ts. waiting (go_phase (ts ! i)) \<longrightarrow> ts ! i = ts0 ! i)"

text \<open>Those inside: only readers got the mutex after them, and nobody after a writer.\<close>

definition overlaps :: "('m, 'r) goroutine list \<Rightarrow> nat list \<Rightarrow> bool" where
  "overlaps ts is \<longleftrightarrow> (\<forall>xs i ys. is = xs @ i # ys \<longrightarrow> inside (go_phase (ts ! i)) \<longrightarrow>
     (\<forall>j \<in> set ys. \<not> go_writes (ts ! j) \<and> \<not> go_writes (ts ! i)))"

lemma overlaps_enter:
  assumes "overlaps ts js" "i \<notin> set js" "\<forall>j \<in> set js. j < length ts" "i < length ts"
    and "mutex_ok ts mu" "can_lock (go_writes (ts ! i)) mu"
  shows "overlaps (ts[i := (ts ! i)\<lparr>go_phase := Inside p\<rparr>]) (js @ [i])"
  unfolding overlaps_def
proof (intro allI impI ballI)
  let ?ts = "ts[i := (ts ! i)\<lparr>go_phase := Inside p\<rparr>]"
  fix xs k ys j
  assume eq: "js @ [i] = xs @ k # ys" and ins: "inside (go_phase (?ts ! k))" and j: "j \<in> set ys"
  from j obtain zs where ys: "ys = zs @ [i]" and js: "js = xs @ k # zs"
    using eq by (cases ys rule: rev_cases) auto
  with assms(2) have ki: "k \<noteq> i" by auto
  with ins assms(3) js have ins: "inside (go_phase (ts ! k))" "k < length ts" by auto
  with can_lock_alone [OF assms(5,6)] have w: "\<not> go_writes (ts ! i)" "\<not> go_writes (ts ! k)" by auto
  show "\<not> go_writes (?ts ! j) \<and> \<not> go_writes (?ts ! k)"
  proof (cases "j = i")
    case False
    with j ys have "j \<in> set zs" by auto
    with assms(1) js ins(1) have "\<not> go_writes (ts ! j)" unfolding overlaps_def by blast
    with w False ki show ?thesis by simp
  qed (use w ki assms(4) in auto)
qed

lemma overlaps_update:
  assumes "overlaps ts js" "i < length ts" "inside (go_phase (ts ! i))"
  shows "overlaps (ts[i := (ts ! i)\<lparr>go_phase := ph\<rparr>]) js"
proof -
  let ?ts = "ts[i := (ts ! i)\<lparr>go_phase := ph\<rparr>]"
  have "go_writes (?ts ! j) = go_writes (ts ! j)" for j using assms(2) by (cases "j = i") simp_all
  moreover have "inside (go_phase (?ts ! j)) \<Longrightarrow> inside (go_phase (ts ! j))" for j
    using assms(2,3) by (cases "j = i") simp_all
  ultimately show ?thesis using assms(1) unfolding overlaps_def by metis
qed

text \<open>The readings of each goroutine: ascending ticks of the one clock, between its locking and its unlocking.\<close>

definition crew_times :: "moment list \<Rightarrow> ('m, 'r) goroutine list \<Rightarrow> nat \<Rightarrow> (nat \<Rightarrow> nat list) \<Rightarrow> bool" where
  "crew_times tr ts n ns \<longleftrightarrow> (\<forall>i. sorted_wrt (<) (ns i) \<and> (\<forall>k \<in> set (ns i). k < n)
     \<and> (i \<notin> set (lock_order tr) \<longrightarrow> ns i = [])
     \<and> (\<forall>a. Locked i a \<in> set tr \<longrightarrow> a \<le> n \<and> (\<forall>k \<in> set (ns i). a \<le> k))
     \<and> (\<forall>b. Unlocked i b \<in> set tr \<longrightarrow> i \<in> set (lock_order tr) \<and> finished (go_phase (ts ! i)) \<and> (\<forall>k \<in> set (ns i). k < b)))"

definition crew_inv :: "('m, 'r) goroutine list \<Rightarrow> 'm \<times> 'z aworld_scheme \<Rightarrow> moment list \<Rightarrow> ('m, 'r, 'z) crew \<Rightarrow> bool" where
  "crew_inv ts0 s0 tr c \<longleftrightarrow> (case c of (ts, mu, m, w) \<Rightarrow>
     crew_books ts0 tr ts \<and> mutex_ok ts mu \<and> overlaps ts (lock_order tr) \<and> w_clock w = w_clock (snd s0)
     \<and> (\<exists>ns v. crew_times tr ts (w_tick w) ns \<and> sees v (m, w)
         \<and> chain (\<lambda>i. code_left (go_phase (ts0 ! i))) (\<lambda>i. map (w_clock (snd s0)) (ns i))
             (\<lambda>i. code_left (go_phase (ts ! i))) (lock_order tr) s0 v))"

lemma locked_books: "crew_books ts0 tr ts \<Longrightarrow> i \<in> set (lock_order tr) \<longleftrightarrow> i < length ts \<and> \<not> waiting (go_phase (ts ! i))"
  by (simp add: crew_books_def)

lemma code_left_update: "i < length ts \<Longrightarrow>
    (\<lambda>j. code_left (go_phase (ts[i := t] ! j))) = (\<lambda>j. code_left (go_phase (ts ! j)))(i := code_left (go_phase t))"
  by (auto simp: nth_list_update)

lemma crew_invI:
  assumes "crew_books ts0 tr ts" "mutex_ok ts mu" "overlaps ts (lock_order tr)" "w_clock w = w_clock (snd s0)"
    and "crew_times tr ts (w_tick w) ns" "sees v (m, w)"
    and "chain (\<lambda>i. code_left (go_phase (ts0 ! i))) (\<lambda>i. map (w_clock (snd s0)) (ns i))
      (\<lambda>i. code_left (go_phase (ts ! i))) (lock_order tr) s0 v"
  shows "crew_inv ts0 s0 tr (ts, mu, m, w)"
  using assms by (auto simp: crew_inv_def simp del: split_paired_Ex)

lemma crew_invE:
  assumes "crew_inv ts0 s0 tr (ts, mu, m, w)"
  obtains ns v where "crew_books ts0 tr ts" "mutex_ok ts mu" "overlaps ts (lock_order tr)" "w_clock w = w_clock (snd s0)"
    "crew_times tr ts (w_tick w) ns" "sees v (m, w)"
    "chain (\<lambda>i. code_left (go_phase (ts0 ! i))) (\<lambda>i. map (w_clock (snd s0)) (ns i))
      (\<lambda>i. code_left (go_phase (ts ! i))) (lock_order tr) s0 v"
  using assms by (auto simp: crew_inv_def simp del: split_paired_Ex)

lemma enter_chain:
  assumes "chain P H (\<lambda>i. code_left (go_phase (ts ! i))) js s0 v" "i \<notin> set js" "i < length ts"
    and "H i = []" "P i = p"
  shows "chain P H (\<lambda>j. code_left (go_phase (ts[i := (ts ! i)\<lparr>go_phase := Inside p\<rparr>] ! j))) (js @ [i]) s0 v"
proof -
  let ?C = "\<lambda>j. code_left (go_phase (ts[i := (ts ! i)\<lparr>go_phase := Inside p\<rparr>] ! j))"
  have "chain P H ?C js s0 v"
    using assms(1) chain_cong [of js H H ?C "\<lambda>i. code_left (go_phase (ts ! i))" P s0 v] assms(2,3)
    by (auto simp: nth_list_update)
  moreover have "goes (P i, v) (H i) (?C i, v)" using assms(3-5) by (simp add: goes.at_start)
  ultimately show ?thesis unfolding chain_append by (auto simp del: split_paired_Ex)
qed

lemma enter_inv:
  assumes "crew_inv ts0 s0 tr (ts, mu, m, w)" "i < length ts" "go_phase (ts ! i) = Waiting p"
    and "can_lock (go_writes (ts ! i)) mu"
  shows "crew_inv ts0 s0 (tr @ [Locked i (w_tick w)])
    (ts[i := (ts ! i)\<lparr>go_phase := Inside p\<rparr>], lock (go_writes (ts ! i)) mu, m, w)"
  using assms(1)
proof (rule crew_invE)
  fix ns v
  assume books: "crew_books ts0 tr ts" and mu: "mutex_ok ts mu" and ov: "overlaps ts (lock_order tr)"
    and clk: "w_clock w = w_clock (snd s0)" and times: "crew_times tr ts (w_tick w) ns" and v: "sees v (m, w)"
    and ch: "chain (\<lambda>i. code_left (go_phase (ts0 ! i))) (\<lambda>i. map (w_clock (snd s0)) (ns i))
             (\<lambda>i. code_left (go_phase (ts ! i))) (lock_order tr) s0 v"
  have new: "i \<notin> set (lock_order tr)" using locked_books [OF books] assms(3) by simp
  have "ts ! i = ts0 ! i" using books assms(2,3) by (auto simp: crew_books_def)
  with assms(3) have P: "code_left (go_phase (ts0 ! i)) = p" by (metis code_left.simps(1))
  show ?thesis
  proof (rule crew_invI [OF _ _ _ clk _ v])
    show "crew_books ts0 (tr @ [Locked i (w_tick w)]) (ts[i := (ts ! i)\<lparr>go_phase := Inside p\<rparr>])"
      using books new assms(2,3) by (auto simp: crew_books_def nth_list_update map_update list_update_same_conv)
    show "mutex_ok (ts[i := (ts ! i)\<lparr>go_phase := Inside p\<rparr>]) (lock (go_writes (ts ! i)) mu)"
      using crew_own_mutex [OF crew_own.enter [OF assms(2-4), of m w]] mu by simp
    show "overlaps (ts[i := (ts ! i)\<lparr>go_phase := Inside p\<rparr>]) (lock_order (tr @ [Locked i (w_tick w)]))"
      using overlaps_enter [OF ov new _ assms(2) mu assms(4)] locked_books [OF books] by simp
    show "crew_times (tr @ [Locked i (w_tick w)]) (ts[i := (ts ! i)\<lparr>go_phase := Inside p\<rparr>]) (w_tick w) ns"
      using times new assms(2,3) by (auto simp: crew_times_def nth_list_update)
    have "ns i = []" using times new by (simp add: crew_times_def)
    then show "chain (\<lambda>i. code_left (go_phase (ts0 ! i))) (\<lambda>i. map (w_clock (snd s0)) (ns i))
       (\<lambda>j. code_left (go_phase (ts[i := (ts ! i)\<lparr>go_phase := Inside p\<rparr>] ! j))) (lock_order (tr @ [Locked i (w_tick w)])) s0 v"
      using enter_chain [OF ch new assms(2) _ P] by simp
  qed
qed

lemma act_chain:
  assumes "\<forall>t \<in> set ts0. \<not> go_writes t \<longrightarrow> read_only (code_left (go_phase t))"
    and "crew_books ts0 tr ts" "overlaps ts (lock_order tr)" "i < length ts" "go_phase (ts ! i) = Inside p"
    and "chain (\<lambda>i. code_left (go_phase (ts0 ! i))) H (\<lambda>i. code_left (go_phase (ts ! i))) (lock_order tr) s0 v"
    and "\<And>x. goes x (H i) (p, v) \<Longrightarrow> goes x (H i @ h) (p1, v1)"
  shows "chain (\<lambda>i. code_left (go_phase (ts0 ! i))) (H(i := H i @ h))
    (\<lambda>j. code_left (go_phase (ts[i := (ts ! i)\<lparr>go_phase := Inside p1\<rparr>] ! j))) (lock_order tr) s0 v1"
proof -
  have "i \<in> set (lock_order tr)" using locked_books [OF assms(2)] assms(4,5) by simp
  then obtain xs ys where split: "lock_order tr = xs @ i # ys" by (meson split_list)
  have modes: "go_writes (ts ! j) = go_writes (ts0 ! j) \<and> j < length ts0" if "j \<in> set (lock_order tr)" for j
    using assms(2) that locked_books [OF assms(2), of j] unfolding crew_books_def by (metis nth_map)
  have ro: "read_only (code_left (go_phase (ts0 ! j)))" if "j \<in> set (lock_order tr)" "\<not> go_writes (ts ! j)" for j
    using modes [OF that(1)] that(2) assms(1) nth_mem by metis
  have readers: "\<forall>j \<in> set ys. read_only (code_left (go_phase (ts0 ! j))) \<and> read_only (code_left (go_phase (ts0 ! i)))"
    using assms(3,5) split ro unfolding overlaps_def by (auto intro!: ro)
  have d: "distinct (xs @ i # ys)" using assms(2) split unfolding crew_books_def by simp
  show ?thesis
    using chain_extend [OF assms(6) [unfolded split] d readers, of h p1 v1] assms(5,7)
    by (simp add: split code_left_update [OF assms(4)])
qed

lemma act_times:
  assumes "crew_times tr ts (w_tick w) ns" "crew_books ts0 tr ts" "i < length ts" "go_phase (ts ! i) = Inside p"
    and "w_tick w \<le> n" "\<forall>k \<in> set h. w_tick w \<le> k \<and> k < n" "sorted_wrt (<) h"
  shows "crew_times (tr @ [Acted i]) (ts[i := (ts ! i)\<lparr>go_phase := Inside p1\<rparr>]) n (ns(i := ns i @ h))"
proof -
  have "i \<in> set (lock_order tr)" using locked_books [OF assms(2)] assms(3,4) by simp
  then show ?thesis
    using assms by (fastforce simp: crew_times_def nth_list_update sorted_wrt_append)
qed

lemma books_same:
  assumes "crew_books ts0 tr ts" "i < length ts" "\<not> waiting (go_phase (ts ! i))" "\<not> waiting (go_phase t)"
    and "go_writes t = go_writes (ts ! i)" "lock_order tr1 = lock_order tr"
  shows "crew_books ts0 tr1 (ts[i := t])"
proof -
  have "map go_writes (ts[i := t]) = map go_writes ts"
    using assms(2,5) by (simp add: map_update list_update_same_conv)
  with assms show ?thesis by (auto simp: crew_books_def nth_list_update)
qed

lemma effect_clock: "effect (p, m, w) = (p1, m1, w1) \<Longrightarrow> \<forall>k. p \<noteq> Now k \<Longrightarrow> w_clock w1 = w_clock w \<and> w_tick w1 = w_tick w"
  by (cases p) (auto simp: Let_def case_prod_beta world_simps)

lemma act_goes:
  assumes "effect (p, m, w) = (p1, m1, w1)" "sees v (m, w)"
  shows "\<exists>h v1. sees v1 (m1, w1) \<and> w_clock w1 = w_clock w \<and> w_tick w \<le> w_tick w1 \<and> sorted_wrt (<) h
    \<and> (\<forall>k \<in> set h. w_tick w \<le> k \<and> k < w_tick w1)
    \<and> (\<forall>x ts. goes x ts (p, v) \<longrightarrow> goes x (ts @ map (w_clock w) h) (p1, v1))"
proof (cases "\<exists>k. p = Now k")
  case True
  then obtain k where p: "p = Now k" ..
  have "sees v (m1, w1)" using effect_now_sees [OF assms(2)] assms(1) p by simp
  moreover have "goes x (ts @ map (w_clock w) [w_tick w]) (p1, v)" if "goes x ts (p, v)" for x ts
    using goes.reading [of x ts k v "w_clock w (w_tick w)"] that assms(1) p by (auto simp: Let_def time_Now_def)
  ultimately show ?thesis using assms(1) p
    by (intro exI [of _ "[w_tick w]"] exI [of _ v]) (auto simp: Let_def time_Now_def)
next
  case False
  obtain mv wv where v: "v = (mv, wv)" by fastforce
  with assms(2) have "mv = m" by (simp add: sees_def)
  with effect_sees [of m wv w p] False assms v
  have "fst (effect (p, v)) = p1" "sees (snd (effect (p, v))) (m1, w1)" by auto
  moreover have "goes x ts (effect (p, v))" if "goes x ts (p, v)" for x ts
    using goes.other [OF that] False by blast
  ultimately show ?thesis using effect_clock [OF assms(1)] False
    by (intro exI [of _ "[]"] exI [of _ "snd (effect (p, v))"]) (auto simp del: effect.simps)
qed

lemma act_inv:
  assumes "\<forall>t \<in> set ts0. \<not> go_writes t \<longrightarrow> read_only (code_left (go_phase t))"
    and "crew_inv ts0 s0 tr (ts, mu, m, w)" "i < length ts" "go_phase (ts ! i) = Inside p" "\<forall>r. p \<noteq> Return r"
    and "effect (p, m, w) = (p1, m1, w1)"
  shows "crew_inv ts0 s0 (tr @ [Acted i]) (ts[i := (ts ! i)\<lparr>go_phase := Inside p1\<rparr>], mu, m1, w1)"
  using assms(2)
proof (rule crew_invE)
  fix ns v
  assume books: "crew_books ts0 tr ts" and mu: "mutex_ok ts mu" and ov: "overlaps ts (lock_order tr)"
    and clk: "w_clock w = w_clock (snd s0)" and times: "crew_times tr ts (w_tick w) ns" and v: "sees v (m, w)"
    and ch: "chain (\<lambda>i. code_left (go_phase (ts0 ! i))) (\<lambda>i. map (w_clock (snd s0)) (ns i))
             (\<lambda>i. code_left (go_phase (ts ! i))) (lock_order tr) s0 v"
  let ?ts = "ts[i := (ts ! i)\<lparr>go_phase := Inside p1\<rparr>]"
  from act_goes [OF assms(6) v] obtain h v1 where v1: "sees v1 (m1, w1)" and clk1: "w_clock w1 = w_clock w"
    and h: "w_tick w \<le> w_tick w1" "\<forall>k \<in> set h. w_tick w \<le> k \<and> k < w_tick w1" "sorted_wrt (<) h"
    and goes: "\<And>x ts. goes x ts (p, v) \<Longrightarrow> goes x (ts @ map (w_clock w) h) (p1, v1)" by blast
  show ?thesis
  proof (rule crew_invI [OF _ _ _ _ _ v1])
    show "crew_books ts0 (tr @ [Acted i]) ?ts" by (rule books_same [OF books assms(3)]) (simp_all add: assms(4))
    show "mutex_ok ?ts mu" using crew_own_mutex [OF crew_own.act [OF assms(3-6)]] mu by simp
    show "overlaps ?ts (lock_order (tr @ [Acted i]))"
      using overlaps_update [OF ov assms(3)] assms(4) by simp
    show "w_clock w1 = w_clock (snd s0)" using clk clk1 by simp
    show "crew_times (tr @ [Acted i]) ?ts (w_tick w1) (ns(i := ns i @ h))"
      by (rule act_times [OF times books assms(3,4) h])
    have "(\<lambda>i. map (w_clock (snd s0)) (ns i))(i := map (w_clock (snd s0)) (ns i) @ map (w_clock w) h)
        = (\<lambda>j. map (w_clock (snd s0)) ((ns(i := ns i @ h)) j))" using clk by auto
    with act_chain [OF assms(1) books ov assms(3,4) ch, of "map (w_clock w) h" p1 v1] goes
    show "chain (\<lambda>i. code_left (go_phase (ts0 ! i))) (\<lambda>j. map (w_clock (snd s0)) ((ns(i := ns i @ h)) j))
        (\<lambda>j. code_left (go_phase (?ts ! j))) (lock_order (tr @ [Acted i])) s0 v1" by simp
  qed
qed

lemma leave_inv:
  assumes "crew_inv ts0 s0 tr (ts, mu, m, w)" "i < length ts" "go_phase (ts ! i) = Inside (Return r)"
  shows "crew_inv ts0 s0 (tr @ [Unlocked i (w_tick w)])
    (ts[i := (ts ! i)\<lparr>go_phase := Finished r\<rparr>], unlock (go_writes (ts ! i)) mu, m, w)"
  using assms(1)
proof (rule crew_invE)
  fix ns v
  assume books: "crew_books ts0 tr ts" and mu: "mutex_ok ts mu" and ov: "overlaps ts (lock_order tr)"
    and clk: "w_clock w = w_clock (snd s0)" and times: "crew_times tr ts (w_tick w) ns" and v: "sees v (m, w)"
    and ch: "chain (\<lambda>i. code_left (go_phase (ts0 ! i))) (\<lambda>i. map (w_clock (snd s0)) (ns i))
             (\<lambda>i. code_left (go_phase (ts ! i))) (lock_order tr) s0 v"
  let ?ts = "ts[i := (ts ! i)\<lparr>go_phase := Finished r\<rparr>]"
  have same: "(\<lambda>j. code_left (go_phase (?ts ! j))) = (\<lambda>j. code_left (go_phase (ts ! j)))"
    using code_left_update [OF assms(2)] assms(3) by auto
  show ?thesis
  proof (rule crew_invI [OF _ _ _ clk _ v])
    show "crew_books ts0 (tr @ [Unlocked i (w_tick w)]) ?ts" by (rule books_same [OF books assms(2)]) (simp_all add: assms(3))
    show "mutex_ok ?ts (unlock (go_writes (ts ! i)) mu)"
      using crew_own_mutex [OF crew_own.leave [OF assms(2,3)]] mu by simp
    show "overlaps ?ts (lock_order (tr @ [Unlocked i (w_tick w)]))"
      using overlaps_update [OF ov assms(2)] assms(3) by simp
    show "crew_times (tr @ [Unlocked i (w_tick w)]) ?ts (w_tick w) ns"
      using times assms(2) locked_books [OF books, of i] assms(3) by (auto simp: crew_times_def nth_list_update)
  qed (use ch same in simp)
qed

lemma world_inv:
  assumes "crew_inv ts0 s0 tr (ts, mu, m, w)" "elsewhere w w1"
  shows "crew_inv ts0 s0 (tr @ [Elsewhere]) (ts, mu, m, w1)"
  using assms(1)
proof (rule crew_invE)
  fix ns v
  assume "crew_books ts0 tr ts" "mutex_ok ts mu" "overlaps ts (lock_order tr)"
    and "w_clock w = w_clock (snd s0)" and times: "crew_times tr ts (w_tick w) ns" and v: "sees v (m, w)"
    and "chain (\<lambda>i. code_left (go_phase (ts0 ! i))) (\<lambda>i. map (w_clock (snd s0)) (ns i))
             (\<lambda>i. code_left (go_phase (ts ! i))) (lock_order tr) s0 v"
  moreover have "w_clock w1 = w_clock w" "w_tick w \<le> w_tick w1" using assms(2) by (simp_all add: elsewhere_def)
  moreover from this times have "crew_times (tr @ [Elsewhere]) ts (w_tick w1) ns"
    by (fastforce simp: crew_times_def)
  ultimately show ?thesis using elsewhere_sees [OF v assms(2)]
    by (intro crew_invI) (auto simp: crew_books_def)
qed

text \<open>A crew that starts, with methods under the read lock that only read.\<close>

definition fresh_crew :: "('m, 'r) goroutine list \<Rightarrow> bool" where
  "fresh_crew ts \<longleftrightarrow> (\<forall>t \<in> set ts. waiting (go_phase t)
     \<and> (\<not> go_writes t \<longrightarrow> read_only (code_left (go_phase t))))"

lemma fresh_inv:
  assumes "fresh_crew ts"
  shows "crew_inv ts (m, w) [] (ts, unlocked, m, w)"
proof -
  have still: "i < length ts \<Longrightarrow> waiting (go_phase (ts ! i))" for i
    using assms nth_mem unfolding fresh_crew_def by metis
  have "\<not> inside (go_phase t)" if "t \<in> set ts" for t
    using assms that unfolding fresh_crew_def by (cases "go_phase t") auto
  then have "mutex_ok ts unlocked" by (simp add: mutex_ok_def unlocked_def holds_def filter_empty_conv)
  then show ?thesis
    by (intro crew_invI [where ns = "\<lambda>i. []" and v = "(m, w)"])
       (auto simp: crew_books_def overlaps_def crew_times_def sees_def still)
qed

lemma crew_step_inv:
  assumes "crew_step c e c1" "\<forall>t \<in> set ts0. \<not> go_writes t \<longrightarrow> read_only (code_left (go_phase t))" "crew_inv ts0 s0 tr c"
  shows "crew_inv ts0 s0 (tr @ [e]) c1"
  using assms(1)
proof (cases rule: crew_step.cases)
  case own
  then show ?thesis using assms(2,3) by cases (auto intro: enter_inv act_inv leave_inv)
next
  case (world w w1 ts mu m)
  then show ?thesis using world_inv [of ts0 s0 tr ts mu m w w1] assms(3) by simp
qed

lemma crew_run_inv:
  assumes "crew_run (ts0, unlocked, m0, w0) tr c" "fresh_crew ts0"
  shows "crew_inv ts0 (m0, w0) tr c"
proof -
  have "crew_run d tr c \<Longrightarrow> d = (ts0, unlocked, m0, w0) \<Longrightarrow> crew_inv ts0 (m0, w0) tr c" for d
  proof (induction rule: crew_run.induct)
    case (rest c)
    then show ?case using fresh_inv [OF assms(2)] by simp
  next
    case (on c tr c1 e c2)
    then show ?case using crew_step_inv [OF on(2), of ts0 "(m0, w0)" tr] assms(2) by (simp add: fresh_crew_def)
  qed
  with assms(1) show ?thesis by simp
qed

text \<open>The methods one after the other, each on the readings that it is given.\<close>

fun serial :: "(('m, 'r) prog \<times> time list) list \<Rightarrow> 'm \<times> 'z aworld_scheme \<Rightarrow> 'r list \<times> 'm \<times> 'z aworld_scheme" where
  "serial [] s = ([], s)"
| "serial ((p, ts) # ps) s = (let (r, s1) = run p (apsnd (with_readings ts) s); (rs, s2) = serial ps s1 in (r # rs, s2))"

lemma chain_serial:
  "chain P H C js s s1 \<Longrightarrow> \<forall>j \<in> set js. C j = Return (R j) \<Longrightarrow>
    \<exists>c1 n1. serial (map (\<lambda>j. (P j, H j)) js) (on_clock c n s) = (map R js, on_clock c1 n1 s1)"
proof (induction js arbitrary: s c n)
  case (Cons j js)
  then obtain s2 where g: "goes (P j, s) (H j) (Return (R j), s2)" and ch: "chain P H C js s2 s1" by auto
  have "apsnd (with_readings (H j)) (on_clock c n s) = apsnd (with_readings (H j)) s"
    by (cases s) (simp add: on_clock_def)
  with goes_returns [OF g] obtain c2 n2 where
    "run (P j) (apsnd (with_readings (H j)) (on_clock c n s)) = (R j, on_clock c2 n2 s2)" by auto
  moreover obtain c1 n1 where "serial (map (\<lambda>j. (P j, H j)) js) (on_clock c2 n2 s2) = (map R js, on_clock c1 n1 s1)"
    using Cons.IH [OF ch, of c2 n2] Cons.prems(2) by auto
  ultimately show ?case by (intro exI [of _ c1] exI [of _ n1]) simp
next
  case Nil
  then show ?case by (intro exI [of _ c] exI [of _ n]) simp
qed

fun result_of :: "('m, 'r) phase \<Rightarrow> 'r" where
  "result_of (Finished r) = r"

lemma on_clock_self: "on_clock (w_clock w) (w_tick w) (m, w) = (m, w)"
  by (simp add: on_clock_def put_clock_def)

lemma finished_left: "finished ph \<Longrightarrow> \<not> waiting ph \<and> code_left ph = Return (result_of ph)"
  by (cases ph) simp_all

lemma crew_linear:
  assumes "crew_run (ts0, unlocked, m0, w0) tr (ts, mu, m, w)" "fresh_crew ts0" "\<forall>t \<in> set ts. finished (go_phase t)"
  obtains ns v where "distinct (lock_order tr)" "set (lock_order tr) = {..<length ts0}" "crew_times tr ts (w_tick w) ns"
    "serial (map (\<lambda>i. (code_left (go_phase (ts0 ! i)), map (w_clock w0) (ns i))) (lock_order tr)) (m0, w0)
      = (map (\<lambda>i. result_of (go_phase (ts ! i))) (lock_order tr), m, v)"
    "w_files v = w_files w" "w_faults v = w_faults w" "subseq (w_zap v) (w_zap w)"
  using crew_run_inv [OF assms(1,2)]
proof (rule crew_invE)
  fix ns s
  assume books: "crew_books ts0 tr ts" and times: "crew_times tr ts (w_tick w) ns" and sees: "sees s (m, w)"
    and ch: "chain (\<lambda>i. code_left (go_phase (ts0 ! i))) (\<lambda>i. map (w_clock (snd (m0, w0))) (ns i))
      (\<lambda>i. code_left (go_phase (ts ! i))) (lock_order tr) (m0, w0) s"
  have fin: "finished (go_phase (ts ! i)) \<and> \<not> waiting (go_phase (ts ! i))" if "i < length ts" for i
    using assms(3) that finished_left nth_mem by metis
  then have all: "set (lock_order tr) = {..<length ts0}"
    using books unfolding crew_books_def by auto
  have ret: "\<forall>j \<in> set (lock_order tr). code_left (go_phase (ts ! j)) = Return (result_of (go_phase (ts ! j)))"
  proof
    fix j assume "j \<in> set (lock_order tr)"
    then have "finished (go_phase (ts ! j))" using fin locked_books [OF books] by blast
    from finished_left [OF this] show "code_left (go_phase (ts ! j)) = Return (result_of (go_phase (ts ! j)))" by simp
  qed
  obtain c n where
    "serial (map (\<lambda>i. (code_left (go_phase (ts0 ! i)), map (w_clock w0) (ns i))) (lock_order tr)) (m0, w0)
      = (map (\<lambda>i. result_of (go_phase (ts ! i))) (lock_order tr), on_clock c n s)"
    using chain_serial [OF ch ret, of "w_clock w0" "w_tick w0"] unfolding on_clock_self snd_conv by blast
  moreover have "on_clock c n s = (m, put_clock c n (snd s))" using sees by (cases s) (simp add: on_clock_def sees_def)
  moreover have "distinct (lock_order tr)" using books by (simp only: crew_books_def)
  moreover have "w_files (put_clock c n (snd s)) = w_files w" "w_faults (put_clock c n (snd s)) = w_faults w"
    "subseq (w_zap (put_clock c n (snd s))) (w_zap w)"
    using sees by (simp_all add: sees_def put_clock_def)
  ultimately show ?thesis using that [of ns "put_clock c n (snd s)"] all times by simp
qed

end
