(* ===== verification/WhitelistThreads.thy ===== *)
theory WhitelistThreads
  imports ThreadOrder WhitelistProps
begin

text \<open>
  The methods of the whitelist manager as goroutines under its \<open>sync.RWMutex\<close>: every reading of the clock,
  every access to the fields, every write of the file and every record is an effect of its own, in the
  order of manager.go, so that the calls of parallel requests may interleave in every way that the mutex allows.
\<close>

subsection \<open>The methods, effect by effect\<close>

text \<open>The result of a call; a method that returns an \<open>error\<close> ends with \<open>Outcome\<close>.\<close>

datatype wl_answer = Outcome "go_error option" | Entries "IPEntry list" | Verdict bool | Removed int

type_synonym wl_prog = "(wl_Manager, wl_answer) prog"

text \<open>A method locks first, one way or the other, and unlocks when it returns.\<close>

type_synonym wl_locked = "bool \<times> wl_prog"

definition with_Lock :: "wl_prog \<Rightarrow> wl_locked" where
  "with_Lock p = (True, p)"

definition with_RLock :: "wl_prog \<Rightarrow> wl_locked" where
  "with_RLock p = (False, p)"

lemma with_Lock_sel [simp]: "fst (with_Lock p) = True" "snd (with_Lock p) = p" "fst (with_RLock p) = False" "snd (with_RLock p) = p"
  by (simp_all add: with_Lock_def with_RLock_def)

text \<open>The loop over the entries in \<open>updateTraefikConfig\<close>, then the file.\<close>

fun range_prog :: "IPEntry list \<Rightarrow> string list \<Rightarrow> (string list \<Rightarrow> wl_prog) \<Rightarrow> wl_prog" where
  "range_prog [] r k = k r"
| "range_prog (e # es) r k = (case ip_ExpiresAt e of
     None \<Rightarrow> range_prog es (r @ [ip_IP e]) k
   | Some t \<Rightarrow> Now (\<lambda>now. range_prog es (if After now t then r else r @ [ip_IP e]) k))"

definition update_prog :: "yaml_ops \<Rightarrow> (go_error option \<Rightarrow> wl_prog) \<Rightarrow> wl_prog" where
  "update_prog y k = Read (\<lambda>m. range_prog (wm_whitelist m) [] (\<lambda>r.
     case yaml_Marshal y (whitelist_config r) of
       Inl e \<Rightarrow> k (Some (WrapErr ''failed to marshal config'' e))
     | Inr yamlData \<Rightarrow> Now (\<lambda>now. Read (\<lambda>m1.
         WriteFile (wm_traefikConfigPath m1) (config_header y now @ yamlData) (\<lambda>err.
           k (map_option (WrapErr ''failed to write config file'') err))))))"

definition audit_prog :: "string \<Rightarrow> string \<Rightarrow> string \<Rightarrow> (string \<times> string) list \<Rightarrow> wl_prog \<Rightarrow> wl_prog" where
  "audit_prog action actor resource details p = Read (\<lambda>m. case wm_audit m of
     None \<Rightarrow> p
   | Some a \<Rightarrow> Now (\<lambda>now. LogTo a (zero_event\<lparr>ev_Timestamp := now, ev_Action := action, ev_Actor := actor,
       ev_Resource := resource, ev_Success := True, ev_Details := details\<rparr>) p))"

definition AddToWhitelist_prog :: "yaml_ops \<Rightarrow> string \<Rightarrow> string \<Rightarrow> string \<Rightarrow> time option \<Rightarrow> wl_locked" where
  "AddToWhitelist_prog y ip description addedBy expiresAt = with_Lock (case validateIPOrCIDR ip of
     Some e \<Rightarrow> Return (Outcome (Some (WrapErr ''invalid IP or CIDR'' e)))
   | None \<Rightarrow> Read (\<lambda>m.
       if list_ex (\<lambda>e. ip_IP e = ip) (wm_whitelist m)
       then Return (Outcome (Some (NewErr (''IP '' @ ip @ '' already in whitelist''))))
       else Now (\<lambda>now. Assign (\<lambda>m. m\<lparr>wm_whitelist := wm_whitelist m @ [\<lparr>ip_IP = ip, ip_Description = description,
           ip_AddedAt = now, ip_AddedBy = addedBy, ip_ExpiresAt = expiresAt\<rparr>]\<rparr>)
         (update_prog y (\<lambda>err. case err of
            Some e \<Rightarrow> Assign (\<lambda>m. m\<lparr>wm_whitelist := take (length (wm_whitelist m) - 1) (wm_whitelist m)\<rparr>)
              (Return (Outcome (Some (WrapErr ''failed to update Traefik config'' e))))
          | None \<Rightarrow> audit_prog ''whitelist_add'' addedBy ip [(''description'', description)] (Return (Outcome None)))))))"

definition RemoveFromWhitelist_prog :: "yaml_ops \<Rightarrow> string \<Rightarrow> string \<Rightarrow> wl_locked" where
  "RemoveFromWhitelist_prog y ip removedBy = with_Lock (Read (\<lambda>m.
     let newWhitelist = filter (\<lambda>e. ip_IP e \<noteq> ip) (wm_whitelist m);
         found = list_ex (\<lambda>e. ip_IP e = ip) (wm_whitelist m)
     in if \<not> found then Return (Outcome (Some (NewErr (''IP '' @ ip @ '' not found in whitelist''))))
        else Assign (\<lambda>m. m\<lparr>wm_whitelist := newWhitelist\<rparr>)
          (update_prog y (\<lambda>err. case err of
             Some e \<Rightarrow> Return (Outcome (Some (WrapErr ''failed to update Traefik config'' e)))
           | None \<Rightarrow> audit_prog ''whitelist_remove'' removedBy ip [] (Return (Outcome None))))))"

definition GetWhitelist_prog :: wl_locked where
  "GetWhitelist_prog = with_RLock (Read (\<lambda>m. Return (Entries (wm_whitelist m))))"

definition AddToBlacklist_prog :: "string \<Rightarrow> string \<Rightarrow> string \<Rightarrow> wl_locked" where
  "AddToBlacklist_prog ip description addedBy = with_Lock (case validateIPOrCIDR ip of
     Some e \<Rightarrow> Return (Outcome (Some (WrapErr ''invalid IP or CIDR'' e)))
   | None \<Rightarrow> Read (\<lambda>m.
       if list_ex (\<lambda>e. ip_IP e = ip) (wm_blacklist m)
       then Return (Outcome (Some (NewErr (''IP '' @ ip @ '' already in blacklist''))))
       else Now (\<lambda>now. Assign (\<lambda>m. m\<lparr>wm_blacklist := wm_blacklist m @ [\<lparr>ip_IP = ip, ip_Description = description,
           ip_AddedAt = now, ip_AddedBy = addedBy, ip_ExpiresAt = None\<rparr>]\<rparr>)
         (audit_prog ''blacklist_add'' addedBy ip [(''description'', description)] (Return (Outcome None))))))"

definition RemoveFromBlacklist_prog :: "string \<Rightarrow> string \<Rightarrow> wl_locked" where
  "RemoveFromBlacklist_prog ip removedBy = with_Lock (Read (\<lambda>m.
     let newBlacklist = filter (\<lambda>e. ip_IP e \<noteq> ip) (wm_blacklist m);
         found = list_ex (\<lambda>e. ip_IP e = ip) (wm_blacklist m)
     in if \<not> found then Return (Outcome (Some (NewErr (''IP '' @ ip @ '' not found in blacklist''))))
        else Assign (\<lambda>m. m\<lparr>wm_blacklist := newBlacklist\<rparr>)
          (audit_prog ''blacklist_remove'' removedBy ip [] (Return (Outcome None)))))"

definition GetBlacklist_prog :: wl_locked where
  "GetBlacklist_prog = with_RLock (Read (\<lambda>m. Return (Entries (wm_blacklist m))))"

fun allowed_prog :: "byte list \<Rightarrow> IPEntry list \<Rightarrow> wl_prog" where
  "allowed_prog ip [] = Return (Verdict False)"
| "allowed_prog ip (e # es) = (case ip_ExpiresAt e of
     None \<Rightarrow> if ipMatches ip (ip_IP e) then Return (Verdict True) else allowed_prog ip es
   | Some t \<Rightarrow> Now (\<lambda>now. if After now t then allowed_prog ip es
       else if ipMatches ip (ip_IP e) then Return (Verdict True) else allowed_prog ip es))"

definition IsAllowed_prog :: "string \<Rightarrow> wl_locked" where
  "IsAllowed_prog ip = with_RLock (case ParseIP ip of
     None \<Rightarrow> Return (Verdict False)
   | Some parsedIP \<Rightarrow> Read (\<lambda>m.
       if list_ex (\<lambda>e. ipMatches parsedIP (ip_IP e)) (wm_blacklist m) then Return (Verdict False)
       else Read (\<lambda>m. allowed_prog parsedIP (wm_whitelist m))))"

text \<open>The loop of \<open>CleanupExpired\<close> with what it has kept and counted, then the assignment and the file.\<close>

fun cleanup_prog :: "time \<Rightarrow> IPEntry list \<Rightarrow> IPEntry list \<Rightarrow> int \<Rightarrow> (IPEntry list \<Rightarrow> int \<Rightarrow> wl_prog) \<Rightarrow> wl_prog" where
  "cleanup_prog now [] kept removed k = k kept removed"
| "cleanup_prog now (e # es) kept removed k = (if expired_at now e
     then Read (\<lambda>m. case wm_audit m of
         None \<Rightarrow> cleanup_prog now es kept (removed + 1) k
       | Some a \<Rightarrow> LogTo a (zero_event\<lparr>ev_Timestamp := now, ev_Action := ''whitelist_expired'',
           ev_Actor := ''system'', ev_Resource := ip_IP e, ev_Success := True\<rparr>)
           (cleanup_prog now es kept (removed + 1) k))
     else cleanup_prog now es (kept @ [e]) removed k)"

definition CleanupExpired_prog :: "yaml_ops \<Rightarrow> wl_locked" where
  "CleanupExpired_prog y = with_Lock (Now (\<lambda>now. Read (\<lambda>m. cleanup_prog now (wm_whitelist m) [] 0 (\<lambda>newWhitelist removed.
     if 0 < removed
     then Assign (\<lambda>m. m\<lparr>wm_whitelist := newWhitelist\<rparr>) (update_prog y (\<lambda>_. Return (Removed removed)))
     else Return (Removed removed)))))"

subsection \<open>Alone, they are the methods\<close>

datatype wl_request =
    RequestAddToWhitelist string string string "time option"
  | RequestRemoveFromWhitelist string string
  | RequestGetWhitelist
  | RequestAddToBlacklist string string string
  | RequestRemoveFromBlacklist string string
  | RequestGetBlacklist
  | RequestIsAllowed string
  | RequestCleanupExpired

fun wl_method :: "yaml_ops \<Rightarrow> wl_request \<Rightarrow> wl_locked" where
  "wl_method y (RequestAddToWhitelist ip d who ex) = AddToWhitelist_prog y ip d who ex"
| "wl_method y (RequestRemoveFromWhitelist ip who) = RemoveFromWhitelist_prog y ip who"
| "wl_method y RequestGetWhitelist = GetWhitelist_prog"
| "wl_method y (RequestAddToBlacklist ip d who) = AddToBlacklist_prog ip d who"
| "wl_method y (RequestRemoveFromBlacklist ip who) = RemoveFromBlacklist_prog ip who"
| "wl_method y RequestGetBlacklist = GetBlacklist_prog"
| "wl_method y (RequestIsAllowed ip) = IsAllowed_prog ip"
| "wl_method y RequestCleanupExpired = CleanupExpired_prog y"

fun wl_call :: "yaml_ops \<Rightarrow> wl_request \<Rightarrow> 'z wl_state \<Rightarrow> wl_answer \<times> 'z wl_state" where
  "wl_call y (RequestAddToWhitelist ip d who ex) s = apfst Outcome (AddToWhitelist y ip d who ex s)"
| "wl_call y (RequestRemoveFromWhitelist ip who) s = apfst Outcome (RemoveFromWhitelist y ip who s)"
| "wl_call y RequestGetWhitelist s = (Entries (GetWhitelist (fst s)), s)"
| "wl_call y (RequestAddToBlacklist ip d who) s = apfst Outcome (AddToBlacklist ip d who s)"
| "wl_call y (RequestRemoveFromBlacklist ip who) s = apfst Outcome (RemoveFromBlacklist ip who s)"
| "wl_call y RequestGetBlacklist s = (Entries (GetBlacklist (fst s)), s)"
| "wl_call y (RequestIsAllowed ip) s = (case s of (m, w) \<Rightarrow> let (b, w1) = IsAllowed m ip w in (Verdict b, m, w1))"
| "wl_call y RequestCleanupExpired s = apfst Removed (CleanupExpired y s)"

lemma run_range: "run (range_prog es r k) (m, w) = run (k (r @ fst (source_range es w))) (m, snd (source_range es w))"
proof (induction es arbitrary: r w)
  case (Cons e es)
  then show ?case by (cases "ip_ExpiresAt e") (simp_all add: expired_now_def time_Now_def case_prod_beta Let_def)
qed simp

lemma run_update: "run (update_prog y k) (m, w)
    = run (k (fst (updateTraefikConfig y m w))) (m, snd (updateTraefikConfig y m w))"
  by (auto simp: update_prog_def updateTraefikConfig_def run_range case_prod_beta Let_def time_Now_def
      split: sum.split option.split)

lemma run_audit: "run (audit_prog a b c d p) (m, w) = run p (m, audit_action m a b c d w)"
  by (simp add: audit_prog_def audit_action_def case_prod_beta Let_def time_Now_def split: option.split)

lemma run_allowed: "run (allowed_prog ip es) (m, w) = (Verdict (fst (allowed_loop ip es w)), m, snd (allowed_loop ip es w))"
proof (induction es arbitrary: w)
  case (Cons e es)
  then show ?case by (cases "ip_ExpiresAt e") (simp_all add: expired_now_def time_Now_def case_prod_beta Let_def)
qed simp

lemma run_cleanup: "run (cleanup_prog now es kept n k) (m, w) = (let (kept1, n1, w1) = cleanup_loop m now es w
    in run (k (kept @ kept1) (n + n1)) (m, w1))"
proof (induction es arbitrary: kept n w)
  case (Cons e es)
  then show ?case by (cases "wm_audit m") (simp_all add: case_prod_beta Let_def ac_simps)
qed simp

lemma run_wl_method: "run (snd (wl_method y q)) s = wl_call y q s"
proof (cases q)
  case (RequestAddToWhitelist ip d who ex)
  then show ?thesis by (cases s) (auto simp: AddToWhitelist_prog_def AddToWhitelist_def run_update run_audit time_Now_def
      case_prod_beta Let_def split: option.split)
next
  case (RequestRemoveFromWhitelist ip who)
  then show ?thesis by (cases s) (auto simp: RemoveFromWhitelist_prog_def RemoveFromWhitelist_def run_update run_audit
      case_prod_beta Let_def split: option.split)
next
  case (RequestAddToBlacklist ip d who)
  then show ?thesis by (cases s) (auto simp: AddToBlacklist_prog_def AddToBlacklist_def run_audit time_Now_def
      case_prod_beta Let_def split: option.split)
next
  case (RequestRemoveFromBlacklist ip who)
  then show ?thesis by (cases s) (auto simp: RemoveFromBlacklist_prog_def RemoveFromBlacklist_def run_audit
      case_prod_beta Let_def)
next
  case (RequestIsAllowed ip)
  then show ?thesis by (cases s) (auto simp: IsAllowed_prog_def IsAllowed_def run_allowed case_prod_beta Let_def split: option.split)
next
  case RequestCleanupExpired
  then show ?thesis by (cases s) (auto simp: CleanupExpired_prog_def CleanupExpired_def run_cleanup run_update time_Now_def
      case_prod_beta Let_def)
qed (cases s; simp add: GetWhitelist_prog_def GetBlacklist_prog_def GetWhitelist_def GetBlacklist_def)+

lemmas wl_progs = AddToWhitelist_prog_def RemoveFromWhitelist_prog_def AddToBlacklist_prog_def RemoveFromBlacklist_prog_def
  CleanupExpired_prog_def GetWhitelist_prog_def GetBlacklist_prog_def IsAllowed_prog_def

lemma allowed_prog_reads: "read_only (allowed_prog ip es)"
  by (induction es) (auto split: option.split)

lemma wl_method_reads: "\<not> fst (wl_method y q) \<Longrightarrow> read_only (snd (wl_method y q))"
  by (cases q) (auto simp: wl_progs allowed_prog_reads split: option.split)

subsection \<open>Interleavings of calls\<close>

definition manager_crew :: "yaml_ops \<Rightarrow> wl_request list \<Rightarrow> (wl_Manager, wl_answer) goroutine list" where
  "manager_crew y qs = map (spawn \<circ> wl_method y) qs"

text \<open>The calls one after the other, each with the clock readings that it is given.\<close>

fun wl_serial :: "yaml_ops \<Rightarrow> (wl_request \<times> time list) list \<Rightarrow> 'z wl_state \<Rightarrow> wl_answer list \<times> 'z wl_state" where
  "wl_serial y [] s = ([], s)"
| "wl_serial y ((q, ts) # qs) s = (let (a, s1) = wl_call y q (apsnd (with_readings ts) s); (as, s2) = wl_serial y qs s1
     in (a # as, s2))"

lemma manager_crew_nth: "i < length qs \<Longrightarrow> code_left (go_phase (manager_crew y qs ! i)) = snd (wl_method y (qs ! i))"
  by (simp add: manager_crew_def spawn_def)

lemma manager_crew_fresh: "fresh_crew (manager_crew y qs)"
  by (auto simp: fresh_crew_def manager_crew_def spawn_def wl_method_reads)

lemma serial_wl: "serial (map (\<lambda>(q, ts). (snd (wl_method y q), ts)) qs) s = wl_serial y qs s"
  by (induction qs arbitrary: s) (auto simp: run_wl_method Let_def split: prod.splits)

lemma manager_linear:
  assumes "crew_run (manager_crew y qs, unlocked, m0, w0) tr (ts, mu, m, w)" "\<forall>t \<in> set ts. finished (go_phase t)"
  obtains ns v where "distinct (lock_order tr)" "set (lock_order tr) = {..<length qs}" "crew_times tr ts (w_tick w) ns"
    "wl_serial y (map (\<lambda>i. (qs ! i, map (w_clock w0) (ns i))) (lock_order tr)) (m0, w0)
      = (map (\<lambda>i. result_of (go_phase (ts ! i))) (lock_order tr), m, v)"
    "w_files v = w_files w" "w_faults v = w_faults w" "subseq (w_zap v) (w_zap w)"
proof (rule crew_linear [OF assms(1) manager_crew_fresh assms(2)])
  fix ns v
  assume all: "set (lock_order tr) = {..<length (manager_crew y qs)}"
    and ser: "serial (map (\<lambda>i. (code_left (go_phase (manager_crew y qs ! i)), map (w_clock w0) (ns i))) (lock_order tr)) (m0, w0)
      = (map (\<lambda>i. result_of (go_phase (ts ! i))) (lock_order tr), m, v)"
    and rest: "distinct (lock_order tr)" "crew_times tr ts (w_tick w) ns" "w_files v = w_files w" "w_faults v = w_faults w"
      "subseq (w_zap v) (w_zap w)"
  have all: "set (lock_order tr) = {..<length qs}" using all by (simp add: manager_crew_def)
  then have eq: "map (\<lambda>i. (code_left (go_phase (manager_crew y qs ! i)), map (w_clock w0) (ns i))) (lock_order tr)
      = map (\<lambda>(q, ts). (snd (wl_method y q), ts)) (map (\<lambda>i. (qs ! i, map (w_clock w0) (ns i))) (lock_order tr))"
    by (auto simp: manager_crew_nth)
  show ?thesis using that [OF rest(1) all rest(2) ser [unfolded eq serial_wl] rest(3-5)] .
qed

definition demo_calls :: "wl_request list" where
  "demo_calls = [RequestAddToBlacklist ''10.0.0.7'' ''d'' ''o'', RequestIsAllowed ''10.0.0.7'', RequestGetBlacklist]"

definition demo_crew :: "(wl_Manager, wl_answer, unit) crew" where
  "demo_crew = (manager_crew demo_yaml demo_calls, unlocked, demo_manager [] [], demo_world)"

text \<open>A check and a listing that overlap, after a call that blocks.\<close>

definition demo_schedule :: "nat list" where
  "demo_schedule = [0, 0, 0, 0, 0, 0, 0, 0, 1, 2, 1, 2, 1, 2]"

lemma demo_played: "map_option (\<lambda>(tr, ts, _). (tr, map (\<lambda>t. (finished (go_phase t), result_of (go_phase t))) ts))
    (crew_play demo_schedule demo_crew)
  = Some ([Locked 0 0, Acted 0, Acted 0, Acted 0, Acted 0, Acted 0, Acted 0, Unlocked 0 2, Locked 1 2, Locked 2 2,
      Acted 1, Acted 2, Unlocked 1 2, Unlocked 2 2],
    [(True, Outcome None), (True, Verdict False), (True, Entries [new_entry ''10.0.0.7'' ''d'' ''o'' None 0])])"
  by code_simp

lemma demo_crew_run:
  obtains ts mu m w where "crew_play demo_schedule demo_crew = Some ([Locked 0 0, Acted 0, Acted 0, Acted 0, Acted 0,
      Acted 0, Acted 0, Unlocked 0 2] @ [Locked 1 2, Locked 2 2, Acted 1, Acted 2, Unlocked 1 2, Unlocked 2 2], ts, mu, m, w)"
    "\<forall>t \<in> set ts. finished (go_phase t)"
    "map (\<lambda>i. result_of (go_phase (ts ! i))) [0, 1, 2]
      = [Outcome None, Verdict False, Entries [new_entry ''10.0.0.7'' ''d'' ''o'' None 0]]"
proof -
  obtain tr ts mu m w where "crew_play demo_schedule demo_crew = Some (tr, ts, mu, m, w)"
    using demo_played by (cases "crew_play demo_schedule demo_crew") auto
  moreover from this demo_played have l: "map (\<lambda>t. (finished (go_phase t), result_of (go_phase t))) ts =
      [(True, Outcome None), (True, Verdict False), (True, Entries [new_entry ''10.0.0.7'' ''d'' ''o'' None 0])]"
    and "tr = [Locked 0 0, Acted 0, Acted 0, Acted 0, Acted 0, Acted 0, Acted 0, Unlocked 0 2, Locked 1 2, Locked 2 2,
      Acted 1, Acted 2, Unlocked 1 2, Unlocked 2 2]" by simp_all
  moreover from l obtain a b c where "ts = [a, b, c]" by (auto simp: map_eq_Cons_conv)
  ultimately show ?thesis by (intro that [of ts mu m w]) auto
qed

text \<open>C4 (equivalence).  Calls on the manager that run in parallel, their readings of the clock, field accesses, file
  writes and records interleaved in any way that the mutex allows and with the rest of the process in
  between, give the answers, the lists and the file that they give one after the other in the order in which they got the
  mutex, each on the clock readings that it got in the run, which ascend and lie between its locking and its
  unlocking; and the log holds their records in that order.\<close>

theorem parallel_calls_linearize:
  assumes "crew_run (manager_crew y qs, unlocked, m0, w0) tr (ts, mu, m, w)" "\<forall>t \<in> set ts. finished (go_phase t)"
  shows "\<exists>ns v. distinct (lock_order tr) \<and> set (lock_order tr) = {..<length qs}
    \<and> (\<forall>i. sorted_wrt (<) (ns i) \<and> (\<forall>a. Locked i a \<in> set tr \<longrightarrow> (\<forall>k \<in> set (ns i). a \<le> k))
        \<and> (\<forall>b. Unlocked i b \<in> set tr \<longrightarrow> (\<forall>k \<in> set (ns i). k < b)))
    \<and> wl_serial y (map (\<lambda>i. (qs ! i, map (w_clock w0) (ns i))) (lock_order tr)) (m0, w0)
        = (map (\<lambda>i. result_of (go_phase (ts ! i))) (lock_order tr), m, v)
    \<and> w_files v = w_files w \<and> w_faults v = w_faults w \<and> subseq (w_zap v) (w_zap w)"
proof (rule manager_linear [OF assms])
  fix ns v
  assume "distinct (lock_order tr)" "set (lock_order tr) = {..<length qs}" "crew_times tr ts (w_tick w) ns"
    "wl_serial y (map (\<lambda>i. (qs ! i, map (w_clock w0) (ns i))) (lock_order tr)) (m0, w0)
      = (map (\<lambda>i. result_of (go_phase (ts ! i))) (lock_order tr), m, v)"
    "w_files v = w_files w" "w_faults v = w_faults w" "subseq (w_zap v) (w_zap w)"
  then show ?thesis by (intro exI [of _ ns] exI [of _ v]) (simp add: crew_times_def)
qed

lemma parallel_calls_linearize_witness:
  "\<exists>tr ts mu m w. crew_play demo_schedule demo_crew = Some (tr, ts, mu, m, w) \<and> lock_order tr = [0, 1, 2]
   \<and> (\<exists>ns. fst (wl_serial demo_yaml (map (\<lambda>i. (demo_calls ! i, map (w_clock demo_world) (ns i))) [0, 1, 2])
         (demo_manager [] [], demo_world))
       = [Outcome None, Verdict False, Entries [new_entry ''10.0.0.7'' ''d'' ''o'' None 0]])"
proof (rule demo_crew_run)
  fix ts mu m w
  let ?tr1 = "[Locked 0 0, Acted 0, Acted 0, Acted 0, Acted 0, Acted 0, Acted 0, Unlocked 0 2]"
    and ?tr2 = "[Locked 1 2, Locked 2 2, Acted 1, Acted 2, Unlocked 1 2, Unlocked 2 2]"
  assume play: "crew_play demo_schedule demo_crew = Some (?tr1 @ ?tr2, ts, mu, m, w)"
    and fin: "\<forall>t \<in> set ts. finished (go_phase t)"
    and res: "map (\<lambda>i. result_of (go_phase (ts ! i))) [0, 1, 2]
      = [Outcome None, Verdict False, Entries [new_entry ''10.0.0.7'' ''d'' ''o'' None 0]]"
  from parallel_calls_linearize [OF crew_play_run [OF play [unfolded demo_crew_def]] fin] obtain ns v where
    "wl_serial demo_yaml (map (\<lambda>i. (demo_calls ! i, map (w_clock demo_world) (ns i))) (lock_order (?tr1 @ ?tr2)))
      (demo_manager [] [], demo_world) = (map (\<lambda>i. result_of (go_phase (ts ! i))) (lock_order (?tr1 @ ?tr2)), m, v)" by blast
  moreover have order: "lock_order (?tr1 @ ?tr2) = [0, 1, 2]" by simp
  ultimately have "fst (wl_serial demo_yaml (map (\<lambda>i. (demo_calls ! i, map (w_clock demo_world) (ns i))) [0, 1, 2])
      (demo_manager [] [], demo_world)) = [Outcome None, Verdict False, Entries [new_entry ''10.0.0.7'' ''d'' ''o'' None 0]]"
    unfolding order res by simp
  with play order show ?thesis by blast
qed

subsection \<open>Blocking under concurrency\<close>

fun wl_op_for :: "wl_request \<Rightarrow> 'z wl_op" where
  "wl_op_for (RequestAddToWhitelist ip d who ex) = AddW ip d who ex"
| "wl_op_for (RequestRemoveFromWhitelist ip who) = RemW ip who"
| "wl_op_for (RequestAddToBlacklist ip d who) = AddB ip d who"
| "wl_op_for (RequestRemoveFromBlacklist ip who) = RemB ip who"
| "wl_op_for (RequestIsAllowed ip) = Query ip"
| "wl_op_for RequestCleanupExpired = Cleanup"
| "wl_op_for q = Env id"

lemma wl_call_exec: "snd (wl_call y q s) = wl_exec y (wl_op_for q) s"
  by (cases q; cases s) (auto split: prod.split)

lemma bl_readings [simp]: "bl.ips (apsnd f s) = bl.ips s"
  by (simp add: bl.ips_def)

lemma wl_op_for_RemB: "wl_op_for q = RemB ip who \<longleftrightarrow> q = RequestRemoveFromBlacklist ip who"
  by (cases q) auto

lemma wl_serial_Cons:
  "fst (wl_serial y ((q, ts) # qs) s) = fst (wl_call y q (apsnd (with_readings ts) s))
     # fst (wl_serial y qs (snd (wl_call y q (apsnd (with_readings ts) s))))"
  "snd (wl_serial y ((q, ts) # qs) s) = snd (wl_serial y qs (snd (wl_call y q (apsnd (with_readings ts) s))))"
  by (simp_all add: case_prod_beta Let_def)

lemma wl_serial_append:
  "fst (wl_serial y (xs @ ys) s) = fst (wl_serial y xs s) @ fst (wl_serial y ys (snd (wl_serial y xs s)))
   \<and> snd (wl_serial y (xs @ ys) s) = snd (wl_serial y ys (snd (wl_serial y xs s)))"
proof (induction xs arbitrary: s)
  case (Cons x xs)
  then show ?case by (cases x) (simp add: wl_serial_Cons del: wl_serial.simps(2))
qed simp

lemma wl_serial_length: "length (fst (wl_serial y qs s)) = length qs"
proof (induction qs arbitrary: s)
  case (Cons q qs)
  then show ?case by (cases q) (simp add: case_prod_beta Let_def)
qed simp

lemma serial_keeps_block:
  "ip \<in> bl.ips s \<Longrightarrow> \<forall>who. RequestRemoveFromBlacklist ip who \<notin> fst ` set qs \<Longrightarrow> ip \<in> bl.ips (snd (wl_serial y qs s))"
proof (induction qs arbitrary: s)
  case (Cons x qs)
  obtain q ts where x: "x = (q, ts)" by fastforce
  have "ip \<in> bl.ips (snd (wl_call y q (apsnd (with_readings ts) s)))"
    unfolding wl_call_exec using Cons.prems x by (intro wl_exec_keeps_block) (auto simp: wl_op_for_RemB)
  with Cons.IH [OF this] Cons.prems(2) show ?case by (simp add: x wl_serial_Cons image_iff del: wl_serial.simps(2))
qed simp

lemma blocked_answer:
  assumes "ip \<in> bl.ips s" "CHR ''/'' \<notin> set ip"
  shows "fst (wl_call y (RequestIsAllowed ip) s) = Verdict False"
proof -
  obtain m w where s: "s = (m, w)" by fastforce
  with blocked_address_stays_denied [of ip s "[]" y w] assms have "\<not> fst (IsAllowed m ip w)" by (simp add: bl.ips_def)
  then show ?thesis by (simp add: s case_prod_beta Let_def)
qed

lemma block_answer:
  assumes "fst (wl_call y (RequestAddToBlacklist ip d who) s) = Outcome None"
  shows "ip \<in> bl.ips (snd (wl_call y (RequestAddToBlacklist ip d who) s))"
  using assms bl.add_ips [of "(d, who)" ip s] bl.add_ok [of "(d, who)" ip s] by auto

lemma crew_run_split: "crew_run c tr c2 \<Longrightarrow> tr = tr1 @ tr2 \<Longrightarrow> \<exists>c1. crew_run c tr1 c1"
proof (induction arbitrary: tr2 rule: crew_run.induct)
  case (on c tr c1 e c2)
  then show ?case by (cases tr2 rule: rev_cases) (auto intro: crew_run.on simp del: split_paired_Ex)
next
  case (rest c)
  then show ?case using crew_run.rest [of c] by (intro exI [of _ c]) simp
qed

text \<open>Who has unlocked before another one locks stands before it in the order.\<close>

lemma unlocked_locked:
  assumes "crew_run (ts0, unlocked, m0, w0) (tr1 @ tr2) c" "fresh_crew ts0" "Unlocked i b \<in> set tr1"
  shows "i \<in> set (lock_order tr1)"
proof -
  obtain ts mu m w where "crew_run (ts0, unlocked, m0, w0) tr1 (ts, mu, m, w)"
    using crew_run_split [OF assms(1)] by (metis prod_cases4)
  from crew_run_inv [OF this assms(2)] show ?thesis
    by (rule crew_invE) (use assms(3) in \<open>auto simp: crew_times_def\<close>)
qed

lemma serial_block_then_check:
  assumes "wl_serial y (map f (xs @ i # ys @ j # zs)) s = (map R (xs @ i # ys @ j # zs), s1)"
    and "fst (f i) = RequestAddToBlacklist ip d who" "R i = Outcome None" "fst (f j) = RequestIsAllowed ip"
    and "CHR ''/'' \<notin> set ip" "\<forall>who. RequestRemoveFromBlacklist ip who \<notin> fst ` set (map f ys)"
  shows "R j = Verdict False"
proof -
  obtain ti tj where fi: "f i = (RequestAddToBlacklist ip d who, ti)" and fj: "f j = (RequestIsAllowed ip, tj)"
    using assms(2,4) by (metis prod.collapse)
  let ?s1 = "snd (wl_serial y (map f xs) s)"
  let ?s2 = "snd (wl_call y (RequestAddToBlacklist ip d who) (apsnd (with_readings ti) ?s1))"
  let ?s3 = "snd (wl_serial y (map f ys) ?s2)"
  have "map R (xs @ i # ys @ j # zs) = fst (wl_serial y (map f xs) s)
      @ fst (wl_call y (RequestAddToBlacklist ip d who) (apsnd (with_readings ti) ?s1))
      # fst (wl_serial y (map f ys) ?s2) @ fst (wl_call y (RequestIsAllowed ip) (apsnd (with_readings tj) ?s3))
      # fst (wl_serial y (map f zs) (snd (wl_call y (RequestIsAllowed ip) (apsnd (with_readings tj) ?s3))))"
    using arg_cong [OF assms(1), of fst]
    by (simp add: wl_serial_append wl_serial_Cons fi fj del: wl_serial.simps(2) wl_call.simps)
  then have i: "R i = fst (wl_call y (RequestAddToBlacklist ip d who) (apsnd (with_readings ti) ?s1))"
    and j: "R j = fst (wl_call y (RequestIsAllowed ip) (apsnd (with_readings tj) ?s3))"
    by (simp_all add: append_eq_append_conv wl_serial_length del: wl_call.simps)
  have "ip \<in> bl.ips ?s2" by (rule block_answer) (use i assms(3) in simp)
  from serial_keeps_block [OF this assms(6)] show ?thesis unfolding j
    by (intro blocked_answer) (simp_all add: assms(5))
qed

text \<open>C5 (safety).  Once a call that blocks an address has returned, every check of the address that gets the mutex later
  answers no, whatever calls run in parallel, as long as none of them unblocks the address.\<close>

theorem block_holds_in_parallel:
  assumes "crew_run (manager_crew y qs, unlocked, m0, w0) (tr1 @ tr2) (ts, mu, m, w)" "\<forall>t \<in> set ts. finished (go_phase t)"
    and "qs ! i = RequestAddToBlacklist ip d who" "Unlocked i b \<in> set tr1" "result_of (go_phase (ts ! i)) = Outcome None"
    and "j < length qs" "qs ! j = RequestIsAllowed ip" "j \<notin> set (lock_order tr1)"
    and "CHR ''/'' \<notin> set ip" "\<forall>who. RequestRemoveFromBlacklist ip who \<notin> set qs"
  shows "result_of (go_phase (ts ! j)) = Verdict False"
proof (rule manager_linear [OF assms(1,2)])
  fix ns v
  let ?f = "\<lambda>i. (qs ! i, map (w_clock w0) (ns i))" and ?R = "\<lambda>i. result_of (go_phase (ts ! i))"
  assume all: "set (lock_order (tr1 @ tr2)) = {..<length qs}"
    and ser: "wl_serial y (map ?f (lock_order (tr1 @ tr2))) (m0, w0) = (map ?R (lock_order (tr1 @ tr2)), m, v)"
  from unlocked_locked [OF assms(1) manager_crew_fresh assms(4)] obtain xs ys1 where
    1: "lock_order tr1 = xs @ i # ys1" by (meson split_list)
  have "j \<in> set (lock_order tr2)" using all assms(6,8) by auto
  then obtain ys2 zs where 2: "lock_order tr2 = ys2 @ j # zs" by (meson split_list)
  have order: "lock_order (tr1 @ tr2) = xs @ i # (ys1 @ ys2) @ j # zs" by (simp add: 1 2)
  have "k < length qs" if "k \<in> set (ys1 @ ys2)" for k using all that unfolding order by auto
  then have "fst ` set (map ?f (ys1 @ ys2)) \<subseteq> set qs" by auto
  with assms(10) have "\<forall>who. RequestRemoveFromBlacklist ip who \<notin> fst ` set (map ?f (ys1 @ ys2))" by blast
  from serial_block_then_check [OF ser [unfolded order] _ assms(5) _ assms(9) this] assms(3,7) show ?thesis by simp
qed

lemma block_holds_in_parallel_witness:
  "\<exists>tr ts mu m w. crew_play demo_schedule demo_crew = Some (tr, ts, mu, m, w) \<and> result_of (go_phase (ts ! 1)) = Verdict False"
proof (rule demo_crew_run)
  fix ts mu m w
  let ?tr1 = "[Locked 0 0, Acted 0, Acted 0, Acted 0, Acted 0, Acted 0, Acted 0, Unlocked 0 2]"
    and ?tr2 = "[Locked 1 2, Locked 2 2, Acted 1, Acted 2, Unlocked 1 2, Unlocked 2 2]"
  assume play: "crew_play demo_schedule demo_crew = Some (?tr1 @ ?tr2, ts, mu, m, w)"
    and fin: "\<forall>t \<in> set ts. finished (go_phase t)"
    and res: "map (\<lambda>i. result_of (go_phase (ts ! i))) [0, 1, 2]
      = [Outcome None, Verdict False, Entries [new_entry ''10.0.0.7'' ''d'' ''o'' None 0]]"
  then have first: "result_of (go_phase (ts ! 0)) = Outcome None" by simp
  have "result_of (go_phase (ts ! 1)) = Verdict False"
    by (rule block_holds_in_parallel [OF crew_play_run [OF play [unfolded demo_crew_def]] fin, where i = 0 and b = 2
          and ip = "''10.0.0.7''" and d = "''d''" and who = "''o''"])
       (simp_all add: demo_calls_def first)
  with play show ?thesis by blast
qed

end
