(* ===== verification/PerIPThreads.thy ===== *)
theory PerIPThreads
  imports RateLimitProps
begin

text \<open>
  Requests that meet at the per-IP limiter.  \<open>GetLimiter\<close> and \<open>CleanupStale\<close> run under the mutex of the map, but
  the bucket that a request got is asked for a token after the mutex is released: between the two,
  other requests and clean-ups run.
\<close>

subsection \<open>The actions of one request\<close>

datatype ip_pc = AtGet | AtAllow limiter_ptr | Answered bool

record ip_thread =
  it_request :: request
  it_pc :: ip_pc

text \<open>What happens: a bucket is looked up, a token is asked for at a time, the map is swept (and perhaps cleared), or
  something that does not concern the limiter.\<close>

datatype ip_event = Got string | Took string time bool | Swept bool | Beside

fun ip_action :: "'l rate_ops \<Rightarrow> ip_thread \<Rightarrow> PerIPLimiter \<times> ('l, 'rd, 'z) rworld_scheme \<Rightarrow>
    ip_thread \<times> ip_event \<times> PerIPLimiter \<times> ('l, 'rd, 'z) rworld_scheme" where
  "ip_action R t (pl, w) = (case it_pc t of
     AtGet \<Rightarrow> (let (p, pl1, w1) = GetLimiter R (getIP (it_request t)) (pl, w)
       in (t\<lparr>it_pc := AtAllow p\<rparr>, Got (getIP (it_request t)), pl1, w1))
   | AtAllow p \<Rightarrow> (let (b, w1) = limiter_Allow R p w
       in (t\<lparr>it_pc := Answered b\<rparr>, Took (getIP (it_request t)) (w_clock w (w_tick w)) b, pl, w1))
   | Answered b \<Rightarrow> (t, Beside, pl, w))"

type_synonym ('l, 'rd, 'z) ip_pool = "ip_thread list \<times> PerIPLimiter \<times> ('l, 'rd, 'z) rworld_scheme"

inductive ip_step :: "'l rate_ops \<Rightarrow> ('l, 'rd, 'z) ip_pool \<Rightarrow> ip_event \<Rightarrow> ('l, 'rd, 'z) ip_pool \<Rightarrow> bool" for R where
  act: "i < length ts \<Longrightarrow> ip_action R (ts ! i) (pl, w) = (t, e, pl1, w1) \<Longrightarrow>
    ip_step R (ts, pl, w) e (ts[i := t], pl1, w1)"
| sweep: "ip_step R (ts, pl, w) (Swept (10000 < length (pl_limiters pl))) (ts, CleanupStale pl, w)"
| world: "rw_limiters w1 = rw_limiters w \<Longrightarrow> ip_step R (ts, pl, w) Beside (ts, pl, w1)"

inductive ip_run :: "'l rate_ops \<Rightarrow> ('l, 'rd, 'z) ip_pool \<Rightarrow> ip_event list \<Rightarrow> ('l, 'rd, 'z) ip_pool \<Rightarrow> bool" for R where
  rest: "ip_run R c [] c"
| on: "ip_run R c tr c1 \<Longrightarrow> ip_step R c1 e c2 \<Longrightarrow> ip_run R c (tr @ [e]) c2"

text \<open>Alone, a request that takes two actions is let through exactly as the middleware lets it through.\<close>

lemma ip_actions_enter:
  assumes "it_pc t = AtGet" "ip_action R t (pl, w) = (t1, e1, pl1, w1)" "ip_action R t1 (pl1, w1) = (t2, e2, pl2, w2)"
  shows "\<exists>b. it_pc t2 = Answered b \<and> (perip_enter R (it_request t) rs (pl, w) = (if b then Some (it_request t, rs, pl2, w2) else None))"
proof -
  obtain p pl3 w3 where g: "GetLimiter R (getIP (it_request t)) (pl, w) = (p, pl3, w3)" by (metis prod.collapse)
  obtain b w4 where a: "limiter_Allow R p w3 = (b, w4)" by fastforce
  from assms(1,2) g have 1: "t1 = t\<lparr>it_pc := AtAllow p\<rparr>" "pl1 = pl3" "w1 = w3" by simp_all
  from assms(3) a 1 have "t2 = t1\<lparr>it_pc := Answered b\<rparr>" "pl2 = pl3" "w2 = w4" by simp_all
  then show ?thesis by (simp add: perip_enter_def g a)
qed

subsection \<open>Every address is metered by itself\<close>

text \<open>The tokens asked for by one address, and what a single bucket answers to such a sequence of times.\<close>

fun took :: "string \<Rightarrow> ip_event list \<Rightarrow> (time \<times> bool) list" where
  "took ip [] = []"
| "took ip (Took a t b # tr) = (if a = ip then (t, b) # took ip tr else took ip tr)"
| "took ip (e # tr) = took ip tr"

fun bucket_after :: "'l rate_ops \<Rightarrow> 'l \<Rightarrow> time list \<Rightarrow> 'l" where
  "bucket_after R l [] = l"
| "bucket_after R l (t # ts) = bucket_after R (snd (rt_Allow R t l)) ts"

fun bucket_verdicts :: "'l rate_ops \<Rightarrow> 'l \<Rightarrow> time list \<Rightarrow> bool list" where
  "bucket_verdicts R l [] = []"
| "bucket_verdicts R l (t # ts) = fst (rt_Allow R t l) # bucket_verdicts R (snd (rt_Allow R t l)) ts"

text \<open>The bucket of an address, or the one that it would get.\<close>

definition own_bucket :: "'l rate_ops \<Rightarrow> string \<Rightarrow> PerIPLimiter \<times> ('l, 'rd, 'z) rworld_scheme \<Rightarrow> 'l" where
  "own_bucket R ip st = (case bucket_of ip st of Some l \<Rightarrow> l | None \<Rightarrow> rt_NewLimiter R (pl_limit (fst st)) (pl_burst (fst st)))"

lemma took_append: "took ip (tr @ tr1) = took ip tr @ took ip tr1"
  by (induction ip tr rule: took.induct) auto

lemma bucket_after_append: "bucket_after R l (ts @ us) = bucket_after R (bucket_after R l ts) us"
  by (induction ts arbitrary: l) auto

lemma bucket_verdicts_append: "bucket_verdicts R l (ts @ us) = bucket_verdicts R l ts @ bucket_verdicts R (bucket_after R l ts) us"
  by (induction ts arbitrary: l) auto

text \<open>Requests that have looked up their bucket hold the one that the map has for their address, and the bucket of an
  address is what its own tokens made of the first one.\<close>

definition holds_bucket :: "PerIPLimiter \<Rightarrow> ip_thread \<Rightarrow> bool" where
  "holds_bucket pl t \<longleftrightarrow> (\<forall>p. it_pc t = AtAllow p \<longrightarrow> map_of (pl_limiters pl) (getIP (it_request t)) = Some p)"

definition ip_inv :: "'l rate_ops \<Rightarrow> PerIPLimiter \<times> ('l, 'rd, 'z) rworld_scheme \<Rightarrow> ip_event list \<Rightarrow> ('l, 'rd, 'z) ip_pool \<Rightarrow> bool" where
  "ip_inv R st0 tr c \<longleftrightarrow> (case c of (ts, pl, w) \<Rightarrow> pl_ok (pl, w) \<and> (\<forall>t \<in> set ts. holds_bucket pl t)
     \<and> (\<forall>ip. own_bucket R ip (pl, w) = bucket_after R (own_bucket R ip st0) (map fst (took ip tr))
         \<and> bucket_verdicts R (own_bucket R ip st0) (map fst (took ip tr)) = map snd (took ip tr)))"

lemma GetLimiter_own:
  assumes "pl_ok st" "GetLimiter R ip st = (p, st1)"
  shows "own_bucket R a st1 = own_bucket R a st"
proof (cases "a = ip")
  case True
  with GetLimiter_ok(5) [OF assms] show ?thesis by (simp add: own_bucket_def)
next
  case False
  with GetLimiter_ok(4) [OF assms False] GetLimiter_ok(6,7) [OF assms] show ?thesis
    by (simp add: own_bucket_def cong: option.case_cong)
qed

lemma GetLimiter_keeps:
  assumes "GetLimiter R ip (pl, w) = (p, pl1, w1)" "holds_bucket pl t"
  shows "holds_bucket pl1 t"
  using assms by (auto simp: GetLimiter_def holds_bucket_def Let_def split: option.splits prod.splits)

lemma Allow_own:
  assumes "pl_ok (pl, w)" "map_of (pl_limiters pl) ip = Some p"
  shows "own_bucket R a (pl, snd (limiter_Allow R p w)) = (if a = ip
      then snd (rt_Allow R (w_clock w (w_tick w)) (own_bucket R ip (pl, w))) else own_bucket R a (pl, w))"
    "fst (limiter_Allow R p w) = fst (rt_Allow R (w_clock w (w_tick w)) (own_bucket R ip (pl, w)))"
proof -
  have p: "p < length (rw_limiters w)" using map_of_snd [OF assms(2)] assms(1) by (auto simp: pl_ok_def)
  have b: "own_bucket R ip (pl, w) = rw_limiters w ! p" by (simp add: own_bucket_def bucket_of_def assms(2))
  show "fst (limiter_Allow R p w) = fst (rt_Allow R (w_clock w (w_tick w)) (own_bucket R ip (pl, w)))"
    by (simp add: limiter_Allow_unfold b)
  show "own_bucket R a (pl, snd (limiter_Allow R p w)) = (if a = ip
      then snd (rt_Allow R (w_clock w (w_tick w)) (own_bucket R ip (pl, w))) else own_bucket R a (pl, w))"
  proof (cases "a = ip")
    case True
    with p show ?thesis by (simp add: b) (simp add: own_bucket_def bucket_of_def assms(2) world_simps)
  next
    case False
    with limiter_Allow_ok(2) [OF assms, of a R] show ?thesis by (simp add: own_bucket_def cong: option.case_cong)
  qed
qed

lemma ip_step_inv:
  assumes "ip_step R c e c1" "ip_inv R st0 tr c" "e \<noteq> Swept True"
  shows "ip_inv R st0 (tr @ [e]) c1"
  using assms(1)
proof cases
  case (act i ts pl w t pl1 w1)
  from assms(2) act have ok: "pl_ok (pl, w)" and hold: "\<forall>t \<in> set ts. holds_bucket pl t"
    and own: "\<And>ip. own_bucket R ip (pl, w) = bucket_after R (own_bucket R ip st0) (map fst (took ip tr))"
      "\<And>ip. bucket_verdicts R (own_bucket R ip st0) (map fst (took ip tr)) = map snd (took ip tr)"
    by (auto simp: ip_inv_def)
  let ?ip = "getIP (it_request (ts ! i))"
  show ?thesis
  proof (cases "it_pc (ts ! i)")
    case AtGet
    obtain p pl2 w2 where g: "GetLimiter R ?ip (pl, w) = (p, pl2, w2)" by (metis prod.collapse)
    with act(4) AtGet have e: "e = Got ?ip" and t: "t = (ts ! i)\<lparr>it_pc := AtAllow p\<rparr>" and st: "pl1 = pl2" "w1 = w2" by auto
    have "\<forall>u \<in> set (ts[i := t]). holds_bucket pl2 u"
      using hold GetLimiter_keeps [OF g] GetLimiter_ok(2) [OF ok g] set_update_subset_insert [of ts i t]
      by (auto simp: t holds_bucket_def)
    with GetLimiter_ok(1) [OF ok g] GetLimiter_own [OF ok g] own show ?thesis
      by (simp add: act(2) e st ip_inv_def took_append)
  next
    case (AtAllow p)
    then have m: "map_of (pl_limiters pl) ?ip = Some p" using hold act(3) by (auto simp: holds_bucket_def)
    obtain b w2 where a: "limiter_Allow R p w = (b, w2)" by fastforce
    with act(4) AtAllow have e: "e = Took ?ip (w_clock w (w_tick w)) b" and t: "t = (ts ! i)\<lparr>it_pc := Answered b\<rparr>"
      and st: "pl1 = pl" "w1 = w2" by auto
    have "\<forall>u \<in> set (ts[i := t]). holds_bucket pl u"
      using hold set_update_subset_insert [of ts i t] by (auto simp: t holds_bucket_def)
    moreover have "pl_ok (pl, w2)" using limiter_Allow_ok(1) [OF ok m, of R] by (simp add: a)
    ultimately show ?thesis using Allow_own [OF ok m, of R] own
      by (simp add: act(2) e st ip_inv_def took_append bucket_after_append bucket_verdicts_append a)
  next
    case (Answered b)
    with act(3,4) have "t = ts ! i" "e = Beside" "pl1 = pl" "w1 = w" by auto
    with assms(2) act(1-3) show ?thesis by (simp add: ip_inv_def took_append)
  qed
next
  case (sweep ts pl w)
  with assms(3) have "CleanupStale pl = pl" by (simp add: CleanupStale_def)
  with sweep assms(2) show ?thesis by (simp add: ip_inv_def took_append)
next
  case (world w1 w ts pl)
  then have "own_bucket R ip (pl, w1) = own_bucket R ip (pl, w)" "pl_ok (pl, w1) = pl_ok (pl, w)" for ip
    using bucket_cong [of "(pl, w1)" "(pl, w)" ip] by (simp_all add: own_bucket_def cong: option.case_cong)
  with world assms(2) show ?thesis by (simp add: ip_inv_def took_append)
qed

lemma ip_run_inv:
  assumes "ip_run R c tr c1" "ip_inv R st0 [] c" "Swept True \<notin> set tr"
  shows "ip_inv R st0 tr c1"
  using assms by (induction rule: ip_run.induct) (auto intro: ip_step_inv)

text \<open>C17 (functional).  Requests of all addresses interleave, between looking up their bucket and asking it for a token
  as well: as long as no clean-up clears the map, the answers that an address gets are those of one bucket, its own
  or a fresh one, asked at the times of its own requests.  What other addresses do, and how the
  requests interleave, makes no difference to it.\<close>

theorem parallel_requests_metered_per_address:
  assumes "ip_run R (ts0, pl0, w0) tr (ts, pl, w)" "pl_ok (pl0, w0)" "\<forall>t \<in> set ts0. it_pc t = AtGet" "Swept True \<notin> set tr"
  shows "map snd (took ip tr) = bucket_verdicts R (case bucket_of ip (pl0, w0) of Some l \<Rightarrow> l
      | None \<Rightarrow> rt_NewLimiter R (pl_limit pl0) (pl_burst pl0)) (map fst (took ip tr))"
proof -
  have "ip_inv R (pl0, w0) [] (ts0, pl0, w0)" using assms(2,3) by (auto simp: ip_inv_def holds_bucket_def)
  from ip_run_inv [OF assms(1) this assms(4)]
  have "map snd (took ip tr) = bucket_verdicts R (own_bucket R ip (pl0, w0)) (map fst (took ip tr))" by (simp add: ip_inv_def)
  then show ?thesis unfolding own_bucket_def fst_conv .
qed

text \<open>The same by computation: the requests that \<open>js\<close> names act in turn.\<close>

fun ip_turns :: "'l rate_ops \<Rightarrow> nat list \<Rightarrow> ('l, 'rd, 'z) ip_pool \<Rightarrow> ip_event list \<times> ('l, 'rd, 'z) ip_pool" where
  "ip_turns R [] c = ([], c)"
| "ip_turns R (i # js) (ts, pl, w) = (if i < length ts
     then (let (t, e, pl1, w1) = ip_action R (ts ! i) (pl, w); (tr, c) = ip_turns R js (ts[i := t], pl1, w1) in (e # tr, c))
     else ip_turns R js (ts, pl, w))"

lemma ip_run_Cons: "ip_run R c1 tr c2 \<Longrightarrow> ip_step R c e c1 \<Longrightarrow> ip_run R c (e # tr) c2"
proof (induction rule: ip_run.induct)
  case (rest c1)
  from ip_run.on [OF ip_run.rest rest] show ?case by simp
next
  case (on c1 tr c2 e1 c3)
  from ip_run.on [OF on.IH [OF on.prems] on.hyps(2)] show ?case by simp
qed

lemma ip_turns_run: "ip_run R c (fst (ip_turns R js c)) (snd (ip_turns R js c))"
proof (induction js arbitrary: c)
  case (Cons i js)
  obtain ts pl w where c: "c = (ts, pl, w)" by (metis prod_cases3)
  obtain t e pl1 w1 where a: "ip_action R (ts ! i) (pl, w) = (t, e, pl1, w1)" by (metis prod_cases4)
  show ?case
  proof (cases "i < length ts")
    case True
    with ip_run_Cons [OF Cons.IH ip_step.act [OF True a]] show ?thesis
      by (simp add: c a case_prod_beta Let_def del: ip_action.simps)
  next
    case False
    with Cons.IH [of c] show ?thesis by (simp add: c)
  qed
qed (simp add: ip_run.rest)

definition demo_ip_pool :: "(int \<times> int, string \<Rightarrow> int, unit) ip_pool" where
  "demo_ip_pool = (map (\<lambda>a. \<lparr>it_request = demo_request a, it_pc = AtGet\<rparr>) [''a'', ''b'', ''a''], NewPerIPLimiter 1 1, demo_rworld [])"

lemma demo_ip_events: "fst (ip_turns demo_rate [0, 1, 2, 2, 1, 0] demo_ip_pool)
    = [Got ''a'', Got ''b'', Got ''a'', Took ''a'' 0 True, Took ''b'' 1 True, Took ''a'' 2 False]"
  by (simp add: demo_ip_pool_def demo_request_def getIP_def GetLimiter_def NewPerIPLimiter_def alloc_limiter_def
      limiter_Allow_unfold demo_rate_def demo_rworld_def time_Now_def f64_id)

lemma parallel_requests_metered_per_address_witness:
  "map snd (took ''a'' (fst (ip_turns demo_rate [0, 1, 2, 2, 1, 0] demo_ip_pool))) = [True, False]"
proof -
  obtain ts pl w where c: "snd (ip_turns demo_rate [0, 1, 2, 2, 1, 0] demo_ip_pool) = (ts, pl, w)" by (metis prod_cases3)
  have ok: "pl_ok (NewPerIPLimiter 1 1, demo_rworld [])" by (simp add: pl_ok_def NewPerIPLimiter_def)
  have start: "\<forall>t \<in> set (map (\<lambda>a. \<lparr>it_request = demo_request a, it_pc = AtGet\<rparr>) [''a'', ''b'', ''a'']). it_pc t = AtGet" by simp
  have unswept: "Swept True \<notin> set (fst (ip_turns demo_rate [0, 1, 2, 2, 1, 0] demo_ip_pool))"
    unfolding demo_ip_events by simp
  have "ip_run demo_rate demo_ip_pool (fst (ip_turns demo_rate [0, 1, 2, 2, 1, 0] demo_ip_pool)) (ts, pl, w)"
    using ip_turns_run [of demo_rate demo_ip_pool "[0, 1, 2, 2, 1, 0]"] by (simp only: c)
  from parallel_requests_metered_per_address [OF this [unfolded demo_ip_pool_def] ok start unswept [unfolded demo_ip_pool_def], of "''a''"]
  have "map snd (took ''a'' (fst (ip_turns demo_rate [0, 1, 2, 2, 1, 0] demo_ip_pool))) = bucket_verdicts demo_rate (1, 1)
      (map fst (took ''a'' (fst (ip_turns demo_rate [0, 1, 2, 2, 1, 0] demo_ip_pool))))"
    by (simp add: demo_ip_pool_def bucket_of_def NewPerIPLimiter_def demo_rate_def f64_id)
  also have "\<dots> = [True, False]" unfolding demo_ip_events by (simp add: demo_rate_def)
  finally show ?thesis .
qed

end
