(* ===== verification/Spec2Isabelle.thy ===== *)
theory Spec2Isabelle
  imports WhitelistProps CacheProps RateLimitProps LimiterThreads AuthProps HttpProps GrpcProps DockerProps GatewayProps
    SystemProps FileList QueryCacheRuns WhitelistThreads PerIPThreads
begin

text \<open>
  A model of the Aquatiq integration gateway (\<open>src/aquatiq-gateway\<close>, a Go program) and the theorems
  that make its parts correct.  The gateway is an HTTP server (health, limiter and cache statistics)
  and a gRPC server (health, database, Docker and whitelist services) over a few packages: an audit
  log, an IP whitelist kept in a Traefik configuration file, a Redis cache, rate limiters, API keys,
  a circuit breaker, an HTTP client with retries, a Docker manager and database checks.

  \<^bold>\<open>Conventions.\<close>  A Go string is a list of bytes; a time is a number of nanoseconds, a duration as
  well.  An \<open>error\<close> is a \<open>go_error\<close>, and what may fail returns a sum, the error on the left.  A panic
  is a value of \<open>outcome\<close>.  State is passed explicitly.  The \<^emph>\<open>world\<close> is a record: a clock that each
  reading moves on (\<open>w_clock\<close> at position \<open>w_tick\<close>, any function, so that theorems quantify over the
  clock), the files, the faults that file operations still meet, and the log calls; packages extend it
  with the buckets, the Redis server, the databases and the Docker daemon.  Libraries that are not in
  the repository (zap, viper, go-redis, x/time/rate, gobreaker, go-retryablehttp, the Docker client,
  database/sql, SHA-256, the YAML and JSON codecs, chi) are parameters, mostly records of functions;
  what a theorem relies on of them is a named predicate in its hypotheses (\<open>redis_laws\<close>,
  \<open>redis_honest\<close>, \<open>counter_laws\<close>, \<open>yaml_ok\<close>, \<open>dry_bucket\<close>, ...), and each has an instance for which it is proved.
  Integers of the code that can leave their range are kept at their width (\<open>word\<close>, \<open>int32\<close>, \<open>int64\<close>,
  \<open>f64\<close>); integers that only carry configuration values are \<open>int\<close>.

  \<^bold>\<open>Theories and code.\<close>
  \<^item> \<open>Prelude\<close>, \<open>GoHttp\<close>, \<open>GoRuntime\<close>, \<open>NetIP\<close>: what the code uses of Go and its library: errors,
    \<open>fmt\<close>, \<open>strings\<close>, the clock and files; requests, responses and contexts of \<open>net/http\<close>; slicing,
    float64 and \<open>time.ParseDuration\<close>; \<open>net.ParseIP\<close>, \<open>net.ParseCIDR\<close> and \<open>IPNet.Contains\<close>.
  \<^item> \<open>Gate\<close>, \<open>GrpcReport\<close>: the two interfaces that several components share, as locales: an HTTP
    middleware that lets a request through or answers it itself (interpreted by the tier limiter, the
    per-IP limiter, the key check, the scope check and their chains), and a gRPC method that reports
    the result of an operation (interpreted by four whitelist and three container methods).
  \<^item> \<open>AuditLog\<close>: \<open>internal/audit/logger.go\<close>.  \<open>Config\<close>: \<open>internal/config/config.go\<close>.
  \<^item> \<open>Whitelist\<close>, \<open>WhitelistProps\<close>: \<open>internal/whitelist/manager.go\<close>; the manager is a record of two
    lists of entries, every method a function on manager and world that writes the file and the log.
    \<open>Threads\<close>, \<open>ThreadOrder\<close>, \<open>WhitelistThreads\<close>: goroutines that share a value behind a \<open>sync.RWMutex\<close>, their code as a tree
    of effects (clock, field access, file, log); what their interleavings amount to; the methods of the manager as such code.
  \<^item> \<open>Cache\<close>, \<open>QueryCache\<close>, \<open>CacheProps\<close>: \<open>internal/cache\<close>.  \<open>QueryCacheRuns\<close>: the query cache in use, a step
    relation over callers, background stores, invalidations and a server that loses entries and fails.
  \<^item> \<open>RateLimit\<close>, \<open>RateLimitProps\<close>: \<open>internal/ratelimit/ratelimit.go\<close>; buckets live in a heap.
    \<open>LimiterThreads\<close>: the distributed limiter of the same file cut into its actions (clock, INCR, EXPIRE,
    fallback), for pools of requests whose actions interleave and that may die.  \<open>PerIPThreads\<close>: the same for the per-IP
    limiter, whose buckets are asked outside the mutex of its map.
  \<^item> \<open>Auth\<close>, \<open>AuthProps\<close>: \<open>internal/auth/apikey.go\<close>; Go's order of ranging over the key map is the
    parameter \<open>ord\<close>, any rearrangement.
  \<^item> \<open>CircuitBreaker\<close>, \<open>HttpClient\<close>, \<open>HttpProps\<close>: \<open>pkg/circuitbreaker\<close>, \<open>pkg/httpclient\<close>.  What runs in the
    goroutine of a guarded call is a task of single steps; the race between its result and the end of
    the context is the argument \<open>select_pick\<close>, which says how many steps the goroutine has taken when the
    context wins, and what is left of the call then is a job that still runs.
  \<^item> \<open>Health\<close>, \<open>GrpcHealth\<close>: \<open>internal/health/checker.go\<close>, \<open>internal/grpc/health_service.go\<close> and
    \<open>database_service.go\<close>.  \<open>GrpcWhitelist\<close>: \<open>whitelist_service.go\<close>.  \<open>GrpcProps\<close>: their properties.
  \<^item> \<open>Docker\<close>, \<open>GrpcDocker\<close>, \<open>DockerProps\<close>: \<open>internal/docker/manager.go\<close>, \<open>docker_service.go\<close>.
  \<^item> \<open>ProtoWhitelist\<close>, \<open>ProtoHealth\<close>, \<open>ProtoDatabase\<close>, \<open>ProtoDocker\<close>: the messages and enumerations of
    \<open>api/proto\<close> as the generated Go code has them.
  \<^item> \<open>Gateway\<close>, \<open>GatewayProps\<close>: \<open>cmd/gateway/main.go\<close>, start-up with its fallbacks, routes, services
    and the end of the process.
  \<^item> \<open>GrpcServer\<close>: \<open>api/proto/*/v1/*_grpc.pb.go\<close>, the service descriptors, the methods of a service, their handlers
    with decoding errors and interceptors, the client stubs and the servers that implement nothing, and
    the server that \<open>main\<close> makes of the handlers.
  \<^item> \<open>Frames\<close>: what every operation of the gateway leaves alone, as two locales over relations of worlds
    (\<open>world_frame\<close>, \<open>writing_frame\<close>), interpreted for the log with the buckets, the files and the clock.
  \<^item> \<open>System\<close>, \<open>SystemProps\<close>: the running gateway as a
    step relation over calls, HTTP requests, outside events and what ends it, its runs and reachable
    states.  \<open>FileList\<close>: the list of source ranges in the file that the gateway writes, through whole runs.

  \<^bold>\<open>What is shown.\<close>
  \<^item> Access decisions: the whitelist decision against a specification over sets of addresses and time,
    a refinement of every operation to steps on an abstract pair of sets, the invariant of the lists,
    and what failing writes and restarts do.
  \<^item> The running gateway: the shape of its state in every reachable state, the refinement of the pair of
    sets by every step of it, the fate of blocked addresses in every run, the exact calls on which the
    process dies, and the log of a run from start to end.
  \<^item> The file for the proxy: the list in it follows the whitelist through every run in which nobody else
    writes the file, and blocking an address does not reach it.  What a proxy makes of the file, and
    whether the proxy of the deployment reads this file at all, is no part of the model.
  \<^item> The query cache: an answer is what the query function returned in the call, or the JSON image of
    what it returned for that query before, in any interleaving; and when an invalidation leaves no
    stale answer.  Nothing is assumed of the JSON library here: what is rendered and read back may
    differ from what was stored.
  \<^item> Concurrency of the manager: parallel calls, interleaved in any way that the mutex allows, amount to the
    calls in locking order, and a finished block holds against all later checks.
  \<^item> Concurrency of the distributed limiter: the actions compute the method; the limit of a minute holds
    under every interleaving and every crash, and is used up; when a counter expires.
  \<^item> Guards: which requests pass the key check, the scope check and the limiters; that a refused
    request does not run the handler; the exact window of the distributed limiter over several
    gateways; that every address is metered by a bucket of its own, whatever interleaves; that the admin routes stand behind both limits.
  \<^item> Degradation: a broken Redis makes the limiter local, missing parts do not stop the start, and what
    does; the round trips of the cache, and what two caches on one server share.
  \<^item> Accounting: the audit log is append-only, masked, and depends on a client address only through what
    the mask shows; an outgoing call that returns is logged exactly once, whichever way the race with
    its context goes.
  \<^item> Reports: gRPC replies tell the result of the operation, the listing determines the decision, what
    the health status says of the two databases; statistics at their width.
  \<^item> Several theorems state faults that the model showed: panics on short names, nil pointers and
    unknown lengths, state that a restart forgets, a limit that a header evades, a fallback that serves nothing.

  \<^bold>\<open>Bounds and fuel.\<close>  No definition has fuel.  The loops over lists are structural recursions; the loop over the
  items of a duration text is a \<open>function\<close> whose termination proof uses that each item takes at least
  one byte.  That pools of requests and crews of goroutines come to an end is not stated: the code of
  a request or a method is finite in the model.

  \<^bold>\<open>Not modelled.\<close>  The raw descriptors of the message packages; the wire format; console output and the
  reflection service; timeouts of contexts other than as errors that libraries return; the middlewares
  of chi, of which the properties of runs assume that they hand over to the next handler and leave the
  state alone (\<open>passes_on\<close>).  The two short methods under the mutex of the per-IP limiter are single
  steps.  A \<open>sync.RWMutex\<close> lets a goroutine that waits to write go before new readers; the model leaves that
  open, so that its results hold for more orders than Go allows.  \<open>internal/auth/token_manager.go\<close> is empty.
\<close>

end
